(* ===== verification/Prelude.thy ===== *)
theory Prelude
  imports Main "HOL-Library.State_Monad"
begin

text \<open>
  Shared vocabulary of the development: Go errors and maps, the weakest-precondition calculus of
  the state monad in which the controllers are written, and the generic list lemmas the
  components use.  Nothing here models a particular file of the operator.
\<close>

section \<open>Lemma collections\<close>

named_theorems wp "weakest-precondition equations of the state monad and of the logged calls"
named_theorems go_simps "unfolding rules for small Go helpers (error and map accessors)"

section \<open>Errors and maps of Go\<close>

text \<open>
  A Go error is what the operator observes of it: its text and whether
  \<^verbatim>\<open>apierrors.IsNotFound\<close> holds of it.  \<^verbatim>\<open>fmt.Errorf\<close> with a final \<^verbatim>\<open>%w\<close> keeps the
  wrapped error reachable, hence the flag, and appends its text.
\<close>

datatype go_error = GoError (is_not_found: bool) (err_text: string)

definition errorf :: "string \<Rightarrow> go_error" where
  "errorf msg = GoError False msg"

definition wrapf :: "string \<Rightarrow> go_error \<Rightarrow> go_error" where
  "wrapf prefix e = GoError (is_not_found e) (prefix @ err_text e)"

lemma errorf_simps [simp]:
  "is_not_found (errorf msg) = False" "err_text (errorf msg) = msg"
  by (simp_all add: errorf_def)

lemma wrapf_simps [simp]:
  "is_not_found (wrapf p e) = is_not_found e" "err_text (wrapf p e) = p @ err_text e"
  by (simp_all add: wrapf_def)

text \<open>A fallible Go function returns either an error (\<open>Inl\<close>) or its value (\<open>Inr\<close>).\<close>

type_synonym 'a result = "go_error + 'a"

text \<open>
  A Go map with string keys; \<open>None\<close> is the nil map, which reads as an empty one.
\<close>

type_synonym 'v gomap = "(string \<rightharpoonup> 'v) option"

definition map_index :: "'v gomap \<Rightarrow> string \<Rightarrow> 'v option" where
  "map_index m k = (case m of None \<Rightarrow> None | Some f \<Rightarrow> f k)"

lemma map_index_simps [simp, go_simps]:
  "map_index None k = None" "map_index (Some f) k = f k"
  by (simp_all add: map_index_def)

text \<open>Reading a missing key of a map yields the zero value of its element type.\<close>

definition map_index_str :: "string gomap \<Rightarrow> string \<Rightarrow> string" where
  "map_index_str m k = (case map_index m k of None \<Rightarrow> [] | Some v \<Rightarrow> v)"

text \<open>An empty key selects its documented default (\<^verbatim>\<open>if key == "" { key = dflt }\<close>).\<close>

definition default_key :: "string \<Rightarrow> string \<Rightarrow> string" where
  "default_key dflt k = (if k = [] then dflt else k)"

lemma default_key_simps [simp]:
  "default_key d [] = d" "k \<noteq> [] \<Longrightarrow> default_key d k = k"
  by (simp_all add: default_key_def)

section \<open>Weakest preconditions\<close>

text \<open>
  \<open>wp m Q s\<close>: running \<open>m\<close> in \<open>s\<close> ends in a result and a state that satisfy \<open>Q\<close>.  The
  collection \<open>wp\<close> computes it along the structure of a program.
\<close>

definition wp :: "('s, 'a) state \<Rightarrow> ('a \<Rightarrow> 's \<Rightarrow> bool) \<Rightarrow> 's \<Rightarrow> bool" where
  "wp m Q s = (case run_state m s of (a, s') \<Rightarrow> Q a s')"

lemma wp_return [wp, simp]: "wp (State_Monad.return a) Q s = Q a s"
  by (simp add: wp_def)

lemma wp_bind [wp, simp]: "wp (State_Monad.bind m f) Q s = wp m (\<lambda>a. wp (f a) Q) s"
  by (auto simp: wp_def split: prod.splits)

lemma wp_if [wp]: "wp (if b then m else n) Q s = (if b then wp m Q s else wp n Q s)"
  by simp

lemma wp_case_sum [wp]:
  "wp (case x of Inl e \<Rightarrow> f e | Inr a \<Rightarrow> g a) Q s
     = (case x of Inl e \<Rightarrow> wp (f e) Q s | Inr a \<Rightarrow> wp (g a) Q s)"
  by (cases x) simp_all

lemma wp_case_option [wp]:
  "wp (case x of None \<Rightarrow> f | Some a \<Rightarrow> g a) Q s
     = (case x of None \<Rightarrow> wp f Q s | Some a \<Rightarrow> wp (g a) Q s)"
  by (cases x) simp_all

lemma wp_case_prod [wp]:
  "wp (case x of (a, b) \<Rightarrow> f a b) Q s = (case x of (a, b) \<Rightarrow> wp (f a b) Q s)"
  by (cases x) simp_all

lemma wp_let [wp]: "wp (let x = a in f x) Q s = (let x = a in wp (f x) Q s)"
  by simp

lemma wp_mono:
  assumes "wp m P s" and "\<And>a s'. P a s' \<Longrightarrow> Q a s'"
  shows "wp m Q s"
  using assms by (auto simp: wp_def split: prod.splits)

lemma wp_conj: "wp m (\<lambda>a s. P a s \<and> Q a s) s = (wp m P s \<and> wp m Q s)"
  by (auto simp: wp_def split: prod.splits)

lemma wp_run: "wp m Q s \<Longrightarrow> run_state m s = (a, s') \<Longrightarrow> Q a s'"
  by (simp add: wp_def)

lemma wp_fst_snd: "wp m Q s \<longleftrightarrow> Q (fst (run_state m s)) (snd (run_state m s))"
  by (simp add: wp_def split: prod.splits)

section \<open>Lists\<close>

lemma take_append_le: "n \<le> length xs \<Longrightarrow> take n (xs @ ys) = take n xs"
  by simp

lemma dropWhile_subset: "set (dropWhile P xs) \<subseteq> set xs"
  by (auto dest: set_dropWhileD)

lemma takeWhile_dropWhile_split: "\<exists>ys. xs = ys @ dropWhile P xs \<and> (\<forall>y \<in> set ys. P y)"
  by (rule exI [of _ "takeWhile P xs"]) (auto dest: set_takeWhileD)

text \<open>\<open>occurs p s\<close>: the string \<open>p\<close> is a contiguous part of \<open>s\<close> (\<^verbatim>\<open>strings.Contains\<close>).\<close>

definition occurs :: "'a list \<Rightarrow> 'a list \<Rightarrow> bool" where
  "occurs p s \<longleftrightarrow> (\<exists>a b. s = a @ p @ b)"

lemma occursI: "s = a @ p @ b \<Longrightarrow> occurs p s"
  by (auto simp: occurs_def)

lemma occurs_length: "occurs p s \<Longrightarrow> length p \<le> length s"
  by (auto simp: occurs_def)

lemma occurs_set: "occurs p s \<Longrightarrow> set p \<subseteq> set s"
  by (auto simp: occurs_def)

lemma occurs_Cons: "occurs p s \<Longrightarrow> occurs p (c # s)"
  unfolding occurs_def by (metis append_Cons)

text \<open>
  A non-empty part of \<open>a @ c # b\<close> that does not use the element \<open>c\<close> lies wholly on one side.
\<close>

lemma occurs_split_at:
  assumes "occurs p (a @ c # b)" and "c \<notin> set p"
  shows "occurs p a \<or> occurs p b"
proof -
  from assms(1) obtain u v where eq: "a @ c # b = u @ p @ v"
    by (auto simp: occurs_def)
  show ?thesis
  proof (cases "length u \<le> length a")
    case False
    then obtain w where "u = a @ c # w"
      using eq by (metis append_eq_append_conv_if append_eq_conv_conj drop_eq_Nil
          list.exhaust list.inject append_Cons le_eq_less_or_eq linorder_le_cases
          same_append_eq append_take_drop_id)
    then have "b = w @ p @ v"
      using eq by simp
    then show ?thesis
      by (auto simp: occurs_def)
  next
    case True
    then obtain w where a: "a = u @ w" and w: "w @ c # b = p @ v"
      using eq by (metis append_eq_append_conv2 append_eq_conv_conj append_eq_append_conv_if)
    have "length p \<le> length w"
    proof (rule ccontr)
      assume "\<not> length p \<le> length w"
      then have "(p @ v) ! length w \<in> set p"
        by (simp add: nth_append)
      with w [symmetric] assms(2) show False
        by simp
    qed
    with w obtain z where "w = p @ z"
      by (metis append_eq_append_conv_if append_eq_conv_conj append_take_drop_id)
    with a show ?thesis
      by (auto simp: occurs_def)
  qed
qed

end
