(* ===== verification/GoStrings.thy ===== *)
theory GoStrings
  imports Prelude
begin

text \<open>
  The parts of Go's standard library on strings that the operator uses: UTF-8 decoding as done by
  \<^verbatim>\<open>range\<close> over a string, \<^verbatim>\<open>utf8.AppendRune\<close>, \<^verbatim>\<open>strings.ToLower\<close>, \<^verbatim>\<open>strings.Trim\<close>,
  \<^verbatim>\<open>strings.TrimRight\<close>, \<^verbatim>\<open>strings.Join\<close>, \<^verbatim>\<open>strings.ReplaceAll\<close>, \<^verbatim>\<open>unicode.IsControl\<close>,
  \<^verbatim>\<open>strconv.Quote\<close> (also the verb \<open>%q\<close> of \<^verbatim>\<open>fmt\<close>) and the verb \<open>%v\<close> of a slice of strings.
  A Go string is its list of bytes; a \<open>char\<close> of HOL is one byte.  The two tables of the Unicode
  database that these functions consult beyond Latin-1 are a parameter (\<open>ucd\<close>).
\<close>

section \<open>Bytes and runes\<close>

abbreviation byte :: "char \<Rightarrow> nat" where "byte c \<equiv> of_char c"

abbreviation (input) backslash :: char where "backslash \<equiv> CHR 0x5C"
abbreviation (input) dquote :: char where "dquote \<equiv> CHR 0x22"
abbreviation (input) backtick :: char where "backtick \<equiv> CHR 0x60"

type_synonym rune = nat

definition rune_error :: rune where "rune_error = 0xFFFD"

text \<open>\<^verbatim>\<open>utf8.ValidRune\<close>: neither a surrogate nor beyond the last code point.\<close>

definition valid_rune :: "rune \<Rightarrow> bool" where
  "valid_rune r \<longleftrightarrow> r < 0xD800 \<or> (0xDFFF < r \<and> r \<le> 0x10FFFF)"

text \<open>The accepted range of the second byte, by the first (\<^verbatim>\<open>acceptRanges\<close>).\<close>

definition second_lo :: "nat \<Rightarrow> nat" where
  "second_lo b0 = (if b0 = 0xE0 then 0xA0 else if b0 = 0xF0 then 0x90 else 0x80)"

definition second_hi :: "nat \<Rightarrow> nat" where
  "second_hi b0 = (if b0 = 0xED then 0x9F else if b0 = 0xF4 then 0x8F else 0xBF)"

definition continuation :: "nat \<Rightarrow> bool" where
  "continuation b \<longleftrightarrow> 0x80 \<le> b \<and> b \<le> 0xBF"

text \<open>\<^verbatim>\<open>utf8.DecodeRuneInString\<close>: the rune and its width; an invalid byte is U+FFFD of width 1.\<close>

fun decode_rune :: "string \<Rightarrow> rune \<times> nat" where
  "decode_rune [] = (rune_error, 0)"
| "decode_rune (c0 # cs) =
    (let b0 = byte c0; bad = (rune_error, 1) in
     if b0 < 0x80 then (b0, 1)
     else if b0 < 0xC2 \<or> 0xF4 < b0 then bad
     else case cs of
       [] \<Rightarrow> bad
     | c1 # cs1 \<Rightarrow>
       let b1 = byte c1 in
       if b1 < second_lo b0 \<or> second_hi b0 < b1 then bad
       else if b0 < 0xE0 then ((b0 - 0xC0) * 64 + (b1 - 0x80), 2)
       else case cs1 of
         [] \<Rightarrow> bad
       | c2 # cs2 \<Rightarrow>
         let b2 = byte c2 in
         if \<not> continuation b2 then bad
         else if b0 < 0xF0 then ((b0 - 0xE0) * 4096 + (b1 - 0x80) * 64 + (b2 - 0x80), 3)
         else case cs2 of
           [] \<Rightarrow> bad
         | c3 # _ \<Rightarrow>
           let b3 = byte c3 in
           if \<not> continuation b3 then bad
           else ((b0 - 0xF0) * 262144 + (b1 - 0x80) * 4096 + (b2 - 0x80) * 64 + (b3 - 0x80), 4))"

text \<open>\<^verbatim>\<open>utf8.AppendRune\<close>: an invalid code point is written as U+FFFD.\<close>

definition encode3 :: "rune \<Rightarrow> string" where
  "encode3 r = [char_of (0xE0 + r div 4096), char_of (0x80 + r div 64 mod 64),
                char_of (0x80 + r mod 64)]"

definition encode_rune :: "rune \<Rightarrow> string" where
  "encode_rune r =
    (if r < 0x80 then [char_of r]
     else if r < 0x800 then [char_of (0xC0 + r div 64), char_of (0x80 + r mod 64)]
     else if \<not> valid_rune r then encode3 rune_error
     else if r < 0x10000 then encode3 r
     else [char_of (0xF0 + r div 262144), char_of (0x80 + r div 4096 mod 64),
           char_of (0x80 + r div 64 mod 64), char_of (0x80 + r mod 64)])"

lemma decode_rune_width: "0 < snd (decode_rune (c # cs)) \<and> snd (decode_rune (c # cs)) \<le> Suc (length cs)"
  by (auto simp: Let_def split: list.splits)

text \<open>The runes of a string in order, each with the bytes it was read from.\<close>

function runes_of :: "string \<Rightarrow> (rune \<times> string) list" where
  "runes_of [] = []"
| "runes_of (c # cs) =
    (let (r, n) = decode_rune (c # cs) in (r, take n (c # cs)) # runes_of (drop n (c # cs)))"
  by pat_completeness auto
termination
proof (relation "measure length", goal_cases)
  case (2 c cs x r n)
  then have "n = snd (decode_rune (c # cs))"
    by (metis snd_conv)
  then show ?case
    using decode_rune_width [of c cs] by simp
qed simp

declare runes_of.simps(2) [simp del]

text \<open>\<^verbatim>\<open>for _, r := range s\<close>\<close>

definition runes :: "string \<Rightarrow> rune list" where
  "runes s = map fst (runes_of s)"

lemma runes_of_ascii_Cons:
  "byte c < 0x80 \<Longrightarrow> runes_of (c # cs) = (byte c, [c]) # runes_of cs"
  by (simp add: runes_of.simps)

lemma runes_of_ascii: "\<forall>c \<in> set s. byte c < 0x80 \<Longrightarrow> runes_of s = map (\<lambda>c. (byte c, [c])) s"
  by (induction s) (simp_all add: runes_of_ascii_Cons)

lemma runes_ascii: "\<forall>c \<in> set s. byte c < 0x80 \<Longrightarrow> runes s = map byte s"
  by (simp add: runes_def runes_of_ascii)

lemma runes_of_Cons_cases:
  obtains r n where "decode_rune (c # cs) = (r, n)" and "0 < n" and "n \<le> Suc (length cs)"
    and "runes_of (c # cs) = (r, take n (c # cs)) # runes_of (drop n (c # cs))"
  using decode_rune_width [of c cs] by (cases "decode_rune (c # cs)") (simp add: runes_of.simps)

lemma concat_runes_of: "concat (map snd (runes_of s)) = s"
  by (induction s rule: runes_of.induct) (simp_all add: runes_of.simps split: prod.splits)

section \<open>Decoding and encoding agree\<close>

lemma byte_eqI: "byte c = byte d \<Longrightarrow> c = d"
  by (metis char_of_char)

lemma char_of_byteI: "n = byte c \<Longrightarrow> char_of n = c"
  by simp

lemma second_range: "\<lbrakk>\<not> b < second_lo b0; \<not> second_hi b0 < b\<rbrakk> \<Longrightarrow> 0x80 \<le> b \<and> b \<le> 0xBF"
  by (auto simp: second_lo_def second_hi_def split: if_splits)

lemma split2:
  fixes x y :: nat
  assumes "y < 64"
  shows "(x * 64 + y) div 64 = x" "(x * 64 + y) mod 64 = y"
  using assms by simp_all

lemma split3:
  fixes x y z :: nat
  assumes "y < 64" and "z < 64" and r: "r = x * 4096 + y * 64 + z"
  shows "r div 4096 = x" "r div 64 mod 64 = y" "r mod 64 = z"
proof -
  have r': "r = (x * 64 + y) * 64 + z" by (simp add: r)
  have q: "r div 64 = x * 64 + y" "r mod 64 = z"
    using split2 [OF assms(2), of "x * 64 + y"] by (simp_all add: r')
  have "r div 4096 = r div 64 div 64" by (simp add: div_mult2_eq [symmetric])
  with q split2 [OF assms(1), of x]
  show "r div 4096 = x" "r div 64 mod 64 = y" "r mod 64 = z" by simp_all
qed

lemma split4:
  fixes w x y z :: nat
  assumes "x < 64" and "y < 64" and "z < 64" and r: "r = w * 262144 + x * 4096 + y * 64 + z"
  shows "r div 262144 = w" "r div 4096 mod 64 = x" "r div 64 mod 64 = y" "r mod 64 = z"
proof -
  have r': "r = (w * 4096 + x * 64 + y) * 64 + z" by (simp add: r)
  have q: "r div 64 = w * 4096 + x * 64 + y" "r mod 64 = z"
    using split2 [OF assms(3), of "w * 4096 + x * 64 + y"] by (simp_all add: r')
  note q3 = split3 [OF assms(1,2) q(1)]
  have "r div 262144 = r div 64 div 4096" "r div 4096 mod 64 = r div 64 div 64 mod 64"
    by (simp_all add: div_mult2_eq [symmetric])
  with q(2) q3 show "r div 262144 = w" "r div 4096 mod 64 = x" "r div 64 mod 64 = y" "r mod 64 = z"
    by simp_all
qed

text \<open>A byte in a range, as the base of the range plus an offset.\<close>

lemma byte_offset:
  assumes "m \<le> byte c" and "byte c < n"
  obtains k where "byte c = m + k" and "k < n - m"
  using assms by (metis le_Suc_ex nat_add_left_cancel_less le_add_diff_inverse less_imp_le_nat
      order_trans)

lemma encode_decode2:
  assumes "0xC2 \<le> byte c0" "byte c0 < 0xE0" "second_lo (byte c0) \<le> byte c1"
    "byte c1 \<le> second_hi (byte c0)"
  shows "valid_rune ((byte c0 - 0xC0) * 64 + (byte c1 - 0x80)) \<and>
    encode_rune ((byte c0 - 0xC0) * 64 + (byte c1 - 0x80)) = [c0, c1]"
proof -
  obtain x where x: "byte c0 = 0xC2 + x" "x < 30"
    using byte_offset [OF assms(1,2)] by auto
  obtain y where y: "byte c1 = 0x80 + y" "y < 64"
    using byte_offset [of "0x80" c1 "0xC0"] second_range [of "byte c1" "byte c0"] assms(3,4) by auto
  define r where "r = (x + 2) * 64 + y"
  have r_eq: "(byte c0 - 0xC0) * 64 + (byte c1 - 0x80) = r"
    by (simp add: x y r_def)
  note s = split2 [OF y(2), of "x + 2", folded r_def]
  have "0x80 \<le> r" "r < 0x800" using x(2) y(2) unfolding r_def by arith+
  moreover have "char_of (0xC0 + r div 64) = c0" "char_of (0x80 + r mod 64) = c1"
    by (rule char_of_byteI, simp add: s x y)+
  ultimately show ?thesis
    by (simp add: r_eq encode_rune_def valid_rune_def)
qed

lemma encode_decode3:
  assumes "0xE0 \<le> byte c0" "byte c0 < 0xF0" "second_lo (byte c0) \<le> byte c1"
    "byte c1 \<le> second_hi (byte c0)" "continuation (byte c2)"
  shows "valid_rune ((byte c0 - 0xE0) * 4096 + (byte c1 - 0x80) * 64 + (byte c2 - 0x80)) \<and>
    encode_rune ((byte c0 - 0xE0) * 4096 + (byte c1 - 0x80) * 64 + (byte c2 - 0x80)) = [c0, c1, c2]"
proof -
  obtain x where x: "byte c0 = 0xE0 + x" "x < 16"
    using byte_offset [OF assms(1,2)] by auto
  obtain y where y: "byte c1 = 0x80 + y" "y < 64"
    using byte_offset [of "0x80" c1 "0xC0"] second_range [of "byte c1" "byte c0"] assms(3,4) by auto
  obtain z where z: "byte c2 = 0x80 + z" "z < 64"
    using byte_offset [of "0x80" c2 "0xC0"] assms(5) by (auto simp: continuation_def)
  define r where "r = x * 4096 + y * 64 + z"
  have r_eq: "(byte c0 - 0xE0) * 4096 + (byte c1 - 0x80) * 64 + (byte c2 - 0x80) = r"
    by (simp add: x y z r_def)
  note s = split3 [OF y(2) z(2) r_def]
  have x0: "x = 0 \<Longrightarrow> 32 \<le> y" using assms(3) by (simp add: second_lo_def x y)
  have x13: "x = 13 \<Longrightarrow> y < 32" using assms(4) by (simp add: second_hi_def x y)
  have lo: "0x800 \<le> r" using x0 unfolding r_def by (cases "x = 0") (simp, arith)
  have hi: "r < 0x10000" using x(2) y(2) z(2) unfolding r_def by arith
  have valid: "valid_rune r"
  proof (cases "x \<le> 13")
    case True
    then have "r < 0xD800" using x13 y(2) z(2) unfolding r_def by (cases "x = 13") (simp, arith)
    then show ?thesis by (simp add: valid_rune_def)
  next
    case False
    then have "0xDFFF < r" unfolding r_def by arith
    with hi show ?thesis by (simp add: valid_rune_def)
  qed
  have "char_of (0xE0 + r div 4096) = c0" "char_of (0x80 + r div 64 mod 64) = c1"
    "char_of (0x80 + r mod 64) = c2"
    by (rule char_of_byteI, simp add: s x y z)+
  with lo hi valid show ?thesis
    by (simp add: r_eq encode_rune_def encode3_def)
qed

lemma encode_decode4:
  assumes "0xF0 \<le> byte c0" "byte c0 \<le> 0xF4" "second_lo (byte c0) \<le> byte c1"
    "byte c1 \<le> second_hi (byte c0)" "continuation (byte c2)" "continuation (byte c3)"
  shows "valid_rune ((byte c0 - 0xF0) * 262144 + (byte c1 - 0x80) * 4096 + (byte c2 - 0x80) * 64
      + (byte c3 - 0x80)) \<and>
    encode_rune ((byte c0 - 0xF0) * 262144 + (byte c1 - 0x80) * 4096 + (byte c2 - 0x80) * 64
      + (byte c3 - 0x80)) = [c0, c1, c2, c3]"
proof -
  obtain w where w: "byte c0 = 0xF0 + w" "w < 5"
    using byte_offset [of "0xF0" c0 "0xF5"] assms(1,2) by auto
  obtain x where x: "byte c1 = 0x80 + x" "x < 64"
    using byte_offset [of "0x80" c1 "0xC0"] second_range [of "byte c1" "byte c0"] assms(3,4) by auto
  obtain y where y: "byte c2 = 0x80 + y" "y < 64"
    using byte_offset [of "0x80" c2 "0xC0"] assms(5) by (auto simp: continuation_def)
  obtain z where z: "byte c3 = 0x80 + z" "z < 64"
    using byte_offset [of "0x80" c3 "0xC0"] assms(6) by (auto simp: continuation_def)
  define r where "r = w * 262144 + x * 4096 + y * 64 + z"
  have r_eq: "(byte c0 - 0xF0) * 262144 + (byte c1 - 0x80) * 4096 + (byte c2 - 0x80) * 64
      + (byte c3 - 0x80) = r"
    by (simp add: w x y z r_def)
  note s = split4 [OF x(2) y(2) z(2) r_def]
  have w0: "w = 0 \<Longrightarrow> 16 \<le> x" using assms(3) by (simp add: second_lo_def w x)
  have w4: "w = 4 \<Longrightarrow> x < 16" using assms(4) by (simp add: second_hi_def w x)
  have lo: "0x10000 \<le> r" using w0 unfolding r_def by (cases "w = 0") (simp, arith)
  have hi: "r \<le> 0x10FFFF"
    using w(2) w4 x(2) y(2) z(2) unfolding r_def by (cases "w = 4") (simp, arith)
  have "char_of (0xF0 + r div 262144) = c0" "char_of (0x80 + r div 4096 mod 64) = c1"
    "char_of (0x80 + r div 64 mod 64) = c2" "char_of (0x80 + r mod 64) = c3"
    by (rule char_of_byteI, simp add: s w x y z)+
  with lo hi show ?thesis
    by (simp add: r_eq encode_rune_def valid_rune_def)
qed

lemma decode_rune_sound:
  assumes "decode_rune (c # cs) = (r, n)"
  shows "(r = rune_error \<and> n = 1) \<or> (valid_rune r \<and> encode_rune r = take n (c # cs))"
proof -
  have ascii: "byte c < 0x80 \<Longrightarrow> valid_rune (byte c) \<and> encode_rune (byte c) = [c]"
    by (simp add: encode_rune_def valid_rune_def)
  from assms ascii show ?thesis
    by (auto simp: Let_def not_less encode_decode2 encode_decode3 encode_decode4
        split: list.splits if_splits simp del: diff_diff_left)
qed

text \<open>Every piece of a string is either a valid encoding of its rune or one invalid byte.\<close>

lemma runes_of_sound:
  assumes "(r, bs) \<in> set (runes_of s)"
  shows "(r = rune_error \<and> length bs = 1) \<or> (valid_rune r \<and> encode_rune r = bs)"
  using assms
proof (induction s rule: runes_of.induct)
  case 1
  then show ?case by simp
next
  case (2 c cs)
  obtain q n where d: "decode_rune (c # cs) = (q, n)" and n: "0 < n" "n \<le> Suc (length cs)"
    and e: "runes_of (c # cs) = (q, take n (c # cs)) # runes_of (drop n (c # cs))"
    by (rule runes_of_Cons_cases)
  from "2.prems" consider "r = q" "bs = take n (c # cs)" | "(r, bs) \<in> set (runes_of (drop n (c # cs)))"
    by (auto simp: e)
  then show ?case
  proof cases
    case 1
    with decode_rune_sound [OF d] n show ?thesis by auto
  next
    case 2
    with "2.IH" [OF d [symmetric] refl] show ?thesis by blast
  qed
qed

section \<open>Unicode classification\<close>

text \<open>
  The tables of the Unicode database behind \<^verbatim>\<open>unicode.ToLower\<close> (beyond ASCII) and
  \<^verbatim>\<open>strconv.IsPrint\<close> (beyond Latin-1).
\<close>

record ucd =
  ucd_lower :: "rune \<Rightarrow> rune"
  ucd_print :: "rune \<Rightarrow> bool"

text \<open>Tables to evaluate examples with.\<close>

definition sample_ucd :: ucd where
  "sample_ucd = \<lparr>ucd_lower = (\<lambda>r. r), ucd_print = (\<lambda>r. True)\<rparr>"

text \<open>\<^verbatim>\<open>unicode.IsControl\<close>: only Latin-1 has control characters.\<close>

definition is_control :: "rune \<Rightarrow> bool" where
  "is_control r \<longleftrightarrow> r < 0x20 \<or> (0x7F \<le> r \<and> r < 0xA0)"

text \<open>\<^verbatim>\<open>strconv.IsPrint\<close>\<close>

definition is_print :: "ucd \<Rightarrow> rune \<Rightarrow> bool" where
  "is_print u r =
    (if r \<le> 0xFF then (0x20 \<le> r \<and> r < 0x7F) \<or> (0xA1 \<le> r \<and> r \<noteq> 0xAD) else ucd_print u r)"

text \<open>\<^verbatim>\<open>unicode.ToLower\<close>\<close>

definition rune_lower :: "ucd \<Rightarrow> rune \<Rightarrow> rune" where
  "rune_lower u r =
    (if r \<le> 0x7F then (if 0x41 \<le> r \<and> r \<le> 0x5A then r + 32 else r) else ucd_lower u r)"

text \<open>\<^verbatim>\<open>strings.ToLower\<close>, which is \<^verbatim>\<open>strings.Map(unicode.ToLower, s)\<close>.\<close>

definition to_lower :: "ucd \<Rightarrow> string \<Rightarrow> string" where
  "to_lower u s = concat (map (\<lambda>r. encode_rune (rune_lower u r)) (runes s))"

definition byte_lower :: "char \<Rightarrow> char" where
  "byte_lower c = (if 0x41 \<le> byte c \<and> byte c \<le> 0x5A then char_of (byte c + 32) else c)"

lemma encode_rune_ascii: "r < 0x80 \<Longrightarrow> encode_rune r = [char_of r]"
  by (simp add: encode_rune_def)

lemma to_lower_ascii: "\<forall>c \<in> set s. byte c < 0x80 \<Longrightarrow> to_lower u s = map byte_lower s"
  by (induction s)
    (simp_all add: to_lower_def runes_def runes_of_ascii_Cons rune_lower_def byte_lower_def
      encode_rune_ascii)

section \<open>Trimming, joining, replacing\<close>

definition trim_left :: "char \<Rightarrow> string \<Rightarrow> string" where
  "trim_left c s = dropWhile (\<lambda>x. x = c) s"

definition trim_right :: "char \<Rightarrow> string \<Rightarrow> string" where
  "trim_right c s = rev (dropWhile (\<lambda>x. x = c) (rev s))"

definition trim :: "char \<Rightarrow> string \<Rightarrow> string" where
  "trim c s = trim_right c (trim_left c s)"

lemma trim_left_head: "trim_left c s = x # xs \<Longrightarrow> x \<noteq> c"
  by (simp add: trim_left_def dropWhile_eq_Cons_conv)

lemma trim_right_last: "trim_right c s \<noteq> [] \<Longrightarrow> last (trim_right c s) \<noteq> c"
  using hd_dropWhile [of "\<lambda>x. x = c" "rev s"]
  by (simp add: trim_right_def last_rev del: dropWhile_eq_Nil_conv)

lemma trim_right_split: "\<exists>n. s = trim_right c s @ replicate n c"
proof -
  have "rev s = takeWhile (\<lambda>x. x = c) (rev s) @ dropWhile (\<lambda>x. x = c) (rev s)"
    by simp
  moreover have "takeWhile (\<lambda>x. x = c) (rev s) = replicate (length (takeWhile (\<lambda>x. x = c) (rev s))) c"
    by (rule replicate_eqI) (auto dest: set_takeWhileD)
  ultimately have "s = rev (dropWhile (\<lambda>x. x = c) (rev s))
      @ replicate (length (takeWhile (\<lambda>x. x = c) (rev s))) c"
    by (metis rev_append rev_replicate rev_rev_ident)
  then show ?thesis
    unfolding trim_right_def by blast
qed

lemma trim_right_Cons: "x \<noteq> c \<Longrightarrow> \<exists>ys. trim_right c (x # xs) = x # ys"
  unfolding trim_right_def by (auto simp: dropWhile_append) (metis rev_rev_ident)

lemma trim_right_append:
  assumes "p \<noteq> []" and "last p \<noteq> c"
  shows "trim_right c (p @ s) = p @ trim_right c s"
proof -
  obtain x xs where "rev p = x # xs" using assms(1) by (cases "rev p") auto
  moreover from this assms have "x \<noteq> c" by (metis hd_rev list.sel(1))
  ultimately have "dropWhile (\<lambda>y. y = c) (rev p) = rev p" by simp
  then show ?thesis
    by (auto simp: trim_right_def dropWhile_append)
qed

lemma set_trim_right: "set (trim_right c s) \<subseteq> set s"
  unfolding trim_right_def by (auto dest: set_dropWhileD)

lemma set_trim: "set (trim c s) \<subseteq> set s"
  unfolding trim_def trim_left_def
  using set_trim_right by (fastforce dest: set_dropWhileD)

lemma length_trim_right: "length (trim_right c s) \<le> length s"
  unfolding trim_right_def by (metis length_dropWhile_le length_rev)

fun join :: "string \<Rightarrow> string list \<Rightarrow> string" where
  "join sep [] = []"
| "join sep [x] = x"
| "join sep (x # y # ys) = x @ sep @ join sep (y # ys)"

text \<open>The verb \<open>%v\<close> of \<^verbatim>\<open>fmt\<close> for a slice of strings.\<close>

definition sprint_slice :: "string list \<Rightarrow> string" where
  "sprint_slice xs = ''['' @ join '' '' xs @ '']''"

text \<open>The verb \<open>%d\<close> for a natural number.\<close>

fun show_nat :: "nat \<Rightarrow> string" where
  "show_nat n = (if n < 10 then [char_of (48 + n)] else show_nat (n div 10) @ [char_of (48 + n mod 10)])"

declare show_nat.simps [simp del]

fun strip_prefix :: "string \<Rightarrow> string \<Rightarrow> string option" where
  "strip_prefix [] s = Some s"
| "strip_prefix (p # ps) [] = None"
| "strip_prefix (p # ps) (c # cs) = (if p = c then strip_prefix ps cs else None)"

lemma strip_prefix_Some: "strip_prefix p s = Some t \<longleftrightarrow> s = p @ t"
  by (induction p s rule: strip_prefix.induct) auto

text \<open>
  \<^verbatim>\<open>strings.ReplaceAll\<close>: the non-overlapping occurrences of \<open>old\<close> from the left.  For an empty
  \<open>old\<close> Go inserts \<open>new\<close> before every rune and at the end.
\<close>

function replace_all :: "string \<Rightarrow> string \<Rightarrow> string \<Rightarrow> string" where
  "replace_all old new s =
    (if old = [] then concat (map (\<lambda>p. new @ snd p) (runes_of s)) @ new
     else case strip_prefix old s of
       Some t \<Rightarrow> new @ replace_all old new t
     | None \<Rightarrow> (case s of [] \<Rightarrow> [] | c # cs \<Rightarrow> c # replace_all old new cs))"
  by pat_completeness auto
termination
  by (relation "measure (\<lambda>(old, new, s). length s)") (auto simp: strip_prefix_Some)

declare replace_all.simps [simp del]

section \<open>Quoting\<close>

definition hex_digit :: "nat \<Rightarrow> char" where
  "hex_digit d = char_of (if d < 10 then 48 + d else 87 + d)"

text \<open>\<open>hex n v\<close>: the last \<open>n\<close> hexadecimal digits of \<open>v\<close>, lower case.\<close>

fun hex :: "nat \<Rightarrow> nat \<Rightarrow> string" where
  "hex 0 v = []"
| "hex (Suc n) v = hex n (v div 16) @ [hex_digit (v mod 16)]"

text \<open>\<^verbatim>\<open>appendEscapedRune\<close> of \<^verbatim>\<open>strconv\<close> with the quote character \<open>"\<close>.\<close>

definition escape_rune :: "ucd \<Rightarrow> rune \<Rightarrow> string" where
  "escape_rune u r =
    (if r = 0x22 \<or> r = 0x5C then [backslash, char_of r]
     else if is_print u r then encode_rune r
     else if r = 7 then [backslash, CHR ''a'']
     else if r = 8 then [backslash, CHR ''b'']
     else if r = 12 then [backslash, CHR ''f'']
     else if r = 10 then [backslash, CHR ''n'']
     else if r = 13 then [backslash, CHR ''r'']
     else if r = 9 then [backslash, CHR ''t'']
     else if r = 11 then [backslash, CHR ''v'']
     else if r < 0x20 \<or> r = 0x7F then backslash # CHR ''x'' # hex 2 r
     else if \<not> valid_rune r then backslash # CHR ''u'' # hex 4 rune_error
     else if r < 0x10000 then backslash # CHR ''u'' # hex 4 r
     else backslash # CHR ''U'' # hex 8 r)"

fun quote_piece :: "ucd \<Rightarrow> rune \<times> string \<Rightarrow> string" where
  "quote_piece u (r, bs) =
    (if r = rune_error \<and> length bs = 1 then backslash # CHR ''x'' # hex 2 (byte (hd bs))
     else escape_rune u r)"

definition quote_body :: "ucd \<Rightarrow> string \<Rightarrow> string" where
  "quote_body u s = concat (map (quote_piece u) (runes_of s))"

text \<open>\<^verbatim>\<open>strconv.Quote\<close>\<close>

definition quote :: "ucd \<Rightarrow> string \<Rightarrow> string" where
  "quote u s = dquote # quote_body u s @ [dquote]"

subsection \<open>Delimited literals\<close>

text \<open>
  A text is \<open>closed\<close> for a delimiter when it has no unescaped occurrence of it and does not
  end in the middle of an escape: a reader for which a backslash escapes the character after it
  does not leave the literal inside the text.
\<close>

fun closed :: "char \<Rightarrow> string \<Rightarrow> bool" where
  "closed d [] = True"
| "closed d [c] = (c \<noteq> d \<and> c \<noteq> backslash)"
| "closed d (c # e # cs) =
    (if c = d then False else if c = backslash then closed d cs else closed d (e # cs))"

text \<open>\<open>scan_literal d s\<close> reads up to the first unescaped delimiter: the text without its
  escapes, and what follows the delimiter.\<close>

fun scan_literal :: "char \<Rightarrow> string \<Rightarrow> (string \<times> string) option" where
  "scan_literal d [] = None"
| "scan_literal d [c] = (if c = d then Some ([], []) else None)"
| "scan_literal d (c # e # cs) =
    (if c = d then Some ([], e # cs)
     else if c = backslash then map_option (apfst (Cons e)) (scan_literal d cs)
     else map_option (apfst (Cons c)) (scan_literal d (e # cs)))"

text \<open>The text a closed literal stands for.\<close>

fun unescape :: "string \<Rightarrow> string" where
  "unescape [] = []"
| "unescape [c] = [c]"
| "unescape (c # e # cs) = (if c = backslash then e # unescape cs else c # unescape (e # cs))"

lemma closed_plain: "c \<noteq> d \<Longrightarrow> c \<noteq> backslash \<Longrightarrow> closed d (c # cs) = closed d cs"
  by (cases cs) simp_all

lemma closed_escape: "d \<noteq> backslash \<Longrightarrow> closed d (backslash # e # cs) = closed d cs"
  by simp

lemma closed_append: "closed d a \<Longrightarrow> closed d b \<Longrightarrow> closed d (a @ b)"
proof (induction d a rule: closed.induct)
  case (2 d c)
  then show ?case by (simp add: closed_plain)
qed (auto split: if_splits)

lemma closed_concat: "\<forall>x \<in> set xs. closed d x \<Longrightarrow> closed d (concat xs)"
  by (induction xs) (simp_all add: closed_append)

lemma closed_if_free: "\<forall>c \<in> set s. c \<noteq> d \<and> c \<noteq> backslash \<Longrightarrow> closed d s"
  by (induction s) (simp_all add: closed_plain)

lemma unescape_if_free: "backslash \<notin> set s \<Longrightarrow> unescape s = s"
  by (induction s rule: unescape.induct) auto

lemma scan_literal_closed:
  "closed d body \<Longrightarrow> scan_literal d (body @ d # rest) = Some (unescape body, rest)"
proof (induction d body rule: closed.induct)
  case (1 d)
  then show ?case by (cases rest) simp_all
next
  case (2 d c)
  then show ?case by (cases rest) simp_all
next
  case (3 d c e cs)
  then show ?case by (auto split: if_splits)
qed

subsection \<open>Quoted text is closed\<close>

lemma byte_char_of [simp]: "n < 256 \<Longrightarrow> byte (char_of n) = n"
  by (simp add: of_char_of)

lemma encode_rune_bytes:
  assumes "c \<in> set (encode_rune r)"
  shows "(r < 0x80 \<and> byte c = r) \<or> (0x80 \<le> r \<and> 0x80 \<le> byte c)"
proof -
  have m: "(0x80 + x mod 64) mod 256 = 0x80 + x mod (64::nat)" for x
    by (rule mod_less) (simp add: order_less_le_trans [OF add_strict_left_mono [OF mod_less_divisor]])
  have h2: "r < 0x800 \<Longrightarrow> (0xC0 + r div 64) mod 256 = 0xC0 + r div 64"
    by (rule mod_less) arith
  have h3: "q < 0x10000 \<Longrightarrow> (0xE0 + q div 4096) mod 256 = 0xE0 + q div 4096" for q :: nat
    by (rule mod_less) arith
  have h4: "valid_rune r \<Longrightarrow> (0xF0 + r div 262144) mod 256 = 0xF0 + r div 262144"
    by (rule mod_less) (auto simp: valid_rune_def)
  from assms show ?thesis
    by (auto simp: encode_rune_def encode3_def of_char_of rune_error_def m h2 h3 h4
        split: if_splits)
qed

definition is_hex_char :: "char \<Rightarrow> bool" where
  "is_hex_char c \<longleftrightarrow> (48 \<le> byte c \<and> byte c \<le> 57) \<or> (97 \<le> byte c \<and> byte c \<le> 102)"

lemma is_hex_char_digit: "d < 16 \<Longrightarrow> is_hex_char (hex_digit d)"
  by (auto simp: is_hex_char_def hex_digit_def)

lemma hex_chars: "c \<in> set (hex n v) \<Longrightarrow> is_hex_char c"
  by (induction n arbitrary: v) (auto intro: is_hex_char_digit)

lemma length_hex [simp]: "length (hex n v) = n"
  by (induction n arbitrary: v) simp_all

lemma is_hex_char_plain: "is_hex_char c \<Longrightarrow> c \<noteq> dquote \<and> c \<noteq> backslash"
  by (auto simp: is_hex_char_def)

lemma closed_hex: "closed dquote (hex n v)"
  by (rule closed_if_free) (blast dest: hex_chars is_hex_char_plain)

lemma byte_neq: "byte c \<noteq> byte d \<Longrightarrow> c \<noteq> d"
  by blast

lemma closed_encode_rune:
  assumes "r \<noteq> 0x22" and "r \<noteq> 0x5C"
  shows "closed dquote (encode_rune r)"
proof (rule closed_if_free, rule ballI)
  fix c assume "c \<in> set (encode_rune r)"
  from encode_rune_bytes [OF this] assms
  have "byte c \<noteq> byte dquote" "byte c \<noteq> byte backslash" by auto
  then show "c \<noteq> dquote \<and> c \<noteq> backslash" by (auto dest: byte_neq)
qed

lemma closed_quote_piece: "closed dquote (quote_piece u p)"
  by (cases p) (auto simp: escape_rune_def closed_plain closed_hex closed_encode_rune
      simp del: hex.simps)

lemma closed_quote_body: "closed dquote (quote_body u s)"
  unfolding quote_body_def by (rule closed_concat) (auto simp: closed_quote_piece)

lemma quote_length: "2 \<le> length (quote u s)"
  by (simp add: quote_def)

text \<open>Printable ASCII text without a quote or a backslash is quoted as it is.\<close>

definition plain_char :: "char \<Rightarrow> bool" where
  "plain_char c \<longleftrightarrow> 0x20 \<le> byte c \<and> byte c < 0x7F \<and> c \<noteq> dquote \<and> c \<noteq> backslash"

lemma plain_charD: "plain_char c \<Longrightarrow> byte c < 0x80 \<and> byte c \<noteq> 0x22 \<and> byte c \<noteq> 0x5C"
  unfolding plain_char_def by (auto intro: byte_eqI)

lemma quote_piece_plain: "plain_char c \<Longrightarrow> quote_piece u (byte c, [c]) = [c]"
  using plain_charD [of c]
  by (auto simp: escape_rune_def is_print_def rune_error_def plain_char_def encode_rune_ascii)

lemma quote_plain:
  assumes "\<forall>c \<in> set s. plain_char c"
  shows "quote u s = dquote # s @ [dquote]"
proof -
  have "quote_body u s = s"
    using assms
  proof (induction s)
    case Nil
    then show ?case by (simp add: quote_body_def)
  next
    case (Cons c cs)
    then have "runes_of (c # cs) = (byte c, [c]) # runes_of cs"
      by (simp add: runes_of_ascii_Cons plain_charD)
    with Cons show ?case
      by (simp add: quote_body_def quote_piece_plain del: quote_piece.simps)
  qed
  then show ?thesis by (simp add: quote_def)
qed

section \<open>Replacing\<close>

lemma replace_all_Nil: "old \<noteq> [] \<Longrightarrow> replace_all old new [] = []"
  by (subst replace_all.simps) (cases old; simp)

lemma replace_all_match: "old \<noteq> [] \<Longrightarrow> replace_all old new (old @ t) = new @ replace_all old new t"
proof -
  assume "old \<noteq> []"
  moreover have "strip_prefix old (old @ t) = Some t"
    by (simp add: strip_prefix_Some)
  ultimately show ?thesis
    by (subst replace_all.simps) simp
qed

lemma replace_all_skip:
  "old \<noteq> [] \<Longrightarrow> strip_prefix old (c # cs) = None \<Longrightarrow>
    replace_all old new (c # cs) = c # replace_all old new cs"
  by (subst replace_all.simps) simp

text \<open>Replacing a single byte is a homomorphism.\<close>

lemma replace_all_byte:
  "replace_all [d] new s = concat (map (\<lambda>c. if c = d then new else [c]) s)"
proof (induction s)
  case Nil
  then show ?case by (simp add: replace_all_Nil)
next
  case (Cons c cs)
  show ?case
  proof (cases "c = d")
    case True
    with Cons show ?thesis using replace_all_match [of "[d]" new cs] by simp
  next
    case False
    with Cons show ?thesis by (simp add: replace_all_skip)
  qed
qed

end
