(* ===== verification/Literals.thy ===== *)
theory Literals
  imports GoStrings
begin

text \<open>
  What a query needs of the literals it is built from: they begin and end with their delimiter and
  a reader does not leave them early.  The interface (\<open>literal_encoder\<close>) is provided by
  \<^verbatim>\<open>strconv.Quote\<close> here and by the back-tick form of \<^verbatim>\<open>EscapeIdent\<close> in \<open>Identifiers\<close>;
  \<open>Queries\<close> is its client.  \<open>split_statements\<close> reads a query as the reader of a statement
  sequence does: a semicolon outside literals ends a statement.
\<close>

section \<open>Statements of a query\<close>

datatype lexmode = Plain | Quoted char | Escaped char

definition is_delimiter :: "char \<Rightarrow> bool" where
  "is_delimiter c \<longleftrightarrow> c = dquote \<or> c = backtick \<or> c = CHR 0x27"

fun lex_step :: "lexmode \<Rightarrow> char \<Rightarrow> lexmode" where
  "lex_step Plain c = (if is_delimiter c then Quoted c else Plain)"
| "lex_step (Quoted d) c = (if c = d then Plain else if c = backslash then Escaped d else Quoted d)"
| "lex_step (Escaped d) c = Quoted d"

text \<open>The complete statements, the text after the last semicolon and the mode at the end.\<close>

fun split_from :: "lexmode \<Rightarrow> string \<Rightarrow> string \<Rightarrow> string list \<times> string \<times> lexmode" where
  "split_from m cur [] = ([], cur, m)"
| "split_from m cur (c # cs) =
    (if m = Plain \<and> c = CHR '';'' then apfst (Cons cur) (split_from Plain [] cs)
     else split_from (lex_step m c) (cur @ [c]) cs)"

definition split_statements :: "string \<Rightarrow> string list \<times> string \<times> lexmode" where
  "split_statements q = split_from Plain [] q"

text \<open>A text is \<open>neutral\<close> when reading it outside literals ends outside literals, with no
  semicolon met on the way.\<close>

definition neutral :: "string \<Rightarrow> bool" where
  "neutral t \<longleftrightarrow> (\<forall>cur rest. split_from Plain cur (t @ rest) = split_from Plain (cur @ t) rest)"

lemma neutralD: "neutral t \<Longrightarrow> split_from Plain cur (t @ rest) = split_from Plain (cur @ t) rest"
  by (simp add: neutral_def)

lemma neutral_Nil [simp]: "neutral []"
  by (simp add: neutral_def)

lemma neutral_append [intro]: "neutral s \<Longrightarrow> neutral t \<Longrightarrow> neutral (s @ t)"
  by (simp add: neutral_def)

lemma neutral_Cons: "\<not> is_delimiter c \<Longrightarrow> c \<noteq> CHR '';'' \<Longrightarrow> neutral t \<Longrightarrow> neutral (c # t)"
  by (simp add: neutral_def)

definition bare_char :: "char \<Rightarrow> bool" where
  "bare_char c \<longleftrightarrow> \<not> is_delimiter c \<and> c \<noteq> CHR '';''"

lemma neutral_bare: "list_all bare_char t \<Longrightarrow> neutral t"
  by (induction t) (simp_all add: neutral_Cons bare_char_def)

lemma split_from_closed:
  assumes "closed d body" and "is_delimiter d"
  shows "split_from (Quoted d) cur (body @ d # rest) = split_from Plain (cur @ body @ [d]) rest"
  using assms(1)
proof (induction d body arbitrary: cur rule: closed.induct)
  case (2 d c)
  then show ?case by simp
next
  case (3 d c e cs)
  show ?case
  proof (cases "c = backslash")
    case True
    with 3 show ?thesis by (auto split: if_splits)
  next
    case False
    with 3 have "c \<noteq> d" and cl: "closed d (e # cs)" by (auto split: if_splits)
    with False have "split_from (Quoted d) cur ((c # e # cs) @ d # rest)
        = split_from (Quoted d) (cur @ [c]) ((e # cs) @ d # rest)" by simp
    also have "\<dots> = split_from Plain ((cur @ [c]) @ (e # cs) @ [d]) rest"
      by (rule "3.IH"(2) [OF \<open>c \<noteq> d\<close> False cl])
    finally show ?thesis by simp
  qed
qed simp

lemma neutral_literal:
  assumes "closed d body" and "is_delimiter d"
  shows "neutral (d # body @ [d])"
proof -
  have "d \<noteq> CHR '';''" using assms(2) by (auto simp: is_delimiter_def)
  with assms show ?thesis
    by (simp add: neutral_def split_from_closed)
qed

section \<open>The interface of a literal encoder\<close>

locale literal_encoder =
  fixes encode :: "string \<Rightarrow> string"
    and delim :: char
    and accepts :: "string \<Rightarrow> bool"
  assumes delim: "is_delimiter delim"
    and shape: "accepts s \<Longrightarrow> \<exists>body. encode s = delim # body @ [delim] \<and> closed delim body"
begin

lemma encode_neutral: "accepts s \<Longrightarrow> neutral (encode s)"
  using shape [of s] delim by (auto intro: neutral_literal)

lemma scan_ends:
  assumes "accepts s"
  shows "\<exists>t. scan_literal delim (tl (encode s) @ rest) = Some (t, rest)"
  using shape [OF assms] by (auto simp: scan_literal_closed)

lemma encode_length: "accepts s \<Longrightarrow> 2 \<le> length (encode s)"
  using shape [of s] by auto

end

text \<open>An encoder whose literals also denote exactly the encoded text.\<close>

locale exact_encoder = literal_encoder +
  assumes exact: "accepts s \<Longrightarrow> scan_literal delim (tl (encode s) @ rest) = Some (s, rest)"
begin

lemma encode_inj: "accepts s \<Longrightarrow> accepts t \<Longrightarrow> encode s = encode t \<Longrightarrow> s = t"
  using exact [of s "[]"] exact [of t "[]"] by simp

end

section \<open>Quoted strings\<close>

interpretation string_literal: literal_encoder "quote u" dquote "\<lambda>_. True" for u
  by unfold_locales (auto simp: is_delimiter_def quote_def closed_quote_body)

definition plain_text :: "string \<Rightarrow> bool" where
  "plain_text s \<longleftrightarrow> list_all plain_char s"

lemma plain_text_closed: "plain_text s \<Longrightarrow> closed dquote s"
  by (rule closed_if_free) (auto simp: plain_text_def list_all_iff plain_char_def)

lemma plain_text_unescape: "plain_text s \<Longrightarrow> unescape s = s"
  by (rule unescape_if_free) (auto simp: plain_text_def list_all_iff plain_char_def)

lemma quote_plain_text: "plain_text s \<Longrightarrow> quote u s = dquote # s @ [dquote]"
  by (rule quote_plain) (simp add: plain_text_def list_all_iff)

interpretation plain_literal: exact_encoder "quote u" dquote plain_text for u
  by unfold_locales
    (auto simp: is_delimiter_def quote_plain_text plain_text_closed scan_literal_closed
      plain_text_unescape)

end
