(* ===== verification/Identifiers.thy ===== *)
theory Identifiers
  imports Literals
begin

text \<open>
  \<^verbatim>\<open>internal/surreal/identifiers.go\<close>: rendering a name as a SurrealQL identifier, bare when it is
  simple and not reserved, in back-ticks otherwise.
\<close>

section \<open>The code\<close>

definition ident_start :: "char \<Rightarrow> bool" where
  "ident_start c \<longleftrightarrow> (0x41 \<le> byte c \<and> byte c \<le> 0x5A) \<or> (0x61 \<le> byte c \<and> byte c \<le> 0x7A) \<or> c = CHR ''_''"

definition ident_rest :: "char \<Rightarrow> bool" where
  "ident_rest c \<longleftrightarrow> ident_start c \<or> (0x30 \<le> byte c \<and> byte c \<le> 0x39)"

text \<open>The pattern \<^verbatim>\<open>^[A-Za-z_][A-Za-z0-9_]*$\<close>.\<close>

fun simpleIdentPattern :: "string \<Rightarrow> bool" where
  "simpleIdentPattern [] = False"
| "simpleIdentPattern (c # cs) = (ident_start c \<and> list_all ident_rest cs)"

definition reservedIdentifiers :: "string list" where
  "reservedIdentifiers =
    [''access'', ''alter'', ''analyzer'', ''api'', ''as'',
     ''database'', ''db'', ''define'', ''delete'', ''duration'',
     ''editor'', ''exists'', ''field'', ''for'', ''from'',
     ''if'', ''index'', ''namespace'', ''none'', ''ns'',
     ''on'', ''owner'', ''param'', ''password'', ''passhash'',
     ''record'', ''remove'', ''roles'', ''select'', ''table'',
     ''user'', ''use'', ''viewer'', ''where'']"

definition backtick_ident :: "string \<Rightarrow> string" where
  "backtick_ident input = ''`'' @ replace_all ''`'' [backslash, backtick] input @ ''`''"

text \<open>The loop that looks for a control character.\<close>

fun has_control :: "rune list \<Rightarrow> bool" where
  "has_control [] = False"
| "has_control (r # rs) = (if is_control r then True else has_control rs)"

definition EscapeIdent :: "ucd \<Rightarrow> string \<Rightarrow> string result" where
  "EscapeIdent u input =
    (if input = [] then Inl (errorf ''identifier must not be empty'')
     else if has_control (runes input) then
       Inl (errorf (''identifier '' @ quote u input @ '' contains control character''))
     else if simpleIdentPattern input \<and> to_lower u input \<notin> set reservedIdentifiers then Inr input
     else Inr (backtick_ident input))"

section \<open>Facts\<close>

lemma has_control_iff: "has_control rs \<longleftrightarrow> (\<exists>r \<in> set rs. is_control r)"
  by (induction rs) auto

lemma EscapeIdent_ok_iff:
  "(\<exists>s. EscapeIdent u input = Inr s) \<longleftrightarrow> input \<noteq> [] \<and> (\<forall>r \<in> set (runes input). \<not> is_control r)"
  by (auto simp: EscapeIdent_def has_control_iff)

lemma EscapeIdent_cases:
  assumes "EscapeIdent u input = Inr s"
  obtains (bare) "s = input" and "simpleIdentPattern input" and "to_lower u input \<notin> set reservedIdentifiers"
  | (quoted) "s = backtick_ident input"
  using assms by (auto simp: EscapeIdent_def split: if_splits)

lemma EscapeIdent_nonempty: "EscapeIdent u input = Inr s \<Longrightarrow> s \<noteq> []"
  by (auto simp: EscapeIdent_def backtick_ident_def split: if_splits)

lemma backtick_body: "replace_all ''`'' [backslash, backtick] s
    = concat (map (\<lambda>c. if c = backtick then [backslash, backtick] else [c]) s)"
  by (rule replace_all_byte)

lemma backtick_body_closed:
  "backslash \<notin> set s \<Longrightarrow> closed backtick (replace_all ''`'' [backslash, backtick] s)"
  unfolding backtick_body by (induction s) (auto simp: closed_plain)

lemma unescape_plain: "d \<noteq> backslash \<Longrightarrow> unescape (d # t) = d # unescape t"
  by (cases t) simp_all

lemma backtick_body_unescape:
  assumes "backslash \<notin> set s"
  shows "unescape (replace_all ''`'' [backslash, backtick] s) = s"
proof -
  have "unescape (concat (map (\<lambda>c. if c = backtick then [backslash, backtick] else [c]) s)) = s"
    using assms
  proof (induction s)
    case (Cons c cs)
    then have "c \<noteq> backslash" by auto
    with Cons show ?case
      by (cases "c = backtick") (simp_all add: unescape_plain)
  qed simp
  then show ?thesis by (simp only: backtick_body)
qed

interpretation ident_literal: exact_encoder backtick_ident backtick "\<lambda>s. backslash \<notin> set s"
proof unfold_locales
  show "is_delimiter backtick" by (simp add: is_delimiter_def)
next
  fix s :: string assume "backslash \<notin> set s"
  then show "\<exists>body. backtick_ident s = backtick # body @ [backtick] \<and> closed backtick body"
    by (auto simp: backtick_ident_def backtick_body_closed)
next
  fix s rest :: string assume "backslash \<notin> set s"
  then show "scan_literal backtick (tl (backtick_ident s) @ rest) = Some (s, rest)"
    by (simp add: backtick_ident_def scan_literal_closed backtick_body_closed backtick_body_unescape)
qed

lemma ident_rest_bare: "ident_rest c \<Longrightarrow> bare_char c"
  by (auto simp: ident_rest_def ident_start_def bare_char_def is_delimiter_def)

lemma simple_ident_neutral: "simpleIdentPattern s \<Longrightarrow> neutral s"
  by (cases s) (auto simp: ident_rest_def list_all_iff intro!: neutral_bare ident_rest_bare)

lemma simple_ident_no_backslash: "simpleIdentPattern s \<Longrightarrow> backslash \<notin> set s"
  by (cases s) (auto simp: ident_rest_def ident_start_def list_all_iff)

text \<open>An identifier made from a name without backslashes stays in its place of a query.\<close>

lemma EscapeIdent_neutral:
  assumes "EscapeIdent u input = Inr s" and "backslash \<notin> set input"
  shows "neutral s"
  using assms(1)
proof (cases rule: EscapeIdent_cases)
  case bare
  then show ?thesis by (simp add: simple_ident_neutral)
next
  case quoted
  with assms(2) show ?thesis by (simp add: ident_literal.encode_neutral)
qed

text \<open>
  How an identifier is read: a bare one as itself, one in back-ticks up to its closing back-tick.
\<close>

definition read_ident :: "string \<Rightarrow> string option" where
  "read_ident s =
    (case s of
       [] \<Rightarrow> None
     | c # cs \<Rightarrow>
       if c = backtick then
         (case scan_literal backtick cs of Some (t, []) \<Rightarrow> Some t | _ \<Rightarrow> None)
       else Some s)"

lemma EscapeIdent_read:
  assumes "EscapeIdent u input = Inr s" and "backslash \<notin> set input"
  shows "read_ident s = Some input"
  using assms(1)
proof (cases rule: EscapeIdent_cases)
  case bare
  then show ?thesis by (cases input) (auto simp: read_ident_def ident_start_def)
next
  case quoted
  have bt: "backtick_ident input = backtick # tl (backtick_ident input)"
    by (simp add: backtick_ident_def)
  have "scan_literal backtick (tl (backtick_ident input)) = Some (input, [])"
    using ident_literal.exact [OF assms(2), of "[]"] by simp
  then have "read_ident (backtick # tl (backtick_ident input)) = Some input"
    by (simp add: read_ident_def)
  with bt quoted show ?thesis by metis
qed

section \<open>Names with backslashes\<close>

text \<open>\<open>backslashes_before s i\<close>: the length of the run of backslashes that ends at position \<open>i\<close>.
  \<open>ticks_kept\<close>: that length is even before every back-tick of the name and before its end.\<close>

definition backslashes_before :: "string \<Rightarrow> nat \<Rightarrow> nat" where
  "backslashes_before s i = length (takeWhile (\<lambda>c. c = backslash) (rev (take i s)))"

definition ticks_kept :: "string \<Rightarrow> bool" where
  "ticks_kept s \<longleftrightarrow>
    (\<forall>i \<le> length s. i = length s \<or> s ! i = backtick \<longrightarrow> even (backslashes_before s i))"

text \<open>The same, as a reader meets it: a backslash takes the next character with it.\<close>

fun paired :: "string \<Rightarrow> bool" where
  "paired [] = True"
| "paired [c] = (c \<noteq> backslash)"
| "paired (c # d # cs) = (if c = backslash then d \<noteq> backtick \<and> paired cs else paired (d # cs))"

lemma length_takeWhile_append:
  "length (takeWhile P (xs @ ys)) =
    length (takeWhile P xs) + (if list_all P xs then length (takeWhile P ys) else 0)"
  by (induction xs) simp_all

lemma backslashes_before_skip:
  "c \<noteq> backslash \<Longrightarrow> backslashes_before (c # s) (Suc i) = backslashes_before s i"
  by (simp add: backslashes_before_def length_takeWhile_append)

lemma backslashes_before_pair:
  "even (backslashes_before (backslash # d # s) (Suc (Suc i))) = even (backslashes_before s i)"
  by (simp add: backslashes_before_def length_takeWhile_append)

lemma all_le_Suc: "(\<forall>i \<le> Suc n. P i) \<longleftrightarrow> P 0 \<and> (\<forall>i \<le> n. P (Suc i))"
  by (metis Suc_le_mono not0_implies_Suc zero_le)

lemma backslashes_before_0 [simp]: "backslashes_before s 0 = 0"
  by (simp add: backslashes_before_def)

lemma ticks_kept_skip: "c \<noteq> backslash \<Longrightarrow> ticks_kept (c # s) = ticks_kept s"
  by (simp add: ticks_kept_def all_le_Suc backslashes_before_skip)

lemma ticks_kept_pair: "ticks_kept (backslash # d # s) \<longleftrightarrow> d \<noteq> backtick \<and> ticks_kept s"
proof -
  have "backslashes_before (backslash # d # s) (Suc 0) = 1" by (simp add: backslashes_before_def)
  then show ?thesis by (auto simp: ticks_kept_def all_le_Suc backslashes_before_pair)
qed

lemma ticks_kept_paired: "ticks_kept s = paired s"
proof (induction s rule: paired.induct)
  case 1
  then show ?case by (simp add: ticks_kept_def)
next
  case (2 c)
  then show ?case by (auto simp: ticks_kept_def all_le_Suc backslashes_before_def)
next
  case (3 c d cs)
  then show ?case by (simp add: ticks_kept_skip ticks_kept_pair)
qed

lemma ticks_kept_free: "backslash \<notin> set s \<Longrightarrow> ticks_kept s"
  unfolding ticks_kept_paired by (induction s rule: paired.induct) auto

abbreviation (input) ticks_escaped :: "string \<Rightarrow> string" where
  "ticks_escaped s \<equiv> concat (map (\<lambda>c. if c = backtick then [backslash, backtick] else [c]) s)"

lemma scan_plain:
  "c \<noteq> d \<Longrightarrow> c \<noteq> backslash \<Longrightarrow> scan_literal d (c # t) = map_option (apfst (Cons c)) (scan_literal d t)"
  by (cases t) simp_all

lemma scan_paired:
  "paired s \<Longrightarrow> \<exists>t. scan_literal backtick (ticks_escaped s @ [backtick]) = Some (t, []) \<and>
    length t \<le> length s \<and> (backslash \<in> set s \<longrightarrow> length t < length s)"
  by (induction s rule: paired.induct) (auto simp: scan_plain split: if_splits)

lemma scan_delimiter: "scan_literal d (d # t) = Some ([], t)"
  by (cases t) simp_all

lemma scan_unpaired:
  "\<not> paired s \<Longrightarrow> \<forall>t. scan_literal backtick (ticks_escaped s @ [backtick]) \<noteq> Some (t, [])"
proof (induction s rule: paired.induct)
  case (3 c d cs)
  then show ?case by (auto simp: scan_plain scan_delimiter split: if_splits)
qed simp_all

lemma read_backtick_ident:
  "read_ident (backtick_ident s) =
    (case scan_literal backtick (ticks_escaped s @ [backtick]) of Some (t, []) \<Rightarrow> Some t | _ \<Rightarrow> None)"
  by (simp add: read_ident_def backtick_ident_def backtick_body)

lemma read_backtick_ident_ok: "read_ident (backtick_ident s) \<noteq> None \<longleftrightarrow> ticks_kept s"
proof (cases "paired s")
  case True
  with scan_paired [OF True] show ?thesis by (auto simp: read_backtick_ident ticks_kept_paired)
next
  case False
  with scan_unpaired [OF False] show ?thesis
    by (auto simp: read_backtick_ident ticks_kept_paired split: option.splits list.splits)
qed

lemma read_backtick_ident_differs:
  assumes "backslash \<in> set s"
  shows "read_ident (backtick_ident s) \<noteq> Some s"
proof (cases "paired s")
  case True
  with scan_paired [OF True] assms show ?thesis by (auto simp: read_backtick_ident)
next
  case False
  then show ?thesis using read_backtick_ident_ok [of s] by (auto simp: ticks_kept_paired)
qed

section \<open>The properties\<close>

text \<open>
  Escaping round trips: a name without backslashes that is escaped is read back as itself, and
  its identifier contains no end of a statement.
\<close>

lemma escaped_name_reads_back:
  assumes "EscapeIdent u input = Inr s" and "backslash \<notin> set input"
  shows "read_ident s = Some input \<and> neutral s"
  using EscapeIdent_read [OF assms] EscapeIdent_neutral [OF assms] by blast

lemma printable_no_control: "list_all (\<lambda>c. 0x20 \<le> byte c \<and> byte c < 0x7F) s \<Longrightarrow> \<not> has_control (runes s)"
proof -
  assume "list_all (\<lambda>c. 0x20 \<le> byte c \<and> byte c < 0x7F) s"
  then have "\<forall>c \<in> set s. byte c < 0x80 \<and> \<not> is_control (byte c)"
    by (auto simp: list_all_iff is_control_def)
  then show ?thesis by (auto simp: has_control_iff runes_ascii)
qed

lemma EscapeIdent_quotes:
  assumes "list_all (\<lambda>c. 0x20 \<le> byte c \<and> byte c < 0x7F) s" and "s \<noteq> []" and "\<not> simpleIdentPattern s"
  shows "EscapeIdent u s = Inr (backtick_ident s)"
  using printable_no_control [OF assms(1)] assms(2,3) by (simp add: EscapeIdent_def)

lemma escaped_name_reads_back_witness:
  "read_ident (backtick_ident ''my `app`; x'') = Some ''my `app`; x'' \<and> neutral (backtick_ident ''my `app`; x'')"
proof -
  have "EscapeIdent sample_ucd ''my `app`; x'' = Inr (backtick_ident ''my `app`; x'')"
    by (rule EscapeIdent_quotes) (simp_all add: ident_start_def ident_rest_def)
  from escaped_name_reads_back [OF this] show ?thesis by simp
qed

text \<open>
  C32. Backslashes are not escaped.  The identifier made from a name is read as one identifier exactly
  when an even number of backslashes, none included, stands before every back-tick of the name and
  before its end, and it is read as the given name exactly when the name has no backslash.
\<close>

theorem identifier_read_iff:
  assumes "EscapeIdent u n = Inr s"
  shows "(read_ident s \<noteq> None \<longleftrightarrow> ticks_kept n) \<and> (read_ident s = Some n \<longleftrightarrow> backslash \<notin> set n)"
  using assms
proof (cases rule: EscapeIdent_cases)
  case bare
  then have "backslash \<notin> set n" by (simp add: simple_ident_no_backslash)
  with EscapeIdent_read [OF assms] show ?thesis by (simp add: ticks_kept_free)
next
  case quoted
  with EscapeIdent_read [OF assms] read_backtick_ident_ok [of n] read_backtick_ident_differs [of n]
  show ?thesis by auto
qed

text \<open>A name that ends its identifier early: what follows the semicolon is a statement of its own.\<close>

definition hostile_name :: string where
  "hostile_name = backslash # ''`; REMOVE DATABASE app; x''"

lemma hostile_ident:
  "EscapeIdent u hostile_name = Inr (backtick # backslash # backslash # ''`; REMOVE DATABASE app; x`'')"
proof -
  have "EscapeIdent u hostile_name = Inr (backtick_ident hostile_name)"
    by (rule EscapeIdent_quotes) (simp_all add: hostile_name_def ident_start_def)
  then show ?thesis by (simp add: backtick_ident_def backtick_body hostile_name_def)
qed

theorem identifier_read_iff_witness:
  "\<exists>s. EscapeIdent sample_ucd hostile_name = Inr s \<and> read_ident s = None \<and>
    split_statements s = ([backtick # backslash # backslash # ''`'', '' REMOVE DATABASE app''], '' x`'', Quoted backtick)"
proof -
  have "\<not> ticks_kept hostile_name" by (simp add: ticks_kept_paired hostile_name_def)
  with identifier_read_iff [OF hostile_ident [of sample_ucd]]
  have "read_ident (backtick # backslash # backslash # ''`; REMOVE DATABASE app; x`'') = None" by blast
  with hostile_ident [of sample_ucd] show ?thesis
    by (simp add: split_statements_def is_delimiter_def)
qed

end
