(* ===== verification/GoTime.thy ===== *)
theory GoTime
  imports Prelude "HOL-Library.Word"
begin

text \<open>
  Instants and durations of Go's \<^verbatim>\<open>time\<close> package.  An instant counts nanoseconds from the
  Unix epoch; its location is irrelevant to the operator, so \<^verbatim>\<open>UTC()\<close> is the identity.  A
  duration is a signed 64-bit count of nanoseconds and keeps its width.
\<close>

type_synonym gtime = int
type_synonym duration = "64 word"

text \<open>The zero instant of Go: 1 January of year 1.\<close>

definition zero_time :: gtime where "zero_time = - 62135596800 * 10 ^ 9"

text \<open>\<^verbatim>\<open>(*metav1.Time).IsZero\<close>: a nil pointer is zero.\<close>

definition time_is_zero :: "gtime option \<Rightarrow> bool" where
  "time_is_zero t = (case t of None \<Rightarrow> True | Some t \<Rightarrow> t = zero_time)"

definition time_add :: "gtime \<Rightarrow> duration \<Rightarrow> gtime" where
  "time_add t d = t + sint d"

definition time_before :: "gtime \<Rightarrow> gtime \<Rightarrow> bool" where
  "time_before t u \<longleftrightarrow> t < u"

definition time_equal :: "gtime \<Rightarrow> gtime \<Rightarrow> bool" where
  "time_equal t u \<longleftrightarrow> t = u"

text \<open>\<^verbatim>\<open>t.Sub(u)\<close> saturates at the ends of the range of a duration.\<close>

definition max_duration :: int where "max_duration = 2 ^ 63 - 1"
definition min_duration :: int where "min_duration = - (2 ^ 63)"

definition time_sub :: "gtime \<Rightarrow> gtime \<Rightarrow> duration" where
  "time_sub t u = word_of_int (max min_duration (min max_duration (t - u)))"

definition duration_second :: duration where "duration_second = 1000000000"

text \<open>The order of durations is that of their signed values.\<close>

definition duration_less :: "duration \<Rightarrow> duration \<Rightarrow> bool" where
  "duration_less d e \<longleftrightarrow> sint d < sint e"

lemma sint_time_sub: "sint (time_sub t u) = max min_duration (min max_duration (t - u))"
proof -
  define x where "x = max min_duration (min max_duration (t - u))"
  have "- (2 ^ 63) \<le> x" "x < 2 ^ 63"
    by (auto simp: x_def min_duration_def max_duration_def)
  then have "sint (word_of_int x :: 64 word) = x"
    by (simp add: signed_of_int signed_take_bit_int_eq_self)
  then show ?thesis
    by (simp add: time_sub_def x_def)
qed

lemma sint_duration_second [simp]: "sint duration_second = 1000000000"
  by (simp add: duration_second_def)

lemma duration_less_zero: "duration_less d 0 \<longleftrightarrow> sint d < 0"
  by (simp add: duration_less_def)

end
