(* ===== verification/ApiTypes.thy ===== *)
theory ApiTypes
  imports GoStrings GoTime
begin

text \<open>
  The data of the operator: the custom resources of \<^verbatim>\<open>api/v1alpha1\<close>, with the admission rules
  their markers put into the CRD schemas, and the fields of the Kubernetes types
  (\<^verbatim>\<open>ObjectMeta\<close>, \<^verbatim>\<open>OwnerReference\<close>, \<^verbatim>\<open>Condition\<close>, \<^verbatim>\<open>Secret\<close>) the code reads or writes.
  A pointer or optional field is an \<open>option\<close>; the string-typed enumerations of the source
  (roles, levels, condition statuses) stay strings, because the code handles any value of them.
\<close>

section \<open>Kubernetes objects\<close>

record OwnerReference =
  or_api_version :: string
  or_kind :: string
  or_name :: string
  or_uid :: string
  or_controller :: "bool option"
  or_block_owner_deletion :: "bool option"

record ObjectMeta =
  om_name :: string
  om_namespace :: string
  om_uid :: string
  om_resource_version :: string
  om_generation :: int
  om_deletion_timestamp :: "gtime option"
  om_finalizers :: "string list"
  om_labels :: "string gomap"
  om_annotations :: "string gomap"
  om_owner_references :: "OwnerReference list"

record Condition =
  cond_type :: string
  cond_status :: string
  cond_observed_generation :: int
  cond_last_transition_time :: gtime
  cond_reason :: string
  cond_message :: string

record Secret =
  sec_meta :: ObjectMeta
  sec_type :: string
  sec_data :: "string gomap"

text \<open>The key of an object: \<^verbatim>\<open>types.NamespacedName\<close>.\<close>

datatype NamespacedName = NamespacedName (nn_namespace: string) (nn_name: string)

text \<open>\<^verbatim>\<open>NamespacedName.String\<close>\<close>

definition nn_string :: "NamespacedName \<Rightarrow> string" where
  "nn_string k = nn_namespace k @ ''/'' @ nn_name k"

text \<open>\<^verbatim>\<open>client.ObjectKeyFromObject\<close>\<close>

definition object_key :: "ObjectMeta \<Rightarrow> NamespacedName" where
  "object_key m = NamespacedName (om_namespace m) (om_name m)"

section \<open>Roles, levels and references\<close>

type_synonym SurrealRole = string
type_synonym UserLevel = string

definition RoleViewer :: SurrealRole where "RoleViewer = ''VIEWER''"
definition RoleEditor :: SurrealRole where "RoleEditor = ''EDITOR''"
definition RoleOwner :: SurrealRole where "RoleOwner = ''OWNER''"

definition UserLevelNamespace :: UserLevel where "UserLevelNamespace = ''Namespace''"
definition UserLevelDatabase :: UserLevel where "UserLevelDatabase = ''Database''"

lemmas role_defs = RoleViewer_def RoleEditor_def RoleOwner_def
lemmas level_defs = UserLevelNamespace_def UserLevelDatabase_def

lemma levels_distinct [simp]: "UserLevelNamespace \<noteq> UserLevelDatabase" "UserLevelDatabase \<noteq> UserLevelNamespace"
  by (simp_all add: level_defs)

record LocalProviderReference =
  lpr_name :: string

record LocalPolicyReference =
  lpolr_name :: string

record CASecretReference =
  ca_namespace :: string
  ca_name :: string
  ca_key :: string

record ClientCertificateReference =
  cc_namespace :: string
  cc_name :: string
  cc_cert_key :: string
  cc_key_key :: string

text \<open>\<^verbatim>\<open>GroupVersion.String()\<close> of \<^verbatim>\<open>groupversion_info.go\<close>.\<close>

definition GroupVersion :: string where
  "GroupVersion = ''surrealdb.seamlezz.com/v1alpha1''"

section \<open>SurrealDBProvider\<close>

record RootCredentialReference =
  rc_namespace :: string
  rc_name :: string
  rc_username_key :: string
  rc_password_key :: string

record ProviderTLSConfig =
  tls_ca_secret_ref :: "CASecretReference option"
  tls_client_certificate_ref :: "ClientCertificateReference option"
  tls_insecure_skip_verify :: bool

record SurrealDBProviderSpec =
  ps_endpoint :: string
  ps_root_credential_ref :: RootCredentialReference
  ps_tls :: "ProviderTLSConfig option"

record SurrealDBProviderStatus =
  pst_observed_generation :: int
  pst_conditions :: "Condition list"

record SurrealDBProvider =
  prov_meta :: ObjectMeta
  prov_spec :: SurrealDBProviderSpec
  prov_status :: SurrealDBProviderStatus

section \<open>SurrealDBTenantPolicy\<close>

record DatabaseUserPolicy =
  dup_allowed_databases :: "string list"
  dup_allowed_roles :: "SurrealRole list"

record NamespaceUserPolicy =
  nup_allowed :: bool
  nup_allowed_roles :: "SurrealRole list"

record SurrealDBTenantPolicySpec =
  tps_provider_ref :: LocalProviderReference
  tps_surreal_namespace :: string
  tps_database_users :: DatabaseUserPolicy
  tps_namespace_users :: NamespaceUserPolicy

record SurrealDBTenantPolicyStatus =
  tpst_observed_generation :: int
  tpst_provider_ref :: "LocalProviderReference option"
  tpst_conditions :: "Condition list"

record SurrealDBTenantPolicy =
  pol_meta :: ObjectMeta
  pol_spec :: SurrealDBTenantPolicySpec
  pol_status :: SurrealDBTenantPolicyStatus

section \<open>SurrealDBCredential\<close>

record TargetSecretSpec =
  ts_name :: string

record RotationSpec =
  rot_period :: "duration option"

record SurrealDBCredentialSpec =
  cs_policy_ref :: LocalPolicyReference
  cs_level :: UserLevel
  cs_database :: string
  cs_roles :: "SurrealRole list"
  cs_target_secret :: TargetSecretSpec
  cs_rotation :: "RotationSpec option"

record SurrealDBCredentialStatus =
  cst_observed_generation :: int
  cst_provider_ref :: "LocalProviderReference option"
  cst_surreal_namespace :: string
  cst_database :: string
  cst_username :: string
  cst_last_rotation_time :: "gtime option"
  cst_next_rotation_time :: "gtime option"
  cst_last_manual_rotation_trigger :: string
  cst_conditions :: "Condition list"

record SurrealDBCredential =
  cred_meta :: ObjectMeta
  cred_spec :: SurrealDBCredentialSpec
  cred_status :: SurrealDBCredentialStatus

section \<open>Admission rules\<close>

text \<open>
  The validation markers of the types, which \<^verbatim>\<open>controller-gen\<close> turns into the schemas under
  \<^verbatim>\<open>config/crd\<close>: the API server stores only objects that satisfy them.  Lengths count code points.
\<close>

definition length_between :: "nat \<Rightarrow> nat \<Rightarrow> string \<Rightarrow> bool" where
  "length_between lo hi s \<longleftrightarrow> lo \<le> length (runes s) \<and> length (runes s) \<le> hi"

definition role_enum :: "SurrealRole \<Rightarrow> bool" where
  "role_enum r \<longleftrightarrow> r = RoleViewer \<or> r = RoleEditor \<or> r = RoleOwner"

definition level_enum :: "UserLevel \<Rightarrow> bool" where
  "level_enum l \<longleftrightarrow> l = UserLevelNamespace \<or> l = UserLevelDatabase"

text \<open>The CEL rule of \<^verbatim>\<open>SurrealDBCredentialSpec\<close> (an omitted database is the empty string).\<close>

definition credential_level_rule :: "SurrealDBCredentialSpec \<Rightarrow> bool" where
  "credential_level_rule s \<longleftrightarrow>
    (cs_level s \<noteq> UserLevelDatabase \<or> cs_database s \<noteq> []) \<and>
    (cs_level s \<noteq> UserLevelNamespace \<or> cs_database s = [])"

definition valid_credential_spec :: "SurrealDBCredentialSpec \<Rightarrow> bool" where
  "valid_credential_spec s \<longleftrightarrow>
    length_between 1 253 (lpolr_name (cs_policy_ref s)) \<and>
    level_enum (cs_level s) \<and>
    length_between 0 128 (cs_database s) \<and>
    1 \<le> length (cs_roles s) \<and> length (cs_roles s) \<le> 3 \<and> distinct (cs_roles s) \<and>
    (\<forall>r \<in> set (cs_roles s). role_enum r) \<and>
    length_between 1 253 (ts_name (cs_target_secret s)) \<and>
    credential_level_rule s"

definition valid_policy_spec :: "SurrealDBTenantPolicySpec \<Rightarrow> bool" where
  "valid_policy_spec s \<longleftrightarrow>
    length_between 1 253 (lpr_name (tps_provider_ref s)) \<and>
    length_between 1 128 (tps_surreal_namespace s) \<and>
    length (dup_allowed_databases (tps_database_users s)) \<le> 256 \<and>
    distinct (dup_allowed_databases (tps_database_users s)) \<and>
    length (dup_allowed_roles (tps_database_users s)) \<le> 3 \<and>
    distinct (dup_allowed_roles (tps_database_users s)) \<and>
    (\<forall>r \<in> set (dup_allowed_roles (tps_database_users s)). role_enum r) \<and>
    length (nup_allowed_roles (tps_namespace_users s)) \<le> 3 \<and>
    distinct (nup_allowed_roles (tps_namespace_users s)) \<and>
    (\<forall>r \<in> set (nup_allowed_roles (tps_namespace_users s)). role_enum r)"

text \<open>The pattern \<^verbatim>\<open>^wss?://.+\<close> of the endpoint (a dot does not match a line feed).\<close>

definition endpoint_pattern :: "string \<Rightarrow> bool" where
  "endpoint_pattern s \<longleftrightarrow>
    (case strip_prefix ''ws://'' s of
       Some (c # _) \<Rightarrow> c \<noteq> CHR ''\<newline>''
     | _ \<Rightarrow> (case strip_prefix ''wss://'' s of Some (c # _) \<Rightarrow> c \<noteq> CHR ''\<newline>'' | _ \<Rightarrow> False))"

definition valid_ca_ref :: "CASecretReference \<Rightarrow> bool" where
  "valid_ca_ref r \<longleftrightarrow>
    length_between 1 63 (ca_namespace r) \<and> length_between 1 253 (ca_name r) \<and> ca_key r \<noteq> []"

definition valid_client_certificate_ref :: "ClientCertificateReference \<Rightarrow> bool" where
  "valid_client_certificate_ref r \<longleftrightarrow>
    length_between 1 63 (cc_namespace r) \<and> length_between 1 253 (cc_name r) \<and>
    cc_cert_key r \<noteq> [] \<and> cc_key_key r \<noteq> []"

definition valid_tls_config :: "ProviderTLSConfig \<Rightarrow> bool" where
  "valid_tls_config c \<longleftrightarrow>
    pred_option valid_ca_ref (tls_ca_secret_ref c) \<and>
    pred_option valid_client_certificate_ref (tls_client_certificate_ref c)"

definition valid_provider_spec :: "SurrealDBProviderSpec \<Rightarrow> bool" where
  "valid_provider_spec s \<longleftrightarrow>
    length_between 1 2048 (ps_endpoint s) \<and> endpoint_pattern (ps_endpoint s) \<and>
    length_between 1 63 (rc_namespace (ps_root_credential_ref s)) \<and>
    length_between 1 253 (rc_name (ps_root_credential_ref s)) \<and>
    rc_username_key (ps_root_credential_ref s) \<noteq> [] \<and>
    rc_password_key (ps_root_credential_ref s) \<noteq> [] \<and>
    pred_option valid_tls_config (ps_tls s)"

end
