(* ===== verification/Policy.thy ===== *)
theory Policy
  imports ApiTypes
begin

text \<open>
  \<^verbatim>\<open>internal/policy/evaluate.go\<close>: whether a tenant policy admits a credential request, with the
  reason of a denial.  The specification \<open>admits\<close> says which requests a policy is meant to admit;
  \<open>Evaluate\<close> decides exactly that.
\<close>

section \<open>The code\<close>

text \<open>\<^verbatim>\<open>policy.UserTarget\<close> of \<^verbatim>\<open>username.go\<close>\<close>

record PolicyUserTarget =
  put_provider_name :: string
  put_surreal_namespace :: string
  put_database :: string
  put_level :: UserLevel

record CredentialRequest =
  cr_level :: UserLevel
  cr_database :: string
  cr_roles :: "SurrealRole list"

record Evaluation =
  ev_allowed :: bool
  ev_reason :: string
  ev_message :: string
  ev_target :: PolicyUserTarget

definition denied :: "string \<Rightarrow> string \<Rightarrow> PolicyUserTarget \<Rightarrow> Evaluation" where
  "denied reason message target =
    \<lparr>ev_allowed = False, ev_reason = reason, ev_message = message, ev_target = target\<rparr>"

fun containsString :: "string list \<Rightarrow> string \<Rightarrow> bool" where
  "containsString [] needle = False"
| "containsString (value # values) needle =
    (if value = needle then True else containsString values needle)"

text \<open>The two loops of \<^verbatim>\<open>missingRoles\<close>: the set of the allowed roles, then the scan.\<close>

fun allowed_set :: "(SurrealRole \<rightharpoonup> unit) \<Rightarrow> SurrealRole list \<Rightarrow> (SurrealRole \<rightharpoonup> unit)" where
  "allowed_set m [] = m"
| "allowed_set m (role # roles) = allowed_set (m(role \<mapsto> ())) roles"

fun missing_scan :: "(SurrealRole \<rightharpoonup> unit) \<Rightarrow> SurrealRole list \<Rightarrow> SurrealRole list" where
  "missing_scan m [] = []"
| "missing_scan m (role # roles) =
    (case m role of None \<Rightarrow> role # missing_scan m roles | Some _ \<Rightarrow> missing_scan m roles)"

definition missingRoles :: "SurrealRole list \<Rightarrow> SurrealRole list \<Rightarrow> SurrealRole list" where
  "missingRoles allowed requested = missing_scan (allowed_set Map.empty allowed) requested"

definition Evaluate :: "ucd \<Rightarrow> SurrealDBTenantPolicySpec \<Rightarrow> CredentialRequest \<Rightarrow> Evaluation" where
  "Evaluate u policy request =
    (let target = \<lparr>put_provider_name = lpr_name (tps_provider_ref policy),
                   put_surreal_namespace = tps_surreal_namespace policy,
                   put_database = cr_database request,
                   put_level = cr_level request\<rparr>
     in
     if cr_roles request = [] then
       denied ''NoRoles'' ''at least one role is required'' target
     else if cr_level request = UserLevelDatabase then
       if cr_database request = [] then
         denied ''DatabaseRequired'' ''database is required for database-level users'' target
       else if \<not> containsString (dup_allowed_databases (tps_database_users policy)) (cr_database request)
       then
         denied ''DatabaseDenied''
           (''database '' @ quote u (cr_database request) @ '' is not allowed by policy'') target
       else
         (let missing = missingRoles (dup_allowed_roles (tps_database_users policy)) (cr_roles request) in
          if missing \<noteq> [] then
            denied ''RoleDenied''
              (''roles '' @ sprint_slice missing @ '' are not allowed for database-level users'') target
          else
            \<lparr>ev_allowed = True, ev_reason = ''Allowed'',
             ev_message = ''database user request is allowed'', ev_target = target\<rparr>)
     else if cr_level request = UserLevelNamespace then
       if \<not> nup_allowed (tps_namespace_users policy) then
         denied ''NamespaceUsersDenied'' ''namespace-level users are not allowed by policy'' target
       else if cr_database request \<noteq> [] then
         denied ''DatabaseForbidden'' ''database must be empty for namespace-level users'' target
       else
         (let missing = missingRoles (nup_allowed_roles (tps_namespace_users policy)) (cr_roles request) in
          if missing \<noteq> [] then
            denied ''RoleDenied''
              (''roles '' @ sprint_slice missing @ '' are not allowed for namespace-level users'') target
          else
            \<lparr>ev_allowed = True, ev_reason = ''Allowed'',
             ev_message = ''namespace user request is allowed'', ev_target = target\<rparr>)
     else
       denied ''InvalidLevel'' (''unsupported user level '' @ quote u (cr_level request)) target)"

section \<open>What the loops compute\<close>

lemma containsString_iff [simp]: "containsString values needle \<longleftrightarrow> needle \<in> set values"
  by (induction rule: containsString.induct) auto

lemma dom_allowed_set: "dom (allowed_set m roles) = dom m \<union> set roles"
  by (induction roles arbitrary: m) auto

lemma missing_scan_filter: "missing_scan m roles = filter (\<lambda>r. r \<notin> dom m) roles"
  by (induction roles) (auto split: option.splits)

lemma missingRoles_filter: "missingRoles allowed requested = filter (\<lambda>r. r \<notin> set allowed) requested"
  by (simp add: missingRoles_def missing_scan_filter dom_allowed_set)

lemma missingRoles_Nil: "missingRoles allowed requested = [] \<longleftrightarrow> set requested \<subseteq> set allowed"
  by (auto simp: missingRoles_filter filter_empty_conv)

section \<open>The specification\<close>

definition admits_database :: "SurrealDBTenantPolicySpec \<Rightarrow> CredentialRequest \<Rightarrow> bool" where
  "admits_database p r \<longleftrightarrow>
    cr_level r = UserLevelDatabase \<and> cr_database r \<noteq> [] \<and>
    cr_database r \<in> set (dup_allowed_databases (tps_database_users p)) \<and>
    set (cr_roles r) \<subseteq> set (dup_allowed_roles (tps_database_users p))"

definition admits_namespace :: "SurrealDBTenantPolicySpec \<Rightarrow> CredentialRequest \<Rightarrow> bool" where
  "admits_namespace p r \<longleftrightarrow>
    cr_level r = UserLevelNamespace \<and> nup_allowed (tps_namespace_users p) \<and> cr_database r = [] \<and>
    set (cr_roles r) \<subseteq> set (nup_allowed_roles (tps_namespace_users p))"

definition admits :: "SurrealDBTenantPolicySpec \<Rightarrow> CredentialRequest \<Rightarrow> bool" where
  "admits p r \<longleftrightarrow> cr_roles r \<noteq> [] \<and> (admits_database p r \<or> admits_namespace p r)"

lemma Evaluate_allowed: "ev_allowed (Evaluate u p r) \<longleftrightarrow> admits p r"
  by (auto simp: Evaluate_def admits_def admits_database_def admits_namespace_def denied_def
      Let_def missingRoles_Nil)

lemma Evaluate_target:
  "ev_target (Evaluate u p r) =
    \<lparr>put_provider_name = lpr_name (tps_provider_ref p),
     put_surreal_namespace = tps_surreal_namespace p,
     put_database = cr_database r, put_level = cr_level r\<rparr>"
  by (simp add: Evaluate_def denied_def Let_def)

text \<open>The reasons a denial can carry, as the specification of each branch.\<close>

lemma Evaluate_reason:
  "ev_reason (Evaluate u p r) =
    (if cr_roles r = [] then ''NoRoles''
     else if cr_level r = UserLevelDatabase then
       (if cr_database r = [] then ''DatabaseRequired''
        else if cr_database r \<notin> set (dup_allowed_databases (tps_database_users p))
        then ''DatabaseDenied''
        else if set (cr_roles r) \<subseteq> set (dup_allowed_roles (tps_database_users p)) then ''Allowed''
        else ''RoleDenied'')
     else if cr_level r = UserLevelNamespace then
       (if \<not> nup_allowed (tps_namespace_users p) then ''NamespaceUsersDenied''
        else if cr_database r \<noteq> [] then ''DatabaseForbidden''
        else if set (cr_roles r) \<subseteq> set (nup_allowed_roles (tps_namespace_users p)) then ''Allowed''
        else ''RoleDenied'')
     else ''InvalidLevel'')"
  by (simp add: Evaluate_def denied_def Let_def missingRoles_Nil)

text \<open>\<open>policy_extends p q\<close>: everything \<open>p\<close> lists, \<open>q\<close> lists too.\<close>

definition policy_extends :: "SurrealDBTenantPolicySpec \<Rightarrow> SurrealDBTenantPolicySpec \<Rightarrow> bool" where
  "policy_extends p q \<longleftrightarrow>
    set (dup_allowed_databases (tps_database_users p)) \<subseteq> set (dup_allowed_databases (tps_database_users q)) \<and>
    set (dup_allowed_roles (tps_database_users p)) \<subseteq> set (dup_allowed_roles (tps_database_users q)) \<and>
    (nup_allowed (tps_namespace_users p) \<longrightarrow> nup_allowed (tps_namespace_users q)) \<and>
    set (nup_allowed_roles (tps_namespace_users p)) \<subseteq> set (nup_allowed_roles (tps_namespace_users q))"

lemma admits_mono: "admits p r \<Longrightarrow> policy_extends p q \<Longrightarrow> admits q r"
  by (auto simp: admits_def admits_database_def admits_namespace_def policy_extends_def)

section \<open>The properties\<close>

text \<open>
  C27. An evaluation allows exactly the requests the policy admits, and its reason says so; its
  target is the provider and namespace of the policy with the database and level of the request,
  whatever the answer.
\<close>

theorem Evaluate_decides:
  "(ev_allowed (Evaluate u p r) \<longleftrightarrow> admits p r) \<and>
   (ev_reason (Evaluate u p r) = ''Allowed'' \<longleftrightarrow> admits p r) \<and>
   ev_target (Evaluate u p r) =
     \<lparr>put_provider_name = lpr_name (tps_provider_ref p),
      put_surreal_namespace = tps_surreal_namespace p,
      put_database = cr_database r, put_level = cr_level r\<rparr>"
proof (intro conjI)
  show "ev_reason (Evaluate u p r) = ''Allowed'' \<longleftrightarrow> admits p r"
    by (auto simp: Evaluate_reason admits_def admits_database_def admits_namespace_def)
qed (simp_all add: Evaluate_allowed Evaluate_target)

text \<open>
  A request the CRD schema lets through can only be denied by what the policy says: none of
  the answers for a malformed request is given.
\<close>

lemma valid_request_denials:
  assumes "valid_credential_spec s"
  shows "ev_reason (Evaluate u p \<lparr>cr_level = cs_level s, cr_database = cs_database s, cr_roles = cs_roles s\<rparr>)
    \<in> {''Allowed'', ''DatabaseDenied'', ''RoleDenied'', ''NamespaceUsersDenied''}"
  using assms
  by (auto simp: Evaluate_reason valid_credential_spec_def level_enum_def credential_level_rule_def)

definition sample_spec :: SurrealDBCredentialSpec where
  "sample_spec = \<lparr>cs_policy_ref = \<lparr>lpolr_name = ''rules''\<rparr>, cs_level = UserLevelNamespace,
     cs_database = [], cs_roles = [RoleViewer, RoleOwner], cs_target_secret = \<lparr>ts_name = ''login''\<rparr>,
     cs_rotation = None\<rparr>"

lemma sample_spec_valid: "valid_credential_spec sample_spec"
  by (simp add: sample_spec_def valid_credential_spec_def length_between_def runes_ascii level_enum_def
      role_enum_def credential_level_rule_def) (simp add: role_defs)

definition sample_policy :: "SurrealRole list \<Rightarrow> SurrealDBTenantPolicySpec" where
  "sample_policy roles = \<lparr>tps_provider_ref = \<lparr>lpr_name = ''primary''\<rparr>, tps_surreal_namespace = ''tenant'',
     tps_database_users = \<lparr>dup_allowed_databases = [''app''], dup_allowed_roles = roles\<rparr>,
     tps_namespace_users = \<lparr>nup_allowed = False, nup_allowed_roles = []\<rparr>\<rparr>"

lemma valid_request_denials_witness:
  "ev_reason (Evaluate sample_ucd (sample_policy []) \<lparr>cr_level = UserLevelNamespace, cr_database = [],
     cr_roles = [RoleViewer, RoleOwner]\<rparr>) \<in> {''Allowed'', ''DatabaseDenied'', ''RoleDenied'', ''NamespaceUsersDenied''}"
  using valid_request_denials [OF sample_spec_valid, of sample_ucd "sample_policy []"] by (simp add: sample_spec_def)

end
