(* ===== verification/Sha256.thy ===== *)
theory Sha256
  imports GoStrings "HOL-Library.Word"
begin

text \<open>
  SHA-256 (FIPS 180-4) on byte strings, as provided by Go's \<^verbatim>\<open>crypto/sha256\<close>, and
  \<^verbatim>\<open>hex.EncodeToString\<close>.  The operator hashes the identity of a credential with it; what it
  relies on is that the digest is a function of the input and has 32 bytes.
\<close>

unbundle bit_operations_syntax

type_synonym w32 = "32 word"

definition sha_k :: "w32 list" where
  "sha_k =
   [0x428a2f98, 0x71374491, 0xb5c0fbcf, 0xe9b5dba5, 0x3956c25b, 0x59f111f1, 0x923f82a4, 0xab1c5ed5,
    0xd807aa98, 0x12835b01, 0x243185be, 0x550c7dc3, 0x72be5d74, 0x80deb1fe, 0x9bdc06a7, 0xc19bf174,
    0xe49b69c1, 0xefbe4786, 0x0fc19dc6, 0x240ca1cc, 0x2de92c6f, 0x4a7484aa, 0x5cb0a9dc, 0x76f988da,
    0x983e5152, 0xa831c66d, 0xb00327c8, 0xbf597fc7, 0xc6e00bf3, 0xd5a79147, 0x06ca6351, 0x14292967,
    0x27b70a85, 0x2e1b2138, 0x4d2c6dfc, 0x53380d13, 0x650a7354, 0x766a0abb, 0x81c2c92e, 0x92722c85,
    0xa2bfe8a1, 0xa81a664b, 0xc24b8b70, 0xc76c51a3, 0xd192e819, 0xd6990624, 0xf40e3585, 0x106aa070,
    0x19a4c116, 0x1e376c08, 0x2748774c, 0x34b0bcb5, 0x391c0cb3, 0x4ed8aa4a, 0x5b9cca4f, 0x682e6ff3,
    0x748f82ee, 0x78a5636f, 0x84c87814, 0x8cc70208, 0x90befffa, 0xa4506ceb, 0xbef9a3f7, 0xc67178f2]"

record sha_state =
  sh_a :: w32  sh_b :: w32  sh_c :: w32  sh_d :: w32
  sh_e :: w32  sh_f :: w32  sh_g :: w32  sh_h :: w32

definition sha_init :: sha_state where
  "sha_init = \<lparr>sh_a = 0x6a09e667, sh_b = 0xbb67ae85, sh_c = 0x3c6ef372, sh_d = 0xa54ff53a,
               sh_e = 0x510e527f, sh_f = 0x9b05688c, sh_g = 0x1f83d9ab, sh_h = 0x5be0cd19\<rparr>"

definition sha_ch :: "w32 \<Rightarrow> w32 \<Rightarrow> w32 \<Rightarrow> w32" where
  "sha_ch x y z = (x AND y) XOR (NOT x AND z)"

definition sha_maj :: "w32 \<Rightarrow> w32 \<Rightarrow> w32 \<Rightarrow> w32" where
  "sha_maj x y z = (x AND y) XOR (x AND z) XOR (y AND z)"

definition sha_rotr :: "nat \<Rightarrow> w32 \<Rightarrow> w32" where
  "sha_rotr n x = drop_bit n x OR push_bit (32 - n) x"

definition sha_big0 :: "w32 \<Rightarrow> w32" where
  "sha_big0 x = sha_rotr 2 x XOR sha_rotr 13 x XOR sha_rotr 22 x"

definition sha_big1 :: "w32 \<Rightarrow> w32" where
  "sha_big1 x = sha_rotr 6 x XOR sha_rotr 11 x XOR sha_rotr 25 x"

definition sha_small0 :: "w32 \<Rightarrow> w32" where
  "sha_small0 x = sha_rotr 7 x XOR sha_rotr 18 x XOR drop_bit 3 x"

definition sha_small1 :: "w32 \<Rightarrow> w32" where
  "sha_small1 x = sha_rotr 17 x XOR sha_rotr 19 x XOR drop_bit 10 x"

text \<open>The message schedule: sixteen words of the block, extended to sixty-four.\<close>

definition sha_extend :: "w32 list \<Rightarrow> w32 list" where
  "sha_extend ws =
    (let t = length ws in
     ws @ [sha_small1 (ws ! (t - 2)) + ws ! (t - 7) + sha_small0 (ws ! (t - 15)) + ws ! (t - 16)])"

definition sha_schedule :: "w32 list \<Rightarrow> w32 list" where
  "sha_schedule ws = (sha_extend ^^ 48) ws"

definition sha_round :: "sha_state \<Rightarrow> w32 \<times> w32 \<Rightarrow> sha_state" where
  "sha_round s kw =
    (let t1 = sh_h s + sha_big1 (sh_e s) + sha_ch (sh_e s) (sh_f s) (sh_g s) + fst kw + snd kw;
         t2 = sha_big0 (sh_a s) + sha_maj (sh_a s) (sh_b s) (sh_c s)
     in \<lparr>sh_a = t1 + t2, sh_b = sh_a s, sh_c = sh_b s, sh_d = sh_c s,
         sh_e = sh_d s + t1, sh_f = sh_e s, sh_g = sh_f s, sh_h = sh_g s\<rparr>)"

definition word_of_bytes :: "nat list \<Rightarrow> w32" where
  "word_of_bytes bs = foldl (\<lambda>w b. w * 256 + of_nat b) 0 bs"

definition bytes_of_word :: "w32 \<Rightarrow> nat list" where
  "bytes_of_word w =
    [unat (drop_bit 24 w) mod 256, unat (drop_bit 16 w) mod 256, unat (drop_bit 8 w) mod 256,
     unat w mod 256]"

fun chunks :: "nat \<Rightarrow> nat \<Rightarrow> 'a list \<Rightarrow> 'a list list" where
  "chunks 0 n xs = []"
| "chunks (Suc k) n xs = take n xs # chunks k n (drop n xs)"

definition sha_compress :: "sha_state \<Rightarrow> nat list \<Rightarrow> sha_state" where
  "sha_compress s block =
    (let ws = sha_schedule (map word_of_bytes (chunks 16 4 block));
         r = foldl sha_round s (zip sha_k ws)
     in \<lparr>sh_a = sh_a s + sh_a r, sh_b = sh_b s + sh_b r, sh_c = sh_c s + sh_c r,
         sh_d = sh_d s + sh_d r, sh_e = sh_e s + sh_e r, sh_f = sh_f s + sh_f r,
         sh_g = sh_g s + sh_g r, sh_h = sh_h s + sh_h r\<rparr>)"

text \<open>Padding: a one bit, zeros, and the length in bits as 64 bits, big endian.\<close>

fun big_endian :: "nat \<Rightarrow> nat \<Rightarrow> nat list" where
  "big_endian 0 v = []"
| "big_endian (Suc n) v = big_endian n (v div 256) @ [v mod 256]"

definition sha_pad :: "nat list \<Rightarrow> nat list" where
  "sha_pad m =
    m @ 0x80 # replicate ((119 - length m mod 64) mod 64) 0 @ big_endian 8 (8 * length m)"

definition sha_digest_words :: "nat list \<Rightarrow> w32 list" where
  "sha_digest_words m =
    (let p = sha_pad m; r = foldl sha_compress sha_init (chunks (length p div 64) 64 p)
     in [sh_a r, sh_b r, sh_c r, sh_d r, sh_e r, sh_f r, sh_g r, sh_h r])"

text \<open>\<^verbatim>\<open>sha256.Sum256\<close>, as bytes.\<close>

definition sha256 :: "string \<Rightarrow> nat list" where
  "sha256 s = concat (map bytes_of_word (sha_digest_words (map byte s)))"

text \<open>\<^verbatim>\<open>hex.EncodeToString\<close>\<close>

definition hex_encode :: "nat list \<Rightarrow> string" where
  "hex_encode bs = concat (map (hex 2) bs)"

lemma length_sha256: "length (sha256 s) = 32"
  by (simp add: sha256_def sha_digest_words_def bytes_of_word_def Let_def)

lemma length_hex_encode: "length (hex_encode bs) = 2 * length bs"
  by (induction bs) (simp_all add: hex_encode_def del: hex.simps)

lemma hex_encode_chars: "c \<in> set (hex_encode bs) \<Longrightarrow> is_hex_char c"
  by (auto simp: hex_encode_def simp del: hex.simps dest: hex_chars)

end
