(* ===== verification/Username.thy ===== *)
theory Username
  imports Policy Sha256
begin

text \<open>
  \<^verbatim>\<open>internal/policy/username.go\<close>: the deterministic name of the SurrealDB user of a credential, a
  readable normalised prefix and eight characters of a hash of the identity and target.
\<close>

section \<open>The code\<close>

abbreviation (input) underscore :: char where "underscore \<equiv> CHR 0x5F"

definition usernamePrefix :: string where "usernamePrefix = ''k8s''"
definition usernameHashChars :: nat where "usernameHashChars = 8"
definition usernameMaxLength :: nat where "usernameMaxLength = 63"

text \<open>The bytes \<^verbatim>\<open>stableHash\<close> feeds the hash: every value, each followed by a zero byte.\<close>

fun hash_input :: "string list \<Rightarrow> string" where
  "hash_input [] = []"
| "hash_input (v # vs) = v @ [CHR 0x00] @ hash_input vs"

definition stableHash :: "string list \<Rightarrow> string" where
  "stableHash values = hex_encode (sha256 (hash_input values))"

definition isSimpleUsernamePart :: "rune \<Rightarrow> bool" where
  "isSimpleUsernamePart r \<longleftrightarrow> (0x61 \<le> r \<and> r \<le> 0x7A) \<or> (0x30 \<le> r \<and> r \<le> 0x39)"

text \<open>The loop of \<^verbatim>\<open>normalizePart\<close> over the runes left, the builder and \<^verbatim>\<open>lastUnderscore\<close>.\<close>

fun normalize_loop :: "string \<Rightarrow> bool \<Rightarrow> rune list \<Rightarrow> string" where
  "normalize_loop b lastUnderscore [] = b"
| "normalize_loop b lastUnderscore (r # rs) =
    (if isSimpleUsernamePart r then normalize_loop (b @ encode_rune r) False rs
     else if \<not> lastUnderscore then normalize_loop (b @ [underscore]) True rs
     else normalize_loop b lastUnderscore rs)"

definition normalizePart :: "ucd \<Rightarrow> string \<Rightarrow> string" where
  "normalizePart u input = trim underscore (normalize_loop [] False (runes (to_lower u input)))"

fun nonEmpty :: "string list \<Rightarrow> string list" where
  "nonEmpty [] = []"
| "nonEmpty (value # values) = (if value \<noteq> [] then value # nonEmpty values else nonEmpty values)"

text \<open>The readable part, before and after it is cut to length.\<close>

definition username_base :: "ucd \<Rightarrow> string \<Rightarrow> string \<Rightarrow> string" where
  "username_base u kubernetesNamespace credentialName =
    (let parts = [usernamePrefix, normalizePart u kubernetesNamespace, normalizePart u credentialName];
         base = join ''_'' (nonEmpty parts)
     in if base = [] \<or> base = usernamePrefix then usernamePrefix @ ''_credential'' else base)"

definition username_cut :: "string \<Rightarrow> string \<Rightarrow> string" where
  "username_cut base suffix =
    (let maxBase = usernameMaxLength - length suffix in
     if maxBase < length base then
       (let base = trim_right underscore (take maxBase base) in
        if base = [] then usernamePrefix else base)
     else base)"

definition Username :: "ucd \<Rightarrow> string \<Rightarrow> string \<Rightarrow> PolicyUserTarget \<Rightarrow> string" where
  "Username u kubernetesNamespace credentialName target =
    (let base = username_base u kubernetesNamespace credentialName;
         hash = stableHash [kubernetesNamespace, credentialName, put_provider_name target,
                            put_surreal_namespace target, put_database target, put_level target];
         suffix = ''_'' @ take usernameHashChars hash
     in username_cut base suffix @ suffix)"

section \<open>The alphabet\<close>

text \<open>\<open>name_char\<close>: lower-case letters, digits and the underscore.\<close>

definition name_char :: "char \<Rightarrow> bool" where
  "name_char c \<longleftrightarrow> (0x61 \<le> byte c \<and> byte c \<le> 0x7A) \<or> (0x30 \<le> byte c \<and> byte c \<le> 0x39) \<or> c = underscore"

lemma name_char_underscore [simp]: "name_char underscore"
  by (simp add: name_char_def)

abbreviation name_string :: "string \<Rightarrow> bool" where
  "name_string s \<equiv> list_all name_char s"

lemma name_string_append [simp]: "name_string (s @ t) \<longleftrightarrow> name_string s \<and> name_string t"
  by simp

lemma name_char_hex: "is_hex_char c \<Longrightarrow> name_char c"
  by (auto simp: is_hex_char_def name_char_def)

lemma simple_part_char:
  "isSimpleUsernamePart r \<Longrightarrow> encode_rune r = [char_of r] \<and> name_char (char_of r)"
  by (auto simp: isSimpleUsernamePart_def name_char_def encode_rune_ascii)

lemma normalize_loop_chars: "name_string b \<Longrightarrow> name_string (normalize_loop b l rs)"
  by (induction b l rs rule: normalize_loop.induct)
    (auto simp: simple_part_char)

lemma name_string_trim_right: "name_string s \<Longrightarrow> name_string (trim_right c s)"
  using set_trim_right by (fastforce simp: list_all_iff)

lemma name_string_trim: "name_string s \<Longrightarrow> name_string (trim c s)"
  using set_trim by (fastforce simp: list_all_iff)

lemma normalizePart_chars: "name_string (normalizePart u s)"
  by (simp add: normalizePart_def name_string_trim normalize_loop_chars)

text \<open>No part begins or ends with an underscore, and none has two in a row.\<close>

fun no_double :: "char \<Rightarrow> string \<Rightarrow> bool" where
  "no_double c [] = True"
| "no_double c [x] = True"
| "no_double c (x # y # ys) = (\<not> (x = c \<and> y = c) \<and> no_double c (y # ys))"

lemma no_double_append:
  "no_double c (s @ t) \<longleftrightarrow>
    no_double c s \<and> no_double c t \<and> \<not> (s \<noteq> [] \<and> last s = c \<and> t \<noteq> [] \<and> hd t = c)"
proof (induction c s rule: no_double.induct)
  case (2 c x)
  then show ?case by (cases t) auto
qed auto

lemma normalize_loop_no_double:
  assumes "no_double underscore b" and "l \<longleftrightarrow> b \<noteq> [] \<and> last b = underscore"
  shows "no_double underscore (normalize_loop b l rs)"
  using assms
proof (induction b l rs rule: normalize_loop.induct)
  case (2 b l r rs)
  have "isSimpleUsernamePart r \<Longrightarrow> char_of r \<noteq> underscore"
    by (auto simp: isSimpleUsernamePart_def dest!: arg_cong [where f = "of_char :: char \<Rightarrow> nat"])
  with 2 show ?case
    by (auto simp: no_double_append simple_part_char)
qed simp

lemma no_double_trim: "no_double c s \<Longrightarrow> no_double c (trim c s)"
proof -
  assume nd: "no_double c s"
  obtain a where a: "s = a @ trim_left c s"
    unfolding trim_left_def by (metis takeWhile_dropWhile_id)
  obtain n where b: "trim_left c s = trim_right c (trim_left c s) @ replicate n c"
    using trim_right_split by blast
  from nd a b show ?thesis
    unfolding trim_def by (metis no_double_append)
qed

lemma normalizePart_shape:
  "no_double underscore (normalizePart u s) \<and>
   (normalizePart u s \<noteq> [] \<longrightarrow>
      hd (normalizePart u s) \<noteq> underscore \<and> last (normalizePart u s) \<noteq> underscore)"
proof (intro conjI impI)
  show "no_double underscore (normalizePart u s)"
    by (simp add: normalizePart_def no_double_trim normalize_loop_no_double)
  assume ne: "normalizePart u s \<noteq> []"
  then show "last (normalizePart u s) \<noteq> underscore"
    unfolding normalizePart_def trim_def by (rule trim_right_last)
  let ?t = "trim_left underscore (normalize_loop [] False (runes (to_lower u s)))"
  from ne obtain x xs where t: "?t = x # xs"
    unfolding normalizePart_def trim_def trim_right_def by (cases ?t) auto
  then have "x \<noteq> underscore" by (rule trim_left_head)
  with t trim_right_Cons [of x underscore xs] show "hd (normalizePart u s) \<noteq> underscore"
    unfolding normalizePart_def trim_def by auto
qed

section \<open>Shape and length of the name\<close>

lemma username_base_shape: "\<exists>t. username_base u ns n = ''k8s'' @ t \<and> name_string t"
proof -
  have k: "usernamePrefix = ''k8s''" by (simp add: usernamePrefix_def)
  have "name_string ''_credential''" "name_char underscore"
    by (simp_all add: name_char_def)
  with normalizePart_chars [of u ns] normalizePart_chars [of u n] show ?thesis
    by (auto simp: username_base_def Let_def k)
qed

lemma length_stableHash: "length (stableHash vs) = 64"
  by (simp add: stableHash_def length_hex_encode length_sha256)

lemma stableHash_chars: "name_string (stableHash vs)"
  by (auto simp: stableHash_def list_all_iff intro: name_char_hex hex_encode_chars)

definition username_hash :: "string \<Rightarrow> string \<Rightarrow> PolicyUserTarget \<Rightarrow> string" where
  "username_hash ns n t =
    take usernameHashChars (stableHash [ns, n, put_provider_name t, put_surreal_namespace t,
      put_database t, put_level t])"

lemma length_username_hash: "length (username_hash ns n t) = 8"
  by (simp add: username_hash_def length_stableHash usernameHashChars_def)

lemma username_hash_chars: "name_string (username_hash ns n t)"
  using stableHash_chars unfolding username_hash_def
  by (metis append_take_drop_id list_all_append)

lemma Username_eq:
  "Username u ns n t = username_cut (username_base u ns n) (''_'' @ username_hash ns n t)
     @ ''_'' @ username_hash ns n t"
  by (simp add: Username_def username_hash_def Let_def)

lemma username_cut_shape:
  assumes "length suffix = 9" and "base = ''k8s'' @ t" and "name_string t"
  shows "\<exists>t'. username_cut base suffix = ''k8s'' @ t' \<and> name_string t' \<and>
    length (username_cut base suffix) \<le> 54 \<and>
    (length base \<le> 54 \<longrightarrow> username_cut base suffix = base)"
proof (cases "54 < length base")
  case False
  with assms show ?thesis by (simp add: username_cut_def usernameMaxLength_def Let_def)
next
  case True
  have tk: "take 54 base = ''k8s'' @ take 51 t" using assms(2) by simp
  then obtain t' where t': "trim_right underscore (take 54 base) = ''k8s'' @ t'"
    using trim_right_append [of "''k8s''" underscore "take 51 t"] by auto
  have cut: "username_cut base suffix = ''k8s'' @ t'"
    using True assms(1) t' by (simp add: username_cut_def usernameMaxLength_def Let_def)
  moreover have "name_string (''k8s'' @ t')"
  proof -
    have "name_string base" using assms by (simp add: name_char_def)
    then have "name_string (take 54 base)" by (metis append_take_drop_id list_all_append)
    then show ?thesis unfolding t' [symmetric] by (rule name_string_trim_right)
  qed
  moreover have "length (username_cut base suffix) \<le> 54"
    using length_trim_right [of underscore "take 54 base"] unfolding cut t' [symmetric] by simp
  ultimately show ?thesis using True by simp
qed

lemma Username_shape:
  "\<exists>t'. Username u ns n t = ''k8s'' @ t' @ ''_'' @ username_hash ns n t \<and> name_string t' \<and>
     length t' \<le> 51"
proof -
  obtain b where b: "username_base u ns n = ''k8s'' @ b" "name_string b"
    using username_base_shape by blast
  have len: "length (''_'' @ username_hash ns n t) = 9" by (simp add: length_username_hash)
  from username_cut_shape [OF len b] obtain t'
    where c: "username_cut (username_base u ns n) (''_'' @ username_hash ns n t) = ''k8s'' @ t'"
      "name_string t'" "length (''k8s'' @ t') \<le> 54" by metis
  from c(3) have "length t' \<le> 51" by simp
  with c show ?thesis by (auto simp: Username_eq)
qed

lemma Username_suffix:
  assumes "Username u ns n t = Username u' ns' n' t'"
  shows "username_hash ns n t = username_hash ns' n' t'"
proof -
  obtain x where "Username u ns n t = ''k8s'' @ x @ ''_'' @ username_hash ns n t"
    using Username_shape by blast
  moreover obtain y where "Username u' ns' n' t' = ''k8s'' @ y @ ''_'' @ username_hash ns' n' t'"
    using Username_shape by blast
  ultimately have "(''k8s'' @ x @ ''_'') @ username_hash ns n t = (''k8s'' @ y @ ''_'') @ username_hash ns' n' t'"
    using assms by simp
  then show ?thesis
    by (rule append_eq_append_conv [THEN iffD1, THEN conjunct2, rotated])
      (simp add: length_username_hash)
qed

section \<open>The hashed identity\<close>

text \<open>Terminating every value by a zero byte makes the hash input unambiguous.\<close>

lemma split_at_separator:
  assumes "a @ c # b = a' @ c # b'" and "c \<notin> set a" and "c \<notin> set a'"
  shows "a = a' \<and> b = b'"
  using assms by (induction a arbitrary: a') (case_tac a'; auto)+

lemma hash_input_inj:
  assumes "hash_input vs = hash_input ws"
    and "\<forall>v \<in> set vs. CHR 0x00 \<notin> set v" and "\<forall>w \<in> set ws. CHR 0x00 \<notin> set w"
  shows "vs = ws"
  using assms
proof (induction vs arbitrary: ws)
  case Nil
  then show ?case by (cases ws) simp_all
next
  case (Cons v vs)
  then obtain w ws' where ws: "ws = w # ws'" by (cases ws) auto
  with Cons.prems split_at_separator [of v "CHR 0x00" "hash_input vs" w "hash_input ws'"]
  have "v = w" "hash_input vs = hash_input ws'" by simp_all
  with Cons ws show ?case by simp
qed

end
