(* ===== verification/Secrets.thy ===== *)
theory Secrets
  imports ApiTypes
begin

text \<open>
  \<^verbatim>\<open>internal/secrets\<close>: random passwords (\<^verbatim>\<open>password.go\<close>) and the generated target Secret, its
  ownership test and the password it holds (\<^verbatim>\<open>target_secret.go\<close>).
\<close>

section \<open>Passwords\<close>

definition DefaultPasswordLength :: int where "DefaultPasswordLength = 48"

definition passwordAlphabet :: string where
  "passwordAlphabet = ''ABCDEFGHIJKLMNOPQRSTUVWXYZabcdefghijklmnopqrstuvwxyz0123456789_-''"

text \<open>
  \<open>rand max\<close> stands for \<^verbatim>\<open>rand.Int(rand.Reader, max)\<close>: a random number below \<open>max\<close>, or an error
  of the random source.
\<close>

type_synonym 's random = "nat \<Rightarrow> ('s, nat result) state"

text \<open>The loop of \<^verbatim>\<open>GeneratePassword\<close>: \<open>n\<close> characters still to draw, those drawn so far.\<close>

fun password_loop :: "'s random \<Rightarrow> nat \<Rightarrow> string \<Rightarrow> ('s, string result) state" where
  "password_loop rand 0 out = State_Monad.return (Inr out)"
| "password_loop rand (Suc n) out =
    State_Monad.bind (rand (length passwordAlphabet)) (\<lambda>r.
      case r of
        Inl err \<Rightarrow> State_Monad.return (Inl (wrapf ''read random byte: '' err))
      | Inr i \<Rightarrow> password_loop rand n (out @ [passwordAlphabet ! i]))"

definition GeneratePassword :: "'s random \<Rightarrow> int \<Rightarrow> ('s, string result) state" where
  "GeneratePassword rand len =
    (if len \<le> 0 then State_Monad.return (Inl (errorf ''password length must be positive''))
     else password_loop rand (nat len) [])"

text \<open>The documented range of \<^verbatim>\<open>rand.Int\<close>.\<close>

definition rand_in_range :: "'s random \<Rightarrow> bool" where
  "rand_in_range rand \<longleftrightarrow> (\<forall>m s i. fst (run_state (rand m) s) = Inr i \<longrightarrow> i < m)"

definition password_char :: "char \<Rightarrow> bool" where
  "password_char c \<longleftrightarrow> c \<in> set passwordAlphabet"

lemma password_alphabet_distinct: "distinct passwordAlphabet" "length passwordAlphabet = 64"
  by (simp_all add: passwordAlphabet_def)

lemma password_loop_result:
  assumes "rand_in_range rand" and "list_all password_char out"
  shows "wp (password_loop rand n out)
    (\<lambda>r _. \<forall>p. r = Inr p \<longrightarrow> length p = length out + n \<and> list_all password_char p) s"
  using assms(2)
proof (induction n arbitrary: out s)
  case 0
  then show ?case by simp
next
  case (Suc n out s)
  show ?case
  proof (cases "run_state (rand (length passwordAlphabet)) s")
    case (Pair r s')
    show ?thesis
    proof (cases r)
      case (Inl e)
      with Pair show ?thesis by (simp add: wp_def)
    next
      case (Inr i)
      with assms(1) Pair have "i < length passwordAlphabet"
        unfolding rand_in_range_def by (metis fst_conv)
      then have "list_all password_char (out @ [passwordAlphabet ! i])"
        using Suc.prems by (simp add: password_char_def [of "passwordAlphabet ! i"])
      from Suc.IH [OF this, of s'] Pair Inr show ?thesis
        by (simp add: wp_def split: prod.splits)
    qed
  qed
qed

lemma GeneratePassword_result:
  assumes "rand_in_range rand" and "0 < n"
  shows "wp (GeneratePassword rand n)
    (\<lambda>r _. \<forall>p. r = Inr p \<longrightarrow> int (length p) = n \<and> list_all password_char p) s"
  using password_loop_result [OF assms(1), of "[]" "nat n" s] assms(2)
  by (simp add: GeneratePassword_def) (erule wp_mono, auto)

lemma password_char_plain: "password_char c \<Longrightarrow> plain_char c"
  unfolding password_char_def passwordAlphabet_def plain_char_def by auto

section \<open>Target Secrets\<close>

definition LabelName :: string where "LabelName = ''app.kubernetes.io/name''"
definition LabelManagedBy :: string where "LabelManagedBy = ''app.kubernetes.io/managed-by''"
definition LabelCredential :: string where "LabelCredential = ''surrealdb.seamlezz.com/credential''"
definition ManagedByValue :: string where "ManagedByValue = ''surrealdb-credential-operator''"

record ConnectionData =
  cd_url :: string
  cd_namespace :: string
  cd_database :: string
  cd_username :: string
  cd_password :: string
  cd_level :: string

definition TargetSecretName :: "SurrealDBCredential \<Rightarrow> string" where
  "TargetSecretName credential = ts_name (cs_target_secret (cred_spec credential))"

text \<open>The fields of the object meta data that a Go composite literal leaves at their zero value.\<close>

definition zero_meta :: ObjectMeta where
  "zero_meta = \<lparr>om_name = [], om_namespace = [], om_uid = [], om_resource_version = [],
     om_generation = 0, om_deletion_timestamp = None, om_finalizers = [], om_labels = None,
     om_annotations = None, om_owner_references = []\<rparr>"

definition BuildTargetSecret :: "SurrealDBCredential \<Rightarrow> ConnectionData \<Rightarrow> Secret" where
  "BuildTargetSecret credential data =
    \<lparr>sec_meta = zero_meta
       \<lparr>om_name := ts_name (cs_target_secret (cred_spec credential)),
        om_namespace := om_namespace (cred_meta credential),
        om_labels := Some [LabelName \<mapsto> ManagedByValue,
                           LabelManagedBy \<mapsto> ManagedByValue,
                           LabelCredential \<mapsto> om_name (cred_meta credential)],
        om_owner_references :=
          [\<lparr>or_api_version = GroupVersion,
            or_kind = ''SurrealDBCredential'',
            or_name = om_name (cred_meta credential),
            or_uid = om_uid (cred_meta credential),
            or_controller = Some True,
            or_block_owner_deletion = Some True\<rparr>]\<rparr>,
     sec_type = ''Opaque'',
     sec_data = Some [''url'' \<mapsto> cd_url data,
                      ''namespace'' \<mapsto> cd_namespace data,
                      ''database'' \<mapsto> cd_database data,
                      ''username'' \<mapsto> cd_username data,
                      ''password'' \<mapsto> cd_password data,
                      ''level'' \<mapsto> cd_level data,
                      ''SURREAL_URL'' \<mapsto> cd_url data,
                      ''SURREAL_NS'' \<mapsto> cd_namespace data,
                      ''SURREAL_DB'' \<mapsto> cd_database data,
                      ''SURREAL_USER'' \<mapsto> cd_username data,
                      ''SURREAL_PASS'' \<mapsto> cd_password data]\<rparr>"

text \<open>The loop over the owner references.\<close>

fun owned_loop :: "OwnerReference list \<Rightarrow> SurrealDBCredential \<Rightarrow> bool" where
  "owned_loop [] credential = False"
| "owned_loop (owner # owners) credential =
    (if or_api_version owner = GroupVersion \<and> or_kind owner = ''SurrealDBCredential'' \<and>
        or_name owner = om_name (cred_meta credential) \<and> or_uid owner = om_uid (cred_meta credential)
     then True else owned_loop owners credential)"

definition IsOwnedByCredential :: "Secret \<Rightarrow> SurrealDBCredential \<Rightarrow> bool" where
  "IsOwnedByCredential secret credential = owned_loop (om_owner_references (sec_meta secret)) credential"

definition EnsureCanManage :: "Secret option \<Rightarrow> SurrealDBCredential \<Rightarrow> go_error option" where
  "EnsureCanManage secret credential =
    (case secret of
       None \<Rightarrow> None
     | Some secret \<Rightarrow>
       if IsOwnedByCredential secret credential then None
       else Some (errorf
         (''target Secret '' @ om_namespace (sec_meta secret) @ ''/'' @ om_name (sec_meta secret) @
          '' already exists and is not owned by SurrealDBCredential '' @
          om_namespace (cred_meta credential) @ ''/'' @ om_name (cred_meta credential))))"

definition ExistingPassword :: "Secret option \<Rightarrow> string \<times> bool" where
  "ExistingPassword secret =
    (case secret of
       None \<Rightarrow> ([], False)
     | Some secret \<Rightarrow>
       if sec_data secret = None then ([], False)
       else (case map_index (sec_data secret) ''password'' of
           None \<Rightarrow> ([], False)
         | Some password \<Rightarrow> if length password = 0 then ([], False) else (password, True)))"

section \<open>Facts\<close>

lemma owned_loop_iff:
  "owned_loop owners c \<longleftrightarrow>
    (\<exists>owner \<in> set owners. or_api_version owner = GroupVersion \<and> or_kind owner = ''SurrealDBCredential'' \<and>
      or_name owner = om_name (cred_meta c) \<and> or_uid owner = om_uid (cred_meta c))"
  by (induction owners) auto

lemma EnsureCanManage_None_iff:
  "EnsureCanManage secret c = None \<longleftrightarrow> (\<forall>s. secret = Some s \<longrightarrow> IsOwnedByCredential s c)"
  by (simp add: EnsureCanManage_def split: option.splits)

lemma BuildTargetSecret_owned: "IsOwnedByCredential (BuildTargetSecret c d) c"
  by (simp add: IsOwnedByCredential_def BuildTargetSecret_def)

lemma BuildTargetSecret_key: "object_key (sec_meta (BuildTargetSecret c d)) =
    NamespacedName (om_namespace (cred_meta c)) (TargetSecretName c)"
  by (simp add: BuildTargetSecret_def object_key_def TargetSecretName_def)

lemma ExistingPassword_Build:
  "ExistingPassword (Some (BuildTargetSecret c d)) =
    (if cd_password d = [] then ([], False) else (cd_password d, True))"
  by (simp add: ExistingPassword_def BuildTargetSecret_def)

lemma ExistingPassword_snd: "snd (ExistingPassword s) \<longleftrightarrow> fst (ExistingPassword s) \<noteq> []"
  by (auto simp: ExistingPassword_def split: option.splits)

section \<open>The properties\<close>

text \<open>
  C35. The Secret built for a credential is read back as it was meant: at the target key, with its
  password found, manageable by that credential and, of all credentials, only by one with the same
  name and identity.
\<close>

theorem target_secret_round_trip:
  assumes "cd_password d \<noteq> []"
  shows "ExistingPassword (Some (BuildTargetSecret c d)) = (cd_password d, True) \<and>
    object_key (sec_meta (BuildTargetSecret c d)) =
      NamespacedName (om_namespace (cred_meta c)) (ts_name (cs_target_secret (cred_spec c))) \<and>
    (EnsureCanManage (Some (BuildTargetSecret c d)) c' = None \<longleftrightarrow>
      om_name (cred_meta c') = om_name (cred_meta c) \<and> om_uid (cred_meta c') = om_uid (cred_meta c))"
proof (intro conjI)
  show "EnsureCanManage (Some (BuildTargetSecret c d)) c' = None \<longleftrightarrow>
      om_name (cred_meta c') = om_name (cred_meta c) \<and> om_uid (cred_meta c') = om_uid (cred_meta c)"
    by (auto simp: EnsureCanManage_None_iff IsOwnedByCredential_def BuildTargetSecret_def)
qed (use assms in \<open>simp_all add: ExistingPassword_Build BuildTargetSecret_key TargetSecretName_def\<close>)

theorem target_secret_round_trip_witness:
  "\<forall>c. ExistingPassword (Some (BuildTargetSecret c
     \<lparr>cd_url = ''u'', cd_namespace = ''n'', cd_database = ''d'', cd_username = ''k8s'', cd_password = ''p'',
      cd_level = ''database''\<rparr>)) = (''p'', True)"
  using target_secret_round_trip [of "\<lparr>cd_url = ''u'', cd_namespace = ''n'', cd_database = ''d'',
      cd_username = ''k8s'', cd_password = ''p'', cd_level = ''database''\<rparr>"] by simp

end
