(* ===== verification/Queries.thy ===== *)
theory Queries
  imports Identifiers Username Secrets
begin

text \<open>
  \<^verbatim>\<open>internal/surreal/queries.go\<close>: the SurrealQL text that defines or removes a system user.
\<close>

section \<open>The code\<close>

text \<open>\<^verbatim>\<open>surreal.UserTarget\<close>\<close>

record UserTarget =
  ut_level :: UserLevel
  ut_namespace :: string
  ut_database :: string

abbreviation (input) newline :: char where "newline \<equiv> CHR 0x0A"

definition usePrefix :: "ucd \<Rightarrow> UserTarget \<Rightarrow> string result" where
  "usePrefix u target =
    (case EscapeIdent u (ut_namespace target) of
       Inl err \<Rightarrow> Inl (wrapf ''escape namespace: '' err)
     | Inr ns \<Rightarrow>
       if ut_level target = UserLevelNamespace then Inr (''USE NS '' @ ns @ '';'')
       else if ut_level target = UserLevelDatabase then
         if ut_database target = [] then
           Inl (errorf ''database is required for database-level user'')
         else (case EscapeIdent u (ut_database target) of
             Inl err \<Rightarrow> Inl (wrapf ''escape database: '' err)
           | Inr db \<Rightarrow> Inr (''USE NS '' @ ns @ '' DB '' @ db @ '';''))
       else Inl (errorf (''unsupported user level '' @ quote u (ut_level target))))"

text \<open>The loop of \<^verbatim>\<open>renderRoles\<close>, over the roles left, with the output and the set seen so far.\<close>

fun render_loop ::
  "ucd \<Rightarrow> string list \<Rightarrow> (SurrealRole \<rightharpoonup> unit) \<Rightarrow> SurrealRole list \<Rightarrow> string list result" where
  "render_loop u out seen [] = Inr out"
| "render_loop u out seen (role # roles) =
    (if seen role \<noteq> None then render_loop u out seen roles
     else if role = RoleViewer \<or> role = RoleEditor \<or> role = RoleOwner then
       render_loop u (out @ [role]) (seen(role \<mapsto> ())) roles
     else Inl (errorf (''unsupported role '' @ quote u role)))"

definition renderRoles :: "ucd \<Rightarrow> SurrealRole list \<Rightarrow> string result" where
  "renderRoles u roles =
    (if roles = [] then Inl (errorf ''at least one role is required'')
     else case render_loop u [] Map.empty roles of
       Inl err \<Rightarrow> Inl err
     | Inr out \<Rightarrow> Inr (join '', '' out))"

definition DefineUserQuery ::
  "ucd \<Rightarrow> UserTarget \<Rightarrow> string \<Rightarrow> string \<Rightarrow> SurrealRole list \<Rightarrow> string result" where
  "DefineUserQuery u target username password roles =
    (case usePrefix u target of
       Inl err \<Rightarrow> Inl err
     | Inr prefix \<Rightarrow>
     (case EscapeIdent u username of
       Inl err \<Rightarrow> Inl (wrapf ''escape username: '' err)
     | Inr userIdent \<Rightarrow>
     (case renderRoles u roles of
       Inl err \<Rightarrow> Inl err
     | Inr roleList \<Rightarrow>
       (let on = (if ut_level target = UserLevelNamespace then ''NAMESPACE'' else ''DATABASE'') in
        Inr (prefix @ newline # ''DEFINE USER OVERWRITE '' @ userIdent @ '' ON '' @ on @
             '' PASSWORD '' @ quote u password @ '' ROLES '' @ roleList @ '';'')))))"

definition RemoveUserQuery :: "ucd \<Rightarrow> UserTarget \<Rightarrow> string \<Rightarrow> string result" where
  "RemoveUserQuery u target username =
    (case usePrefix u target of
       Inl err \<Rightarrow> Inl err
     | Inr prefix \<Rightarrow>
     (case EscapeIdent u username of
       Inl err \<Rightarrow> Inl (wrapf ''escape username: '' err)
     | Inr userIdent \<Rightarrow>
       (let on = (if ut_level target = UserLevelNamespace then ''NAMESPACE'' else ''DATABASE'') in
        Inr (prefix @ newline # ''REMOVE USER IF EXISTS '' @ userIdent @ '' ON '' @ on @ '';''))))"

section \<open>Roles\<close>

text \<open>The rendered list keeps the first occurrence of every role, in order.\<close>

definition first_occurrences :: "'a list \<Rightarrow> 'a list" where
  "first_occurrences xs = rev (remdups (rev xs))"

lemma first_occurrences_snoc:
  "first_occurrences (xs @ [x]) = (if x \<in> set xs then first_occurrences xs else first_occurrences xs @ [x])"
  by (simp add: first_occurrences_def)

lemma render_loop_ok:
  assumes "\<forall>r \<in> set roles. role_enum r" and "dom seen = set done_roles"
    and "out = first_occurrences done_roles"
  shows "render_loop u out seen roles = Inr (first_occurrences (done_roles @ roles))"
  using assms
proof (induction roles arbitrary: out seen done_roles)
  case Nil
  then show ?case by simp
next
  case (Cons r rs)
  show ?case
  proof (cases "r \<in> set done_roles")
    case True
    with Cons.prems have "seen r \<noteq> None" by auto
    moreover have "render_loop u out seen rs = Inr (first_occurrences ((done_roles @ [r]) @ rs))"
      using Cons.prems True by (intro Cons.IH) (auto simp: first_occurrences_snoc)
    ultimately show ?thesis by simp
  next
    case False
    with Cons.prems have "seen r = None" by auto
    moreover have "render_loop u (out @ [r]) (seen(r \<mapsto> ())) rs
        = Inr (first_occurrences ((done_roles @ [r]) @ rs))"
      using Cons.prems False by (intro Cons.IH) (auto simp: first_occurrences_snoc)
    ultimately show ?thesis using Cons.prems by (auto simp: role_enum_def)
  qed
qed

lemma render_loop_bad:
  assumes "\<exists>r \<in> set roles. \<not> role_enum r" and "\<forall>r \<in> dom seen. role_enum r"
  shows "\<exists>r \<in> set roles. \<not> role_enum r \<and>
    render_loop u out seen roles = Inl (errorf (''unsupported role '' @ quote u r))"
  using assms
proof (induction roles arbitrary: out seen)
  case (Cons r rs)
  show ?case
  proof (cases "role_enum r")
    case True
    with Cons.prems have ex: "\<exists>r \<in> set rs. \<not> role_enum r" by auto
    have step: "render_loop u out seen (r # rs) =
        (if seen r \<noteq> None then render_loop u out seen rs
         else render_loop u (out @ [r]) (seen(r \<mapsto> ())) rs)"
      using True by (auto simp: role_enum_def)
    have dom': "\<forall>x \<in> dom (seen(r \<mapsto> ())). role_enum x" using Cons.prems(2) True by auto
    show ?thesis
    proof (cases "seen r = None")
      case True
      obtain q where "q \<in> set rs" "\<not> role_enum q"
        "render_loop u (out @ [r]) (seen(r \<mapsto> ())) rs = Inl (errorf (''unsupported role '' @ quote u q))"
        using Cons.IH [OF ex dom', of "out @ [r]"] by blast
      with True step show ?thesis by (intro bexI [of _ q]) simp_all
    next
      case False
      obtain q where "q \<in> set rs" "\<not> role_enum q"
        "render_loop u out seen rs = Inl (errorf (''unsupported role '' @ quote u q))"
        using Cons.IH [OF ex Cons.prems(2), of out] by blast
      with False step show ?thesis by (intro bexI [of _ q]) simp_all
    qed
  next
    case False
    with Cons.prems have "seen r = None" by auto
    with False show ?thesis by (auto simp: role_enum_def)
  qed
qed simp

lemma renderRoles_eq:
  "renderRoles u roles =
    (if roles = [] then Inl (errorf ''at least one role is required'')
     else if (\<forall>r \<in> set roles. role_enum r) then Inr (join '', '' (first_occurrences roles))
     else renderRoles u roles)"
  using render_loop_ok [of roles Map.empty "[]" "[]" u]
  by (auto simp: renderRoles_def first_occurrences_def)

lemma renderRoles_ok_iff:
  "(\<exists>s. renderRoles u roles = Inr s) \<longleftrightarrow> roles \<noteq> [] \<and> (\<forall>r \<in> set roles. role_enum r)"
proof (cases "\<forall>r \<in> set roles. role_enum r")
  case True
  then show ?thesis using renderRoles_eq [of u roles] by auto
next
  case False
  then obtain r where "render_loop u [] Map.empty roles = Inl (errorf (''unsupported role '' @ quote u r))"
    using render_loop_bad [of roles Map.empty u "[]"] by auto
  with False show ?thesis by (auto simp: renderRoles_def)
qed

lemma renderRoles_Inr:
  assumes "renderRoles u roles = Inr s"
  shows "roles \<noteq> [] \<and> (\<forall>r \<in> set roles. role_enum r) \<and> s = join '', '' (first_occurrences roles)"
  using renderRoles_ok_iff [of u roles] renderRoles_eq [of u roles] assms by auto

lemma role_enum_bare: "role_enum r \<Longrightarrow> list_all bare_char r"
  by (auto simp: role_enum_def role_defs bare_char_def is_delimiter_def)

lemma join_bare: "list_all bare_char sep \<Longrightarrow> \<forall>x \<in> set xs. list_all bare_char x \<Longrightarrow> list_all bare_char (join sep xs)"
  by (induction sep xs rule: join.induct) auto

lemma renderRoles_neutral:
  assumes "renderRoles u roles = Inr s"
  shows "neutral s"
proof -
  have sep: "list_all bare_char '', ''" by (simp add: bare_char_def is_delimiter_def)
  have "\<forall>x \<in> set (first_occurrences roles). list_all bare_char x"
    using renderRoles_Inr [OF assms] by (auto simp: first_occurrences_def intro: role_enum_bare)
  from join_bare [OF sep this] renderRoles_Inr [OF assms] show ?thesis
    by (simp add: neutral_bare)
qed

section \<open>Statements\<close>

text \<open>Names that SurrealQL can take over without a backslash.\<close>

definition clean_target :: "UserTarget \<Rightarrow> bool" where
  "clean_target t \<longleftrightarrow> backslash \<notin> set (ut_namespace t) \<and> backslash \<notin> set (ut_database t)"

lemma neutral_chars: "list_all bare_char t \<Longrightarrow> neutral s \<Longrightarrow> neutral (t @ s)"
  by (simp add: neutral_append neutral_bare)

lemma split_statement:
  "neutral t \<Longrightarrow> split_from Plain [] (t @ '';'' @ rest) = apfst (Cons t) (split_from Plain [] rest)"
  by (simp add: neutralD)

lemma usePrefix_statement:
  assumes "usePrefix u t = Inr p" and "clean_target t"
  shows "\<exists>q. p = q @ '';'' \<and> neutral q"
proof -
  from assms(1) obtain ns where ns: "EscapeIdent u (ut_namespace t) = Inr ns"
    by (auto simp: usePrefix_def split: sum.splits)
  have n1: "neutral (''USE NS '' @ ns)"
    using EscapeIdent_neutral [OF ns] assms(2)
    by (intro neutral_chars) (simp_all add: clean_target_def bare_char_def is_delimiter_def)
  show ?thesis
  proof (cases "ut_level t = UserLevelNamespace")
    case True
    with assms(1) ns n1 show ?thesis
      by (intro exI [of _ "''USE NS '' @ ns"]) (simp add: usePrefix_def)
  next
    case False
    with assms(1) ns obtain db where db: "EscapeIdent u (ut_database t) = Inr db"
      and p: "p = (''USE NS '' @ ns) @ ('' DB '' @ db) @ '';''"
      by (auto simp: usePrefix_def split: sum.splits if_splits)
    have "neutral ('' DB '' @ db)"
      using EscapeIdent_neutral [OF db] assms(2)
      by (intro neutral_chars) (simp_all add: clean_target_def bare_char_def is_delimiter_def)
    with n1 have "neutral ((''USE NS '' @ ns) @ ('' DB '' @ db))" by (rule neutral_append)
    with p show ?thesis by (intro exI [of _ "(''USE NS '' @ ns) @ ('' DB '' @ db)"]) simp
  qed
qed

definition on_clause :: "UserTarget \<Rightarrow> string" where
  "on_clause t = (if ut_level t = UserLevelNamespace then ''NAMESPACE'' else ''DATABASE'')"

lemma DefineUserQuery_Inr:
  assumes "DefineUserQuery u t n pw roles = Inr q"
  obtains p i rl where "usePrefix u t = Inr p" and "EscapeIdent u n = Inr i"
    and "renderRoles u roles = Inr rl"
    and "q = p @ newline # ''DEFINE USER OVERWRITE '' @ i @ '' ON '' @ on_clause t @
             '' PASSWORD '' @ quote u pw @ '' ROLES '' @ rl @ '';''"
  using assms by (auto simp: DefineUserQuery_def on_clause_def Let_def split: sum.splits)

lemma RemoveUserQuery_Inr:
  assumes "RemoveUserQuery u t n = Inr q"
  obtains p i where "usePrefix u t = Inr p" and "EscapeIdent u n = Inr i"
    and "q = p @ newline # ''REMOVE USER IF EXISTS '' @ i @ '' ON '' @ on_clause t @ '';''"
  using assms by (auto simp: RemoveUserQuery_def on_clause_def Let_def split: sum.splits)

lemma on_clause_bare: "list_all bare_char (on_clause t)"
  by (simp add: on_clause_def bare_char_def is_delimiter_def)

lemma two_statements:
  assumes "neutral a" and "neutral b"
  shows "split_statements (a @ '';'' @ b @ '';'') = ([a, b], [], Plain)"
  using split_statement [OF assms(1), of "b @ '';''"] split_statement [OF assms(2), of "[]"]
  by (simp add: split_statements_def)

lemma DefineUserQuery_statements:
  assumes "DefineUserQuery u t n pw roles = Inr q"
    and "clean_target t" and "backslash \<notin> set n"
  shows "\<exists>use i rl. split_statements q =
      ([use, newline # ''DEFINE USER OVERWRITE '' @ i @ '' ON '' @ on_clause t @
             '' PASSWORD '' @ quote u pw @ '' ROLES '' @ rl], [], Plain) \<and>
      usePrefix u t = Inr (use @ '';'') \<and> EscapeIdent u n = Inr i \<and> renderRoles u roles = Inr rl"
proof -
  obtain p i rl where *: "usePrefix u t = Inr p" "EscapeIdent u n = Inr i" "renderRoles u roles = Inr rl"
    "q = p @ newline # ''DEFINE USER OVERWRITE '' @ i @ '' ON '' @ on_clause t @
             '' PASSWORD '' @ quote u pw @ '' ROLES '' @ rl @ '';''"
    using DefineUserQuery_Inr [OF assms(1)] by metis
  obtain use where use: "p = use @ '';''" "neutral use"
    using usePrefix_statement [OF *(1) assms(2)] by blast
  define body where "body = newline # ''DEFINE USER OVERWRITE '' @ i @ '' ON '' @ on_clause t @
             '' PASSWORD '' @ quote u pw @ '' ROLES '' @ rl"
  have "neutral ((newline # ''DEFINE USER OVERWRITE '') @ i @ '' ON '' @ on_clause t @
             '' PASSWORD '' @ quote u pw @ '' ROLES '' @ rl)"
    using EscapeIdent_neutral [OF *(2) assms(3)] renderRoles_neutral [OF *(3)]
      string_literal.encode_neutral [of u pw, OF TrueI] neutral_bare [OF on_clause_bare [of t]]
    by (intro neutral_append) (simp_all add: neutral_bare bare_char_def is_delimiter_def)
  then have "neutral body" by (simp add: body_def)
  from two_statements [OF use(2) this] have "split_statements q = ([use, body], [], Plain)"
    by (simp add: *(4) use(1) body_def)
  with * use show ?thesis unfolding body_def by blast
qed

lemma RemoveUserQuery_statements:
  assumes "RemoveUserQuery u t n = Inr q" and "clean_target t" and "backslash \<notin> set n"
  shows "\<exists>use i. split_statements q =
      ([use, newline # ''REMOVE USER IF EXISTS '' @ i @ '' ON '' @ on_clause t], [], Plain) \<and>
      usePrefix u t = Inr (use @ '';'') \<and> EscapeIdent u n = Inr i"
proof -
  obtain p i where *: "usePrefix u t = Inr p" "EscapeIdent u n = Inr i"
    "q = p @ newline # ''REMOVE USER IF EXISTS '' @ i @ '' ON '' @ on_clause t @ '';''"
    using RemoveUserQuery_Inr [OF assms(1)] by metis
  obtain use where use: "p = use @ '';''" "neutral use"
    using usePrefix_statement [OF *(1) assms(2)] by blast
  define body where "body = newline # ''REMOVE USER IF EXISTS '' @ i @ '' ON '' @ on_clause t"
  have "neutral ((newline # ''REMOVE USER IF EXISTS '') @ i @ '' ON '' @ on_clause t)"
    using EscapeIdent_neutral [OF *(2) assms(3)] neutral_bare [OF on_clause_bare [of t]]
    by (intro neutral_append) (simp_all add: neutral_bare bare_char_def is_delimiter_def)
  then have "neutral body" by (simp add: body_def)
  from two_statements [OF use(2) this] have "split_statements q = ([use, body], [], Plain)"
    by (simp add: *(3) use(1) body_def)
  with * use show ?thesis unfolding body_def by blast
qed

section \<open>Generated names are bare identifiers\<close>

lemma name_char_ident: "name_char c \<Longrightarrow> ident_rest c \<and> byte c < 0x80 \<and> byte_lower c = c \<and>
    \<not> is_control (byte c) \<and> c \<noteq> backslash"
  by (auto simp: name_char_def ident_rest_def ident_start_def byte_lower_def is_control_def)

lemma name_string_lower: "name_string s \<Longrightarrow> to_lower u s = s"
proof -
  assume "name_string s"
  then have "\<forall>c \<in> set s. byte c < 0x80 \<and> byte_lower c = c"
    by (auto simp: list_all_iff dest: name_char_ident)
  then show ?thesis by (simp add: to_lower_ascii map_idI)
qed

lemma name_string_no_control: "name_string s \<Longrightarrow> \<not> has_control (runes s)"
proof -
  assume "name_string s"
  then have "\<forall>c \<in> set s. byte c < 0x80 \<and> \<not> is_control (byte c)"
    by (auto simp: list_all_iff dest: name_char_ident)
  then show ?thesis by (auto simp: has_control_iff runes_ascii)
qed

lemma EscapeIdent_simple:
  assumes "name_string s" and "simpleIdentPattern s" and "s \<notin> set reservedIdentifiers"
  shows "EscapeIdent u s = Inr s"
  using assms name_string_lower [OF assms(1)] name_string_no_control [OF assms(1)]
  by (auto simp: EscapeIdent_def)

lemma EscapeIdent_k8s_name:
  assumes "name_string s"
  shows "EscapeIdent u (''k8s'' @ s) = Inr (''k8s'' @ s)"
proof (rule EscapeIdent_simple)
  show "name_string (''k8s'' @ s)" using assms by (simp add: name_char_def)
  have "list_all ident_rest s"
    using assms by (rule list.pred_mono_strong) (simp add: name_char_ident)
  then show "simpleIdentPattern (''k8s'' @ s)"
    by (simp add: ident_start_def ident_rest_def)
  show "''k8s'' @ s \<notin> set reservedIdentifiers" by (simp add: reservedIdentifiers_def)
qed

lemma EscapeIdent_Username: "EscapeIdent u (Username v ns n t) = Inr (Username v ns n t)"
proof -
  obtain x where x: "Username v ns n t = ''k8s'' @ x @ ''_'' @ username_hash ns n t" "name_string x"
    using Username_shape by blast
  have "name_string (x @ ''_'' @ username_hash ns n t)"
    using x(2) username_hash_chars by simp
  from EscapeIdent_k8s_name [OF this] x(1) show ?thesis by simp
qed

lemma Username_no_backslash: "backslash \<notin> set (Username v ns n t)"
proof -
  obtain x where x: "Username v ns n t = ''k8s'' @ x @ ''_'' @ username_hash ns n t" "name_string x"
    using Username_shape by blast
  then have "name_string (Username v ns n t)"
    using username_hash_chars by (simp add: name_char_def)
  then show ?thesis by (auto simp: list_all_iff dest: name_char_ident)
qed

section \<open>When a query can be built\<close>

definition ident_ok :: "string \<Rightarrow> bool" where
  "ident_ok s \<longleftrightarrow> s \<noteq> [] \<and> list_all (\<lambda>r. \<not> is_control r) (runes s)"

lemma EscapeIdent_ident_ok: "(\<exists>s. EscapeIdent u input = Inr s) \<longleftrightarrow> ident_ok input"
  by (simp add: EscapeIdent_ok_iff ident_ok_def list_all_iff)

definition target_ok :: "UserTarget \<Rightarrow> bool" where
  "target_ok t \<longleftrightarrow> ident_ok (ut_namespace t) \<and>
    (ut_level t = UserLevelNamespace \<or> (ut_level t = UserLevelDatabase \<and> ident_ok (ut_database t)))"

lemma usePrefix_ok: "(\<exists>p. usePrefix u t = Inr p) \<longleftrightarrow> target_ok t"
  using EscapeIdent_ident_ok [of u "ut_namespace t"] EscapeIdent_ident_ok [of u "ut_database t"]
  by (auto simp: usePrefix_def target_ok_def ident_ok_def split: sum.splits)

lemma DefineUserQuery_ok:
  "(\<exists>q. DefineUserQuery u t n pw roles = Inr q) \<longleftrightarrow>
    (\<exists>p. usePrefix u t = Inr p) \<and> (\<exists>i. EscapeIdent u n = Inr i) \<and> (\<exists>rl. renderRoles u roles = Inr rl)"
  by (auto simp: DefineUserQuery_def Let_def split: sum.splits)

lemma RemoveUserQuery_ok:
  "(\<exists>q. RemoveUserQuery u t n = Inr q) \<longleftrightarrow>
    (\<exists>p. usePrefix u t = Inr p) \<and> (\<exists>i. EscapeIdent u n = Inr i)"
  by (auto simp: RemoveUserQuery_def Let_def split: sum.splits)

lemma first_occurrences_props:
  "distinct (first_occurrences xs)" "set (first_occurrences xs) = set xs"
  "first_occurrences (first_occurrences xs) = first_occurrences xs"
  by (simp_all add: first_occurrences_def distinct_remdups_id)

lemma role_count:
  assumes "distinct rs" and "\<forall>r \<in> set rs. role_enum r"
  shows "length rs \<le> 3"
proof -
  have "set rs \<subseteq> set [RoleViewer, RoleEditor, RoleOwner]" using assms(2) by (auto simp: role_enum_def)
  then have "card (set rs) \<le> length [RoleViewer, RoleEditor, RoleOwner]"
    by (meson List.finite_set card_length card_mono le_trans)
  with assms(1) show ?thesis by (simp add: distinct_card)
qed

section \<open>The properties\<close>

text \<open>
  C28. A generated user name always fits: it begins with k8s and ends with the eight characters of
  its hash, consists of lower-case letters, digits and underscores, has at most 63 characters, keeps
  its whole readable part when that has at most 54, and is its own SurrealQL identifier.
\<close>

theorem generated_username_fits:
  "(\<exists>m. Username u ns n t = ''k8s'' @ m @ ''_'' @ username_hash ns n t) \<and>
   length (username_hash ns n t) = 8 \<and>
   list_all name_char (Username u ns n t) \<and> length (Username u ns n t) \<le> 63 \<and>
   (54 < length (username_base u ns n) \<or>
     Username u ns n t = username_base u ns n @ ''_'' @ username_hash ns n t) \<and>
   EscapeIdent v (Username u ns n t) = Inr (Username u ns n t)"
proof -
  obtain m where m: "Username u ns n t = ''k8s'' @ m @ ''_'' @ username_hash ns n t"
    "name_string m" "length m \<le> 51" using Username_shape by blast
  have "54 < length (username_base u ns n) \<or>
     Username u ns n t = username_base u ns n @ ''_'' @ username_hash ns n t"
    by (auto simp: Username_eq username_cut_def Let_def usernameMaxLength_def length_username_hash)
  moreover have "list_all name_char (Username u ns n t)"
    using m username_hash_chars by (simp add: name_char_def)
  moreover have "length (Username u ns n t) \<le> 63"
    using m(3) by (simp add: m(1) length_username_hash)
  ultimately show ?thesis
    using m(1) EscapeIdent_Username length_username_hash by blast
qed

text \<open>
  C30. For names without backslashes (C32 says what others do), a definition of a user that is built is
  exactly two statements, whatever the password holds and whichever roles are asked for: the one that
  selects the scope, and one DEFINE USER whose identifier is read back as the given name and whose
  password is one literal.
\<close>

theorem define_query_is_two_statements:
  assumes "DefineUserQuery u t n pw roles = Inr q" and "clean_target t" and "backslash \<notin> set n"
  shows "\<exists>use i rl. split_statements q =
      ([use, newline # ''DEFINE USER OVERWRITE '' @ i @ '' ON '' @ on_clause t @
             '' PASSWORD '' @ quote u pw @ '' ROLES '' @ rl], [], Plain) \<and>
      usePrefix u t = Inr (use @ '';'') \<and> read_ident i = Some n \<and> renderRoles u roles = Inr rl"
proof -
  from DefineUserQuery_statements [OF assms] obtain use i rl where "split_statements q =
      ([use, newline # ''DEFINE USER OVERWRITE '' @ i @ '' ON '' @ on_clause t @
             '' PASSWORD '' @ quote u pw @ '' ROLES '' @ rl], [], Plain)"
    "usePrefix u t = Inr (use @ '';'')" and i: "EscapeIdent u n = Inr i" and "renderRoles u roles = Inr rl"
    by blast
  with EscapeIdent_read [OF i assms(3)] show ?thesis by blast
qed

definition sample_user :: UserTarget where
  "sample_user = \<lparr>ut_level = UserLevelDatabase, ut_namespace = ''tenant'', ut_database = ''app''\<rparr>"

lemma printable_ident_ok: "s \<noteq> [] \<Longrightarrow> list_all (\<lambda>c. 0x20 \<le> byte c \<and> byte c < 0x7F) s \<Longrightarrow> ident_ok s"
  using printable_no_control [of s] by (simp add: ident_ok_def has_control_iff list_all_iff)

lemma sample_user_ok: "target_ok sample_user" "clean_target sample_user" "ident_ok ''k8s_app''"
  by (simp_all add: sample_user_def target_ok_def printable_ident_ok clean_target_def)

lemma sample_queries:
  "\<exists>q. DefineUserQuery sample_ucd sample_user ''k8s_app'' pw [RoleEditor] = Inr q"
  "\<exists>q. RemoveUserQuery sample_ucd sample_user ''k8s_app'' = Inr q"
  unfolding DefineUserQuery_ok RemoveUserQuery_ok usePrefix_ok EscapeIdent_ident_ok renderRoles_ok_iff
  using sample_user_ok by (simp_all add: role_enum_def)

lemma sample_prefix: "usePrefix u sample_user = Inr (''USE NS tenant DB app'' @ '';'')"
proof -
  have "EscapeIdent u ''tenant'' = Inr ''tenant''" "EscapeIdent u ''app'' = Inr ''app''"
    by (rule EscapeIdent_simple;
        simp add: name_char_def ident_start_def ident_rest_def reservedIdentifiers_def)+
  then show ?thesis by (simp add: usePrefix_def sample_user_def)
qed

lemma sample_on: "on_clause sample_user = ''DATABASE''"
  by (simp add: on_clause_def sample_user_def)

lemma sample_roles: "renderRoles u [RoleEditor] = Inr ''EDITOR''"
  by (simp add: renderRoles_def role_defs)

theorem define_query_is_two_statements_witness:
  "\<exists>q i. DefineUserQuery sample_ucd sample_user ''k8s_app'' ''; x'' [RoleEditor] = Inr q \<and>
    split_statements q = ([''USE NS tenant DB app'', newline # ''DEFINE USER OVERWRITE '' @ i @
      '' ON DATABASE PASSWORD '' @ quote sample_ucd ''; x'' @ '' ROLES EDITOR''], [], Plain) \<and>
    read_ident i = Some ''k8s_app''"
proof -
  obtain q where q: "DefineUserQuery sample_ucd sample_user ''k8s_app'' ''; x'' [RoleEditor] = Inr q"
    using sample_queries(1) by blast
  from define_query_is_two_statements [OF q sample_user_ok(2)] q show ?thesis
    by (auto simp: sample_prefix sample_on sample_roles)
qed

text \<open>
  C31. For names without backslashes, a removal that is built is exactly two statements as well: the one
  that selects the scope, which is also the first statement of every definition for the same target, and
  one REMOVE USER whose identifier is read back as the same name.
\<close>

theorem remove_query_matches_define:
  assumes "RemoveUserQuery u t n = Inr q" and "clean_target t" and "backslash \<notin> set n"
    and "DefineUserQuery u t n pw roles = Inr q'"
  shows "\<exists>use i. split_statements q =
      ([use, newline # ''REMOVE USER IF EXISTS '' @ i @ '' ON '' @ on_clause t], [], Plain) \<and>
      usePrefix u t = Inr (use @ '';'') \<and> hd (fst (split_statements q')) = use \<and> read_ident i = Some n"
proof -
  from RemoveUserQuery_statements [OF assms(1-3)] obtain use i where
    q: "split_statements q = ([use, newline # ''REMOVE USER IF EXISTS '' @ i @ '' ON '' @ on_clause t], [], Plain)"
    "usePrefix u t = Inr (use @ '';'')" and i: "EscapeIdent u n = Inr i" by blast
  from DefineUserQuery_statements [OF assms(4,2,3)] obtain use' rest where
    "split_statements q' = ([use', rest], [], Plain)" "usePrefix u t = Inr (use' @ '';'')" by blast
  with q EscapeIdent_read [OF i assms(3)] show ?thesis by auto
qed

theorem remove_query_matches_define_witness:
  "\<exists>q q' i. RemoveUserQuery sample_ucd sample_user ''k8s_app'' = Inr q \<and>
    DefineUserQuery sample_ucd sample_user ''k8s_app'' ''; x'' [RoleEditor] = Inr q' \<and>
    split_statements q = ([''USE NS tenant DB app'',
      newline # ''REMOVE USER IF EXISTS '' @ i @ '' ON DATABASE''], [], Plain) \<and>
    hd (fst (split_statements q')) = ''USE NS tenant DB app'' \<and> read_ident i = Some ''k8s_app''"
proof -
  obtain q' where q': "DefineUserQuery sample_ucd sample_user ''k8s_app'' ''; x'' [RoleEditor] = Inr q'"
    using sample_queries(1) by blast
  obtain q where q: "RemoveUserQuery sample_ucd sample_user ''k8s_app'' = Inr q"
    using sample_queries(2) by blast
  from remove_query_matches_define [OF q sample_user_ok(2) _ q'] q q' show ?thesis
    by (auto simp: sample_prefix sample_on)
qed

text \<open>
  The role list names every requested role once, in the order of first request, and rendering
  that list again changes nothing.
\<close>

lemma rendered_roles:
  assumes "renderRoles u roles = Inr s"
  shows "\<exists>rs. s = join '', '' rs \<and> distinct rs \<and> set rs = set roles \<and> rs \<noteq> [] \<and> length rs \<le> 3 \<and>
    renderRoles u rs = Inr s"
proof -
  have r: "roles \<noteq> []" "\<forall>r \<in> set roles. role_enum r" "s = join '', '' (first_occurrences roles)"
    using renderRoles_Inr [OF assms] by auto
  let ?rs = "first_occurrences roles"
  have ne: "?rs \<noteq> []" using r(1) first_occurrences_props(2) [of roles] by (metis set_empty)
  then have "renderRoles u ?rs = Inr s"
    using renderRoles_eq [of u ?rs] r by (simp add: first_occurrences_props)
  moreover have "length ?rs \<le> 3"
    using role_count [OF first_occurrences_props(1) [of roles]] r(2) by (simp add: first_occurrences_props)
  ultimately show ?thesis
    using r(3) ne first_occurrences_props(1,2) [of roles] by blast
qed

text \<open>
  C33. The password arrives unchanged: for names without backslashes and a password that is printable
  without quotes and backslashes, as generated ones are, a reader of the literal after PASSWORD in
  the DEFINE USER statement reads exactly the given password and comes out right before the role list.
\<close>

theorem defined_password_reads_back:
  assumes "DefineUserQuery u t n pw roles = Inr q" and "clean_target t" and "backslash \<notin> set n"
    and "list_all plain_char pw"
  shows "\<exists>a b rl. snd (split_statements q) = ([], Plain) \<and> length (fst (split_statements q)) = 2 \<and>
    last (fst (split_statements q)) = a @ '' PASSWORD '' @ [dquote] @ b \<and>
    scan_literal dquote b = Some (pw, '' ROLES '' @ rl) \<and> renderRoles u roles = Inr rl"
proof -
  from DefineUserQuery_statements [OF assms(1-3)] obtain use i rl where
    q: "split_statements q = ([use, newline # ''DEFINE USER OVERWRITE '' @ i @ '' ON '' @ on_clause t @
             '' PASSWORD '' @ quote u pw @ '' ROLES '' @ rl], [], Plain)"
    and rl: "renderRoles u roles = Inr rl" by blast
  have pt: "plain_text pw" using assms(4) by (simp add: plain_text_def)
  let ?a = "newline # ''DEFINE USER OVERWRITE '' @ i @ '' ON '' @ on_clause t"
  let ?b = "tl (quote u pw) @ '' ROLES '' @ rl"
  have "last (fst (split_statements q)) = ?a @ '' PASSWORD '' @ [dquote] @ ?b"
    by (simp add: q quote_plain_text [OF pt])
  moreover have "scan_literal dquote ?b = Some (pw, '' ROLES '' @ rl)"
    by (rule plain_literal.exact [OF pt])
  moreover have "snd (split_statements q) = ([], Plain)" and "length (fst (split_statements q)) = 2"
    by (simp_all add: q)
  ultimately show ?thesis using rl by blast
qed

theorem defined_password_reads_back_witness:
  "\<exists>q a b. DefineUserQuery sample_ucd sample_user ''k8s_app'' ''s3cret-A_'' [RoleEditor] = Inr q \<and>
    last (fst (split_statements q)) = a @ '' PASSWORD '' @ [dquote] @ b \<and>
    scan_literal dquote b = Some (''s3cret-A_'', '' ROLES EDITOR'')"
proof -
  obtain q where q: "DefineUserQuery sample_ucd sample_user ''k8s_app'' ''s3cret-A_'' [RoleEditor] = Inr q"
    using sample_queries(1) by blast
  have "list_all plain_char ''s3cret-A_''" by (simp add: plain_char_def)
  from defined_password_reads_back [OF q sample_user_ok(2) _ this] q show ?thesis
    by (auto simp: sample_roles)
qed

text \<open>
  A definition can be built exactly for a known level with its names non-empty and free of
  control characters, and at least one role, all of them known; every other input is an error, not
  a query.
\<close>

lemma define_query_built_iff:
  "(\<exists>q. DefineUserQuery u t n pw roles = Inr q) \<longleftrightarrow>
    ident_ok (ut_namespace t) \<and>
    (ut_level t = UserLevelNamespace \<or> (ut_level t = UserLevelDatabase \<and> ident_ok (ut_database t))) \<and>
    ident_ok n \<and> roles \<noteq> [] \<and> list_all role_enum roles"
  unfolding DefineUserQuery_ok usePrefix_ok EscapeIdent_ident_ok renderRoles_ok_iff target_ok_def
  by (simp add: list_all_iff)

end
