(* ===== verification/ClientEnv.thy ===== *)
theory ClientEnv
  imports Queries
begin

text \<open>
  What the operator calls but does not contain: the Kubernetes API client of controller-runtime,
  its helpers on finalizers and conditions, the SurrealDB driver, the certificate parsers, the
  random source and the clock.  They are the fields of a record \<open>env\<close>, a parameter of every
  definition that uses them, over an arbitrary world \<open>'w\<close>: a theorem about a handler holds for every
  behaviour of these parts, other clients changing the cluster between two calls included, unless
  it names the law it needs.  A handler runs over a world and a log of its calls with their replies.
\<close>

section \<open>Parts of the environment\<close>

text \<open>The connection to SurrealDB, as the driver hands it out.\<close>

type_synonym db_handle = nat

type_synonym cert_pool = "string list"

record TLSConfig =
  tc_insecure_skip_verify :: bool
  tc_root_cas :: "cert_pool option"
  tc_certificates :: "string list"

record 'w driver =
  drv_from_endpoint :: "string \<Rightarrow> ('w, db_handle result) state"
  drv_sign_in :: "db_handle \<Rightarrow> string \<Rightarrow> string \<Rightarrow> ('w, go_error option) state"
  drv_query :: "db_handle \<Rightarrow> string \<Rightarrow> ('w, go_error option list result) state"
  drv_close :: "db_handle \<Rightarrow> ('w, go_error option) state"

text \<open>
  An update returns the object as the server stored it: the client decodes the answer into the
  object it was given.
\<close>

record 'w env =
  env_ucd :: ucd
  get_credential :: "NamespacedName \<Rightarrow> ('w, SurrealDBCredential result) state"
  get_policy :: "NamespacedName \<Rightarrow> ('w, SurrealDBTenantPolicy result) state"
  get_provider :: "NamespacedName \<Rightarrow> ('w, SurrealDBProvider result) state"
  get_secret :: "NamespacedName \<Rightarrow> ('w, Secret result) state"
  list_providers :: "('w, SurrealDBProvider list result) state"
  update_credential :: "SurrealDBCredential \<Rightarrow> ('w, SurrealDBCredential result) state"
  status_update_credential :: "SurrealDBCredential \<Rightarrow> ('w, SurrealDBCredential result) state"
  status_update_policy :: "SurrealDBTenantPolicy \<Rightarrow> ('w, SurrealDBTenantPolicy result) state"
  status_update_provider :: "SurrealDBProvider \<Rightarrow> ('w, SurrealDBProvider result) state"
  create_secret :: "Secret \<Rightarrow> ('w, Secret result) state"
  update_secret :: "Secret \<Rightarrow> ('w, Secret result) state"
  delete_secret :: "Secret \<Rightarrow> ('w, go_error option) state"
  contains_finalizer :: "string list \<Rightarrow> string \<Rightarrow> bool"
  add_finalizer :: "string list \<Rightarrow> string \<Rightarrow> string list"
  remove_finalizer :: "string list \<Rightarrow> string \<Rightarrow> string list"
  set_status_condition :: "gtime \<Rightarrow> Condition list \<Rightarrow> Condition \<Rightarrow> Condition list"
  system_cert_pool :: "('w, cert_pool result) state"
  append_certs_from_pem :: "cert_pool \<Rightarrow> string \<Rightarrow> cert_pool \<times> bool"
  x509_key_pair :: "string \<Rightarrow> string \<Rightarrow> string result"
  parse_authority_path :: "string \<Rightarrow> string result"
  surreal_driver :: "'w driver"
  rand_int :: "'w random"
  time_now :: "('w, gtime) state"

section \<open>The log of calls\<close>

datatype event =
  EvGetCredential NamespacedName "SurrealDBCredential result"
| EvGetPolicy NamespacedName "SurrealDBTenantPolicy result"
| EvGetProvider NamespacedName "SurrealDBProvider result"
| EvGetSecret NamespacedName "Secret result"
| EvListProviders "SurrealDBProvider list result"
| EvUpdateCredential SurrealDBCredential "SurrealDBCredential result"
| EvStatusCredential SurrealDBCredential "SurrealDBCredential result"
| EvStatusPolicy SurrealDBTenantPolicy "SurrealDBTenantPolicy result"
| EvStatusProvider SurrealDBProvider "SurrealDBProvider result"
| EvCreateSecret Secret "Secret result"
| EvUpdateSecret Secret "Secret result"
| EvDeleteSecret Secret "go_error option"
| EvConnect string string string "go_error option"
| EvDefineUser UserTarget string string "SurrealRole list" "go_error option"
| EvRemoveUser UserTarget string "go_error option"
| EvClose

record 'w st =
  world :: 'w
  events :: "event list"

type_synonym ('w, 'a) prog = "('w st, 'a) state"

text \<open>A call that is logged with its reply, and one that is not (clock, random source, parsers).\<close>

definition call :: "('w, 'a) state \<Rightarrow> ('a \<Rightarrow> event) \<Rightarrow> ('w, 'a) prog" where
  "call m ev = State (\<lambda>s. case run_state m (world s) of
     (r, w) \<Rightarrow> (r, s\<lparr>world := w, events := events s @ [ev r]\<rparr>))"

definition quiet :: "('w, 'a) state \<Rightarrow> ('w, 'a) prog" where
  "quiet m = State (\<lambda>s. case run_state m (world s) of (r, w) \<Rightarrow> (r, s\<lparr>world := w\<rparr>))"

definition log_event :: "event \<Rightarrow> ('w, unit) prog" where
  "log_event ev = State (\<lambda>s. ((), s\<lparr>events := events s @ [ev]\<rparr>))"

section \<open>Reasoning about all environments\<close>

text \<open>
  \<open>always m Q L\<close>: however the environment behaves, running \<open>m\<close> after the log \<open>L\<close> ends in a result
  and a log that satisfy \<open>Q\<close>.
\<close>

definition always :: "('w, 'a) prog \<Rightarrow> ('a \<Rightarrow> event list \<Rightarrow> bool) \<Rightarrow> event list \<Rightarrow> bool" where
  "always m Q L \<longleftrightarrow> (\<forall>s. events s = L \<longrightarrow> wp m (\<lambda>a s'. Q a (events s')) s)"

named_theorems always_intros "rules for \<open>always\<close>, one per construct"

lemma always_return [always_intros]: "Q a L \<Longrightarrow> always (State_Monad.return a) Q L"
  by (simp add: always_def)

lemma always_bind [always_intros]:
  assumes "always m (\<lambda>a L'. always (f a) Q L') L"
  shows "always (State_Monad.bind m f) Q L"
  using assms by (auto simp: always_def wp_def split: prod.splits)

lemma always_call [always_intros]:
  "(\<And>r. Q r (L @ [ev r])) \<Longrightarrow> always (call m ev) Q L"
  by (auto simp: always_def wp_def call_def split: prod.splits)

lemma always_quiet [always_intros]: "(\<And>r. Q r L) \<Longrightarrow> always (quiet m) Q L"
  by (auto simp: always_def wp_def quiet_def split: prod.splits)

text \<open>What a part of the environment can reply, for the calls whose contract a proof needs.\<close>

definition can_return :: "('w, 'a) state \<Rightarrow> 'a \<Rightarrow> bool" where
  "can_return m r \<longleftrightarrow> (\<exists>w. fst (run_state m w) = r)"

lemma can_returnI: "run_state m w = (r, w') \<Longrightarrow> can_return m r"
  unfolding can_return_def by (intro exI [of _ w]) simp

lemma always_call_can: "(\<And>r. can_return m r \<Longrightarrow> Q r (L @ [ev r])) \<Longrightarrow> always (call m ev) Q L"
  by (auto simp: always_def wp_def call_def split: prod.splits dest: can_returnI)

lemma always_quiet_can: "(\<And>r. can_return m r \<Longrightarrow> Q r L) \<Longrightarrow> always (quiet m) Q L"
  by (auto simp: always_def wp_def quiet_def split: prod.splits dest: can_returnI)

lemma always_log [always_intros]: "Q () (L @ [ev]) \<Longrightarrow> always (log_event ev) Q L"
  by (auto simp: always_def wp_def log_event_def)

lemma always_if [always_intros]:
  "(b \<Longrightarrow> always m Q L) \<Longrightarrow> (\<not> b \<Longrightarrow> always n Q L) \<Longrightarrow> always (if b then m else n) Q L"
  by simp

lemma always_case_sum [always_intros]:
  "(\<And>e. x = Inl e \<Longrightarrow> always (f e) Q L) \<Longrightarrow> (\<And>a. x = Inr a \<Longrightarrow> always (g a) Q L) \<Longrightarrow>
    always (case x of Inl e \<Rightarrow> f e | Inr a \<Rightarrow> g a) Q L"
  by (cases x) simp_all

lemma always_case_option [always_intros]:
  "(x = None \<Longrightarrow> always f Q L) \<Longrightarrow> (\<And>a. x = Some a \<Longrightarrow> always (g a) Q L) \<Longrightarrow>
    always (case x of None \<Rightarrow> f | Some a \<Rightarrow> g a) Q L"
  by (cases x) simp_all

lemma always_case_prod [always_intros]:
  "(\<And>a b. x = (a, b) \<Longrightarrow> always (f a b) Q L) \<Longrightarrow> always (case x of (a, b) \<Rightarrow> f a b) Q L"
  by (cases x) simp

lemma always_let [always_intros]: "(\<And>x. x = a \<Longrightarrow> always (f x) Q L) \<Longrightarrow> always (let x = a in f x) Q L"
  by simp

lemma always_mono:
  assumes "always m P L" and "\<And>a L'. P a L' \<Longrightarrow> Q a L'"
  shows "always m Q L"
  using assms by (auto simp: always_def intro: wp_mono)

lemma always_bind_spec:
  assumes "always m P L" and "\<And>a L'. P a L' \<Longrightarrow> always (f a) Q L'"
  shows "always (State_Monad.bind m f) Q L"
  by (rule always_bind) (rule always_mono [OF assms])

lemma always_run:
  assumes "always m Q (events s)" and "run_state m s = (a, s')"
  shows "Q a (events s')"
  using assms by (auto simp: always_def wp_def)

end
