(* ===== verification/Conditions.thy ===== *)
theory Conditions
  imports ClientEnv
begin

text \<open>
  \<^verbatim>\<open>internal/conditions/conditions.go\<close>: the condition types, the reasons and the setters.  The
  merge itself is \<^verbatim>\<open>meta.SetStatusCondition\<close>, a parameter; the locale \<open>condition_store\<close> states what
  it documents, and \<open>merge_condition\<close>, written after that documentation, provides the contract.
\<close>

section \<open>Types and reasons\<close>

definition TypeReady :: string where "TypeReady = ''Ready''"
definition TypePolicyAccepted :: string where "TypePolicyAccepted = ''PolicyAccepted''"
definition TypeUserDefined :: string where "TypeUserDefined = ''UserDefined''"
definition TypeSecretReady :: string where "TypeSecretReady = ''SecretReady''"

lemmas condition_types =
  TypeReady_def TypePolicyAccepted_def TypeUserDefined_def TypeSecretReady_def

lemma condition_types_distinct:
  "distinct [TypeReady, TypePolicyAccepted, TypeUserDefined, TypeSecretReady]"
  by (simp add: condition_types)

lemma condition_types_neq [simp]:
  "TypeReady \<noteq> TypePolicyAccepted" "TypePolicyAccepted \<noteq> TypeReady"
  "TypeReady \<noteq> TypeUserDefined" "TypeUserDefined \<noteq> TypeReady"
  "TypeReady \<noteq> TypeSecretReady" "TypeSecretReady \<noteq> TypeReady"
  "TypePolicyAccepted \<noteq> TypeUserDefined" "TypeUserDefined \<noteq> TypePolicyAccepted"
  "TypePolicyAccepted \<noteq> TypeSecretReady" "TypeSecretReady \<noteq> TypePolicyAccepted"
  "TypeUserDefined \<noteq> TypeSecretReady" "TypeSecretReady \<noteq> TypeUserDefined"
  using condition_types_distinct by auto

definition ReasonReconciled :: string where "ReasonReconciled = ''Reconciled''"
definition ReasonAvailable :: string where "ReasonAvailable = ''Available''"
definition ReasonPolicyAccepted :: string where "ReasonPolicyAccepted = ''Allowed''"
definition ReasonPolicyDenied :: string where "ReasonPolicyDenied = ''PolicyDenied''"
definition ReasonProviderNotFound :: string where "ReasonProviderNotFound = ''ProviderNotFound''"
definition ReasonProviderSecretNotFound :: string where
  "ReasonProviderSecretNotFound = ''ProviderSecretNotFound''"
definition ReasonProviderSecretInvalid :: string where
  "ReasonProviderSecretInvalid = ''ProviderSecretInvalid''"
definition ReasonPolicyNotFound :: string where "ReasonPolicyNotFound = ''PolicyNotFound''"
definition ReasonSecretConflict :: string where "ReasonSecretConflict = ''SecretConflict''"
definition ReasonSecretDeleteFailed :: string where
  "ReasonSecretDeleteFailed = ''SecretDeleteFailed''"
definition ReasonTargetNotFound :: string where "ReasonTargetNotFound = ''TargetNotFound''"
definition ReasonSurrealDBUnavailable :: string where
  "ReasonSurrealDBUnavailable = ''SurrealDBUnavailable''"
definition ReasonDefineUserFailed :: string where "ReasonDefineUserFailed = ''DefineUserFailed''"
definition ReasonRemoveUserFailed :: string where "ReasonRemoveUserFailed = ''RemoveUserFailed''"
definition ReasonRotationFailed :: string where "ReasonRotationFailed = ''RotationFailed''"
definition ReasonForceCleanupRequested :: string where
  "ReasonForceCleanupRequested = ''ForceCleanupRequested''"
definition ReasonSecretWritten :: string where "ReasonSecretWritten = ''SecretWritten''"
definition ReasonDefineUserSucceeded :: string where
  "ReasonDefineUserSucceeded = ''DefineUserSucceeded''"
definition ReasonDeleting :: string where "ReasonDeleting = ''Deleting''"

definition ConditionTrue :: string where "ConditionTrue = ''True''"
definition ConditionFalse :: string where "ConditionFalse = ''False''"
definition ConditionUnknown :: string where "ConditionUnknown = ''Unknown''"

lemmas condition_statuses = ConditionTrue_def ConditionFalse_def ConditionUnknown_def

lemma condition_statuses_neq [simp]:
  "ConditionTrue \<noteq> ConditionFalse" "ConditionFalse \<noteq> ConditionTrue"
  "ConditionTrue \<noteq> ConditionUnknown" "ConditionUnknown \<noteq> ConditionTrue"
  "ConditionFalse \<noteq> ConditionUnknown" "ConditionUnknown \<noteq> ConditionFalse"
  by (simp_all add: condition_statuses)

section \<open>The setters\<close>

text \<open>
  The condition \<^verbatim>\<open>Set\<close> builds, its transition time left at the zero value; the merge reads the
  clock.  A setter returns the updated list of conditions.
\<close>

definition new_condition :: "int \<Rightarrow> string \<Rightarrow> string \<Rightarrow> string \<Rightarrow> string \<Rightarrow> Condition" where
  "new_condition generation conditionType status reason message =
    \<lparr>cond_type = conditionType, cond_status = status, cond_observed_generation = generation,
     cond_last_transition_time = zero_time, cond_reason = reason, cond_message = message\<rparr>"

definition Set ::
  "'w env \<Rightarrow> Condition list \<Rightarrow> int \<Rightarrow> string \<Rightarrow> string \<Rightarrow> string \<Rightarrow> string
    \<Rightarrow> ('w, Condition list) prog" where
  "Set e conditions generation conditionType status reason message = do {
     now \<leftarrow> quiet (time_now e);
     State_Monad.return (set_status_condition e now conditions
       (new_condition generation conditionType status reason message))
   }"

definition Ready ::
  "'w env \<Rightarrow> Condition list \<Rightarrow> int \<Rightarrow> string \<Rightarrow> string \<Rightarrow> ('w, Condition list) prog" where
  "Ready e conditions generation reason message =
     Set e conditions generation TypeReady ConditionTrue reason message"

definition NotReady ::
  "'w env \<Rightarrow> Condition list \<Rightarrow> int \<Rightarrow> string \<Rightarrow> string \<Rightarrow> ('w, Condition list) prog" where
  "NotReady e conditions generation reason message =
     Set e conditions generation TypeReady ConditionFalse reason message"

definition Unknown ::
  "'w env \<Rightarrow> Condition list \<Rightarrow> int \<Rightarrow> string \<Rightarrow> string \<Rightarrow> ('w, Condition list) prog" where
  "Unknown e conditions generation reason message =
     Set e conditions generation TypeReady ConditionUnknown reason message"

section \<open>Reading conditions\<close>

text \<open>The condition of a type, and what it reports.\<close>

fun find_condition :: "Condition list \<Rightarrow> string \<Rightarrow> Condition option" where
  "find_condition [] t = None"
| "find_condition (c # cs) t = (if cond_type c = t then Some c else find_condition cs t)"

definition status_of :: "Condition list \<Rightarrow> string \<Rightarrow> string option" where
  "status_of cs t = map_option cond_status (find_condition cs t)"

definition reason_of :: "Condition list \<Rightarrow> string \<Rightarrow> string option" where
  "reason_of cs t = map_option cond_reason (find_condition cs t)"

definition report_of :: "Condition \<Rightarrow> string \<times> int \<times> string \<times> string" where
  "report_of c = (cond_status c, cond_observed_generation c, cond_reason c, cond_message c)"

lemma find_condition_None: "find_condition cs t = None \<longleftrightarrow> t \<notin> cond_type ` set cs"
  by (induction cs) auto

lemma find_condition_Some: "find_condition cs t = Some c \<Longrightarrow> c \<in> set cs \<and> cond_type c = t"
  by (induction cs) (auto split: if_splits)

section \<open>The contract of the merge\<close>

locale condition_store =
  fixes merge :: "gtime \<Rightarrow> Condition list \<Rightarrow> Condition \<Rightarrow> Condition list"
  assumes merge_same:
      "map_option report_of (find_condition (merge now cs c) (cond_type c)) = Some (report_of c)"
    and merge_other: "t \<noteq> cond_type c \<Longrightarrow> find_condition (merge now cs c) t = find_condition cs t"
    and merge_distinct: "distinct (map cond_type cs) \<Longrightarrow> distinct (map cond_type (merge now cs c))"
begin

lemma status_merge:
  "status_of (merge now cs c) t = (if t = cond_type c then Some (cond_status c) else status_of cs t)"
  using merge_same [of now cs c] merge_other [of t c now cs]
  by (auto simp: status_of_def report_of_def)

lemma reason_merge:
  "reason_of (merge now cs c) t = (if t = cond_type c then Some (cond_reason c) else reason_of cs t)"
  using merge_same [of now cs c] merge_other [of t c now cs]
  by (auto simp: reason_of_def report_of_def)

lemma status_new:
  "status_of (merge now cs (new_condition g ty st r m)) t = (if t = ty then Some st else status_of cs t)"
  by (simp add: status_merge new_condition_def)

lemma reason_new:
  "reason_of (merge now cs (new_condition g ty st r m)) t = (if t = ty then Some r else reason_of cs t)"
  by (simp add: reason_merge new_condition_def)

end

text \<open>
  The documented merge: a new type is appended, an old one is updated in place, and its transition
  time moves only with its status.
\<close>

definition stamp :: "gtime \<Rightarrow> Condition \<Rightarrow> Condition" where
  "stamp now c =
    (if cond_last_transition_time c = zero_time then c\<lparr>cond_last_transition_time := now\<rparr> else c)"

definition update_condition :: "gtime \<Rightarrow> Condition \<Rightarrow> Condition \<Rightarrow> Condition" where
  "update_condition now c old =
    (if cond_status old \<noteq> cond_status c then stamp now c
     else c\<lparr>cond_last_transition_time := cond_last_transition_time old\<rparr>)"

fun merge_condition :: "gtime \<Rightarrow> Condition list \<Rightarrow> Condition \<Rightarrow> Condition list" where
  "merge_condition now [] c = [stamp now c]"
| "merge_condition now (x # xs) c =
    (if cond_type x = cond_type c then update_condition now c x # xs
     else x # merge_condition now xs c)"

lemma stamp_simps [simp]: "cond_type (stamp now c) = cond_type c" "report_of (stamp now c) = report_of c"
  by (simp_all add: stamp_def report_of_def)

lemma update_condition_simps [simp]:
  "cond_type (update_condition now c x) = cond_type c" "report_of (update_condition now c x) = report_of c"
  by (simp_all add: update_condition_def) (simp add: report_of_def)

lemma merge_condition_types:
  "set (map cond_type (merge_condition now cs c)) = insert (cond_type c) (set (map cond_type cs))"
  by (induction cs) auto

interpretation merge_store: condition_store merge_condition
proof unfold_locales
  fix now :: gtime and cs :: "Condition list" and c :: Condition
  show "map_option report_of (find_condition (merge_condition now cs c) (cond_type c)) = Some (report_of c)"
    by (induction cs) auto
next
  fix t :: string and c :: Condition and now :: gtime and cs :: "Condition list"
  assume "t \<noteq> cond_type c"
  then show "find_condition (merge_condition now cs c) t = find_condition cs t"
    by (induction cs) auto
next
  fix cs :: "Condition list" and now :: gtime and c :: Condition
  assume "distinct (map cond_type cs)"
  then show "distinct (map cond_type (merge_condition now cs c))"
    using merge_condition_types by (induction cs) auto
qed

section \<open>What the setters leave\<close>

lemma always_Set [always_intros]:
  assumes "\<And>now. Q (set_status_condition e now cs (new_condition g ty st r m)) L"
  shows "always (Set e cs g ty st r m) Q L"
  unfolding Set_def using assms by (intro always_intros) auto

lemma always_Ready [always_intros]:
  assumes "\<And>now. Q (set_status_condition e now cs (new_condition g TypeReady ConditionTrue r m)) L"
  shows "always (Ready e cs g r m) Q L"
  unfolding Ready_def using assms by (rule always_Set)

lemma always_NotReady [always_intros]:
  assumes "\<And>now. Q (set_status_condition e now cs (new_condition g TypeReady ConditionFalse r m)) L"
  shows "always (NotReady e cs g r m) Q L"
  unfolding NotReady_def using assms by (rule always_Set)

end
