(* ===== verification/Endpoint.thy ===== *)
theory Endpoint
  imports ApiTypes
begin

text \<open>
  \<^verbatim>\<open>internal/surreal/endpoint.go\<close>: the check of the scheme of a provider endpoint, over the part of
  \<^verbatim>\<open>url.ParseRequestURI\<close> that finds the scheme.  What that parser does with an authority and a path
  is a parameter: the text they are written back as, or an error.
\<close>

section \<open>The scheme of a request URI\<close>

definition scheme_letter :: "char \<Rightarrow> bool" where
  "scheme_letter c \<longleftrightarrow> (0x61 \<le> byte c \<and> byte c \<le> 0x7A) \<or> (0x41 \<le> byte c \<and> byte c \<le> 0x5A)"

definition scheme_other :: "char \<Rightarrow> bool" where
  "scheme_other c \<longleftrightarrow> (0x30 \<le> byte c \<and> byte c \<le> 0x39) \<or> c = CHR ''+'' \<or> c = CHR ''-'' \<or> c = CHR ''.''"

text \<open>
  \<^verbatim>\<open>getScheme\<close> of \<^verbatim>\<open>net/url\<close>: the characters read so far, and those left; the scheme and the rest.
\<close>

fun getScheme :: "string \<Rightarrow> string \<Rightarrow> (string \<times> string) result" where
  "getScheme seen [] = Inr ([], seen)"
| "getScheme seen (c # cs) =
    (if scheme_letter c then getScheme (seen @ [c]) cs
     else if scheme_other c then
       (if seen = [] then Inr ([], c # cs) else getScheme (seen @ [c]) cs)
     else if c = CHR '':'' then
       (if seen = [] then Inl (errorf ''missing protocol scheme'') else Inr (seen, cs))
     else Inr ([], seen @ c # cs))"

definition has_ctl_byte :: "string \<Rightarrow> bool" where
  "has_ctl_byte s \<longleftrightarrow> (\<exists>c \<in> set s. byte c < 0x20 \<or> byte c = 0x7F)"

text \<open>A parsed URL: its scheme, and what \<^verbatim>\<open>String()\<close> writes for it.\<close>

record URL =
  url_scheme :: string
  url_text :: string

definition parse_request_uri :: "ucd \<Rightarrow> (string \<Rightarrow> string result) \<Rightarrow> string \<Rightarrow> URL result" where
  "parse_request_uri u pap raw =
    (let fail = (\<lambda>e. Inl (wrapf (''parse '' @ quote u raw @ '': '') e)) in
     if has_ctl_byte raw then fail (errorf ''net/url: invalid control character in URL'')
     else if raw = [] then fail (errorf ''empty url'')
     else if raw = ''*'' then Inr \<lparr>url_scheme = [], url_text = ''*''\<rparr>
     else case getScheme [] raw of
       Inl e \<Rightarrow> fail e
     | Inr (scheme, rest) \<Rightarrow>
       (let scheme = to_lower u scheme in
        if \<not> (case rest of c # _ \<Rightarrow> c = CHR ''/'' | [] \<Rightarrow> False) then
          (if scheme \<noteq> [] then Inr \<lparr>url_scheme = scheme, url_text = scheme @ '':'' @ rest\<rparr>
           else fail (errorf ''invalid URI for request''))
        else case pap rest of
          Inl e \<Rightarrow> fail e
        | Inr text \<Rightarrow>
          Inr \<lparr>url_scheme = scheme,
               url_text = (if scheme = [] then text else scheme @ '':'' @ text)\<rparr>))"

section \<open>The code\<close>

definition unsupportedEndpointSchemeError :: "ucd \<Rightarrow> string \<Rightarrow> go_error" where
  "unsupportedEndpointSchemeError u scheme =
    errorf (''unsupported SurrealDB provider endpoint scheme '' @ quote u scheme @
            '': use ws:// or wss:// endpoints'')"

definition ParseEndpointURL :: "ucd \<Rightarrow> (string \<Rightarrow> string result) \<Rightarrow> string \<Rightarrow> URL result" where
  "ParseEndpointURL u pap endpoint =
    (case parse_request_uri u pap endpoint of
       Inl err \<Rightarrow> Inl err
     | Inr url \<Rightarrow>
       if url_scheme url = ''ws'' \<or> url_scheme url = ''wss'' then Inr url
       else if url_scheme url = ''http'' \<or> url_scheme url = ''https'' then
         Inl (unsupportedEndpointSchemeError u (url_scheme url))
       else Inl (unsupportedEndpointSchemeError u (url_scheme url)))"

definition ValidateEndpointScheme ::
  "ucd \<Rightarrow> (string \<Rightarrow> string result) \<Rightarrow> string \<Rightarrow> go_error option" where
  "ValidateEndpointScheme u pap endpoint =
    (case ParseEndpointURL u pap endpoint of Inl err \<Rightarrow> Some err | Inr _ \<Rightarrow> None)"

section \<open>Facts\<close>

lemma getScheme_Inr:
  "getScheme seen s = Inr (scheme, rest) \<Longrightarrow> scheme \<noteq> [] \<Longrightarrow>
    seen @ s = scheme @ CHR '':'' # rest \<and>
    (list_all (\<lambda>c. scheme_letter c \<or> scheme_other c) seen \<longrightarrow>
      list_all (\<lambda>c. scheme_letter c \<or> scheme_other c) scheme)"
  by (induction seen s rule: getScheme.induct) (auto split: if_splits)

lemma ParseEndpointURL_scheme:
  assumes "ParseEndpointURL u pap endpoint = Inr url"
  shows "url_scheme url \<in> {''ws'', ''wss''}"
  using assms by (auto simp: ParseEndpointURL_def split: sum.splits if_splits)

lemma scheme_char_ascii: "scheme_letter c \<or> scheme_other c \<Longrightarrow> byte c < 0x80"
  by (auto simp: scheme_letter_def scheme_other_def)

lemma parse_request_uri_scheme:
  assumes "parse_request_uri u pap raw = Inr url" and "url_scheme url \<noteq> []"
  shows "\<exists>scheme rest. raw = scheme @ CHR '':'' # rest \<and> url_scheme url = map byte_lower scheme"
proof -
  from assms obtain scheme rest where g: "getScheme [] raw = Inr (scheme, rest)"
    and l: "url_scheme url = to_lower u scheme"
    by (auto simp: parse_request_uri_def Let_def split: if_splits sum.splits prod.splits)
  have "scheme \<noteq> []" using assms(2) l by (auto simp: to_lower_def runes_def)
  from getScheme_Inr [OF g this] have "raw = scheme @ CHR '':'' # rest"
    and "list_all (\<lambda>c. scheme_letter c \<or> scheme_other c) scheme" by simp_all
  moreover from this(2) have "\<forall>c \<in> set scheme. byte c < 0x80"
    by (auto simp: list_all_iff intro!: scheme_char_ascii)
  ultimately show ?thesis using l by (auto simp: to_lower_ascii)
qed

end
