(* ===== verification/Tls.thy ===== *)
theory Tls
  imports ClientEnv Endpoint
begin

text \<open>
  \<^verbatim>\<open>internal/surreal/tls.go\<close>: loading the TLS material a provider references from Secrets.
\<close>

section \<open>Reading Secrets\<close>

definition api_get_secret :: "'w env \<Rightarrow> NamespacedName \<Rightarrow> ('w, Secret result) prog" where
  "api_get_secret e k = call (get_secret e k) (EvGetSecret k)"

lemma always_get_secret [always_intros]:
  "(\<And>r. Q r (L @ [EvGetSecret k r])) \<Longrightarrow> always (api_get_secret e k) Q L"
  unfolding api_get_secret_def by (rule always_call)

text \<open>A data entry that must be present and non-empty.\<close>

definition nonempty_entry :: "Secret \<Rightarrow> string \<Rightarrow> string option" where
  "nonempty_entry secret key =
    (case map_index (sec_data secret) key of
       None \<Rightarrow> None
     | Some v \<Rightarrow> if length v = 0 then None else Some v)"

section \<open>The code\<close>

definition load_ca :: "'w env \<Rightarrow> CASecretReference \<Rightarrow> ('w, cert_pool result) prog" where
  "load_ca e ref = do {
     got \<leftarrow> api_get_secret e (NamespacedName (ca_namespace ref) (ca_name ref));
     case got of
       Inl err \<Rightarrow> State_Monad.return (Inl (wrapf
         (''get CA secret '' @ ca_namespace ref @ ''/'' @ ca_name ref @ '': '') err))
     | Inr secret \<Rightarrow>
       (let key = default_key ''ca.crt'' (ca_key ref) in
        case nonempty_entry secret key of
          None \<Rightarrow> State_Monad.return (Inl (errorf
            (''CA secret '' @ om_namespace (sec_meta secret) @ ''/'' @ om_name (sec_meta secret) @
             '' missing key '' @ quote (env_ucd e) key)))
        | Some pem \<Rightarrow> do {
            sys \<leftarrow> quiet (system_cert_pool e);
            let pool = (case sys of Inl _ \<Rightarrow> [] | Inr pool \<Rightarrow> pool);
            (case append_certs_from_pem e pool pem of
               (pool, ok) \<Rightarrow>
                 if \<not> ok then State_Monad.return (Inl (errorf
                   (''CA secret '' @ om_namespace (sec_meta secret) @ ''/'' @ om_name (sec_meta secret) @
                    '' key '' @ quote (env_ucd e) key @ '' does not contain PEM certificates'')))
                 else State_Monad.return (Inr pool))
          })
   }"

definition load_client_certificate ::
  "'w env \<Rightarrow> ClientCertificateReference \<Rightarrow> ('w, string result) prog" where
  "load_client_certificate e ref = do {
     got \<leftarrow> api_get_secret e (NamespacedName (cc_namespace ref) (cc_name ref));
     case got of
       Inl err \<Rightarrow> State_Monad.return (Inl (wrapf
         (''get client certificate secret '' @ cc_namespace ref @ ''/'' @ cc_name ref @ '': '') err))
     | Inr secret \<Rightarrow>
       (let certKey = default_key ''tls.crt'' (cc_cert_key ref);
            keyKey = default_key ''tls.key'' (cc_key_key ref);
            missing = (\<lambda>key. State_Monad.return (Inl (errorf
              (''client certificate secret '' @ om_namespace (sec_meta secret) @ ''/'' @
               om_name (sec_meta secret) @ '' missing key '' @ quote (env_ucd e) key))))
        in case nonempty_entry secret certKey of
             None \<Rightarrow> missing certKey
           | Some certPEM \<Rightarrow>
             (case nonempty_entry secret keyKey of
                None \<Rightarrow> missing keyKey
              | Some keyPEM \<Rightarrow>
                (case x509_key_pair e certPEM keyPEM of
                   Inl err \<Rightarrow> State_Monad.return (Inl (wrapf
                     (''parse client certificate secret '' @ om_namespace (sec_meta secret) @ ''/'' @
                      om_name (sec_meta secret) @ '': '') err))
                 | Inr cert \<Rightarrow> State_Monad.return (Inr cert))))
   }"

definition LoadTLSConfig ::
  "'w env \<Rightarrow> ProviderTLSConfig option \<Rightarrow> ('w, TLSConfig option result) prog" where
  "LoadTLSConfig e cfg =
    (case cfg of
       None \<Rightarrow> State_Monad.return (Inr None)
     | Some cfg \<Rightarrow>
       (let tlsConfig = \<lparr>tc_insecure_skip_verify = tls_insecure_skip_verify cfg,
                         tc_root_cas = None, tc_certificates = []\<rparr> in
        do {
          ca \<leftarrow> (case tls_ca_secret_ref cfg of
                  None \<Rightarrow> State_Monad.return (Inr tlsConfig)
                | Some ref \<Rightarrow> do {
                    pool \<leftarrow> load_ca e ref;
                    (case pool of
                       Inl err \<Rightarrow> State_Monad.return (Inl err)
                     | Inr pool \<Rightarrow>
                       State_Monad.return (Inr (tlsConfig\<lparr>tc_root_cas := Some pool\<rparr>)))
                  });
          case ca of
            Inl err \<Rightarrow> State_Monad.return (Inl err)
          | Inr tlsConfig \<Rightarrow>
            (case tls_client_certificate_ref cfg of
               None \<Rightarrow> State_Monad.return (Inr (Some tlsConfig))
             | Some ref \<Rightarrow> do {
                 cert \<leftarrow> load_client_certificate e ref;
                 (case cert of
                    Inl err \<Rightarrow> State_Monad.return (Inl err)
                  | Inr cert \<Rightarrow>
                    State_Monad.return (Inr (Some (tlsConfig\<lparr>tc_certificates := [cert]\<rparr>))))
               })
        }))"

section \<open>What is read\<close>

text \<open>Loading TLS material reads the Secrets it references and does nothing else.\<close>

definition reads_secret :: "NamespacedName list \<Rightarrow> event \<Rightarrow> bool" where
  "reads_secret ks ev \<longleftrightarrow> (\<exists>k r. ev = EvGetSecret k r \<and> k \<in> set ks)"

lemma reads_secret_simp [simp]: "reads_secret ks (EvGetSecret k r) \<longleftrightarrow> k \<in> set ks"
  by (simp add: reads_secret_def)

lemma reads_secret_tail:
  "list_all (reads_secret ks) new \<Longrightarrow> list_all (reads_secret (k # ks)) new"
  unfolding list_all_iff reads_secret_def by auto

lemma reads_secret_only:
  "list_all (reads_secret ks) new \<Longrightarrow> ev \<in> set new \<Longrightarrow> \<exists>k r. ev = EvGetSecret k r \<and> k \<in> set ks"
  unfolding list_all_iff reads_secret_def by blast

definition tls_secret_keys :: "ProviderTLSConfig option \<Rightarrow> NamespacedName list" where
  "tls_secret_keys cfg =
    (case cfg of
       None \<Rightarrow> []
     | Some cfg \<Rightarrow>
       (case tls_ca_secret_ref cfg of
          None \<Rightarrow> []
        | Some ref \<Rightarrow> [NamespacedName (ca_namespace ref) (ca_name ref)]) @
       (case tls_client_certificate_ref cfg of
          None \<Rightarrow> []
        | Some ref \<Rightarrow> [NamespacedName (cc_namespace ref) (cc_name ref)]))"

text \<open>Secrets that were all read with success, in order.\<close>

definition loaded_secrets :: "NamespacedName list \<Rightarrow> event list \<Rightarrow> bool" where
  "loaded_secrets ks new \<longleftrightarrow> list_all2 (\<lambda>k ev. \<exists>s. ev = EvGetSecret k (Inr s)) ks new"

lemma loaded_secrets_simps [simp]:
  "loaded_secrets [] new \<longleftrightarrow> new = []"
  "loaded_secrets (k # ks) (ev # new) \<longleftrightarrow> (\<exists>s. ev = EvGetSecret k (Inr s)) \<and> loaded_secrets ks new"
  by (auto simp: loaded_secrets_def)

lemma loaded_secrets_reads: "loaded_secrets ks new \<Longrightarrow> list_all (reads_secret ks) new"
  unfolding loaded_secrets_def
  by (induction ks new rule: list_all2_induct) (auto intro: reads_secret_tail)

lemma loaded_secrets_all:
  "loaded_secrets ks new \<Longrightarrow> k \<in> set ks \<Longrightarrow> \<exists>s. EvGetSecret k (Inr s) \<in> set new"
  unfolding loaded_secrets_def by (induction ks new rule: list_all2_induct) auto

text \<open>The TLS configuration is what the reference asks for.\<close>

definition tls_matches :: "ProviderTLSConfig option \<Rightarrow> TLSConfig option \<Rightarrow> bool" where
  "tls_matches cfg tls \<longleftrightarrow>
    (case (cfg, tls) of
       (None, None) \<Rightarrow> True
     | (Some c, Some t) \<Rightarrow>
         tc_insecure_skip_verify t = tls_insecure_skip_verify c \<and>
         (tc_root_cas t = None \<longleftrightarrow> tls_ca_secret_ref c = None) \<and>
         length (tc_certificates t) = (if tls_client_certificate_ref c = None then 0 else 1)
     | _ \<Rightarrow> False)"

definition tls_outcome ::
  "ProviderTLSConfig option \<Rightarrow> TLSConfig option result \<Rightarrow> event list \<Rightarrow> bool" where
  "tls_outcome cfg r new \<longleftrightarrow>
    length new \<le> length (tls_secret_keys cfg) \<and>
    (case r of Inl _ \<Rightarrow> cfg \<noteq> None
     | Inr tls \<Rightarrow> tls_matches cfg tls \<and> loaded_secrets (tls_secret_keys cfg) new)"

lemma tls_secret_keys_two: "length (tls_secret_keys cfg) \<le> 2"
  by (auto simp: tls_secret_keys_def split: option.split)

lemma always_load_ca [always_intros]:
  assumes "\<And>r err. Q (Inl err) (L @ [EvGetSecret (NamespacedName (ca_namespace ref) (ca_name ref)) r])"
    and "\<And>s pool. Q (Inr pool) (L @ [EvGetSecret (NamespacedName (ca_namespace ref) (ca_name ref)) (Inr s)])"
  shows "always (load_ca e ref) Q L"
  unfolding load_ca_def Let_def by (intro always_intros) (simp_all add: assms)

lemma always_load_client_certificate [always_intros]:
  assumes "\<And>r err. Q (Inl err) (L @ [EvGetSecret (NamespacedName (cc_namespace ref) (cc_name ref)) r])"
    and "\<And>s cert. Q (Inr cert) (L @ [EvGetSecret (NamespacedName (cc_namespace ref) (cc_name ref)) (Inr s)])"
  shows "always (load_client_certificate e ref) Q L"
  unfolding load_client_certificate_def Let_def by (intro always_intros) (simp_all add: assms)

lemma LoadTLSConfig_reads:
  "always (LoadTLSConfig e cfg)
    (\<lambda>r L'. \<exists>new. L' = L @ new \<and> list_all (reads_secret (tls_secret_keys cfg)) new \<and>
      tls_outcome cfg r new) L"
proof (cases cfg)
  case None
  then show ?thesis
    by (simp add: LoadTLSConfig_def always_return tls_outcome_def tls_matches_def tls_secret_keys_def)
next
  case (Some c)
  show ?thesis
    unfolding Some LoadTLSConfig_def option.case Let_def
    by (intro always_intros) (auto simp: tls_secret_keys_def tls_outcome_def tls_matches_def)
qed

lemma always_LoadTLSConfig [always_intros]:
  assumes "\<And>r new. list_all (reads_secret (tls_secret_keys cfg)) new \<Longrightarrow> tls_outcome cfg r new \<Longrightarrow>
    Q r (L @ new)"
  shows "always (LoadTLSConfig e cfg) Q L"
  using LoadTLSConfig_reads by (rule always_mono) (use assms in blast)

lemma LoadTLSConfig_None: "LoadTLSConfig e None = State_Monad.return (Inr None)"
  by (simp add: LoadTLSConfig_def)

end
