(* ===== verification/AdminClient.thy ===== *)
theory AdminClient
  imports Tls
begin

text \<open>
  \<^verbatim>\<open>internal/surreal/client.go\<close>: the administration interface the controllers use and its
  implementation over the SurrealDB driver, with the redaction of passwords in errors.
\<close>

section \<open>The interface\<close>

record 'w Admin =
  adm_define_user :: "UserTarget \<Rightarrow> string \<Rightarrow> string \<Rightarrow> SurrealRole list \<Rightarrow> ('w, go_error option) state"
  adm_remove_user :: "UserTarget \<Rightarrow> string \<Rightarrow> ('w, go_error option) state"
  adm_ping :: "('w, go_error option) state"
  adm_close :: "('w, go_error option) state"

section \<open>The implementation\<close>

text \<open>The loop over the statement results, from statement \<open>i\<close> on.\<close>

fun first_statement_error :: "nat \<Rightarrow> go_error option list \<Rightarrow> go_error option" where
  "first_statement_error i [] = None"
| "first_statement_error i (r # rs) =
    (case r of
       Some err \<Rightarrow> Some (wrapf (''surrealql statement '' @ show_nat i @ '' failed: '') err)
     | None \<Rightarrow> first_statement_error (Suc i) rs)"

definition execQuery :: "'w driver \<Rightarrow> db_handle \<Rightarrow> string \<Rightarrow> ('w, go_error option) state" where
  "execQuery d db query = do {
     results \<leftarrow> drv_query d db query;
     case results of
       Inl err \<Rightarrow> State_Monad.return (Some (wrapf ''execute surrealql: '' err))
     | Inr results \<Rightarrow> State_Monad.return (first_statement_error 0 results)
   }"

definition redactPasswordError :: "ucd \<Rightarrow> go_error option \<Rightarrow> string \<Rightarrow> go_error option" where
  "redactPasswordError u err password =
    (case err of
       None \<Rightarrow> None
     | Some e \<Rightarrow>
       if password = [] then Some e
       else
         (let message = err_text e;
              message = replace_all (quote u password) ''[redacted]'' message;
              message = replace_all password ''[redacted]'' message
          in Some (errorf message)))"

definition DefineUser ::
  "ucd \<Rightarrow> 'w driver \<Rightarrow> db_handle \<Rightarrow> UserTarget \<Rightarrow> string \<Rightarrow> string \<Rightarrow> SurrealRole list
    \<Rightarrow> ('w, go_error option) state" where
  "DefineUser u d db target username password roles =
    (case DefineUserQuery u target username password roles of
       Inl err \<Rightarrow> State_Monad.return (Some err)
     | Inr query \<Rightarrow> do {
         err \<leftarrow> execQuery d db query;
         (case err of
            Some err \<Rightarrow> State_Monad.return (redactPasswordError u (Some err) password)
          | None \<Rightarrow> State_Monad.return None)
       })"

definition RemoveUser ::
  "ucd \<Rightarrow> 'w driver \<Rightarrow> db_handle \<Rightarrow> UserTarget \<Rightarrow> string \<Rightarrow> ('w, go_error option) state" where
  "RemoveUser u d db target username =
    (case RemoveUserQuery u target username of
       Inl err \<Rightarrow> State_Monad.return (Some err)
     | Inr query \<Rightarrow> execQuery d db query)"

definition Ping :: "'w driver \<Rightarrow> db_handle \<Rightarrow> ('w, go_error option) state" where
  "Ping d db = execQuery d db ''RETURN true;''"

text \<open>A handle stands for a client whose connection is not nil.\<close>

definition Close :: "'w driver \<Rightarrow> db_handle \<Rightarrow> ('w, go_error option) state" where
  "Close d db = drv_close d db"

definition admin_client :: "ucd \<Rightarrow> 'w driver \<Rightarrow> db_handle \<Rightarrow> 'w Admin" where
  "admin_client u d db =
    \<lparr>adm_define_user = DefineUser u d db,
     adm_remove_user = RemoveUser u d db,
     adm_ping = Ping d db,
     adm_close = Close d db\<rparr>"

definition openDB :: "'w env \<Rightarrow> string \<Rightarrow> TLSConfig option \<Rightarrow> ('w, db_handle result) state" where
  "openDB e endpoint tlsConfig =
    (case ParseEndpointURL (env_ucd e) (parse_authority_path e) endpoint of
       Inl err \<Rightarrow> State_Monad.return (Inl err)
     | Inr url \<Rightarrow>
       if tlsConfig \<noteq> None then
         State_Monad.return (Inl (errorf
           (''custom TLS config is not currently supported for '' @ url_scheme url @ '' endpoints'')))
       else drv_from_endpoint (surreal_driver e) (url_text url))"

definition NewAdminClientWithTLS ::
  "'w env \<Rightarrow> string \<Rightarrow> string \<Rightarrow> string \<Rightarrow> TLSConfig option \<Rightarrow> ('w, 'w Admin result) state" where
  "NewAdminClientWithTLS e endpoint username password tlsConfig = do {
     opened \<leftarrow> openDB e endpoint tlsConfig;
     case opened of
       Inl err \<Rightarrow> State_Monad.return (Inl (wrapf ''connect to surrealdb: '' err))
     | Inr db \<Rightarrow> do {
         signed \<leftarrow> drv_sign_in (surreal_driver e) db username password;
         (case signed of
            Some err \<Rightarrow> do {
              _ \<leftarrow> Close (surreal_driver e) db;
              State_Monad.return (Inl (wrapf ''sign in to surrealdb: '' err))
            }
          | None \<Rightarrow> State_Monad.return (Inr (admin_client (env_ucd e) (surreal_driver e) db)))
       }
   }"

definition NewAdminClient ::
  "'w env \<Rightarrow> string \<Rightarrow> string \<Rightarrow> string \<Rightarrow> ('w, 'w Admin result) state" where
  "NewAdminClient e endpoint username password = NewAdminClientWithTLS e endpoint username password None"

section \<open>Redaction\<close>

text \<open>
  After replacing every occurrence of a password by a text that shares no character with it at its
  ends, the password can only occur inside the replacement.
\<close>

lemma occurs_replacement_split:
  assumes "occurs p (a @ CHR ''['' # m @ CHR '']'' # b)"
    and "CHR ''['' \<notin> set p" and "CHR '']'' \<notin> set p"
  shows "occurs p a \<or> occurs p m \<or> occurs p b"
  using occurs_split_at [OF assms(1,2)] occurs_split_at [of p m "CHR '']''" b] assms(3) by auto

definition redaction :: string where "redaction = ''[redacted]''"

lemma redaction_eq: "redaction = CHR ''['' # ''redacted'' @ [CHR '']'']"
  by (simp add: redaction_def)

text \<open>A text without an opening bracket that begins the result also begins the input.\<close>

lemma replace_all_prefix:
  assumes "p \<noteq> []" and "CHR ''['' \<notin> set q" and "strip_prefix q (replace_all p redaction s) \<noteq> None"
  shows "strip_prefix q s \<noteq> None"
  using assms(2,3)
proof (induction s arbitrary: q)
  case Nil
  then show ?case by (simp add: replace_all_Nil [OF assms(1)])
next
  case (Cons c cs)
  show ?case
  proof (cases "strip_prefix p (c # cs)")
    case None
    from Cons.prems Cons.IH [of "tl q"] show ?thesis
      by (cases q) (auto simp: replace_all_skip [OF assms(1) None] split: if_splits)
  next
    case (Some t)
    then have "replace_all p redaction (c # cs) = redaction @ replace_all p redaction t"
      using replace_all_match [OF assms(1), of redaction t] by (simp add: strip_prefix_Some)
    with Cons.prems show ?thesis
      by (cases q) (auto simp: redaction_def split: if_splits)
  qed
qed

lemma occurs_Cons_iff: "occurs p (c # s) \<longleftrightarrow> strip_prefix p (c # s) \<noteq> None \<or> occurs p s"
proof
  assume "occurs p (c # s)"
  then obtain a b where eq: "c # s = a @ p @ b" by (auto simp: occurs_def)
  show "strip_prefix p (c # s) \<noteq> None \<or> occurs p s"
  proof (cases a)
    case Nil
    with eq have "strip_prefix p (c # s) = Some b" by (simp add: strip_prefix_Some)
    then show ?thesis by simp
  next
    case (Cons x xs)
    with eq show ?thesis by (auto simp: occurs_def)
  qed
next
  assume "strip_prefix p (c # s) \<noteq> None \<or> occurs p s"
  then show "occurs p (c # s)"
  proof
    assume "strip_prefix p (c # s) \<noteq> None"
    then obtain t where "c # s = p @ t" by (auto simp: strip_prefix_Some)
    then show ?thesis by (intro occursI [of _ "[]"]) simp
  qed (rule occurs_Cons)
qed

lemma replace_all_removes:
  assumes "p \<noteq> []" and "CHR ''['' \<notin> set p" and "CHR '']'' \<notin> set p" and "\<not> occurs p ''redacted''"
  shows "\<not> occurs p (replace_all p redaction s)"
proof (induction s rule: length_induct)
  case (1 s)
  show ?case
  proof (cases "strip_prefix p s")
    case (Some t)
    then have s: "s = p @ t" by (simp add: strip_prefix_Some)
    with assms(1) 1 have IH: "\<not> occurs p (replace_all p redaction t)" by simp
    show ?thesis
    proof
      assume "occurs p (replace_all p redaction s)"
      then have "occurs p ([] @ CHR ''['' # ''redacted'' @ CHR '']'' # replace_all p redaction t)"
        by (simp add: s replace_all_match [OF assms(1)] redaction_eq)
      from occurs_replacement_split [OF this assms(2,3)] IH assms(1,4) show False
        by (auto dest: occurs_length)
    qed
  next
    case None
    show ?thesis
    proof (cases s)
      case Nil
      with assms(1) show ?thesis by (auto simp: replace_all_Nil dest: occurs_length)
    next
      case (Cons c cs)
      with 1 have IH: "\<not> occurs p (replace_all p redaction cs)" by simp
      have r: "replace_all p redaction s = c # replace_all p redaction cs"
        using None Cons by (simp add: replace_all_skip [OF assms(1)])
      have "strip_prefix p (replace_all p redaction s) = None"
        using replace_all_prefix [OF assms(1,2), of s] None by blast
      with IH r show ?thesis by (simp add: occurs_Cons_iff)
    qed
  qed
qed

lemma redactPasswordError_Some:
  assumes "redactPasswordError u (Some e) pw = Some e'" and "pw \<noteq> []"
  shows "err_text e' = replace_all pw redaction (replace_all (quote u pw) redaction (err_text e))"
proof -
  have "redactPasswordError u (Some e) pw
      = Some (errorf (replace_all pw redaction (replace_all (quote u pw) redaction (err_text e))))"
    using assms(2) by (simp only: redactPasswordError_def Let_def redaction_def option.case if_False)
  from trans [OF sym [OF this] assms(1)]
  have "errorf (replace_all pw redaction (replace_all (quote u pw) redaction (err_text e))) = e'"
    by (rule option.inject [THEN iffD1])
  note e' = this [symmetric]
  show ?thesis unfolding e' by (rule errorf_simps(2))
qed

lemma redactPasswordError_hides:
  assumes "redactPasswordError u (Some e) pw = Some e'" and "pw \<noteq> []"
    and "CHR ''['' \<notin> set pw" and "CHR '']'' \<notin> set pw" and "\<not> occurs pw ''redacted''"
  shows "\<not> occurs pw (err_text e')"
proof -
  have "\<not> occurs pw (replace_all pw redaction (replace_all (quote u pw) redaction (err_text e)))"
    using assms(2-5) by (rule replace_all_removes)
  with redactPasswordError_Some [OF assms(1,2)] show ?thesis by (simp only: not_False_eq_True)
qed

lemma alphabet_no_bracket: "CHR ''['' \<notin> set passwordAlphabet" "CHR '']'' \<notin> set passwordAlphabet"
  by (simp_all add: passwordAlphabet_def)

lemma password_chars_no_bracket:
  "list_all password_char p \<Longrightarrow> CHR ''['' \<notin> set p \<and> CHR '']'' \<notin> set p"
  using alphabet_no_bracket unfolding list_all_iff password_char_def by blast

text \<open>Errors of a query carry a redacted text.\<close>

lemma DefineUser_query_error:
  "wp (DefineUser u d db t n pw roles)
     (\<lambda>r _. \<forall>e. r = Some e \<longrightarrow>
        DefineUserQuery u t n pw roles = Inl e \<or>
        (\<exists>e0. redactPasswordError u (Some e0) pw = Some e)) s"
  by (auto simp: DefineUser_def wp_def split: sum.splits option.splits prod.splits)

section \<open>The schemes a connection can have\<close>

lemma openDB_needs_websocket:
  "wp (openDB e endpoint tls) (\<lambda>r _. \<forall>db. r = Inr db \<longrightarrow>
     tls = None \<and> (\<exists>url. ParseEndpointURL (env_ucd e) (parse_authority_path e) endpoint = Inr url \<and>
       url_scheme url \<in> {''ws'', ''wss''})) s"
  by (auto simp: openDB_def wp_def dest: ParseEndpointURL_scheme split: sum.splits)

end
