(* ===== verification/Kube.thy ===== *)
theory Kube
  imports Conditions AdminClient
begin

text \<open>
  The calls the controllers make, each logged with its reply, and the small helpers of
  controller-runtime and apimachinery they share: results, finalizers, deletion time stamps.
\<close>

section \<open>Results\<close>

text \<open>\<^verbatim>\<open>ctrl.Result\<close>\<close>

record ctrl_result =
  res_requeue :: bool
  res_requeue_after :: duration

definition no_requeue :: ctrl_result where
  "no_requeue = \<lparr>res_requeue = False, res_requeue_after = 0\<rparr>"

type_synonym reconcile_result = "ctrl_result \<times> go_error option"

abbreviation done_ok :: reconcile_result where "done_ok \<equiv> (no_requeue, None)"

text \<open>The error of a call, when only that is used.\<close>

definition error_of :: "'a result \<Rightarrow> go_error option" where
  "error_of r = (case r of Inl err \<Rightarrow> Some err | Inr _ \<Rightarrow> None)"

lemma error_of_simps [simp, go_simps]: "error_of (Inl err) = Some err" "error_of (Inr a) = None"
  by (simp_all add: error_of_def)

lemma error_of_None: "error_of r = None \<longleftrightarrow> (\<exists>a. r = Inr a)"
  by (cases r) simp_all

lemma error_of_Some: "error_of r = Some err \<longleftrightarrow> r = Inl err"
  by (cases r) simp_all

text \<open>\<^verbatim>\<open>client.IgnoreNotFound\<close>\<close>

definition IgnoreNotFound :: "go_error \<Rightarrow> go_error option" where
  "IgnoreNotFound err = (if is_not_found err then None else Some err)"

text \<open>An object a call refreshed in place: the reply when there is one.\<close>

definition refreshed :: "'a \<Rightarrow> 'a result \<Rightarrow> 'a" where
  "refreshed old r = (case r of Inl _ \<Rightarrow> old | Inr a \<Rightarrow> a)"

lemma refreshed_simps [simp]: "refreshed old (Inl err) = old" "refreshed old (Inr a) = a"
  by (simp_all add: refreshed_def)

section \<open>Calls of the API server\<close>

definition api_get_credential :: "'w env \<Rightarrow> NamespacedName \<Rightarrow> ('w, SurrealDBCredential result) prog" where
  "api_get_credential e x = call (get_credential e x) (EvGetCredential x)"

definition api_get_policy :: "'w env \<Rightarrow> NamespacedName \<Rightarrow> ('w, SurrealDBTenantPolicy result) prog" where
  "api_get_policy e x = call (get_policy e x) (EvGetPolicy x)"

definition api_get_provider :: "'w env \<Rightarrow> NamespacedName \<Rightarrow> ('w, SurrealDBProvider result) prog" where
  "api_get_provider e x = call (get_provider e x) (EvGetProvider x)"

definition api_update_credential :: "'w env \<Rightarrow> SurrealDBCredential \<Rightarrow> ('w, SurrealDBCredential result) prog" where
  "api_update_credential e x = call (update_credential e x) (EvUpdateCredential x)"

definition api_status_credential :: "'w env \<Rightarrow> SurrealDBCredential \<Rightarrow> ('w, SurrealDBCredential result) prog" where
  "api_status_credential e x = call (status_update_credential e x) (EvStatusCredential x)"

definition api_status_policy :: "'w env \<Rightarrow> SurrealDBTenantPolicy \<Rightarrow> ('w, SurrealDBTenantPolicy result) prog" where
  "api_status_policy e x = call (status_update_policy e x) (EvStatusPolicy x)"

definition api_status_provider :: "'w env \<Rightarrow> SurrealDBProvider \<Rightarrow> ('w, SurrealDBProvider result) prog" where
  "api_status_provider e x = call (status_update_provider e x) (EvStatusProvider x)"

definition api_create_secret :: "'w env \<Rightarrow> Secret \<Rightarrow> ('w, Secret result) prog" where
  "api_create_secret e x = call (create_secret e x) (EvCreateSecret x)"

definition api_update_secret :: "'w env \<Rightarrow> Secret \<Rightarrow> ('w, Secret result) prog" where
  "api_update_secret e x = call (update_secret e x) (EvUpdateSecret x)"

definition api_delete_secret :: "'w env \<Rightarrow> Secret \<Rightarrow> ('w, go_error option) prog" where
  "api_delete_secret e x = call (delete_secret e x) (EvDeleteSecret x)"

definition api_list_providers :: "'w env \<Rightarrow> ('w, SurrealDBProvider list result) prog" where
  "api_list_providers e = call (list_providers e) EvListProviders"

section \<open>Calls of SurrealDB\<close>

type_synonym 'w admin_factory =
  "string \<Rightarrow> string \<Rightarrow> string \<Rightarrow> TLSConfig option \<Rightarrow> ('w, 'w Admin result) state"

definition surreal_connect ::
  "'w admin_factory \<Rightarrow> string \<Rightarrow> string \<Rightarrow> string \<Rightarrow> TLSConfig option \<Rightarrow> ('w, 'w Admin result) prog" where
  "surreal_connect factory endpoint username password tls =
     call (factory endpoint username password tls)
       (\<lambda>r. EvConnect endpoint username password (error_of r))"

definition surreal_define_user ::
  "'w Admin \<Rightarrow> UserTarget \<Rightarrow> string \<Rightarrow> string \<Rightarrow> SurrealRole list \<Rightarrow> ('w, go_error option) prog" where
  "surreal_define_user admin target username password roles =
     call (adm_define_user admin target username password roles)
       (EvDefineUser target username password roles)"

definition surreal_remove_user :: "'w Admin \<Rightarrow> UserTarget \<Rightarrow> string \<Rightarrow> ('w, go_error option) prog" where
  "surreal_remove_user admin target username =
     call (adm_remove_user admin target username) (EvRemoveUser target username)"

text \<open>The deferred close, whose error is dropped.\<close>

definition surreal_close :: "'w Admin \<Rightarrow> ('w, go_error option) prog" where
  "surreal_close admin = call (adm_close admin) (\<lambda>_. EvClose)"

section \<open>Rules for the calls\<close>

lemma always_api_get_credential [always_intros]:
  "(\<And>r. Q r (L @ [EvGetCredential x r])) \<Longrightarrow> always (api_get_credential e x) Q L"
  unfolding api_get_credential_def by (rule always_call)

lemma always_api_get_policy [always_intros]:
  "(\<And>r. Q r (L @ [EvGetPolicy x r])) \<Longrightarrow> always (api_get_policy e x) Q L"
  unfolding api_get_policy_def by (rule always_call)

lemma always_api_get_provider [always_intros]:
  "(\<And>r. Q r (L @ [EvGetProvider x r])) \<Longrightarrow> always (api_get_provider e x) Q L"
  unfolding api_get_provider_def by (rule always_call)

lemma always_api_update_credential [always_intros]:
  "(\<And>r. Q r (L @ [EvUpdateCredential x r])) \<Longrightarrow> always (api_update_credential e x) Q L"
  unfolding api_update_credential_def by (rule always_call)

lemma always_api_status_credential [always_intros]:
  "(\<And>r. can_return (status_update_credential e x) r \<Longrightarrow> Q r (L @ [EvStatusCredential x r])) \<Longrightarrow>
    always (api_status_credential e x) Q L"
  unfolding api_status_credential_def by (rule always_call_can)

lemma always_api_status_policy [always_intros]:
  "(\<And>r. Q r (L @ [EvStatusPolicy x r])) \<Longrightarrow> always (api_status_policy e x) Q L"
  unfolding api_status_policy_def by (rule always_call)

lemma always_api_status_provider [always_intros]:
  "(\<And>r. Q r (L @ [EvStatusProvider x r])) \<Longrightarrow> always (api_status_provider e x) Q L"
  unfolding api_status_provider_def by (rule always_call)

lemma always_api_create_secret [always_intros]:
  "(\<And>r. Q r (L @ [EvCreateSecret x r])) \<Longrightarrow> always (api_create_secret e x) Q L"
  unfolding api_create_secret_def by (rule always_call)

lemma always_api_update_secret [always_intros]:
  "(\<And>r. Q r (L @ [EvUpdateSecret x r])) \<Longrightarrow> always (api_update_secret e x) Q L"
  unfolding api_update_secret_def by (rule always_call)

lemma always_api_delete_secret [always_intros]:
  "(\<And>r. Q r (L @ [EvDeleteSecret x r])) \<Longrightarrow> always (api_delete_secret e x) Q L"
  unfolding api_delete_secret_def by (rule always_call)

lemma always_api_list_providers [always_intros]:
  "(\<And>r. Q r (L @ [EvListProviders r])) \<Longrightarrow> always (api_list_providers e) Q L"
  unfolding api_list_providers_def by (rule always_call)

lemma always_connect [always_intros]:
  "(\<And>r. Q r (L @ [EvConnect ep u p (error_of r)])) \<Longrightarrow> always (surreal_connect f ep u p t) Q L"
  unfolding surreal_connect_def by (rule always_call)

lemma always_define_user [always_intros]:
  "(\<And>r. Q r (L @ [EvDefineUser t n p roles r])) \<Longrightarrow> always (surreal_define_user a t n p roles) Q L"
  unfolding surreal_define_user_def by (rule always_call)

lemma always_remove_user [always_intros]:
  "(\<And>r. Q r (L @ [EvRemoveUser t n r])) \<Longrightarrow> always (surreal_remove_user a t n) Q L"
  unfolding surreal_remove_user_def by (rule always_call)

lemma always_close [always_intros]:
  "(\<And>r. Q r (L @ [EvClose])) \<Longrightarrow> always (surreal_close a) Q L"
  unfolding surreal_close_def by (rule always_call)

section \<open>Finalizers and deletion\<close>

text \<open>\<^verbatim>\<open>DeletionTimestamp.IsZero()\<close>\<close>

definition deletion_is_zero :: "ObjectMeta \<Rightarrow> bool" where
  "deletion_is_zero m = time_is_zero (om_deletion_timestamp m)"

text \<open>What \<^verbatim>\<open>controllerutil\<close> documents of its operations on the finalizers of an object.\<close>

locale finalizer_ops =
  fixes contains :: "string list \<Rightarrow> string \<Rightarrow> bool"
    and add :: "string list \<Rightarrow> string \<Rightarrow> string list"
    and remove :: "string list \<Rightarrow> string \<Rightarrow> string list"
  assumes contains_iff: "contains fs f \<longleftrightarrow> f \<in> set fs"
    and set_add: "set (add fs f) = insert f (set fs)"
    and set_remove: "set (remove fs f) = set fs - {f}"
begin

lemma contains_add: "contains (add fs f) g \<longleftrightarrow> g = f \<or> contains fs g"
  by (simp add: contains_iff set_add)

lemma contains_remove: "contains (remove fs f) g \<longleftrightarrow> g \<noteq> f \<and> contains fs g"
  by (auto simp: contains_iff set_remove)

end

definition finalizer_present :: "string list \<Rightarrow> string \<Rightarrow> bool" where
  "finalizer_present fs f = list_ex (\<lambda>g. g = f) fs"

definition finalizer_added :: "string list \<Rightarrow> string \<Rightarrow> string list" where
  "finalizer_added fs f = (if finalizer_present fs f then fs else fs @ [f])"

definition finalizer_removed :: "string list \<Rightarrow> string \<Rightarrow> string list" where
  "finalizer_removed fs f = filter (\<lambda>g. g \<noteq> f) fs"

interpretation list_finalizers: finalizer_ops finalizer_present finalizer_added finalizer_removed
  by unfold_locales
    (auto simp: finalizer_present_def finalizer_added_def finalizer_removed_def list_ex_iff)

section \<open>Kinds of calls\<close>

text \<open>A read changes nothing in the cluster or in the database.\<close>

fun is_read :: "event \<Rightarrow> bool" where
  "is_read (EvGetCredential _ _) = True"
| "is_read (EvGetPolicy _ _) = True"
| "is_read (EvGetProvider _ _) = True"
| "is_read (EvGetSecret _ _) = True"
| "is_read (EvListProviders _) = True"
| "is_read _ = False"

text \<open>A call to SurrealDB.\<close>

fun is_surreal :: "event \<Rightarrow> bool" where
  "is_surreal (EvConnect _ _ _ _) = True"
| "is_surreal (EvDefineUser _ _ _ _ _) = True"
| "is_surreal (EvRemoveUser _ _ _) = True"
| "is_surreal EvClose = True"
| "is_surreal _ = False"

text \<open>A call that writes an object other than the status of a custom resource.\<close>

fun is_write :: "event \<Rightarrow> bool" where
  "is_write (EvUpdateCredential _ _) = True"
| "is_write (EvCreateSecret _ _) = True"
| "is_write (EvUpdateSecret _ _) = True"
| "is_write (EvDeleteSecret _ _) = True"
| "is_write _ = False"

lemma reads_secret_is_read: "list_all (reads_secret ks) new \<Longrightarrow> list_all is_read new"
  by (auto simp: list_all_iff reads_secret_def)

end
