(* ===== verification/Rotation.thy ===== *)
theory Rotation
  imports ApiTypes
begin

text \<open>
  \<^verbatim>\<open>internal/rotation/decision.go\<close>: whether a reconciliation reuses the password, generates one or
  rotates it, and the times and trigger it records.
\<close>

section \<open>The code\<close>

definition AnnotationRotateAt :: string where
  "AnnotationRotateAt = ''surrealdb.seamlezz.com/rotate-at''"

datatype Action = ActionReuse | ActionGenerate | ActionRotate

record Decision =
  dec_action :: Action
  dec_reason :: string
  dec_manual_trigger :: string
  dec_next_rotation_time :: "gtime option"
  dec_last_rotation_time :: "gtime option"

definition timePtr :: "gtime \<Rightarrow> gtime option" where
  "timePtr t = Some t"

definition computeNext ::
  "gtime \<Rightarrow> gtime option \<Rightarrow> gtime option \<Rightarrow> duration option \<Rightarrow> gtime option" where
  "computeNext now lastRotationTime nextRotationTime period =
    (case period of
       None \<Rightarrow> None
     | Some period \<Rightarrow>
       (let base = (case lastRotationTime of None \<Rightarrow> now | Some t \<Rightarrow> t);
            candidate = time_add base period
        in case nextRotationTime of
             None \<Rightarrow> timePtr candidate
           | Some next \<Rightarrow>
             if time_before next candidate \<or> time_equal next candidate then Some next
             else timePtr candidate))"

definition Decide ::
  "gtime \<Rightarrow> bool \<Rightarrow> string gomap \<Rightarrow> string \<Rightarrow> gtime option \<Rightarrow> gtime option \<Rightarrow> duration option
    \<Rightarrow> Decision" where
  "Decide now hasPassword annotations lastManualTrigger lastRotationTime nextRotationTime period =
    (let manual = (if annotations \<noteq> None then map_index_str annotations AnnotationRotateAt else []);
         fresh = (\<lambda>action reason trigger.
           \<lparr>dec_action = action, dec_reason = reason, dec_manual_trigger = trigger,
            dec_next_rotation_time = computeNext now (timePtr now) None period,
            dec_last_rotation_time = timePtr now\<rparr>)
     in
     if \<not> hasPassword then fresh ActionGenerate ''PasswordMissing'' manual
     else if manual \<noteq> [] \<and> manual \<noteq> lastManualTrigger then
       fresh ActionRotate ''ManualTriggerChanged'' manual
     else if period \<noteq> None then
       (let next = computeNext now lastRotationTime nextRotationTime period in
        if (case next of None \<Rightarrow> False | Some next \<Rightarrow> \<not> time_before now next) then
          fresh ActionRotate ''ScheduledRotationDue'' lastManualTrigger
        else
          \<lparr>dec_action = ActionReuse, dec_reason = ''PasswordCurrent'',
           dec_manual_trigger = lastManualTrigger, dec_next_rotation_time = next,
           dec_last_rotation_time = lastRotationTime\<rparr>)
     else
       \<lparr>dec_action = ActionReuse, dec_reason = ''PasswordCurrent'',
        dec_manual_trigger = lastManualTrigger, dec_next_rotation_time = None,
        dec_last_rotation_time = lastRotationTime\<rparr>)"

section \<open>The schedule\<close>

text \<open>The instant a rotation is due: one period after the last one, never later than recorded.\<close>

definition period_end :: "gtime \<Rightarrow> gtime option \<Rightarrow> duration \<Rightarrow> gtime" where
  "period_end now lrt p = (case lrt of None \<Rightarrow> now | Some l \<Rightarrow> l) + sint p"

definition due_at :: "gtime \<Rightarrow> gtime option \<Rightarrow> gtime option \<Rightarrow> duration \<Rightarrow> gtime" where
  "due_at now lrt nrt p =
    (case nrt of None \<Rightarrow> period_end now lrt p | Some n \<Rightarrow> min n (period_end now lrt p))"

lemma computeNext_due_at: "computeNext now lrt nrt (Some p) = Some (due_at now lrt nrt p)"
  by (auto simp: computeNext_def due_at_def period_end_def timePtr_def time_add_def time_before_def
      time_equal_def Let_def min_def split: option.splits)

lemma computeNext_None [simp]: "computeNext now lrt nrt None = None"
  by (simp add: computeNext_def)

lemma due_at_le_period_end: "due_at now lrt nrt p \<le> period_end now lrt p"
  by (simp add: due_at_def split: option.splits)

lemma due_at_le_next: "due_at now lrt (Some n) p \<le> n"
  by (simp add: due_at_def)

text \<open>A manual rotation is pending when the annotation holds a value not yet processed.\<close>

definition manual_value :: "string gomap \<Rightarrow> string" where
  "manual_value ann = map_index_str ann AnnotationRotateAt"

definition manual_pending :: "string gomap \<Rightarrow> string \<Rightarrow> bool" where
  "manual_pending ann processed \<longleftrightarrow> manual_value ann \<noteq> [] \<and> manual_value ann \<noteq> processed"

definition schedule_due :: "gtime \<Rightarrow> gtime option \<Rightarrow> gtime option \<Rightarrow> duration option \<Rightarrow> bool" where
  "schedule_due now lrt nrt period \<longleftrightarrow>
    (case period of None \<Rightarrow> False | Some p \<Rightarrow> due_at now lrt nrt p \<le> now)"

lemma map_index_str_None [simp]: "map_index_str None k = []"
  by (simp add: map_index_str_def)

lemma manual_in_Decide:
  "(if ann \<noteq> None then map_index_str ann AnnotationRotateAt else []) = manual_value ann"
  by (auto simp: manual_value_def)

text \<open>The three outcomes of a decision.\<close>

definition fresh_decision ::
  "Action \<Rightarrow> string \<Rightarrow> string \<Rightarrow> gtime \<Rightarrow> duration option \<Rightarrow> Decision" where
  "fresh_decision a reason trigger now period =
    \<lparr>dec_action = a, dec_reason = reason, dec_manual_trigger = trigger,
     dec_next_rotation_time = map_option (\<lambda>p. now + sint p) period,
     dec_last_rotation_time = Some now\<rparr>"

definition reuse_decision ::
  "string \<Rightarrow> gtime option \<Rightarrow> gtime option \<Rightarrow> Decision" where
  "reuse_decision trigger lrt nrt =
    \<lparr>dec_action = ActionReuse, dec_reason = ''PasswordCurrent'', dec_manual_trigger = trigger,
     dec_next_rotation_time = nrt, dec_last_rotation_time = lrt\<rparr>"

lemma due_at_now [simp]: "due_at now (Some now) None p = now + sint p"
  by (simp add: due_at_def period_end_def)

lemma computeNext_fresh: "computeNext now (timePtr now) None period = map_option (\<lambda>p. now + sint p) period"
  by (cases period) (simp_all add: computeNext_due_at timePtr_def)

lemma Decide_cases:
  "Decide now has ann trig lrt nrt period =
    (if \<not> has then fresh_decision ActionGenerate ''PasswordMissing'' (manual_value ann) now period
     else if manual_pending ann trig then
       fresh_decision ActionRotate ''ManualTriggerChanged'' (manual_value ann) now period
     else if schedule_due now lrt nrt period then
       fresh_decision ActionRotate ''ScheduledRotationDue'' trig now period
     else reuse_decision trig lrt (map_option (due_at now lrt nrt) period))"
  unfolding Decide_def manual_in_Decide Let_def
  by (cases period)
    (simp_all add: computeNext_fresh computeNext_due_at fresh_decision_def reuse_decision_def
      manual_pending_def schedule_due_def timePtr_def time_before_def not_less)

lemmas decision_defs = fresh_decision_def reuse_decision_def

lemma Decide_generate_iff: "dec_action (Decide now has ann trig lrt nrt period) = ActionGenerate \<longleftrightarrow> \<not> has"
  by (simp add: Decide_cases decision_defs)

lemma Decide_rotate_iff:
  "dec_action (Decide now has ann trig lrt nrt period) = ActionRotate \<longleftrightarrow>
    has \<and> (manual_pending ann trig \<or> schedule_due now lrt nrt period)"
  by (simp add: Decide_cases decision_defs)

lemma Decide_reuse_iff:
  "dec_action (Decide now has ann trig lrt nrt period) = ActionReuse \<longleftrightarrow>
    has \<and> \<not> manual_pending ann trig \<and> \<not> schedule_due now lrt nrt period"
  by (simp add: Decide_cases decision_defs)

lemma Decide_last:
  "dec_action (Decide now has ann trig lrt nrt period) \<noteq> ActionReuse \<Longrightarrow>
    dec_last_rotation_time (Decide now has ann trig lrt nrt period) = Some now"
  unfolding Decide_cases by (simp add: decision_defs split: if_splits)

text \<open>
  Deciding again from what a decision recorded, before the recorded instant, keeps the password
  and records the same values.
\<close>

lemma manual_processed:
  "\<not> manual_pending ann (dec_manual_trigger (Decide now has ann trig lrt nrt period))"
  by (simp add: Decide_cases decision_defs manual_pending_def)

lemma due_at_again:
  assumes "now \<le> now'"
  shows "due_at now' lrt (Some (due_at now lrt nrt p)) p = due_at now lrt nrt p"
  using assms by (auto simp: due_at_def period_end_def split: option.splits)

lemma due_at_after_fresh: "due_at now' (Some now) (Some (now + sint p)) p = now + sint p"
  by (simp add: due_at_def period_end_def)

lemma Decide_again:
  assumes d: "d = Decide now has ann trig lrt nrt period"
    and "now \<le> now'"
    and before: "\<And>n. dec_next_rotation_time d = Some n \<Longrightarrow> now' < n"
  shows "Decide now' True ann (dec_manual_trigger d) (dec_last_rotation_time d)
      (dec_next_rotation_time d) period
    = reuse_decision (dec_manual_trigger d) (dec_last_rotation_time d) (dec_next_rotation_time d)"
proof -
  have m: "\<not> manual_pending ann (dec_manual_trigger d)"
    unfolding d by (rule manual_processed)
  have "map_option (due_at now' (dec_last_rotation_time d) (dec_next_rotation_time d)) period
      = dec_next_rotation_time d"
    using assms(2) unfolding d
    by (cases period) (simp_all add: Decide_cases decision_defs due_at_again due_at_after_fresh)
  moreover from this have "\<not> schedule_due now' (dec_last_rotation_time d) (dec_next_rotation_time d) period"
    using before by (cases period) (auto simp: schedule_due_def not_le)
  ultimately show ?thesis
    using m by (simp add: Decide_cases)
qed

section \<open>The properties\<close>

text \<open>
  C34. The decision is complete and exclusive: a password is generated exactly when there is none,
  rotated exactly when there is one and a new manual trigger is set or the scheduled instant has
  come, and reused otherwise; a rotation is scheduled exactly when a period is set.
\<close>

theorem Decide_outcome:
  "(dec_action (Decide now has ann trig lrt nrt period) = ActionGenerate \<longleftrightarrow> \<not> has) \<and>
   (dec_action (Decide now has ann trig lrt nrt period) = ActionRotate \<longleftrightarrow>
      has \<and> (manual_pending ann trig \<or> schedule_due now lrt nrt period)) \<and>
   (dec_action (Decide now has ann trig lrt nrt period) = ActionReuse \<longleftrightarrow>
      has \<and> \<not> manual_pending ann trig \<and> \<not> schedule_due now lrt nrt period) \<and>
   (dec_next_rotation_time (Decide now has ann trig lrt nrt period) = None \<longleftrightarrow> period = None) \<and>
   \<not> manual_pending ann (dec_manual_trigger (Decide now has ann trig lrt nrt period))"
  by (intro conjI)
    (simp_all add: Decide_generate_iff Decide_rotate_iff Decide_reuse_iff manual_processed,
     simp add: Decide_cases decision_defs)

text \<open>
  Changing the period of a scheduled credential: while the password is reused, the recorded
  instant is the earlier of the one recorded before and the last rotation plus the new period, so a
  shorter period moves it forward and a longer one does not delay it; after a rotation it is the new
  period from now.
\<close>

lemma period_change:
  "dec_next_rotation_time (Decide now True ann trig (Some l) (Some n) (Some p)) =
    Some (if dec_action (Decide now True ann trig (Some l) (Some n) (Some p)) = ActionReuse
          then min n (l + sint p) else now + sint p)"
  by (simp add: Decide_cases decision_defs due_at_def period_end_def)

text \<open>
  A period that is zero or negative, which the schema does not exclude, rotates the password in
  every reconciliation: the instant the decision records is never after the time of the decision.
\<close>

lemma nonpositive_period_rotates_always:
  assumes "sint p \<le> 0" and "l \<le> now"
  shows "dec_action (Decide now True ann trig (Some l) nrt (Some p)) = ActionRotate \<and>
    (\<exists>t \<le> now. dec_next_rotation_time (Decide now True ann trig (Some l) nrt (Some p)) = Some t)"
proof -
  have "due_at now (Some l) nrt p \<le> now"
    using due_at_le_period_end [of now "Some l" nrt p] assms by (simp add: period_end_def)
  with assms show ?thesis
    by (simp add: Decide_cases decision_defs schedule_due_def)
qed

end
