(* ===== verification/CredentialController.thy ===== *)
theory CredentialController
  imports Kube Rotation Secrets
begin

text \<open>
  \<^verbatim>\<open>internal/controller/surrealdbcredential_controller.go\<close>: the reconciler that defines the SurrealDB
  user of a credential, writes the target Secret, rotates the password and cleans up on deletion.
  Objects the code mutates through a pointer are returned updated; logging is left out.
\<close>

section \<open>The reconciler\<close>

definition credentialFinalizer :: string where
  "credentialFinalizer = ''surrealdb.seamlezz.com/credential-finalizer''"

definition annotationForceCleanup :: string where
  "annotationForceCleanup = ''surrealdb.seamlezz.com/force-cleanup''"

definition surrealDBUnavailableRequeue :: ctrl_result where
  "surrealDBUnavailableRequeue = \<lparr>res_requeue = True, res_requeue_after = 0\<rparr>"

text \<open>The client with its environment, and the two fields that may be nil.\<close>

record 'w reconciler =
  rec_env :: "'w env"
  rec_admin_factory :: "'w admin_factory option"
  rec_clock :: "('w, gtime) state option"

record resolvedCredential =
  rv_policy :: SurrealDBTenantPolicy
  rv_provider :: SurrealDBProvider
  rv_root_username :: string
  rv_root_password :: string
  rv_tls_config :: "TLSConfig option"
  rv_username :: string
  rv_surreal_target :: UserTarget

definition newAdmin ::
  "'w reconciler \<Rightarrow> SurrealDBProvider \<Rightarrow> string \<Rightarrow> string \<Rightarrow> TLSConfig option
    \<Rightarrow> ('w, 'w Admin result) prog" where
  "newAdmin r provider username password tlsConfig =
    (let factory = (case rec_admin_factory r of
           None \<Rightarrow> NewAdminClientWithTLS (rec_env r)
         | Some factory \<Rightarrow> factory)
     in surreal_connect factory (ps_endpoint (prov_spec provider)) username password tlsConfig)"

text \<open>\<^verbatim>\<open>now\<close>\<close>

definition reconciler_now :: "'w reconciler \<Rightarrow> ('w, gtime) prog" where
  "reconciler_now r = quiet (case rec_clock r of None \<Rightarrow> time_now (rec_env r) | Some clock \<Rightarrow> clock)"

definition rotationPeriod :: "SurrealDBCredential \<Rightarrow> duration option" where
  "rotationPeriod credential =
    (case cs_rotation (cred_spec credential) of None \<Rightarrow> None | Some rotation \<Rightarrow> rot_period rotation)"

section \<open>Status of a credential\<close>

definition set_cred_conditions :: "SurrealDBCredential \<Rightarrow> Condition list \<Rightarrow> SurrealDBCredential" where
  "set_cred_conditions c cs = c\<lparr>cred_status := (cred_status c)\<lparr>cst_conditions := cs\<rparr>\<rparr>"

definition cred_generation :: "SurrealDBCredential \<Rightarrow> int" where
  "cred_generation c = om_generation (cred_meta c)"

definition observe_generation :: "SurrealDBCredential \<Rightarrow> SurrealDBCredential" where
  "observe_generation c =
    c\<lparr>cred_status := (cred_status c)\<lparr>cst_observed_generation := cred_generation c\<rparr>\<rparr>"

text \<open>The setters of \<open>Conditions\<close> on \<^verbatim>\<open>&credential.Status.Conditions\<close> and \<^verbatim>\<open>credential.Generation\<close>.\<close>

definition cred_set ::
  "'w env \<Rightarrow> SurrealDBCredential \<Rightarrow> string \<Rightarrow> string \<Rightarrow> string \<Rightarrow> string
    \<Rightarrow> ('w, SurrealDBCredential) prog" where
  "cred_set e c conditionType status reason message = do {
     cs \<leftarrow> Set e (cst_conditions (cred_status c)) (cred_generation c) conditionType status reason message;
     State_Monad.return (set_cred_conditions c cs)
   }"

definition cred_not_ready ::
  "'w env \<Rightarrow> SurrealDBCredential \<Rightarrow> string \<Rightarrow> string \<Rightarrow> ('w, SurrealDBCredential) prog" where
  "cred_not_ready e c reason message = do {
     cs \<leftarrow> NotReady e (cst_conditions (cred_status c)) (cred_generation c) reason message;
     State_Monad.return (set_cred_conditions c cs)
   }"

definition cred_ready ::
  "'w env \<Rightarrow> SurrealDBCredential \<Rightarrow> string \<Rightarrow> string \<Rightarrow> ('w, SurrealDBCredential) prog" where
  "cred_ready e c reason message = do {
     cs \<leftarrow> Ready e (cst_conditions (cred_status c)) (cred_generation c) reason message;
     State_Monad.return (set_cred_conditions c cs)
   }"

text \<open>\<^verbatim>\<open>return ctrl.Result{}, r.Status().Update(ctx, credential)\<close>\<close>

definition return_status_update :: "'w env \<Rightarrow> SurrealDBCredential \<Rightarrow> ('w, reconcile_result) prog" where
  "return_status_update e c = do {
     updated \<leftarrow> api_status_credential e c;
     State_Monad.return (no_requeue, error_of updated)
   }"

section \<open>Reading what a credential needs\<close>

text \<open>The four results of \<^verbatim>\<open>loadRootCredentials\<close>.\<close>

definition loadRootCredentials ::
  "'w env \<Rightarrow> SurrealDBProvider \<Rightarrow> ('w, string \<times> string \<times> bool \<times> go_error option) prog" where
  "loadRootCredentials e provider =
    (let ref = ps_root_credential_ref (prov_spec provider) in
     do {
       got \<leftarrow> api_get_secret e (NamespacedName (rc_namespace ref) (rc_name ref));
       case got of
         Inl err \<Rightarrow> State_Monad.return ([], [], False, Some err)
       | Inr secret \<Rightarrow>
         (let usernameKey = default_key ''username'' (rc_username_key ref);
              passwordKey = default_key ''password'' (rc_password_key ref);
              username = map_index_str (sec_data secret) usernameKey;
              password = map_index_str (sec_data secret) passwordKey
          in if username = [] \<or> password = [] then
               State_Monad.return ([], [], False, Some (errorf
                 (''root credential Secret '' @ rc_namespace ref @ ''/'' @ rc_name ref @
                  '' missing username or password keys'')))
             else State_Monad.return (username, password, True, None))
     })"

definition getTargetSecret ::
  "'w env \<Rightarrow> SurrealDBCredential \<Rightarrow> ('w, Secret option result) prog" where
  "getTargetSecret e credential = do {
     got \<leftarrow> api_get_secret e
       (NamespacedName (om_namespace (cred_meta credential)) (ts_name (cs_target_secret (cred_spec credential))));
     case got of
       Inl err \<Rightarrow>
         if is_not_found err then State_Monad.return (Inr None) else State_Monad.return (Inl err)
     | Inr secret \<Rightarrow> State_Monad.return (Inr (Some secret))
   }"

text \<open>
  \<^verbatim>\<open>resolve\<close> returns the resolved credential, a flag and an error.  The flag is true exactly when the
  pointer is not nil, so the two are one option; the credential it mutated comes first.
\<close>

type_synonym resolution = "SurrealDBCredential \<times> resolvedCredential option \<times> go_error option"

text \<open>The part of \<^verbatim>\<open>resolve\<close> after the provider has been read.\<close>

definition resolve_provider ::
  "'w reconciler \<Rightarrow> SurrealDBCredential \<Rightarrow> SurrealDBTenantPolicy \<Rightarrow> PolicyUserTarget
    \<Rightarrow> SurrealDBProvider \<Rightarrow> ('w, resolution) prog" where
  "resolve_provider r credential policyObj target provider =
    (let e = rec_env r in
     do {
       loaded \<leftarrow> loadRootCredentials e provider;
       case loaded of (rootUsername, rootPassword, ok, err) \<Rightarrow>
       (if err \<noteq> None then State_Monad.return (credential, None, err)
        else if \<not> ok then do {
          updated \<leftarrow> api_status_credential e credential;
          State_Monad.return (refreshed credential updated, None, error_of updated)
        }
        else do {
          tls \<leftarrow> LoadTLSConfig e (ps_tls (prov_spec provider));
          (case tls of
             Inl err \<Rightarrow> do {
               credential \<leftarrow> cred_not_ready e credential ReasonProviderSecretInvalid (err_text err);
               let credential = observe_generation credential;
               updated \<leftarrow> api_status_credential e credential;
               State_Monad.return (refreshed credential updated, None, error_of updated)
             }
           | Inr tlsConfig \<Rightarrow>
             (let username = Username (env_ucd e) (om_namespace (cred_meta credential))
                    (om_name (cred_meta credential)) target
              in State_Monad.return
                (credential,
                 Some \<lparr>rv_policy = policyObj, rv_provider = provider,
                       rv_root_username = rootUsername, rv_root_password = rootPassword,
                       rv_tls_config = tlsConfig, rv_username = username,
                       rv_surreal_target =
                         \<lparr>ut_level = cs_level (cred_spec credential),
                          ut_namespace = tps_surreal_namespace (pol_spec policyObj),
                          ut_database = cs_database (cred_spec credential)\<rparr>\<rparr>,
                 None)))
        })
     })"

definition credential_request :: "SurrealDBCredential \<Rightarrow> CredentialRequest" where
  "credential_request c =
    \<lparr>cr_level = cs_level (cred_spec c), cr_database = cs_database (cred_spec c),
     cr_roles = cs_roles (cred_spec c)\<rparr>"

definition policy_key :: "SurrealDBCredential \<Rightarrow> NamespacedName" where
  "policy_key c = NamespacedName (om_namespace (cred_meta c)) (lpolr_name (cs_policy_ref (cred_spec c)))"

definition provider_key :: "SurrealDBTenantPolicy \<Rightarrow> NamespacedName" where
  "provider_key p = NamespacedName [] (lpr_name (tps_provider_ref (pol_spec p)))"

definition resolve :: "'w reconciler \<Rightarrow> SurrealDBCredential \<Rightarrow> ('w, resolution) prog" where
  "resolve r credential =
    (let e = rec_env r in
     do {
       got \<leftarrow> api_get_policy e (policy_key credential);
       case got of
         Inl err \<Rightarrow>
           if is_not_found err then do {
             credential \<leftarrow> cred_not_ready e credential ReasonPolicyNotFound
               (''referenced SurrealDBTenantPolicy '' @
                quote (env_ucd e) (lpolr_name (cs_policy_ref (cred_spec credential))) @ '' not found'');
             State_Monad.return (observe_generation credential, None, None)
           }
           else State_Monad.return (credential, None, Some err)
       | Inr policyObj \<Rightarrow>
         (let evaluation = Evaluate (env_ucd e) (pol_spec policyObj) (credential_request credential) in
          if \<not> ev_allowed evaluation then do {
            credential \<leftarrow> cred_not_ready e credential ReasonPolicyDenied (ev_message evaluation);
            credential \<leftarrow> cred_set e credential TypePolicyAccepted ConditionFalse
              ReasonPolicyDenied (ev_message evaluation);
            State_Monad.return (observe_generation credential, None, None)
          }
          else do {
            got \<leftarrow> api_get_provider e (provider_key policyObj);
            (case got of
               Inl err \<Rightarrow>
                 if is_not_found err then do {
                   credential \<leftarrow> cred_not_ready e credential ReasonProviderNotFound
                     (''referenced SurrealDBProvider '' @
                      quote (env_ucd e) (lpr_name (tps_provider_ref (pol_spec policyObj))) @ '' not found'');
                   State_Monad.return (observe_generation credential, None, None)
                 }
                 else State_Monad.return (credential, None, Some err)
             | Inr provider \<Rightarrow>
               resolve_provider r credential policyObj (ev_target evaluation) provider)
          })
     })"

section \<open>The target Secret\<close>

definition connection_data ::
  "'w env \<Rightarrow> SurrealDBCredential \<Rightarrow> resolvedCredential \<Rightarrow> string \<Rightarrow> ConnectionData" where
  "connection_data e credential resolved password =
    \<lparr>cd_url = ps_endpoint (prov_spec (rv_provider resolved)),
     cd_namespace = tps_surreal_namespace (pol_spec (rv_policy resolved)),
     cd_database = cs_database (cred_spec credential),
     cd_username = rv_username resolved,
     cd_password = password,
     cd_level = to_lower (env_ucd e) (cs_level (cred_spec credential))\<rparr>"

definition reconcileTargetSecret ::
  "'w env \<Rightarrow> SurrealDBCredential \<Rightarrow> resolvedCredential \<Rightarrow> string \<Rightarrow> Secret option
    \<Rightarrow> ('w, go_error option) prog" where
  "reconcileTargetSecret e credential resolved password existing =
    (let desired = BuildTargetSecret credential (connection_data e credential resolved password) in
     case existing of
       None \<Rightarrow> do {
         created \<leftarrow> api_create_secret e desired;
         State_Monad.return (error_of created)
       }
     | Some existing \<Rightarrow> do {
         updated \<leftarrow> api_update_secret e
           (existing\<lparr>sec_meta := (sec_meta existing)
                      \<lparr>om_labels := om_labels (sec_meta desired),
                       om_owner_references := om_owner_references (sec_meta desired)\<rparr>,
                     sec_type := sec_type desired,
                     sec_data := sec_data desired\<rparr>);
         State_Monad.return (error_of updated)
       })"

definition deleteOwnedTargetSecret ::
  "'w env \<Rightarrow> SurrealDBCredential \<Rightarrow> ('w, go_error option) prog" where
  "deleteOwnedTargetSecret e credential = do {
     got \<leftarrow> getTargetSecret e credential;
     case got of
       Inl err \<Rightarrow> State_Monad.return (Some err)
     | Inr None \<Rightarrow> State_Monad.return None
     | Inr (Some secret) \<Rightarrow>
       if \<not> IsOwnedByCredential secret credential then State_Monad.return None
       else do {
         deleted \<leftarrow> api_delete_secret e secret;
         (case deleted of
            Some err \<Rightarrow>
              if \<not> is_not_found err then State_Monad.return (Some err) else State_Monad.return None
          | None \<Rightarrow> State_Monad.return None)
       }
   }"

section \<open>Deletion\<close>

text \<open>The failure of a status update is only logged.\<close>

definition recordDeleteFailure ::
  "'w env \<Rightarrow> SurrealDBCredential \<Rightarrow> string \<Rightarrow> string \<Rightarrow> bool \<Rightarrow> ('w, SurrealDBCredential) prog" where
  "recordDeleteFailure e credential reason message markSecret = do {
     credential \<leftarrow> cred_not_ready e (observe_generation credential) reason message;
     credential \<leftarrow>
       (if markSecret then cred_set e credential TypeSecretReady ConditionFalse reason message
        else State_Monad.return credential);
     updated \<leftarrow> api_status_credential e credential;
     State_Monad.return (refreshed credential updated)
   }"

definition removeCredentialFinalizer ::
  "'w env \<Rightarrow> SurrealDBCredential \<Rightarrow> ('w, reconcile_result) prog" where
  "removeCredentialFinalizer e credential = do {
     got \<leftarrow> api_get_credential e (object_key (cred_meta credential));
     case got of
       Inl err \<Rightarrow> State_Monad.return (no_requeue, IgnoreNotFound err)
     | Inr latest \<Rightarrow>
       if \<not> contains_finalizer e (om_finalizers (cred_meta latest)) credentialFinalizer then
         State_Monad.return done_ok
       else do {
         updated \<leftarrow> api_update_credential e
           (latest\<lparr>cred_meta := (cred_meta latest)
              \<lparr>om_finalizers := remove_finalizer e (om_finalizers (cred_meta latest)) credentialFinalizer\<rparr>\<rparr>);
         State_Monad.return (no_requeue, error_of updated)
       }
   }"

definition target_secret_text :: "SurrealDBCredential \<Rightarrow> string" where
  "target_secret_text c = nn_string
     (NamespacedName (om_namespace (cred_meta c)) (ts_name (cs_target_secret (cred_spec c))))"

text \<open>\<^verbatim>\<open>reconcileDelete\<close> once the connection is open; the close is deferred by its caller below.\<close>

definition delete_connected ::
  "'w reconciler \<Rightarrow> SurrealDBCredential \<Rightarrow> resolvedCredential \<Rightarrow> 'w Admin
    \<Rightarrow> ('w, reconcile_result) prog" where
  "delete_connected r credential resolved admin =
    (let e = rec_env r in
     do {
       removed \<leftarrow> surreal_remove_user admin (rv_surreal_target resolved) (rv_username resolved);
       case removed of
         Some err \<Rightarrow> do {
           _ \<leftarrow> recordDeleteFailure e credential ReasonRemoveUserFailed (err_text err) False;
           State_Monad.return (no_requeue, Some err)
         }
       | None \<Rightarrow> do {
           deleted \<leftarrow> deleteOwnedTargetSecret e credential;
           (case deleted of
              Some err \<Rightarrow> do {
                _ \<leftarrow> recordDeleteFailure e credential ReasonSecretDeleteFailed
                  (''failed to delete owned target Secret '' @ target_secret_text credential @ '': '' @
                   err_text err) True;
                State_Monad.return (no_requeue, Some err)
              }
            | None \<Rightarrow> removeCredentialFinalizer e credential)
         }
     })"

definition reconcileDelete ::
  "'w reconciler \<Rightarrow> SurrealDBCredential \<Rightarrow> ('w, reconcile_result) prog" where
  "reconcileDelete r credential =
    (let e = rec_env r in
     if \<not> contains_finalizer e (om_finalizers (cred_meta credential)) credentialFinalizer then
       State_Monad.return done_ok
     else if map_index_str (om_annotations (cred_meta credential)) annotationForceCleanup = ''true'' then do {
       deleted \<leftarrow> deleteOwnedTargetSecret e credential;
       credential \<leftarrow>
         (case deleted of
            Some err \<Rightarrow> recordDeleteFailure e credential ReasonSecretDeleteFailed
              (''force cleanup could not delete owned target Secret '' @ target_secret_text credential @
               '': '' @ err_text err @ ''; removing finalizer anyway'') True
          | None \<Rightarrow> State_Monad.return credential);
       removeCredentialFinalizer e credential
     }
     else do {
       resolution \<leftarrow> resolve r credential;
       (case resolution of
          (credential, None, err) \<Rightarrow> State_Monad.return (no_requeue, err)
        | (credential, Some resolved, Some err) \<Rightarrow> State_Monad.return (no_requeue, Some err)
        | (credential, Some resolved, None) \<Rightarrow> do {
            connected \<leftarrow> newAdmin r (rv_provider resolved) (rv_root_username resolved)
              (rv_root_password resolved) (rv_tls_config resolved);
            (case connected of
               Inl err \<Rightarrow> do {
                 _ \<leftarrow> recordDeleteFailure e credential ReasonSurrealDBUnavailable (err_text err) False;
                 State_Monad.return (surrealDBUnavailableRequeue, None)
               }
             | Inr admin \<Rightarrow> do {
                 result \<leftarrow> delete_connected r credential resolved admin;
                 _ \<leftarrow> surreal_close admin;
                 State_Monad.return result
               })
          })
     })"

section \<open>Reconciliation\<close>

text \<open>The last part of \<^verbatim>\<open>Reconcile\<close>: both conditions are met, the status is written.\<close>

definition generates :: "Decision \<Rightarrow> bool" where
  "generates d \<longleftrightarrow> dec_action d = ActionGenerate \<or> dec_action d = ActionRotate"

definition record_decision :: "SurrealDBCredential \<Rightarrow> Decision \<Rightarrow> SurrealDBCredential" where
  "record_decision credential decision =
    (let credential =
       (if generates decision then
          credential\<lparr>cred_status := (cred_status credential)
            \<lparr>cst_last_rotation_time := dec_last_rotation_time decision\<rparr>\<rparr>
        else credential)
     in credential\<lparr>cred_status := (cred_status credential)
          \<lparr>cst_last_manual_rotation_trigger := dec_manual_trigger decision,
           cst_next_rotation_time := dec_next_rotation_time decision\<rparr>\<rparr>)"

definition reconcile_finish ::
  "'w reconciler \<Rightarrow> SurrealDBCredential \<Rightarrow> Decision \<Rightarrow> ('w, reconcile_result) prog" where
  "reconcile_finish r credential decision =
    (let e = rec_env r in
     do {
       credential \<leftarrow> cred_set e credential TypeSecretReady ConditionTrue ReasonSecretWritten
         ''target Secret is ready'';
       credential \<leftarrow> cred_ready e credential ReasonReconciled ''SurrealDB credential is ready'';
       let credential = record_decision credential decision;
       updated \<leftarrow> api_status_credential e credential;
       (case updated of
          Inl err \<Rightarrow> State_Monad.return (no_requeue, Some err)
        | Inr credential \<Rightarrow>
          (case cst_next_rotation_time (cred_status credential) of
             Some next \<Rightarrow> do {
               now \<leftarrow> quiet (time_now e);
               let until = time_sub next now;
               let until = (if duration_less until 0 then duration_second else until);
               State_Monad.return (\<lparr>res_requeue = False, res_requeue_after = until\<rparr>, None)
             }
           | None \<Rightarrow> State_Monad.return done_ok))
     })"

text \<open>The part that uses the connection, which its caller closes at the end.\<close>

definition reconcile_connected ::
  "'w reconciler \<Rightarrow> SurrealDBCredential \<Rightarrow> resolvedCredential \<Rightarrow> Secret option \<Rightarrow> Decision
    \<Rightarrow> string \<Rightarrow> 'w Admin \<Rightarrow> ('w, reconcile_result) prog" where
  "reconcile_connected r credential resolved existingSecret decision password admin =
    (let e = rec_env r in
     do {
       defined \<leftarrow> surreal_define_user admin (rv_surreal_target resolved) (rv_username resolved)
         password (cs_roles (cred_spec credential));
       case defined of
         Some err \<Rightarrow> do {
           credential \<leftarrow> cred_not_ready e credential ReasonDefineUserFailed (err_text err);
           credential \<leftarrow> cred_set e credential TypeUserDefined ConditionFalse
             ReasonDefineUserFailed (err_text err);
           return_status_update e credential
         }
       | None \<Rightarrow> do {
           credential \<leftarrow> cred_set e credential TypeUserDefined ConditionTrue
             ReasonDefineUserSucceeded ''SurrealDB user is defined'';
           written \<leftarrow> reconcileTargetSecret e credential resolved password existingSecret;
           (case written of
              Some err \<Rightarrow> do {
                credential \<leftarrow> cred_not_ready e credential ReasonSecretConflict (err_text err);
                credential \<leftarrow> cred_set e credential TypeSecretReady ConditionFalse
                  ReasonSecretConflict (err_text err);
                return_status_update e credential
              }
            | None \<Rightarrow> reconcile_finish r credential decision)
         }
     })"

text \<open>From the decision to the connection.\<close>

definition reconcile_decided ::
  "'w reconciler \<Rightarrow> SurrealDBCredential \<Rightarrow> resolvedCredential \<Rightarrow> Secret option
    \<Rightarrow> ('w, reconcile_result) prog" where
  "reconcile_decided r credential resolved existingSecret =
    (let e = rec_env r;
         st = cred_status credential
     in case ExistingPassword existingSecret of (existingPassword, hasPassword) \<Rightarrow>
     do {
       now \<leftarrow> reconciler_now r;
       let decision = Decide now hasPassword (om_annotations (cred_meta credential))
             (cst_last_manual_rotation_trigger st) (cst_last_rotation_time st)
             (cst_next_rotation_time st) (rotationPeriod credential);
       generated \<leftarrow>
         (if generates decision then quiet (GeneratePassword (rand_int e) DefaultPasswordLength)
          else State_Monad.return (Inr existingPassword));
       (case generated of
          Inl err \<Rightarrow> do {
            credential \<leftarrow> cred_not_ready e credential ReasonRotationFailed (err_text err);
            return_status_update e credential
          }
        | Inr password \<Rightarrow> do {
            connected \<leftarrow> newAdmin r (rv_provider resolved) (rv_root_username resolved)
              (rv_root_password resolved) (rv_tls_config resolved);
            (case connected of
               Inl err \<Rightarrow> do {
                 credential \<leftarrow> cred_not_ready e credential ReasonSurrealDBUnavailable (err_text err);
                 updated \<leftarrow> api_status_credential e credential;
                 (case updated of
                    Inl updateErr \<Rightarrow> State_Monad.return (no_requeue, Some updateErr)
                  | Inr _ \<Rightarrow> State_Monad.return (surrealDBUnavailableRequeue, None))
               }
             | Inr admin \<Rightarrow> do {
                 result \<leftarrow> reconcile_connected r credential resolved existingSecret decision password admin;
                 _ \<leftarrow> surreal_close admin;
                 State_Monad.return result
               })
          })
     })"

text \<open>The status of a resolved credential, then its target Secret and the ownership test.\<close>

definition resolved_status ::
  "SurrealDBCredential \<Rightarrow> resolvedCredential \<Rightarrow> SurrealDBCredential" where
  "resolved_status credential resolved =
    credential\<lparr>cred_status := (cred_status credential)
      \<lparr>cst_provider_ref := Some \<lparr>lpr_name = lpr_name (tps_provider_ref (pol_spec (rv_policy resolved)))\<rparr>,
       cst_surreal_namespace := tps_surreal_namespace (pol_spec (rv_policy resolved)),
       cst_database := cs_database (cred_spec credential),
       cst_username := rv_username resolved,
       cst_observed_generation := cred_generation credential\<rparr>\<rparr>"

definition reconcile_resolved ::
  "'w reconciler \<Rightarrow> SurrealDBCredential \<Rightarrow> resolvedCredential \<Rightarrow> ('w, reconcile_result) prog" where
  "reconcile_resolved r credential resolved =
    (let e = rec_env r in
     do {
       credential \<leftarrow> cred_set e (resolved_status credential resolved) TypePolicyAccepted ConditionTrue
         ReasonPolicyAccepted ''credential request is allowed by tenant policy'';
       got \<leftarrow> getTargetSecret e credential;
       case got of
         Inl err \<Rightarrow> State_Monad.return (no_requeue, Some err)
       | Inr existingSecret \<Rightarrow>
         (case EnsureCanManage existingSecret credential of
            Some err \<Rightarrow> do {
              credential \<leftarrow> cred_not_ready e credential ReasonSecretConflict (err_text err);
              credential \<leftarrow> cred_set e credential TypeSecretReady ConditionFalse
                ReasonSecretConflict (err_text err);
              return_status_update e credential
            }
          | None \<Rightarrow> reconcile_decided r credential resolved existingSecret)
     })"

definition Reconcile :: "'w reconciler \<Rightarrow> NamespacedName \<Rightarrow> ('w, reconcile_result) prog" where
  "Reconcile r req =
    (let e = rec_env r in
     do {
       got \<leftarrow> api_get_credential e req;
       case got of
         Inl err \<Rightarrow>
           if is_not_found err then State_Monad.return done_ok
           else State_Monad.return (no_requeue, Some err)
       | Inr credential \<Rightarrow>
         (let finalizers = om_finalizers (cred_meta credential) in
          if deletion_is_zero (cred_meta credential) \<and>
             \<not> contains_finalizer e finalizers credentialFinalizer then do {
            updated \<leftarrow> api_update_credential e
              (credential\<lparr>cred_meta := (cred_meta credential)
                 \<lparr>om_finalizers := add_finalizer e finalizers credentialFinalizer\<rparr>\<rparr>);
            State_Monad.return (no_requeue, error_of updated)
          }
          else if \<not> deletion_is_zero (cred_meta credential) then reconcileDelete r credential
          else do {
            resolution \<leftarrow> resolve r credential;
            (case resolution of
               (credential, resolved, Some err) \<Rightarrow> State_Monad.return (no_requeue, Some err)
             | (credential, None, None) \<Rightarrow> return_status_update e credential
             | (credential, Some resolved, None) \<Rightarrow> reconcile_resolved r credential resolved)
          })
     })"

end
