(* ===== verification/ProviderController.thy ===== *)
theory ProviderController
  imports Kube
begin

text \<open>
  \<^verbatim>\<open>internal/controller/surrealdbprovider_controller.go\<close>: the reconciler that validates a provider's
  references and reports its status, and the mapping from a Secret to the providers that use it.
\<close>

section \<open>The code\<close>

definition validateProvider :: "'w env \<Rightarrow> SurrealDBProvider \<Rightarrow> ('w, go_error option) prog" where
  "validateProvider e provider =
    (case ValidateEndpointScheme (env_ucd e) (parse_authority_path e) (ps_endpoint (prov_spec provider)) of
       Some err \<Rightarrow> State_Monad.return (Some err)
     | None \<Rightarrow>
       (let ref = ps_root_credential_ref (prov_spec provider);
            name = rc_namespace ref @ ''/'' @ rc_name ref
        in do {
          got \<leftarrow> api_get_secret e (NamespacedName (rc_namespace ref) (rc_name ref));
          case got of
            Inl err \<Rightarrow>
              if is_not_found err then
                State_Monad.return (Some (errorf (''root credential Secret '' @ name @ '' not found'')))
              else
                State_Monad.return (Some (wrapf (''get root credential Secret '' @ name @ '': '') err))
          | Inr secret \<Rightarrow>
            (let usernameKey = default_key ''username'' (rc_username_key ref);
                 passwordKey = default_key ''password'' (rc_password_key ref);
                 missing = (\<lambda>key. State_Monad.return (Some (errorf
                   (''root credential Secret '' @ name @ '' missing key '' @ quote (env_ucd e) key))))
             in if length (map_index_str (sec_data secret) usernameKey) = 0 then missing usernameKey
                else if length (map_index_str (sec_data secret) passwordKey) = 0 then missing passwordKey
                else do {
                  tls \<leftarrow> LoadTLSConfig e (ps_tls (prov_spec provider));
                  (case tls of
                     Inl err \<Rightarrow> State_Monad.return (Some err)
                   | Inr _ \<Rightarrow> State_Monad.return None)
                })
        }))"

definition set_provider_conditions :: "SurrealDBProvider \<Rightarrow> Condition list \<Rightarrow> SurrealDBProvider" where
  "set_provider_conditions provider cs =
    provider\<lparr>prov_status := (prov_status provider)\<lparr>pst_conditions := cs\<rparr>\<rparr>"

definition ReconcileProvider :: "'w env \<Rightarrow> NamespacedName \<Rightarrow> ('w, reconcile_result) prog" where
  "ReconcileProvider e req = do {
     got \<leftarrow> api_get_provider e req;
     case got of
       Inl err \<Rightarrow>
         if is_not_found err then State_Monad.return done_ok
         else State_Monad.return (no_requeue, Some err)
     | Inr provider \<Rightarrow>
       (let generation = om_generation (prov_meta provider);
            provider = provider\<lparr>prov_status :=
              (prov_status provider)\<lparr>pst_observed_generation := generation\<rparr>\<rparr>
        in do {
          invalid \<leftarrow> validateProvider e provider;
          conditions \<leftarrow>
            (case invalid of
               Some err \<Rightarrow> NotReady e (pst_conditions (prov_status provider)) generation
                 ReasonProviderSecretInvalid (err_text err)
             | None \<Rightarrow> Ready e (pst_conditions (prov_status provider)) generation
                 ReasonAvailable ''provider references are valid'');
          updated \<leftarrow> api_status_provider e (set_provider_conditions provider conditions);
          (case updated of
             Inl err \<Rightarrow> State_Monad.return (no_requeue, Some err)
           | Inr _ \<Rightarrow> State_Monad.return done_ok)
        })
   }"

definition referencedSecrets :: "SurrealDBProvider \<Rightarrow> NamespacedName list" where
  "referencedSecrets provider =
    (let ref = ps_root_credential_ref (prov_spec provider);
         secrets = [NamespacedName (rc_namespace ref) (rc_name ref)]
     in case ps_tls (prov_spec provider) of
          None \<Rightarrow> secrets
        | Some tls \<Rightarrow>
          (let secrets = (case tls_ca_secret_ref tls of
                 None \<Rightarrow> secrets
               | Some ca \<Rightarrow> secrets @ [NamespacedName (ca_namespace ca) (ca_name ca)])
           in case tls_client_certificate_ref tls of
                None \<Rightarrow> secrets
              | Some cc \<Rightarrow> secrets @ [NamespacedName (cc_namespace cc) (cc_name cc)]))"

text \<open>The inner loop of \<^verbatim>\<open>providersForSecret\<close>, which stops at the first match, and the outer one.\<close>

fun references_secret :: "NamespacedName list \<Rightarrow> NamespacedName \<Rightarrow> bool" where
  "references_secret [] secret = False"
| "references_secret (ref # refs) secret =
    (if ref = secret then True else references_secret refs secret)"

fun provider_requests :: "SurrealDBProvider list \<Rightarrow> NamespacedName \<Rightarrow> NamespacedName list" where
  "provider_requests [] secret = []"
| "provider_requests (p # ps) secret =
    (if references_secret (referencedSecrets p) secret
     then NamespacedName [] (om_name (prov_meta p)) # provider_requests ps secret
     else provider_requests ps secret)"

definition providersForSecret :: "'w env \<Rightarrow> ObjectMeta \<Rightarrow> ('w, NamespacedName list) prog" where
  "providersForSecret e obj = do {
     got \<leftarrow> api_list_providers e;
     case got of
       Inl _ \<Rightarrow> State_Monad.return []
     | Inr providers \<Rightarrow> State_Monad.return (provider_requests providers (object_key obj))
   }"

section \<open>Validation\<close>

text \<open>What makes the root Secret of a provider usable.\<close>

definition root_secret_complete :: "RootCredentialReference \<Rightarrow> Secret \<Rightarrow> bool" where
  "root_secret_complete ref secret \<longleftrightarrow>
    map_index_str (sec_data secret) (default_key ''username'' (rc_username_key ref)) \<noteq> [] \<and>
    map_index_str (sec_data secret) (default_key ''password'' (rc_password_key ref)) \<noteq> []"

lemma referencedSecrets_eq:
  "referencedSecrets p =
    NamespacedName (rc_namespace (ps_root_credential_ref (prov_spec p)))
      (rc_name (ps_root_credential_ref (prov_spec p))) # tls_secret_keys (ps_tls (prov_spec p))"
  by (simp add: referencedSecrets_def tls_secret_keys_def Let_def split: option.splits)

text \<open>
  A validation that succeeds has read the root Secret, found both entries and accepted the scheme;
  every Secret any validation reads is a referenced one.
\<close>

definition provider_valid :: "'w env \<Rightarrow> SurrealDBProvider \<Rightarrow> event list \<Rightarrow> bool" where
  "provider_valid e p new \<longleftrightarrow>
    ValidateEndpointScheme (env_ucd e) (parse_authority_path e) (ps_endpoint (prov_spec p)) = None \<and>
    (\<exists>secret. EvGetSecret (hd (referencedSecrets p)) (Inr secret) \<in> set new \<and>
       root_secret_complete (ps_root_credential_ref (prov_spec p)) secret) \<and>
    loaded_secrets (referencedSecrets p) new"

lemma validateProvider_spec:
  "always (validateProvider e p) (\<lambda>r L'. \<exists>new. L' = L @ new \<and>
      list_all (reads_secret (referencedSecrets p)) new \<and>
      (r = None \<longrightarrow> provider_valid e p new)) L"
  unfolding validateProvider_def Let_def
  by (intro always_intros)
    (auto simp: referencedSecrets_eq root_secret_complete_def provider_valid_def reads_secret_tail
      tls_outcome_def)

lemma always_validateProvider [always_intros]:
  assumes "\<And>r new. list_all (reads_secret (referencedSecrets p)) new \<Longrightarrow>
    (r = None \<Longrightarrow> provider_valid e p new) \<Longrightarrow> Q r (L @ new)"
  shows "always (validateProvider e p) Q L"
  using validateProvider_spec by (rule always_mono) (use assms in blast)

section \<open>Requests for a Secret\<close>

lemma references_secret_iff: "references_secret refs k \<longleftrightarrow> k \<in> set refs"
  by (induction refs) auto

lemma provider_requests_filter:
  "provider_requests ps k =
    map (\<lambda>p. NamespacedName [] (om_name (prov_meta p))) (filter (\<lambda>p. k \<in> set (referencedSecrets p)) ps)"
  by (induction ps) (auto simp: references_secret_iff)

section \<open>Reconciliation\<close>

lemma spec_only [simp]:
  "referencedSecrets (p\<lparr>prov_status := st\<rparr>) = referencedSecrets p"
  "provider_valid e (p\<lparr>prov_status := st\<rparr>) new = provider_valid e p new"
  by (simp_all add: referencedSecrets_def provider_valid_def)

text \<open>The object of a status update, from the one that was read.\<close>

definition provider_reported :: "'w env \<Rightarrow> SurrealDBProvider \<Rightarrow> bool \<Rightarrow> SurrealDBProvider \<Rightarrow> bool" where
  "provider_reported e p ok p' \<longleftrightarrow>
    prov_meta p' = prov_meta p \<and> prov_spec p' = prov_spec p \<and>
    pst_observed_generation (prov_status p') = om_generation (prov_meta p) \<and>
    (\<exists>now msg. pst_conditions (prov_status p') =
      set_status_condition e now (pst_conditions (prov_status p))
        (if ok then new_condition (om_generation (prov_meta p)) TypeReady ConditionTrue ReasonAvailable msg
         else new_condition (om_generation (prov_meta p)) TypeReady ConditionFalse
           ReasonProviderSecretInvalid msg))"

lemma provider_reportedI:
  fixes p :: SurrealDBProvider and n :: int and now :: gtime and m :: string
  defines "q \<equiv> p\<lparr>prov_status := prov_status p\<lparr>pst_observed_generation := om_generation (prov_meta p)\<rparr>\<rparr>"
  shows "provider_reported e p True (set_provider_conditions q
      (set_status_condition e now (pst_conditions (prov_status p))
        (new_condition (om_generation (prov_meta p)) TypeReady ConditionTrue ReasonAvailable m)))"
    and "provider_reported e p False (set_provider_conditions q
      (set_status_condition e now (pst_conditions (prov_status p))
        (new_condition (om_generation (prov_meta p)) TypeReady ConditionFalse ReasonProviderSecretInvalid m)))"
  by (auto simp: provider_reported_def set_provider_conditions_def q_def)

text \<open>The two kinds of run: the read fails, or the status is written last.\<close>

definition provider_run :: "'w env \<Rightarrow> NamespacedName \<Rightarrow> reconcile_result \<Rightarrow> event list \<Rightarrow> bool" where
  "provider_run e req res L \<longleftrightarrow>
    (\<exists>err. L = [EvGetProvider req (Inl err)] \<and>
       res = (no_requeue, if is_not_found err then None else Some err)) \<or>
    (\<exists>p new ok p' r. L = EvGetProvider req (Inr p) # new @ [EvStatusProvider p' r] \<and>
       res = (no_requeue, error_of r) \<and>
       list_all (reads_secret (referencedSecrets p)) new \<and>
       (ok \<longrightarrow> provider_valid e p new) \<and> provider_reported e p ok p')"

lemma provider_runI:
  "list_all (reads_secret (referencedSecrets p)) new \<Longrightarrow> (ok \<Longrightarrow> provider_valid e p new) \<Longrightarrow>
    provider_reported e p ok p' \<Longrightarrow> res = (no_requeue, error_of r) \<Longrightarrow>
    provider_run e req res (EvGetProvider req (Inr p) # new @ [EvStatusProvider p' r])"
  unfolding provider_run_def by blast

lemma ReconcileProvider_run: "always (ReconcileProvider e req) (provider_run e req) []"
  unfolding ReconcileProvider_def Let_def
  by (intro always_intros)
    (auto simp: provider_run_def intro: exI [of _ True] exI [of _ False] provider_reportedI)

end
