(* ===== verification/CredentialRuns.thy ===== *)
theory CredentialRuns
  imports CredentialController ProviderController
begin

text \<open>
  The runs of the credential reconciler as a grammar of logs: one inductive predicate per part of
  the code, whose rules list the calls of a path with their replies, its result and what it knows.
  The lemmas show that every run, in every environment, is derived by the rules; the properties of
  \<open>CredentialFacts\<close> are proved by cases over them.
\<close>

section \<open>Rules for the status setters\<close>

definition put_condition ::
  "'w env \<Rightarrow> gtime \<Rightarrow> SurrealDBCredential \<Rightarrow> string \<Rightarrow> string \<Rightarrow> string \<Rightarrow> string \<Rightarrow> SurrealDBCredential" where
  "put_condition e now c ty st reason msg =
    set_cred_conditions c (set_status_condition e now (cst_conditions (cred_status c))
      (new_condition (cred_generation c) ty st reason msg))"

lemma put_condition_simps [simp]:
  "cred_meta (put_condition e now c ty st reason msg) = cred_meta c"
  "cred_spec (put_condition e now c ty st reason msg) = cred_spec c"
  "cred_generation (put_condition e now c ty st reason msg) = cred_generation c"
  "cst_observed_generation (cred_status (put_condition e now c ty st reason msg))
     = cst_observed_generation (cred_status c)"
  "cst_username (cred_status (put_condition e now c ty st reason msg)) = cst_username (cred_status c)"
  "cst_last_rotation_time (cred_status (put_condition e now c ty st reason msg))
     = cst_last_rotation_time (cred_status c)"
  "cst_next_rotation_time (cred_status (put_condition e now c ty st reason msg))
     = cst_next_rotation_time (cred_status c)"
  "cst_last_manual_rotation_trigger (cred_status (put_condition e now c ty st reason msg))
     = cst_last_manual_rotation_trigger (cred_status c)"
  by (simp_all add: put_condition_def set_cred_conditions_def cred_generation_def)

lemma observe_generation_simps [simp]:
  "cred_meta (observe_generation c) = cred_meta c"
  "cred_spec (observe_generation c) = cred_spec c"
  "cred_generation (observe_generation c) = cred_generation c"
  "cst_conditions (cred_status (observe_generation c)) = cst_conditions (cred_status c)"
  "cst_observed_generation (cred_status (observe_generation c)) = cred_generation c"
  by (simp_all add: observe_generation_def cred_generation_def)

lemma resolved_status_simps [simp]:
  "cred_meta (resolved_status c R) = cred_meta c"
  "cred_spec (resolved_status c R) = cred_spec c"
  "cred_generation (resolved_status c R) = cred_generation c"
  "cst_conditions (cred_status (resolved_status c R)) = cst_conditions (cred_status c)"
  "cst_username (cred_status (resolved_status c R)) = rv_username R"
  "cst_observed_generation (cred_status (resolved_status c R)) = cred_generation c"
  "cst_last_rotation_time (cred_status (resolved_status c R)) = cst_last_rotation_time (cred_status c)"
  "cst_next_rotation_time (cred_status (resolved_status c R)) = cst_next_rotation_time (cred_status c)"
  "cst_last_manual_rotation_trigger (cred_status (resolved_status c R))
     = cst_last_manual_rotation_trigger (cred_status c)"
  by (simp_all add: resolved_status_def cred_generation_def)

lemma record_decision_simps [simp]:
  "cred_meta (record_decision c d) = cred_meta c"
  "cred_spec (record_decision c d) = cred_spec c"
  "cst_conditions (cred_status (record_decision c d)) = cst_conditions (cred_status c)"
  "cst_observed_generation (cred_status (record_decision c d)) = cst_observed_generation (cred_status c)"
  "cst_username (cred_status (record_decision c d)) = cst_username (cred_status c)"
  "cst_last_rotation_time (cred_status (record_decision c d)) =
     (if generates d then dec_last_rotation_time d else cst_last_rotation_time (cred_status c))"
  "cst_next_rotation_time (cred_status (record_decision c d)) = dec_next_rotation_time d"
  "cst_last_manual_rotation_trigger (cred_status (record_decision c d)) = dec_manual_trigger d"
  by (simp_all add: record_decision_def Let_def)

text \<open>What a status reports after a setter, by the contract of the merge.\<close>

abbreviation cred_condition :: "SurrealDBCredential \<Rightarrow> string \<Rightarrow> string option" where
  "cred_condition c t \<equiv> status_of (cst_conditions (cred_status c)) t"

abbreviation cred_reason :: "SurrealDBCredential \<Rightarrow> string \<Rightarrow> string option" where
  "cred_reason c t \<equiv> reason_of (cst_conditions (cred_status c)) t"

lemma condition_put:
  assumes "condition_store (set_status_condition e)"
  shows "cred_condition (put_condition e now c ty st reason msg) t =
      (if t = ty then Some st else cred_condition c t)"
    and "cred_reason (put_condition e now c ty st reason msg) t =
      (if t = ty then Some reason else cred_reason c t)"
  by (simp_all add: put_condition_def set_cred_conditions_def
      condition_store.status_new [OF assms] condition_store.reason_new [OF assms])

lemma always_cred_set [always_intros]:
  "(\<And>now. Q (put_condition e now c ty st reason msg) L) \<Longrightarrow> always (cred_set e c ty st reason msg) Q L"
  unfolding cred_set_def put_condition_def by (intro always_intros)

lemma always_cred_not_ready [always_intros]:
  "(\<And>now. Q (put_condition e now c TypeReady ConditionFalse reason msg) L) \<Longrightarrow>
    always (cred_not_ready e c reason msg) Q L"
  unfolding cred_not_ready_def put_condition_def by (intro always_intros)

lemma always_cred_ready [always_intros]:
  "(\<And>now. Q (put_condition e now c TypeReady ConditionTrue reason msg) L) \<Longrightarrow>
    always (cred_ready e c reason msg) Q L"
  unfolding cred_ready_def put_condition_def by (intro always_intros)

lemma always_return_status_update [always_intros]:
  "(\<And>x. Q (no_requeue, error_of x) (L @ [EvStatusCredential c x])) \<Longrightarrow>
    always (return_status_update e c) Q L"
  unfolding return_status_update_def by (intro always_intros)

lemma always_newAdmin [always_intros]:
  "(\<And>x. Q x (L @ [EvConnect (ps_endpoint (prov_spec p)) un pw (error_of x)])) \<Longrightarrow>
    always (newAdmin r p un pw tls) Q L"
  unfolding newAdmin_def Let_def by (intro always_intros)

text \<open>The clock of a reconciler; \<open>can_return\<close> says which times it can show.\<close>

definition clock_of :: "'w reconciler \<Rightarrow> ('w, gtime) state" where
  "clock_of r = (case rec_clock r of None \<Rightarrow> time_now (rec_env r) | Some clock \<Rightarrow> clock)"

lemma always_reconciler_now [always_intros]:
  "(\<And>now. can_return (clock_of r) now \<Longrightarrow> Q now L) \<Longrightarrow> always (reconciler_now r) Q L"
  unfolding reconciler_now_def clock_of_def by (rule always_quiet_can)

section \<open>Runs of resolve\<close>

definition root_key :: "SurrealDBProvider \<Rightarrow> NamespacedName" where
  "root_key p = NamespacedName (rc_namespace (ps_root_credential_ref (prov_spec p)))
     (rc_name (ps_root_credential_ref (prov_spec p)))"

definition root_username :: "SurrealDBProvider \<Rightarrow> Secret \<Rightarrow> string" where
  "root_username p s = map_index_str (sec_data s)
     (default_key ''username'' (rc_username_key (ps_root_credential_ref (prov_spec p))))"

definition root_password :: "SurrealDBProvider \<Rightarrow> Secret \<Rightarrow> string" where
  "root_password p s = map_index_str (sec_data s)
     (default_key ''password'' (rc_password_key (ps_root_credential_ref (prov_spec p))))"

definition user_target :: "SurrealDBCredential \<Rightarrow> SurrealDBTenantPolicy \<Rightarrow> UserTarget" where
  "user_target c pol =
    \<lparr>ut_level = cs_level (cred_spec c), ut_namespace = tps_surreal_namespace (pol_spec pol),
     ut_database = cs_database (cred_spec c)\<rparr>"

definition naming_target :: "SurrealDBCredential \<Rightarrow> SurrealDBTenantPolicy \<Rightarrow> PolicyUserTarget" where
  "naming_target c pol =
    \<lparr>put_provider_name = lpr_name (tps_provider_ref (pol_spec pol)),
     put_surreal_namespace = tps_surreal_namespace (pol_spec pol),
     put_database = cs_database (cred_spec c), put_level = cs_level (cred_spec c)\<rparr>"

definition user_name :: "ucd \<Rightarrow> SurrealDBCredential \<Rightarrow> SurrealDBTenantPolicy \<Rightarrow> string" where
  "user_name u c pol =
     Username u (om_namespace (cred_meta c)) (om_name (cred_meta c)) (naming_target c pol)"

definition target_key :: "SurrealDBCredential \<Rightarrow> NamespacedName" where
  "target_key c = NamespacedName (om_namespace (cred_meta c)) (ts_name (cs_target_secret (cred_spec c)))"

definition resolved_from ::
  "ucd \<Rightarrow> SurrealDBCredential \<Rightarrow> SurrealDBTenantPolicy \<Rightarrow> SurrealDBProvider \<Rightarrow> Secret
    \<Rightarrow> TLSConfig option \<Rightarrow> resolvedCredential" where
  "resolved_from u c pol prov root tls =
    \<lparr>rv_policy = pol, rv_provider = prov, rv_root_username = root_username prov root,
     rv_root_password = root_password prov root, rv_tls_config = tls,
     rv_username = user_name u c pol, rv_surreal_target = user_target c pol\<rparr>"

text \<open>A reply to the read of the root Secret that gives no login.\<close>

definition no_root_login :: "SurrealDBProvider \<Rightarrow> Secret result \<Rightarrow> bool" where
  "no_root_login p got \<longleftrightarrow>
    (case got of Inl _ \<Rightarrow> True | Inr root \<Rightarrow> root_username p root = [] \<or> root_password p root = [])"

inductive resolve_run ::
  "'w env \<Rightarrow> SurrealDBCredential \<Rightarrow> resolution \<Rightarrow> event list \<Rightarrow> bool" for e c where
  policy_missing: "is_not_found err \<Longrightarrow>
    c' = observe_generation (put_condition e now c TypeReady ConditionFalse ReasonPolicyNotFound msg) \<Longrightarrow>
    resolve_run e c (c', None, None) [EvGetPolicy (policy_key c) (Inl err)]"
| policy_failed: "\<not> is_not_found err \<Longrightarrow>
    resolve_run e c (c, None, Some err) [EvGetPolicy (policy_key c) (Inl err)]"
| policy_denied: "\<not> admits (pol_spec pol) (credential_request c) \<Longrightarrow>
    c' = observe_generation (put_condition e now2
      (put_condition e now1 c TypeReady ConditionFalse ReasonPolicyDenied msg)
      TypePolicyAccepted ConditionFalse ReasonPolicyDenied msg) \<Longrightarrow>
    resolve_run e c (c', None, None) [EvGetPolicy (policy_key c) (Inr pol)]"
| provider_missing: "admits (pol_spec pol) (credential_request c) \<Longrightarrow> is_not_found err \<Longrightarrow>
    c' = observe_generation (put_condition e now c TypeReady ConditionFalse ReasonProviderNotFound msg) \<Longrightarrow>
    resolve_run e c (c', None, None)
      [EvGetPolicy (policy_key c) (Inr pol), EvGetProvider (provider_key pol) (Inl err)]"
| provider_failed: "admits (pol_spec pol) (credential_request c) \<Longrightarrow> \<not> is_not_found err \<Longrightarrow>
    resolve_run e c (c, None, Some err)
      [EvGetPolicy (policy_key c) (Inr pol), EvGetProvider (provider_key pol) (Inl err)]"
| root_failed: "admits (pol_spec pol) (credential_request c) \<Longrightarrow> no_root_login prov got \<Longrightarrow>
    resolve_run e c (c, None, Some err)
      [EvGetPolicy (policy_key c) (Inr pol), EvGetProvider (provider_key pol) (Inr prov),
       EvGetSecret (root_key prov) got]"
| tls_failed: "admits (pol_spec pol) (credential_request c) \<Longrightarrow>
    can_return (status_update_credential e c') x \<Longrightarrow>
    root_username prov root \<noteq> [] \<Longrightarrow> root_password prov root \<noteq> [] \<Longrightarrow>
    list_all (reads_secret (tls_secret_keys (ps_tls (prov_spec prov)))) reads \<Longrightarrow>
    c' = observe_generation (put_condition e now c TypeReady ConditionFalse ReasonProviderSecretInvalid msg) \<Longrightarrow>
    ps_tls (prov_spec prov) \<noteq> None \<Longrightarrow>
    length reads \<le> length (tls_secret_keys (ps_tls (prov_spec prov))) \<Longrightarrow>
    resolve_run e c (refreshed c' x, None, error_of x)
      (EvGetPolicy (policy_key c) (Inr pol) # EvGetProvider (provider_key pol) (Inr prov) #
       EvGetSecret (root_key prov) (Inr root) # reads @ [EvStatusCredential c' x])"
| resolved: "admits (pol_spec pol) (credential_request c) \<Longrightarrow>
    root_username prov root \<noteq> [] \<Longrightarrow> root_password prov root \<noteq> [] \<Longrightarrow>
    list_all (reads_secret (tls_secret_keys (ps_tls (prov_spec prov)))) reads \<Longrightarrow>
    length reads \<le> length (tls_secret_keys (ps_tls (prov_spec prov))) \<Longrightarrow>
    resolve_run e c (c, Some (resolved_from (env_ucd e) c pol prov root tls), None)
      (EvGetPolicy (policy_key c) (Inr pol) # EvGetProvider (provider_key pol) (Inr prov) #
       EvGetSecret (root_key prov) (Inr root) # reads)"

lemma Evaluate_target_request:
  "ev_target (Evaluate u (pol_spec pol) (credential_request c)) = naming_target c pol"
  by (simp add: Evaluate_target naming_target_def credential_request_def)

lemma always_loadRootCredentials [always_intros]:
  assumes "\<And>got err. no_root_login p got \<Longrightarrow>
      Q ([], [], False, Some err) (L @ [EvGetSecret (root_key p) got])"
    and "\<And>root. root_username p root \<noteq> [] \<Longrightarrow> root_password p root \<noteq> [] \<Longrightarrow>
      Q (root_username p root, root_password p root, True, None) (L @ [EvGetSecret (root_key p) (Inr root)])"
  shows "always (loadRootCredentials e p) Q L"
  using assms unfolding loadRootCredentials_def Let_def
  by (intro always_intros) (auto simp: no_root_login_def root_key_def root_username_def root_password_def)

lemma always_resolve:
  assumes "\<And>x new. resolve_run (rec_env r) c x new \<Longrightarrow> Q x (L @ new)"
  shows "always (resolve r c) Q L"
  unfolding resolve_def resolve_provider_def Let_def
  apply (intro always_intros)
  apply (simp_all add: Evaluate_allowed Evaluate_target_request
      flip: user_target_def user_name_def resolved_from_def)
  apply (auto simp: tls_outcome_def intro!: assms intro: resolve_run.intros)
  done

section \<open>Runs of the parts of Reconcile\<close>

lemma always_getTargetSecret [always_intros]:
  assumes "\<And>err. \<not> is_not_found err \<Longrightarrow> Q (Inl err) (L @ [EvGetSecret (target_key c) (Inl err)])"
    and "\<And>err. is_not_found err \<Longrightarrow> Q (Inr None) (L @ [EvGetSecret (target_key c) (Inl err)])"
    and "\<And>s. Q (Inr (Some s)) (L @ [EvGetSecret (target_key c) (Inr s)])"
  shows "always (getTargetSecret e c) Q L"
  using assms unfolding getTargetSecret_def target_key_def by (intro always_intros) auto

text \<open>The reply of the read of the target Secret, and the Secret the run goes on with.\<close>

definition found_secret :: "Secret result \<Rightarrow> Secret option \<Rightarrow> bool" where
  "found_secret got existing \<longleftrightarrow>
    (case got of Inl err \<Rightarrow> is_not_found err \<and> existing = None | Inr s \<Rightarrow> existing = Some s)"

lemma found_secret_simps [simp]:
  "found_secret (Inl err) existing \<longleftrightarrow> is_not_found err \<and> existing = None"
  "found_secret (Inr s) existing \<longleftrightarrow> existing = Some s"
  by (simp_all add: found_secret_def)

text \<open>The Secret a run writes, and the call that writes it.\<close>

definition written_secret :: "Secret option \<Rightarrow> Secret \<Rightarrow> Secret" where
  "written_secret existing desired =
    (case existing of
       None \<Rightarrow> desired
     | Some s \<Rightarrow> s\<lparr>sec_meta := (sec_meta s)\<lparr>om_labels := om_labels (sec_meta desired),
                   om_owner_references := om_owner_references (sec_meta desired)\<rparr>,
                  sec_type := sec_type desired, sec_data := sec_data desired\<rparr>)"

definition write_event :: "Secret option \<Rightarrow> Secret \<Rightarrow> Secret result \<Rightarrow> event" where
  "write_event existing s x = (case existing of None \<Rightarrow> EvCreateSecret s x | Some _ \<Rightarrow> EvUpdateSecret s x)"

definition desired_secret ::
  "'w env \<Rightarrow> SurrealDBCredential \<Rightarrow> resolvedCredential \<Rightarrow> string \<Rightarrow> Secret" where
  "desired_secret e c R pw = BuildTargetSecret c (connection_data e c R pw)"

lemma desired_secret_put [simp]:
  "desired_secret e (put_condition e' now c ty st reason msg) R pw = desired_secret e c R pw"
  by (simp add: desired_secret_def BuildTargetSecret_def connection_data_def)

lemma desired_secret_resolved [simp]:
  "desired_secret e (resolved_status c R') R pw = desired_secret e c R pw"
  by (simp add: desired_secret_def BuildTargetSecret_def connection_data_def)

lemma always_reconcileTargetSecret [always_intros]:
  assumes "\<And>x. Q (error_of x) (L @ [write_event existing
    (written_secret existing (desired_secret e c R pw)) x])"
  shows "always (reconcileTargetSecret e c R pw existing) Q L"
  using assms unfolding reconcileTargetSecret_def Let_def
  by (intro always_intros) (auto simp: write_event_def written_secret_def desired_secret_def)

text \<open>When a run that succeeded asks for the next one, given the recorded next rotation.\<close>

definition requeued :: "'w env \<Rightarrow> gtime option \<Rightarrow> ctrl_result \<Rightarrow> bool" where
  "requeued e next q \<longleftrightarrow>
    (case next of
       None \<Rightarrow> q = no_requeue
     | Some t \<Rightarrow> (\<exists>now. can_return (time_now e) now \<and> q = \<lparr>res_requeue = False, res_requeue_after =
         (if duration_less (time_sub t now) 0 then duration_second else time_sub t now)\<rparr>))"

lemma requeued_intros:
  "next = None \<Longrightarrow> requeued e next no_requeue"
  "next = Some t \<Longrightarrow> can_return (time_now e) now \<Longrightarrow> duration_less (time_sub t now) 0 \<Longrightarrow>
    requeued e next \<lparr>res_requeue = False, res_requeue_after = duration_second\<rparr>"
  "next = Some t \<Longrightarrow> can_return (time_now e) now \<Longrightarrow> \<not> duration_less (time_sub t now) 0 \<Longrightarrow>
    requeued e next \<lparr>res_requeue = False, res_requeue_after = time_sub t now\<rparr>"
  unfolding requeued_def by force+

text \<open>The status written when everything succeeded.\<close>

definition ready_status ::
  "'w env \<Rightarrow> gtime \<Rightarrow> gtime \<Rightarrow> SurrealDBCredential \<Rightarrow> Decision \<Rightarrow> string \<Rightarrow> string \<Rightarrow> SurrealDBCredential" where
  "ready_status e now1 now2 c d m1 m2 =
    record_decision (put_condition e now2 (put_condition e now1 c TypeSecretReady ConditionTrue
      ReasonSecretWritten m1) TypeReady ConditionTrue ReasonReconciled m2) d"

definition failed_status ::
  "'w env \<Rightarrow> gtime \<Rightarrow> gtime \<Rightarrow> SurrealDBCredential \<Rightarrow> string \<Rightarrow> string \<Rightarrow> string \<Rightarrow> SurrealDBCredential" where
  "failed_status e now1 now2 c ty reason msg =
    put_condition e now2 (put_condition e now1 c TypeReady ConditionFalse reason msg)
      ty ConditionFalse reason msg"

lemma condition_failed:
  assumes "condition_store (set_status_condition e)" and "ty \<noteq> TypeReady"
  shows "cred_condition (failed_status e now1 now2 c ty reason msg) t =
      (if t = ty \<or> t = TypeReady then Some ConditionFalse else cred_condition c t)"
    and "cred_reason (failed_status e now1 now2 c ty reason msg) t =
      (if t = ty \<or> t = TypeReady then Some reason else cred_reason c t)"
  using assms by (simp_all add: failed_status_def condition_put)

lemma condition_ready:
  assumes "condition_store (set_status_condition e)"
  shows "cred_condition (ready_status e now1 now2 c d m1 m2) t =
      (if t = TypeReady \<or> t = TypeSecretReady then Some ConditionTrue else cred_condition c t)"
  using assms by (simp add: ready_status_def condition_put)

inductive finish_run ::
  "'w env \<Rightarrow> SurrealDBCredential \<Rightarrow> Decision \<Rightarrow> reconcile_result \<Rightarrow> event list \<Rightarrow> bool" for e c d where
  status_failed: "c' = ready_status e now1 now2 c d m1 m2 \<Longrightarrow>
    finish_run e c d (no_requeue, Some err) [EvStatusCredential c' (Inl err)]"
| status_written: "c' = ready_status e now1 now2 c d m1 m2 \<Longrightarrow>
    requeued e (cst_next_rotation_time (cred_status c'')) q \<Longrightarrow>
    finish_run e c d (q, None) [EvStatusCredential c' (Inr c'')]"

lemma always_reconcile_finish [always_intros]:
  assumes "\<And>res new. finish_run (rec_env r) c d res new \<Longrightarrow> Q res (L @ new)"
  shows "always (reconcile_finish r c d) Q L"
  unfolding reconcile_finish_def Let_def
  by (intro always_quiet_can always_intros)
    (auto simp flip: ready_status_def intro!: assms intro: finish_run.intros requeued_intros)

inductive connected_run ::
  "'w env \<Rightarrow> SurrealDBCredential \<Rightarrow> resolvedCredential \<Rightarrow> Secret option \<Rightarrow> Decision \<Rightarrow> string
    \<Rightarrow> reconcile_result \<Rightarrow> event list \<Rightarrow> bool" for e c R existing d pw where
  define_failed: "c' = failed_status e now1 now2 c TypeUserDefined ReasonDefineUserFailed (err_text err) \<Longrightarrow>
    connected_run e c R existing d pw (no_requeue, error_of x)
      [EvDefineUser (rv_surreal_target R) (rv_username R) pw (cs_roles (cred_spec c)) (Some err),
       EvStatusCredential c' x]"
| write_failed:
    "c1 = put_condition e now c TypeUserDefined ConditionTrue ReasonDefineUserSucceeded msg \<Longrightarrow>
    c' = failed_status e now1 now2 c1 TypeSecretReady ReasonSecretConflict (err_text err) \<Longrightarrow>
    connected_run e c R existing d pw (no_requeue, error_of x)
      [EvDefineUser (rv_surreal_target R) (rv_username R) pw (cs_roles (cred_spec c)) None,
       write_event existing (written_secret existing (desired_secret e c R pw)) (Inl err),
       EvStatusCredential c' x]"
| finished:
    "c1 = put_condition e now c TypeUserDefined ConditionTrue ReasonDefineUserSucceeded msg \<Longrightarrow>
    finish_run e c1 d res new \<Longrightarrow>
    connected_run e c R existing d pw res
      (EvDefineUser (rv_surreal_target R) (rv_username R) pw (cs_roles (cred_spec c)) None #
       write_event existing (written_secret existing (desired_secret e c R pw)) (Inr s) # new)"

lemma always_reconcile_connected [always_intros]:
  assumes "\<And>res new. connected_run (rec_env r) c R existing d pw res new \<Longrightarrow> Q res (L @ new)"
  shows "always (reconcile_connected r c R existing d pw admin) Q L"
  unfolding reconcile_connected_def Let_def
  by (intro always_intros)
    (auto simp: error_of_None error_of_Some simp flip: failed_status_def
      intro!: assms intro: connected_run.intros)

section \<open>Runs that reconcile a resolved credential\<close>

text \<open>The decision of a run, and the passwords it can go on with.\<close>

definition decision_of :: "gtime \<Rightarrow> SurrealDBCredential \<Rightarrow> Secret option \<Rightarrow> Decision" where
  "decision_of now c existing =
    Decide now (snd (ExistingPassword existing)) (om_annotations (cred_meta c))
      (cst_last_manual_rotation_trigger (cred_status c)) (cst_last_rotation_time (cred_status c))
      (cst_next_rotation_time (cred_status c)) (rotationPeriod c)"

definition password_of :: "'w env \<Rightarrow> Decision \<Rightarrow> Secret option \<Rightarrow> string result \<Rightarrow> bool" where
  "password_of e d existing pw \<longleftrightarrow>
    (if generates d then can_return (GeneratePassword (rand_int e) DefaultPasswordLength) pw
     else pw = Inr (fst (ExistingPassword existing)))"

lemma decision_of_cong:
  "cred_meta c = cred_meta c' \<Longrightarrow> cred_spec c = cred_spec c' \<Longrightarrow>
   cst_last_manual_rotation_trigger (cred_status c) = cst_last_manual_rotation_trigger (cred_status c') \<Longrightarrow>
   cst_last_rotation_time (cred_status c) = cst_last_rotation_time (cred_status c') \<Longrightarrow>
   cst_next_rotation_time (cred_status c) = cst_next_rotation_time (cred_status c') \<Longrightarrow>
   decision_of now c existing = decision_of now c' existing"
  by (simp add: decision_of_def rotationPeriod_def)

definition connect_event :: "resolvedCredential \<Rightarrow> go_error option \<Rightarrow> event" where
  "connect_event R x = EvConnect (ps_endpoint (prov_spec (rv_provider R))) (rv_root_username R)
     (rv_root_password R) x"

inductive decided_run ::
  "('w, gtime) state \<Rightarrow> 'w env \<Rightarrow> SurrealDBCredential \<Rightarrow> resolvedCredential \<Rightarrow> Secret option
    \<Rightarrow> reconcile_result \<Rightarrow> event list \<Rightarrow> bool" for ck e c R existing where
  generate_failed: "password_of e (decision_of now c existing) existing (Inl err) \<Longrightarrow>
    c' = put_condition e now1 c TypeReady ConditionFalse ReasonRotationFailed (err_text err) \<Longrightarrow>
    decided_run ck e c R existing (no_requeue, error_of x) [EvStatusCredential c' x]"
| unavailable:
    "c' = put_condition e now1 c TypeReady ConditionFalse ReasonSurrealDBUnavailable (err_text err) \<Longrightarrow>
    res = (case x of Inl err \<Rightarrow> (no_requeue, Some err) | Inr _ \<Rightarrow> (surrealDBUnavailableRequeue, None)) \<Longrightarrow>
    decided_run ck e c R existing res [connect_event R (Some err), EvStatusCredential c' x]"
| connected: "can_return ck now \<Longrightarrow> password_of e (decision_of now c existing) existing (Inr pw) \<Longrightarrow>
    connected_run e c R existing (decision_of now c existing) pw res new \<Longrightarrow>
    decided_run ck e c R existing res (connect_event R None # new @ [EvClose])"

lemma ActionGenerate_no_password [simp]:
  "\<not> generates (decision_of now c existing) \<Longrightarrow> snd (ExistingPassword existing)"
  by (auto simp: generates_def decision_of_def Decide_cases decision_defs split: if_splits)

lemma always_password [always_intros]:
  assumes "\<And>pw. password_of e d existing pw \<Longrightarrow> Q pw L"
  shows "always (if generates d then quiet (GeneratePassword (rand_int e) DefaultPasswordLength)
    else State_Monad.return (Inr (fst (ExistingPassword existing)))) Q L"
  using assms by (auto simp: password_of_def intro!: always_quiet_can always_return)

lemma always_reconcile_decided [always_intros]:
  assumes "\<And>res new. decided_run (clock_of r) (rec_env r) c R existing res new \<Longrightarrow> Q res (L @ new)"
  shows "always (reconcile_decided r c R existing) Q L"
  unfolding reconcile_decided_def Let_def case_prod_unfold decision_of_def [symmetric]
  apply (intro always_reconciler_now always_bind)
  apply (intro always_password)
  apply (intro always_intros)
  apply (auto simp flip: connect_event_def intro!: assms intro: decided_run.intros)
  done

text \<open>The credential a resolved run goes on with: its status is filled and the policy accepted.\<close>

definition accepted_status ::
  "'w env \<Rightarrow> gtime \<Rightarrow> SurrealDBCredential \<Rightarrow> resolvedCredential \<Rightarrow> string \<Rightarrow> SurrealDBCredential" where
  "accepted_status e now c R msg = put_condition e now (resolved_status c R) TypePolicyAccepted
     ConditionTrue ReasonPolicyAccepted msg"

lemma accepted_status_simps [simp]:
  "cred_meta (accepted_status e now c R msg) = cred_meta c"
  "cred_spec (accepted_status e now c R msg) = cred_spec c"
  "target_key (accepted_status e now c R msg) = target_key c"
  "desired_secret e' (accepted_status e now c R msg) R' pw = desired_secret e' c R' pw"
  "decision_of now' (accepted_status e now c R msg) existing = decision_of now' c existing"
  by (simp_all add: accepted_status_def target_key_def) (rule decision_of_cong; simp)

inductive resolved_run ::
  "('w, gtime) state \<Rightarrow> 'w env \<Rightarrow> SurrealDBCredential \<Rightarrow> resolvedCredential \<Rightarrow> reconcile_result \<Rightarrow> event list \<Rightarrow> bool"
  for ck e c R where
  secret_failed: "\<not> is_not_found err \<Longrightarrow>
    resolved_run ck e c R (no_requeue, Some err) [EvGetSecret (target_key c) (Inl err)]"
| secret_conflict: "\<not> IsOwnedByCredential s c \<Longrightarrow> c1 = accepted_status e now c R msg1 \<Longrightarrow>
    c' = failed_status e now1 now2 c1 TypeSecretReady ReasonSecretConflict msg \<Longrightarrow>
    resolved_run ck e c R (no_requeue, error_of x)
      [EvGetSecret (target_key c) (Inr s), EvStatusCredential c' x]"
| decided: "found_secret got existing \<Longrightarrow>
    (\<And>s. existing = Some s \<Longrightarrow> IsOwnedByCredential s c) \<Longrightarrow> c1 = accepted_status e now c R msg1 \<Longrightarrow>
    decided_run ck e c1 R existing res new \<Longrightarrow>
    resolved_run ck e c R res (EvGetSecret (target_key c) got # new)"

lemma accepted_observed [simp]:
  "cst_observed_generation (cred_status (accepted_status e now c R msg)) = cred_generation c"
  "cred_generation (accepted_status e now c R msg) = cred_generation c"
  "cst_username (cred_status (accepted_status e now c R msg)) = rv_username R"
  "cst_last_rotation_time (cred_status (accepted_status e now c R msg))
     = cst_last_rotation_time (cred_status c)"
  "cst_next_rotation_time (cred_status (accepted_status e now c R msg))
     = cst_next_rotation_time (cred_status c)"
  "cst_last_manual_rotation_trigger (cred_status (accepted_status e now c R msg))
     = cst_last_manual_rotation_trigger (cred_status c)"
  by (simp_all add: accepted_status_def)

lemma failed_schedule [simp]:
  "cst_next_rotation_time (cred_status (failed_status e now1 now2 c ty reason msg))
     = cst_next_rotation_time (cred_status c)"
  "cst_last_rotation_time (cred_status (failed_status e now1 now2 c ty reason msg))
     = cst_last_rotation_time (cred_status c)"
  "cst_last_manual_rotation_trigger (cred_status (failed_status e now1 now2 c ty reason msg))
     = cst_last_manual_rotation_trigger (cred_status c)"
  by (simp_all add: failed_status_def)

lemma ready_status_simps [simp]:
  "cred_meta (ready_status e now1 now2 c d m1 m2) = cred_meta c"
  "cred_spec (ready_status e now1 now2 c d m1 m2) = cred_spec c"
  "cst_observed_generation (cred_status (ready_status e now1 now2 c d m1 m2)) =
     cst_observed_generation (cred_status c)"
  "cst_username (cred_status (ready_status e now1 now2 c d m1 m2)) = cst_username (cred_status c)"
  "cst_last_rotation_time (cred_status (ready_status e now1 now2 c d m1 m2)) =
     (if generates d then dec_last_rotation_time d else cst_last_rotation_time (cred_status c))"
  "cst_next_rotation_time (cred_status (ready_status e now1 now2 c d m1 m2)) = dec_next_rotation_time d"
  "cst_last_manual_rotation_trigger (cred_status (ready_status e now1 now2 c d m1 m2)) = dec_manual_trigger d"
  by (simp_all add: ready_status_def)

lemma condition_accepted:
  assumes "condition_store (set_status_condition e)"
  shows "cred_condition (accepted_status e now c R msg) t =
      (if t = TypePolicyAccepted then Some ConditionTrue else cred_condition c t)"
  using assms by (simp add: accepted_status_def condition_put)

lemma IsOwned_cong: "cred_meta c = cred_meta c' \<Longrightarrow> IsOwnedByCredential s c = IsOwnedByCredential s c'"
  by (simp add: IsOwnedByCredential_def owned_loop_iff)

lemma EnsureCanManage_simps [simp]:
  "EnsureCanManage None c = None"
  "EnsureCanManage (Some s) c = None \<longleftrightarrow> IsOwnedByCredential s c"
  by (simp_all add: EnsureCanManage_def)

lemma EnsureCanManage_Some: "EnsureCanManage (Some s) c = Some err \<Longrightarrow> \<not> IsOwnedByCredential s c"
  by (simp add: EnsureCanManage_def split: if_splits)

lemma IsOwned_accepted [simp]:
  "IsOwnedByCredential s (accepted_status e now c R msg) = IsOwnedByCredential s c"
  by (rule IsOwned_cong) simp

lemma always_reconcile_resolved [always_intros]:
  assumes "\<And>res new. resolved_run (clock_of r) (rec_env r) c R res new \<Longrightarrow> Q res (L @ new)"
  shows "always (reconcile_resolved r c R) Q L"
  unfolding reconcile_resolved_def Let_def
  apply (intro always_intros)
  apply (simp_all flip: failed_status_def accepted_status_def)
  apply (auto intro!: assms intro: resolved_run.intros dest!: EnsureCanManage_Some)
  done

section \<open>Runs of a deletion\<close>

inductive delete_secret_run ::
  "SurrealDBCredential \<Rightarrow> go_error option \<Rightarrow> event list \<Rightarrow> bool" for c where
  absent: "is_not_found err \<Longrightarrow> delete_secret_run c None [EvGetSecret (target_key c) (Inl err)]"
| unreadable: "\<not> is_not_found err \<Longrightarrow>
    delete_secret_run c (Some err) [EvGetSecret (target_key c) (Inl err)]"
| foreign: "\<not> IsOwnedByCredential s c \<Longrightarrow>
    delete_secret_run c None [EvGetSecret (target_key c) (Inr s)]"
| deleted: "IsOwnedByCredential s c \<Longrightarrow> (\<And>err. x = Some err \<Longrightarrow> is_not_found err) \<Longrightarrow>
    delete_secret_run c None [EvGetSecret (target_key c) (Inr s), EvDeleteSecret s x]"
| undeleted: "IsOwnedByCredential s c \<Longrightarrow> \<not> is_not_found err \<Longrightarrow>
    delete_secret_run c (Some err) [EvGetSecret (target_key c) (Inr s), EvDeleteSecret s (Some err)]"

lemma always_deleteOwnedTargetSecret [always_intros]:
  assumes "\<And>res new. delete_secret_run c res new \<Longrightarrow> Q res (L @ new)"
  shows "always (deleteOwnedTargetSecret e c) Q L"
  unfolding deleteOwnedTargetSecret_def
  by (intro always_intros) (auto intro!: assms always_intros intro: delete_secret_run.intros)

definition without_finalizer :: "'w env \<Rightarrow> SurrealDBCredential \<Rightarrow> SurrealDBCredential" where
  "without_finalizer e c = c\<lparr>cred_meta := (cred_meta c)
     \<lparr>om_finalizers := remove_finalizer e (om_finalizers (cred_meta c)) credentialFinalizer\<rparr>\<rparr>"

definition with_finalizer :: "'w env \<Rightarrow> SurrealDBCredential \<Rightarrow> SurrealDBCredential" where
  "with_finalizer e c = c\<lparr>cred_meta := (cred_meta c)
     \<lparr>om_finalizers := add_finalizer e (om_finalizers (cred_meta c)) credentialFinalizer\<rparr>\<rparr>"

definition has_finalizer :: "'w env \<Rightarrow> SurrealDBCredential \<Rightarrow> bool" where
  "has_finalizer e c = contains_finalizer e (om_finalizers (cred_meta c)) credentialFinalizer"

inductive finalizer_run ::
  "'w env \<Rightarrow> SurrealDBCredential \<Rightarrow> reconcile_result \<Rightarrow> event list \<Rightarrow> bool" for e c where
  unread: "finalizer_run e c (no_requeue, IgnoreNotFound err)
    [EvGetCredential (object_key (cred_meta c)) (Inl err)]"
| already: "\<not> has_finalizer e latest \<Longrightarrow>
    finalizer_run e c done_ok [EvGetCredential (object_key (cred_meta c)) (Inr latest)]"
| updated: "has_finalizer e latest \<Longrightarrow>
    finalizer_run e c (no_requeue, error_of x)
      [EvGetCredential (object_key (cred_meta c)) (Inr latest),
       EvUpdateCredential (without_finalizer e latest) x]"

lemma always_removeCredentialFinalizer [always_intros]:
  assumes "\<And>res new. finalizer_run e c res new \<Longrightarrow> Q res (L @ new)"
  shows "always (removeCredentialFinalizer e c) Q L"
  unfolding removeCredentialFinalizer_def
  by (intro always_intros)
    (auto intro!: assms intro: finalizer_run.intros simp flip: has_finalizer_def without_finalizer_def)

text \<open>The status a failed deletion reports.\<close>

inductive delete_status :: "'w env \<Rightarrow> SurrealDBCredential \<Rightarrow> string \<Rightarrow> SurrealDBCredential \<Rightarrow> bool"
  for e c reason where
  ready_only: "delete_status e c reason
    (put_condition e now (observe_generation c) TypeReady ConditionFalse reason msg)"
| with_secret: "delete_status e c reason
    (failed_status e now1 now2 (observe_generation c) TypeSecretReady reason msg)"

lemma condition_deleted:
  assumes "condition_store (set_status_condition e)" and "delete_status e c reason c'"
  shows "cred_condition c' TypeReady = Some ConditionFalse" and "cred_reason c' TypeReady = Some reason"
  using assms(2)
  by (cases; simp add: condition_put [OF assms(1)] condition_failed [OF assms(1)])+

lemma always_recordDeleteFailure [always_intros]:
  assumes "\<And>c' x. delete_status e c reason c' \<Longrightarrow> can_return (status_update_credential e c') x \<Longrightarrow>
    Q (refreshed c' x) (L @ [EvStatusCredential c' x])"
  shows "always (recordDeleteFailure e c reason msg mark) Q L"
  unfolding recordDeleteFailure_def
  by (cases mark; simp; intro always_intros)
    (auto intro!: assms intro: delete_status.intros simp flip: failed_status_def)

inductive removal_run ::
  "'w env \<Rightarrow> SurrealDBCredential \<Rightarrow> resolvedCredential \<Rightarrow> reconcile_result \<Rightarrow> event list \<Rightarrow> bool"
  for e c R where
  remove_failed: "delete_status e c ReasonRemoveUserFailed c' \<Longrightarrow>
    removal_run e c R (no_requeue, Some err)
      [EvRemoveUser (rv_surreal_target R) (rv_username R) (Some err), EvStatusCredential c' x]"
| secret_kept: "delete_secret_run c (Some err) new \<Longrightarrow> delete_status e c ReasonSecretDeleteFailed c' \<Longrightarrow>
    removal_run e c R (no_requeue, Some err)
      (EvRemoveUser (rv_surreal_target R) (rv_username R) None # new @ [EvStatusCredential c' x])"
| released: "delete_secret_run c None new \<Longrightarrow> finalizer_run e c res new' \<Longrightarrow>
    removal_run e c R res
      (EvRemoveUser (rv_surreal_target R) (rv_username R) None # new @ new')"

lemma always_delete_connected [always_intros]:
  assumes "\<And>res new. removal_run (rec_env r) c R res new \<Longrightarrow> Q res (L @ new)"
  shows "always (delete_connected r c R admin) Q L"
  unfolding delete_connected_def Let_def
  by (intro always_intros) (auto intro!: assms intro: removal_run.intros)

definition force_cleanup :: "SurrealDBCredential \<Rightarrow> bool" where
  "force_cleanup c \<longleftrightarrow> map_index_str (om_annotations (cred_meta c)) annotationForceCleanup = ''true''"

inductive delete_run ::
  "'w env \<Rightarrow> SurrealDBCredential \<Rightarrow> reconcile_result \<Rightarrow> event list \<Rightarrow> bool" for e c where
  no_finalizer: "\<not> has_finalizer e c \<Longrightarrow> delete_run e c done_ok []"
| forced: "has_finalizer e c \<Longrightarrow> force_cleanup c \<Longrightarrow> delete_secret_run c None new \<Longrightarrow>
    finalizer_run e c res new' \<Longrightarrow> delete_run e c res (new @ new')"
| forced_kept: "has_finalizer e c \<Longrightarrow> force_cleanup c \<Longrightarrow> delete_secret_run c (Some err) new \<Longrightarrow>
    delete_status e c ReasonSecretDeleteFailed c' \<Longrightarrow> can_return (status_update_credential e c') x \<Longrightarrow>
    finalizer_run e (refreshed c' x) res new' \<Longrightarrow>
    delete_run e c res (new @ EvStatusCredential c' x # new')"
| unresolved: "has_finalizer e c \<Longrightarrow> \<not> force_cleanup c \<Longrightarrow> resolve_run e c (c', None, err) new \<Longrightarrow>
    delete_run e c (no_requeue, err) new"
| no_connection: "has_finalizer e c \<Longrightarrow> \<not> force_cleanup c \<Longrightarrow> resolve_run e c (c, Some R, None) new \<Longrightarrow>
    delete_status e c ReasonSurrealDBUnavailable c' \<Longrightarrow>
    delete_run e c (surrealDBUnavailableRequeue, None)
      (new @ [connect_event R (Some err), EvStatusCredential c' x])"
| removal: "has_finalizer e c \<Longrightarrow> \<not> force_cleanup c \<Longrightarrow> resolve_run e c (c, Some R, None) new \<Longrightarrow>
    removal_run e c R res new' \<Longrightarrow>
    delete_run e c res (new @ connect_event R None # new' @ [EvClose])"

text \<open>A resolution that succeeds leaves the credential as it was.\<close>

inductive_cases resolve_runE: "resolve_run e c x new"
inductive_cases resolve_SomeE: "resolve_run e c (c', Some R, err) new"

lemma resolve_Some: "resolve_run e c (c', Some R, err) new \<Longrightarrow> c' = c \<and> err = None"
  by (erule resolve_SomeE) simp

lemma always_reconcileDelete [always_intros]:
  assumes "\<And>res new. delete_run (rec_env r) c res new \<Longrightarrow> Q res (L @ new)"
  shows "always (reconcileDelete r c) Q L"
  unfolding reconcileDelete_def Let_def
  apply (intro always_intros always_resolve)
  apply (auto simp flip: has_finalizer_def force_cleanup_def connect_event_def
      intro!: assms assms [OF delete_run.no_finalizer, simplified]
      intro: delete_run.intros dest: resolve_Some)
  done

section \<open>Runs of Reconcile\<close>

inductive credential_run ::
  "('w, gtime) state \<Rightarrow> 'w env \<Rightarrow> NamespacedName \<Rightarrow> reconcile_result \<Rightarrow> event list \<Rightarrow> bool" for ck e req where
  unread: "res = (no_requeue, IgnoreNotFound err) \<Longrightarrow>
    credential_run ck e req res [EvGetCredential req (Inl err)]"
| registered: "deletion_is_zero (cred_meta c) \<Longrightarrow> \<not> has_finalizer e c \<Longrightarrow>
    credential_run ck e req (no_requeue, error_of x)
      [EvGetCredential req (Inr c), EvUpdateCredential (with_finalizer e c) x]"
| deleting: "\<not> deletion_is_zero (cred_meta c) \<Longrightarrow> delete_run e c res new \<Longrightarrow>
    credential_run ck e req res (EvGetCredential req (Inr c) # new)"
| failed: "deletion_is_zero (cred_meta c) \<Longrightarrow> has_finalizer e c \<Longrightarrow>
    resolve_run e c (c', None, Some err) new \<Longrightarrow>
    credential_run ck e req (no_requeue, Some err) (EvGetCredential req (Inr c) # new)"
| unresolved: "deletion_is_zero (cred_meta c) \<Longrightarrow> has_finalizer e c \<Longrightarrow>
    resolve_run e c (c', None, None) new \<Longrightarrow>
    credential_run ck e req (no_requeue, error_of x)
      (EvGetCredential req (Inr c) # new @ [EvStatusCredential c' x])"
| active: "deletion_is_zero (cred_meta c) \<Longrightarrow> has_finalizer e c \<Longrightarrow>
    resolve_run e c (c, Some R, None) new \<Longrightarrow> resolved_run ck e c R res new' \<Longrightarrow>
    credential_run ck e req res (EvGetCredential req (Inr c) # new @ new')"

lemma resolve_Some_error: "\<not> resolve_run e c (c', Some R, Some err) new"
  using resolve_Some by blast

lemma Reconcile_run: "always (Reconcile r req) (credential_run (clock_of r) (rec_env r) req) []"
  unfolding Reconcile_def Let_def
  apply (intro always_intros always_resolve)
  apply (auto simp: IgnoreNotFound_def
      simp flip: has_finalizer_def with_finalizer_def
      intro: credential_run.intros dest: resolve_Some)
  done

end
