(* ===== verification/CredentialFacts.thy ===== *)
theory CredentialFacts
  imports CredentialRuns
begin

text \<open>
  What the credential reconciler guarantees, for every environment: consequences of the grammar of
  its runs.  A run is described by its result and the log of its calls; \<open>before\<close> cuts the log at
  the first call of a kind, so a property can say what had happened by then.
\<close>

section \<open>Runs and their logs\<close>

definition reconciles :: "'w reconciler \<Rightarrow> NamespacedName \<Rightarrow> reconcile_result \<Rightarrow> event list \<Rightarrow> bool" where
  "reconciles r req res L \<longleftrightarrow>
    (\<exists>w s'. run_state (Reconcile r req) \<lparr>world = w, events = []\<rparr> = (res, s') \<and> events s' = L)"

lemma reconciles_run: "reconciles r req res L \<Longrightarrow> credential_run (clock_of r) (rec_env r) req res L"
  unfolding reconciles_def using always_run [OF _ ] Reconcile_run [of r req]
  by (metis always_run st.select_convs(2))

text \<open>The kinds of calls.\<close>

datatype call_kind = KRead | KStatus | KUpdate | KWrite | KDelete | KConnect | KDefine | KRemove | KClose

fun kind :: "event \<Rightarrow> call_kind" where
  "kind (EvGetCredential _ _) = KRead"
| "kind (EvGetPolicy _ _) = KRead"
| "kind (EvGetProvider _ _) = KRead"
| "kind (EvGetSecret _ _) = KRead"
| "kind (EvListProviders _) = KRead"
| "kind (EvUpdateCredential _ _) = KUpdate"
| "kind (EvStatusCredential _ _) = KStatus"
| "kind (EvStatusPolicy _ _) = KStatus"
| "kind (EvStatusProvider _ _) = KStatus"
| "kind (EvCreateSecret _ _) = KWrite"
| "kind (EvUpdateSecret _ _) = KWrite"
| "kind (EvDeleteSecret _ _) = KDelete"
| "kind (EvConnect _ _ _ _) = KConnect"
| "kind (EvDefineUser _ _ _ _ _) = KDefine"
| "kind (EvRemoveUser _ _ _) = KRemove"
| "kind EvClose = KClose"

definition before :: "call_kind \<Rightarrow> event list \<Rightarrow> event list" where
  "before k L = takeWhile (\<lambda>ev. kind ev \<noteq> k) L"

definition only :: "call_kind set \<Rightarrow> event list \<Rightarrow> bool" where
  "only ks L \<longleftrightarrow> kind ` set L \<subseteq> ks"

definition has_kind :: "call_kind \<Rightarrow> event list \<Rightarrow> bool" where
  "has_kind k L \<longleftrightarrow> k \<in> kind ` set L"

lemma before_simps [simp]:
  "before k [] = []"
  "before k (ev # L) = (if kind ev = k then [] else ev # before k L)"
  by (simp_all add: before_def)

lemma before_append [simp]: "only ks xs \<Longrightarrow> k \<notin> ks \<Longrightarrow> before k (xs @ L) = xs @ before k L"
  unfolding before_def only_def by (rule takeWhile_append2) auto

lemma only_simps [simp]:
  "only ks []" "only ks (ev # L) \<longleftrightarrow> kind ev \<in> ks \<and> only ks L" "only ks (xs @ ys) \<longleftrightarrow> only ks xs \<and> only ks ys"
  by (auto simp: only_def)

lemma before_appendI: "ev \<in> set (before k xs) \<Longrightarrow> ev \<in> set (before k (xs @ ys))"
  by (induction xs) auto

lemma only_mono: "only ks L \<Longrightarrow> ks \<subseteq> ls \<Longrightarrow> only ls L"
  by (auto simp: only_def)

lemma only_in: "only ks L \<Longrightarrow> ev \<in> set L \<Longrightarrow> kind ev \<in> ks"
  by (auto simp: only_def)

lemma has_kind_simps [simp]:
  "\<not> has_kind k []" "has_kind k (ev # L) \<longleftrightarrow> kind ev = k \<or> has_kind k L"
  "has_kind k (xs @ ys) \<longleftrightarrow> has_kind k xs \<or> has_kind k ys"
  by (auto simp: has_kind_def)

lemma has_kindI: "ev \<in> set L \<Longrightarrow> has_kind (kind ev) L"
  by (auto simp: has_kind_def)

lemma only_has: "only ks L \<Longrightarrow> has_kind k L \<Longrightarrow> k \<in> ks"
  by (auto simp: only_def has_kind_def)

lemma reads_only: "list_all (reads_secret ks) new \<Longrightarrow> only {KRead} new"
  by (auto simp: only_def list_all_iff reads_secret_def)

lemma kind_write_event [simp]: "kind (write_event existing s x) = KWrite"
  by (simp add: write_event_def split: option.splits)

lemma kind_connect_event [simp]: "kind (connect_event R x) = KConnect"
  by (simp add: connect_event_def)

lemma resolve_only: "resolve_run e c x new \<Longrightarrow> only {KRead, KStatus} new"
  by (induction rule: resolve_run.induct) (auto dest!: reads_only intro: only_mono)

lemma resolve_Some_only: "resolve_run e c (c', Some R, err) new \<Longrightarrow> only {KRead} new"
  by (erule resolve_SomeE) (auto dest!: reads_only)

lemma finish_only: "finish_run e c d res new \<Longrightarrow> only {KStatus} new"
  by (induction rule: finish_run.induct) auto

lemma connected_only: "connected_run e c R existing d pw res new \<Longrightarrow> only {KDefine, KWrite, KStatus} new"
  by (induction rule: connected_run.induct) (auto dest!: finish_only intro: only_mono)

lemma decided_only:
  "decided_run ck e c R existing res new \<Longrightarrow> only {KConnect, KDefine, KWrite, KStatus, KClose} new"
  by (induction rule: decided_run.induct) (auto dest!: connected_only intro: only_mono)

lemma resolved_only:
  "resolved_run ck e c R res new \<Longrightarrow> only {KRead, KConnect, KDefine, KWrite, KStatus, KClose} new"
  by (induction rule: resolved_run.induct) (auto dest!: decided_only intro: only_mono)

lemma delete_secret_only: "delete_secret_run c res new \<Longrightarrow> only {KRead, KDelete} new"
  by (induction rule: delete_secret_run.induct) auto

lemma finalizer_only: "finalizer_run e c res new \<Longrightarrow> only {KRead, KUpdate} new"
  by (induction rule: finalizer_run.induct) auto

lemma removal_only: "removal_run e c R res new \<Longrightarrow> only {KRemove, KStatus, KRead, KDelete, KUpdate} new"
  by (induction rule: removal_run.induct) (auto dest!: delete_secret_only finalizer_only intro: only_mono)

lemma delete_only:
  "delete_run e c res new \<Longrightarrow> only {KRead, KStatus, KConnect, KRemove, KDelete, KUpdate, KClose} new"
  by (induction rule: delete_run.induct)
    (auto dest!: delete_secret_only finalizer_only resolve_only removal_only intro: only_mono)

lemmas run_only = resolve_only finish_only connected_only decided_only resolved_only
  delete_secret_only finalizer_only removal_only delete_only

section \<open>Runs that define the user\<close>

text \<open>What is known of a run up to the definition of the user, and what follows it.\<close>

record defining =
  df_credential :: SurrealDBCredential
  df_policy :: SurrealDBTenantPolicy
  df_provider :: SurrealDBProvider
  df_root :: Secret
  df_tls :: "TLSConfig option"
  df_reads :: "event list"
  df_got :: "Secret result"
  df_existing :: "Secret option"
  df_status :: SurrealDBCredential
  df_now :: gtime
  df_password :: string

definition df_resolved :: "'w env \<Rightarrow> defining \<Rightarrow> resolvedCredential" where
  "df_resolved e D =
     resolved_from (env_ucd e) (df_credential D) (df_policy D) (df_provider D) (df_root D) (df_tls D)"

definition df_decision :: "defining \<Rightarrow> Decision" where
  "df_decision D = decision_of (df_now D) (df_credential D) (df_existing D)"

definition df_prefix :: "'w env \<Rightarrow> NamespacedName \<Rightarrow> defining \<Rightarrow> event list" where
  "df_prefix e req D =
    [EvGetCredential req (Inr (df_credential D)),
     EvGetPolicy (policy_key (df_credential D)) (Inr (df_policy D)),
     EvGetProvider (provider_key (df_policy D)) (Inr (df_provider D)),
     EvGetSecret (root_key (df_provider D)) (Inr (df_root D))] @ df_reads D @
    [EvGetSecret (target_key (df_credential D)) (df_got D),
     connect_event (df_resolved e D) None]"

definition df_facts :: "('w, gtime) state \<Rightarrow> 'w env \<Rightarrow> defining \<Rightarrow> bool" where
  "df_facts ck e D \<longleftrightarrow>
    deletion_is_zero (cred_meta (df_credential D)) \<and> has_finalizer e (df_credential D) \<and>
    admits (pol_spec (df_policy D)) (credential_request (df_credential D)) \<and>
    root_username (df_provider D) (df_root D) \<noteq> [] \<and> root_password (df_provider D) (df_root D) \<noteq> [] \<and>
    list_all (reads_secret (tls_secret_keys (ps_tls (prov_spec (df_provider D))))) (df_reads D) \<and>
    found_secret (df_got D) (df_existing D) \<and>
    (\<forall>s. df_existing D = Some s \<longrightarrow> IsOwnedByCredential s (df_credential D)) \<and>
    (\<exists>now msg. df_status D = accepted_status e now (df_credential D) (df_resolved e D) msg) \<and>
    can_return ck (df_now D) \<and>
    password_of e (df_decision D) (df_existing D) (Inr (df_password D))"

lemma run_with_define:
  assumes "credential_run ck e req res L" and "has_kind k L" and "k \<in> {KDefine, KWrite}"
  obtains D :: defining and new where "L = df_prefix e req D @ new @ [EvClose]" and "df_facts ck e D"
    and "connected_run e (df_status D) (df_resolved e D) (df_existing D) (df_decision D) (df_password D) res new"
  using assms(1)
proof cases
  case (active c R new new')
  from active(5) show thesis
  proof cases
    case (decided got existing c1 now msg1 new1)
    from decided(5) show thesis
    proof cases
      case (connected now1 pw new2)
      from active(4) obtain pol prov root reads tls
        where R: "R = resolved_from (env_ucd e) c pol prov root tls"
          and facts: "admits (pol_spec pol) (credential_request c)" "root_username prov root \<noteq> []"
            "root_password prov root \<noteq> []"
            "list_all (reads_secret (tls_secret_keys (ps_tls (prov_spec prov)))) reads"
          and new: "new = EvGetPolicy (policy_key c) (Inr pol) # EvGetProvider (provider_key pol) (Inr prov) #
            EvGetSecret (root_key prov) (Inr root) # reads"
        by (auto elim!: resolve_SomeE)
      obtain D :: defining where D: "df_credential D = c" "df_policy D = pol" "df_provider D = prov"
        "df_root D = root" "df_tls D = tls" "df_reads D = reads" "df_got D = got"
        "df_existing D = existing" "df_status D = c1" "df_now D = now1" "df_password D = pw"
        by (rule that [of "\<lparr>df_credential = c, df_policy = pol, df_provider = prov,
          df_root = root, df_tls = tls, df_reads = reads, df_got = got, df_existing = existing,
          df_status = c1, df_now = now1, df_password = pw\<rparr>"]) simp_all
      have R': "df_resolved e D = R" by (simp add: R D df_resolved_def)
      have dec: "decision_of now1 c1 existing = decision_of now1 c existing"
        by (simp add: decided(4))
      show thesis
      proof (rule that [of D new2])
        show "L = df_prefix e req D @ new2 @ [EvClose]"
          using active(1) decided(1) connected(1) by (simp add: R' D df_prefix_def new)
        show "df_facts ck e D"
          using active(2,3) decided(2-4) connected(2,3) facts
          by (auto simp: R' D df_facts_def df_decision_def dec)
        show "connected_run e (df_status D) (df_resolved e D) (df_existing D) (df_decision D)
            (df_password D) res new2"
          using connected(4) by (simp add: R' D df_decision_def dec)
      qed
    qed (use assms(2,3) active decided in \<open>auto dest!: resolve_only dest: only_has\<close>)
  qed (use assms(2,3) active in \<open>auto dest!: resolve_only dest: only_has\<close>)
qed (use assms(2,3) in \<open>auto dest!: run_only dest: only_has\<close>)

lemma df_prefix_only: "df_facts ck e D \<Longrightarrow> only {KRead, KConnect} (df_prefix e req D)"
  by (auto simp: df_facts_def df_prefix_def dest!: reads_only intro: only_mono)

lemma df_resolved_simps [simp]:
  "rv_surreal_target (df_resolved e D) = user_target (df_credential D) (df_policy D)"
  "rv_username (df_resolved e D) = user_name (env_ucd e) (df_credential D) (df_policy D)"
  "rv_provider (df_resolved e D) = df_provider D"
  "rv_policy (df_resolved e D) = df_policy D"
  "rv_root_username (df_resolved e D) = root_username (df_provider D) (df_root D)"
  "rv_root_password (df_resolved e D) = root_password (df_provider D) (df_root D)"
  by (simp_all add: df_resolved_def resolved_from_def)

lemma df_status_simps:
  "df_facts ck e D \<Longrightarrow> cred_spec (df_status D) = cred_spec (df_credential D)"
  "df_facts ck e D \<Longrightarrow> cred_meta (df_status D) = cred_meta (df_credential D)"
  "df_facts ck e D \<Longrightarrow> desired_secret e' (df_status D) R pw = desired_secret e' (df_credential D) R pw"
  by (auto simp: df_facts_def)

text \<open>The secret such a run writes.\<close>

definition df_written :: "'w env \<Rightarrow> defining \<Rightarrow> Secret" where
  "df_written e D = written_secret (df_existing D)
     (desired_secret e (df_credential D) (df_resolved e D) (df_password D))"

definition df_define :: "'w env \<Rightarrow> defining \<Rightarrow> go_error option \<Rightarrow> event" where
  "df_define e D x = EvDefineUser (user_target (df_credential D) (df_policy D))
     (user_name (env_ucd e) (df_credential D) (df_policy D)) (df_password D)
     (cs_roles (cred_spec (df_credential D))) x"

lemma kind_df_define [simp]: "kind (df_define e D x) = KDefine"
  by (simp add: df_define_def)

text \<open>The three ways on from the definition of the user.\<close>

lemma connected_runE:
  assumes "connected_run e (df_status D) (df_resolved e D) (df_existing D) (df_decision D)
      (df_password D) res new" and "df_facts ck e D"
  obtains (define_failed) err x now1 now2 where
      "new = [df_define e D (Some err), EvStatusCredential (failed_status e now1 now2 (df_status D)
        TypeUserDefined ReasonDefineUserFailed (err_text err)) x]" and "res = (no_requeue, error_of x)"
    | (write_failed) err x now msg now1 now2 where
      "new = [df_define e D None, write_event (df_existing D) (df_written e D) (Inl err),
        EvStatusCredential (failed_status e now1 now2 (put_condition e now (df_status D) TypeUserDefined
          ConditionTrue ReasonDefineUserSucceeded msg) TypeSecretReady ReasonSecretConflict (err_text err)) x]"
      and "res = (no_requeue, error_of x)"
    | (finished) s x now msg now1 now2 m1 m2 where
      "new = [df_define e D None, write_event (df_existing D) (df_written e D) (Inr s),
        EvStatusCredential (ready_status e now1 now2 (put_condition e now (df_status D) TypeUserDefined
          ConditionTrue ReasonDefineUserSucceeded msg) (df_decision D) m1 m2) x]"
      and "case x of Inl err \<Rightarrow> res = (no_requeue, Some err)
        | Inr c \<Rightarrow> \<exists>q. res = (q, None) \<and> requeued e (cst_next_rotation_time (cred_status c)) q"
  using assms(1)
proof cases
  case (define_failed c' now1 now2 err x)
  then show thesis
    using that(1) by (simp add: df_define_def df_status_simps [OF assms(2)])
next
  case (write_failed c1 now msg c' now1 now2 err x)
  then show thesis
    using that(2) by (simp add: df_define_def df_written_def df_status_simps [OF assms(2)])
next
  case (finished c1 now msg new' s)
  have new: "new = df_define e D None # write_event (df_existing D) (df_written e D) (Inr s) # new'"
    using finished by (simp add: df_define_def df_written_def df_status_simps [OF assms(2)])
  from finished(3) show thesis
  proof cases
    case (status_failed c' now1 now2 m1 m2 err)
    have "new = [df_define e D None, write_event (df_existing D) (df_written e D) (Inr s),
        EvStatusCredential (ready_status e now1 now2 (put_condition e now (df_status D) TypeUserDefined
          ConditionTrue ReasonDefineUserSucceeded msg) (df_decision D) m1 m2) (Inl err)]"
      using new status_failed finished(2) by simp
    then show thesis by (rule that(3)) (simp add: status_failed(1))
  next
    case (status_written c' now1 now2 m1 m2 c'' q)
    have "new = [df_define e D None, write_event (df_existing D) (df_written e D) (Inr s),
        EvStatusCredential (ready_status e now1 now2 (put_condition e now (df_status D) TypeUserDefined
          ConditionTrue ReasonDefineUserSucceeded msg) (df_decision D) m1 m2) (Inr c'')]"
      using new status_written finished(2) by simp
    then show thesis by (rule that(3)) (simp add: status_written)
  qed
qed

section \<open>Runs that connect\<close>

text \<open>
  A connection follows the reads of a resolution and uses what they returned; one that succeeds is
  closed by the last call of the run.
\<close>

lemma run_with_connect:
  assumes "credential_run ck e req res L" and "has_kind KConnect L"
  obtains (active) c R new got existing c1 new1 x where
      "resolve_run e c (c, Some R, None) new" and "deletion_is_zero (cred_meta c)"
      and "has_finalizer e c" and "decided_run ck e c1 R existing res (connect_event R x # new1)"
      and "L = EvGetCredential req (Inr c) # new @ EvGetSecret (target_key c) got # connect_event R x # new1"
    | (unreachable) c R new c' err x where
      "resolve_run e c (c, Some R, None) new" and "\<not> deletion_is_zero (cred_meta c)"
      and "has_finalizer e c" and "\<not> force_cleanup c"
      and "L = EvGetCredential req (Inr c) # new @ [connect_event R (Some err), EvStatusCredential c' x]"
      and "res = (surrealDBUnavailableRequeue, None)" and "delete_status e c ReasonSurrealDBUnavailable c'"
    | (removal) c R new new1 where
      "resolve_run e c (c, Some R, None) new" and "\<not> deletion_is_zero (cred_meta c)"
      and "has_finalizer e c" and "\<not> force_cleanup c" and "removal_run e c R res new1"
      and "L = EvGetCredential req (Inr c) # new @ connect_event R None # new1 @ [EvClose]"
  using assms(1)
proof cases
  case (deleting c new)
  from deleting(3) show thesis
  proof cases
    case (no_connection R new1 c' err x)
    with deleting show thesis by (intro that(2)) simp_all
  next
    case (removal R new1 new2)
    with deleting show thesis by (intro that(3)) simp_all
  qed (use assms(2) deleting in \<open>auto dest!: run_only dest: only_has\<close>)
next
  case (active c R new new')
  from active(4,5) assms(2) show thesis
    unfolding active(1)
  proof (elim resolved_run.cases)
    fix got existing c1 now msg1 res' new1
    assume *: "res = res'" "new' = EvGetSecret (target_key c) got # new1" "decided_run ck e c1 R existing res' new1"
      "resolve_run e c (c, Some R, None) new"
      "has_kind KConnect (EvGetCredential req (Inr c) # new @ new')"
    from *(3) show thesis
    proof cases
      case (unavailable now1 err c' x)
      with * active show thesis by (intro that(1)) simp_all
    next
      case (connected now1 pw new2)
      with * active show thesis by (intro that(1)) simp_all
    qed (use * in \<open>auto dest!: resolve_Some_only dest: only_has\<close>)
  qed (auto dest!: resolve_Some_only dest: only_has)
qed (use assms(2) in \<open>auto dest!: run_only dest: only_has\<close>)

lemma resolve_Some_log:
  assumes "resolve_run e c (c', Some R, err) new"
  obtains pol prov root reads tls where "R = resolved_from (env_ucd e) c pol prov root tls"
    and "admits (pol_spec pol) (credential_request c)"
    and "root_username prov root \<noteq> []" and "root_password prov root \<noteq> []"
    and "list_all (reads_secret (tls_secret_keys (ps_tls (prov_spec prov)))) reads"
    and "new = EvGetPolicy (policy_key c) (Inr pol) # EvGetProvider (provider_key pol) (Inr prov) #
      EvGetSecret (root_key prov) (Inr root) # reads"
  using assms by (auto elim!: resolve_SomeE)

section \<open>Runs that clean up\<close>

lemma delete_secret_event:
  assumes "delete_secret_run c res new" and "EvDeleteSecret s x \<in> set new"
  shows "IsOwnedByCredential s c" and "new = [EvGetSecret (target_key c) (Inr s), EvDeleteSecret s x]"
  using assms by (auto elim: delete_secret_run.cases)

lemma removal_delete_event:
  assumes "removal_run e c R res new" and "EvDeleteSecret s x \<in> set new"
  shows "IsOwnedByCredential s c \<and> EvGetSecret (target_key c) (Inr s) \<in> set (before KDelete new)"
  using assms
  by cases (auto dest: delete_secret_event dest!: finalizer_only dest: only_in)

lemma delete_event:
  assumes "delete_run e c res new" and "EvDeleteSecret s x \<in> set new"
  shows "IsOwnedByCredential s c \<and> EvGetSecret (target_key c) (Inr s) \<in> set (before KDelete new)"
  using assms(1)
proof cases
  case (removal R new1 new2)
  then have "EvDeleteSecret s x \<in> set new2"
    using assms(2) by (auto simp: connect_event_def dest!: resolve_only dest: only_in)
  from removal_delete_event [OF removal(5) this] removal show ?thesis
    by (auto dest!: resolve_only dest: before_appendI)
qed (use assms(2) in \<open>auto simp: connect_event_def dest: delete_secret_event
  dest!: finalizer_only resolve_only dest: only_in\<close>)

text \<open>How a deleted or absent target Secret shows in the log.\<close>

definition target_settled :: "SurrealDBCredential \<Rightarrow> event list \<Rightarrow> bool" where
  "target_settled c L \<longleftrightarrow>
    (\<exists>err. is_not_found err \<and> EvGetSecret (target_key c) (Inl err) \<in> set L) \<or>
    (\<exists>s. EvGetSecret (target_key c) (Inr s) \<in> set L \<and>
       (\<not> IsOwnedByCredential s c \<or> EvDeleteSecret s None \<in> set L \<or>
        (\<exists>err. is_not_found err \<and> EvDeleteSecret s (Some err) \<in> set L)))"

lemma delete_secret_settled: "delete_secret_run c None new \<Longrightarrow> target_settled c new"
  by (erule delete_secret_run.cases) (auto simp: target_settled_def, metis option.exhaust)

lemma target_settled_mono: "target_settled c new \<Longrightarrow> set new \<subseteq> set L \<Longrightarrow> target_settled c L"
  unfolding target_settled_def by blast

section \<open>Where a definition and a write stand\<close>

lemma define_run:
  assumes "credential_run ck e req res L" and "EvDefineUser t n pw roles x \<in> set L"
  obtains D rest where "L = df_prefix e req D @ EvDefineUser t n pw roles x # rest"
    and "EvDefineUser t n pw roles x = df_define e D x" and "df_facts ck e D"
    and "before KDefine L = df_prefix e req D"
proof -
  have "has_kind KDefine L" using has_kindI [OF assms(2)] by simp
  then obtain D new where L: "L = df_prefix e req D @ new @ [EvClose]" and D: "df_facts ck e D"
    and run: "connected_run e (df_status D) (df_resolved e D) (df_existing D)
      (df_decision D) (df_password D) res new"
    by (rule run_with_define [OF assms(1)]) auto
  note pre = df_prefix_only [OF D, of req]
  have "EvDefineUser t n pw roles x \<in> set new" using assms(2) L pre by (auto dest: only_in)
  with run D obtain rest y where "new = df_define e D y # rest"
    and "EvDefineUser t n pw roles x = df_define e D y"
    by (cases rule: connected_runE) (auto simp: write_event_def split: option.splits)
  moreover from this(2) have "y = x" by (simp add: df_define_def)
  ultimately show thesis
    using L D before_append [OF pre, of KDefine] by (intro that [of D "rest @ [EvClose]"]) simp_all
qed

lemma write_run:
  assumes "credential_run ck e req res L" and "ev \<in> set L" and "kind ev = KWrite"
  obtains D y rest where "L = df_prefix e req D @ df_define e D None # ev # rest"
    and "ev = write_event (df_existing D) (df_written e D) y" and "df_facts ck e D"
    and "before KWrite L = df_prefix e req D @ [df_define e D None]"
proof -
  have "has_kind KWrite L" using has_kindI [OF assms(2)] assms(3) by simp
  then obtain D new where L: "L = df_prefix e req D @ new @ [EvClose]" and D: "df_facts ck e D"
    and run: "connected_run e (df_status D) (df_resolved e D) (df_existing D)
      (df_decision D) (df_password D) res new"
    by (rule run_with_define [OF assms(1)]) auto
  note pre = df_prefix_only [OF D, of req]
  have "ev \<in> set new" using assms(2,3) L pre by (auto dest: only_in)
  with run D assms(3) obtain rest y where "new = df_define e D None # ev # rest"
    and "ev = write_event (df_existing D) (df_written e D) y"
    by (cases rule: connected_runE) auto
  then show thesis
    using L D before_append [OF pre, of KWrite] assms(3)
    by (intro that [of D "rest @ [EvClose]"]) simp_all
qed

text \<open>The Secret a run writes is the credential's own, under the key and identity of the old one.\<close>

lemma df_written_owned: "IsOwnedByCredential (df_written e D) (df_credential D)"
  using BuildTargetSecret_owned [of "df_credential D"]
  by (simp add: df_written_def written_secret_def desired_secret_def IsOwnedByCredential_def
      split: option.split)

lemma df_written_data: "sec_data (df_written e D) = sec_data (BuildTargetSecret (df_credential D)
    (connection_data e (df_credential D) (df_resolved e D) (df_password D)))"
  by (simp add: df_written_def written_secret_def desired_secret_def split: option.split)

lemma df_written_new: "df_existing D = None \<Longrightarrow> object_key (sec_meta (df_written e D)) = target_key (df_credential D)"
  by (simp add: df_written_def written_secret_def desired_secret_def BuildTargetSecret_key
      target_key_def TargetSecretName_def)

definition same_object :: "ObjectMeta \<Rightarrow> ObjectMeta \<Rightarrow> bool" where
  "same_object m n \<longleftrightarrow> object_key m = object_key n \<and> om_uid m = om_uid n \<and>
     om_resource_version m = om_resource_version n"

lemma df_written_same: "df_existing D = Some s \<Longrightarrow> same_object (sec_meta (df_written e D)) (sec_meta s)"
  by (simp add: df_written_def written_secret_def same_object_def object_key_def)

section \<open>Runs that are not ready\<close>

text \<open>An API server answers a status update with the conditions it was sent.\<close>

definition echoes_conditions :: "'w env \<Rightarrow> bool" where
  "echoes_conditions e \<longleftrightarrow>
    (\<forall>c c' t. can_return (status_update_credential e c) (Inr c') \<longrightarrow> cred_condition c' t = cred_condition c t)"

lemma refreshed_condition:
  "echoes_conditions e \<Longrightarrow> can_return (status_update_credential e c) x \<Longrightarrow>
    cred_condition (refreshed c x) t = cred_condition c t"
  by (cases x) (auto simp: echoes_conditions_def)

lemma resolve_status_not_ready:
  assumes "resolve_run e c x new" and "condition_store (set_status_condition e)"
    and "EvStatusCredential c' y \<in> set new"
  shows "cred_condition c' TypeReady = Some ConditionFalse"
  using assms(1)
proof cases
  case (tls_failed pol c1 z prov root reads now msg)
  have "EvStatusCredential c' y \<notin> set reads"
    using only_in [OF reads_only [OF tls_failed(7)]] by fastforce
  with assms(3) tls_failed(2) have "c' = c1" by simp
  with tls_failed(8) show ?thesis by (simp add: condition_put [OF assms(2)])
next
  case (resolved pol prov root reads tls)
  have "EvStatusCredential c' y \<notin> set reads"
    using only_in [OF reads_only [OF resolved(6)]] by fastforce
  with assms(3) resolved(2) show ?thesis by simp
qed (use assms(3) in simp_all)

lemma resolve_result_not_ready:
  assumes "resolve_run e c (c', None, None) new" and "condition_store (set_status_condition e)"
    and "echoes_conditions e"
  shows "cred_condition c' TypeReady = Some ConditionFalse"
  using assms(1)
proof cases
  case (tls_failed pol c1 z prov root reads now msg)
  from refreshed_condition [OF assms(3) tls_failed(5)] tls_failed(1,9) show ?thesis
    by (simp add: condition_put [OF assms(2)])
qed (simp_all add: condition_put [OF assms(2)])

lemma decided_not_ready:
  assumes "decided_run ck e c R existing res new" and "condition_store (set_status_condition e)"
    and "EvStatusCredential c' y \<in> set new" and "\<not> has_kind KWrite new"
  shows "cred_condition c' TypeReady = Some ConditionFalse"
  using assms(1)
proof cases
  case (connected now pw new')
  from connected(4) show ?thesis
    using assms(3,4) connected(1)
    by cases (auto simp: condition_failed [OF assms(2)] connect_event_def write_event_def
        dest!: finish_only dest: only_in split: option.splits)
qed (use assms(3) in \<open>auto simp: condition_put [OF assms(2)] connect_event_def\<close>)

lemma resolved_not_ready:
  assumes "resolved_run ck e c R res new" and "condition_store (set_status_condition e)"
    and "EvStatusCredential c' y \<in> set new" and "\<not> has_kind KWrite new"
  shows "cred_condition c' TypeReady = Some ConditionFalse"
  using assms(1,3,4)
  by cases (auto simp: condition_failed [OF assms(2)] dest: decided_not_ready [OF _ assms(2)])

lemma delete_not_ready:
  assumes "delete_run e c res new" and "condition_store (set_status_condition e)" and "echoes_conditions e"
    and "EvStatusCredential c' y \<in> set new"
  shows "cred_condition c' TypeReady = Some ConditionFalse"
  using assms(1)
proof cases
  case (removal R new1 new2)
  from removal(5) show ?thesis
    using assms(4) removal(1) resolve_status_not_ready [OF removal(4) assms(2)]
    by cases (auto simp: connect_event_def condition_deleted [OF assms(2)]
        dest!: delete_secret_only finalizer_only dest: only_in)
next
  case (unresolved c'' err)
  from resolve_status_not_ready [OF unresolved(4) assms(2) assms(4)] show ?thesis .
next
  case (no_connection R new1 c'' err x)
  from resolve_status_not_ready [OF no_connection(5) assms(2)] assms(4) no_connection show ?thesis
    by (auto simp: connect_event_def condition_deleted [OF assms(2)])
qed (use assms(4) in \<open>auto simp: condition_deleted [OF assms(2)] dest!: delete_secret_only finalizer_only
  dest: only_in\<close>)

lemma run_not_ready:
  assumes "credential_run ck e req res L" and "condition_store (set_status_condition e)"
    and "echoes_conditions e" and "EvStatusCredential c' y \<in> set L" and "\<not> has_kind KWrite L"
  shows "cred_condition c' TypeReady = Some ConditionFalse"
  using assms(1)
proof cases
  case (deleting c new)
  with delete_not_ready [OF deleting(3) assms(2,3)] assms(4) show ?thesis by auto
next
  case (failed c c'' err new)
  with resolve_status_not_ready [OF failed(5) assms(2)] assms(4) show ?thesis by auto
next
  case (unresolved c c'' new x)
  with resolve_status_not_ready [OF unresolved(5) assms(2)] resolve_result_not_ready [OF unresolved(5) assms(2,3)] assms(4) show ?thesis by auto
next
  case (active c R new new')
  with resolve_status_not_ready [OF active(4) assms(2)] resolved_not_ready [OF active(5) assms(2)] assms(4,5)
  show ?thesis by auto
qed (use assms(4) in auto)

end
