(* ===== verification/PolicyController.thy ===== *)
theory PolicyController
  imports Kube
begin

text \<open>
  \<^verbatim>\<open>internal/controller/surrealdbtenantpolicy_controller.go\<close>: the reconciler that checks that the
  provider of a tenant policy exists and reports it in the status.
\<close>

section \<open>The code\<close>

definition set_policy_conditions ::
  "SurrealDBTenantPolicy \<Rightarrow> Condition list \<Rightarrow> SurrealDBTenantPolicy" where
  "set_policy_conditions policy cs =
    policy\<lparr>pol_status := (pol_status policy)\<lparr>tpst_conditions := cs\<rparr>\<rparr>"

definition ReconcilePolicy :: "'w env \<Rightarrow> NamespacedName \<Rightarrow> ('w, reconcile_result) prog" where
  "ReconcilePolicy e req = do {
     got \<leftarrow> api_get_policy e req;
     case got of
       Inl err \<Rightarrow>
         if is_not_found err then State_Monad.return done_ok
         else State_Monad.return (no_requeue, Some err)
     | Inr policy \<Rightarrow>
       (let generation = om_generation (pol_meta policy);
            name = lpr_name (tps_provider_ref (pol_spec policy));
            policy = policy\<lparr>pol_status :=
              (pol_status policy)\<lparr>tpst_observed_generation := generation,
                                  tpst_provider_ref := Some \<lparr>lpr_name = name\<rparr>\<rparr>\<rparr>
        in do {
          provider \<leftarrow> api_get_provider e (NamespacedName [] name);
          case provider of
            Inl err \<Rightarrow>
              if is_not_found err then do {
                conditions \<leftarrow> NotReady e (tpst_conditions (pol_status policy)) generation
                  ReasonProviderNotFound
                  (''referenced SurrealDBProvider '' @ quote (env_ucd e) name @ '' not found'');
                updated \<leftarrow> api_status_policy e (set_policy_conditions policy conditions);
                State_Monad.return (no_requeue, error_of updated)
              }
              else State_Monad.return (no_requeue, Some err)
          | Inr _ \<Rightarrow> do {
              conditions \<leftarrow> Ready e (tpst_conditions (pol_status policy)) generation
                ReasonAvailable ''tenant policy references an existing provider'';
              updated \<leftarrow> api_status_policy e (set_policy_conditions policy conditions);
              (case updated of
                 Inl err \<Rightarrow> State_Monad.return (no_requeue, Some err)
               | Inr _ \<Rightarrow> State_Monad.return done_ok)
            }
        })
   }"

section \<open>Its runs\<close>

definition policy_provider_key :: "SurrealDBTenantPolicy \<Rightarrow> NamespacedName" where
  "policy_provider_key p = NamespacedName [] (lpr_name (tps_provider_ref (pol_spec p)))"

text \<open>The object of a status update, from the one that was read.\<close>

definition policy_reported :: "'w env \<Rightarrow> SurrealDBTenantPolicy \<Rightarrow> bool \<Rightarrow> SurrealDBTenantPolicy \<Rightarrow> bool" where
  "policy_reported e p ok p' \<longleftrightarrow>
    pol_meta p' = pol_meta p \<and> pol_spec p' = pol_spec p \<and>
    tpst_observed_generation (pol_status p') = om_generation (pol_meta p) \<and>
    tpst_provider_ref (pol_status p') = Some (tps_provider_ref (pol_spec p)) \<and>
    (\<exists>now msg. tpst_conditions (pol_status p') =
      set_status_condition e now (tpst_conditions (pol_status p))
        (if ok then new_condition (om_generation (pol_meta p)) TypeReady ConditionTrue ReasonAvailable msg
         else new_condition (om_generation (pol_meta p)) TypeReady ConditionFalse
           ReasonProviderNotFound msg))"

lemma policy_reportedI:
  fixes p :: SurrealDBTenantPolicy and now :: gtime and m :: string
  defines "q \<equiv> p\<lparr>pol_status := pol_status p
    \<lparr>tpst_observed_generation := om_generation (pol_meta p),
     tpst_provider_ref := Some \<lparr>lpr_name = lpr_name (tps_provider_ref (pol_spec p))\<rparr>\<rparr>\<rparr>"
  shows "policy_reported e p True (set_policy_conditions q
      (set_status_condition e now (tpst_conditions (pol_status p))
        (new_condition (om_generation (pol_meta p)) TypeReady ConditionTrue ReasonAvailable m)))"
    and "policy_reported e p False (set_policy_conditions q
      (set_status_condition e now (tpst_conditions (pol_status p))
        (new_condition (om_generation (pol_meta p)) TypeReady ConditionFalse ReasonProviderNotFound m)))"
  by (auto simp: policy_reported_def set_policy_conditions_def q_def)

text \<open>
  The three kinds of run: a read fails, or the status is written last, ready exactly when the
  provider was found.
\<close>

definition policy_run :: "'w env \<Rightarrow> NamespacedName \<Rightarrow> reconcile_result \<Rightarrow> event list \<Rightarrow> bool" where
  "policy_run e req res L \<longleftrightarrow>
    (\<exists>err. L = [EvGetPolicy req (Inl err)] \<and>
       res = (no_requeue, if is_not_found err then None else Some err)) \<or>
    (\<exists>p err. L = [EvGetPolicy req (Inr p), EvGetProvider (policy_provider_key p) (Inl err)] \<and>
       \<not> is_not_found err \<and> res = (no_requeue, Some err)) \<or>
    (\<exists>p got ok p' r. L = [EvGetPolicy req (Inr p), EvGetProvider (policy_provider_key p) got,
         EvStatusPolicy p' r] \<and>
       res = (no_requeue, error_of r) \<and> (case got of Inl err \<Rightarrow> is_not_found err \<and> \<not> ok | Inr _ \<Rightarrow> ok) \<and>
       policy_reported e p ok p')"

lemma ReconcilePolicy_run: "always (ReconcilePolicy e req) (policy_run e req) []"
  unfolding ReconcilePolicy_def Let_def
  by (intro always_intros)
    (auto simp: policy_run_def policy_provider_key_def
      intro: exI [of _ True] exI [of _ False] policy_reportedI)

end
