(* ===== verification/Demo.thy ===== *)
theory Demo
  imports CredentialFacts PolicyController
begin

text \<open>
  A small concrete environment: a cluster whose answers are fixed by a record, with the documented
  merge of conditions and finalizer operations, and an administration client with fixed replies.
  It instantiates the parameters of the model, so that a property of all environments can be
  applied to one in which its hypotheses hold.
\<close>

section \<open>The environment\<close>

record demo =
  dm_credential :: "SurrealDBCredential result"
  dm_policy :: "SurrealDBTenantPolicy result"
  dm_provider :: "SurrealDBProvider result"
  dm_secrets :: "NamespacedName \<Rightarrow> Secret option"
  dm_connect :: "go_error option"
  dm_define :: "go_error option"
  dm_remove :: "go_error option"
  dm_write :: "go_error option"

abbreviation demo_ucd :: ucd where "demo_ucd \<equiv> sample_ucd"

definition not_found :: go_error where "not_found = GoError True ''not found''"

definition write_reply :: "demo \<Rightarrow> Secret \<Rightarrow> Secret result" where
  "write_reply d s = (case dm_write d of None \<Rightarrow> Inr s | Some err \<Rightarrow> Inl err)"

definition demo_driver :: "unit driver" where
  "demo_driver =
    \<lparr>drv_from_endpoint = (\<lambda>_. State_Monad.return (Inr 0)),
     drv_sign_in = (\<lambda>_ _ _. State_Monad.return None),
     drv_query = (\<lambda>_ _. State_Monad.return (Inr [None, None])),
     drv_close = (\<lambda>_. State_Monad.return None)\<rparr>"

definition demo_env :: "demo \<Rightarrow> unit env" where
  "demo_env d =
    \<lparr>env_ucd = demo_ucd,
     get_credential = (\<lambda>_. State_Monad.return (dm_credential d)),
     get_policy = (\<lambda>_. State_Monad.return (dm_policy d)),
     get_provider = (\<lambda>_. State_Monad.return (dm_provider d)),
     get_secret = (\<lambda>k. State_Monad.return
       (case dm_secrets d k of None \<Rightarrow> Inl not_found | Some s \<Rightarrow> Inr s)),
     list_providers = State_Monad.return (case dm_provider d of Inl err \<Rightarrow> Inl err | Inr p \<Rightarrow> Inr [p]),
     update_credential = (\<lambda>c. State_Monad.return (Inr c)),
     status_update_credential = (\<lambda>c. State_Monad.return (Inr c)),
     status_update_policy = (\<lambda>p. State_Monad.return (Inr p)),
     status_update_provider = (\<lambda>p. State_Monad.return (Inr p)),
     create_secret = (\<lambda>s. State_Monad.return (write_reply d s)),
     update_secret = (\<lambda>s. State_Monad.return (write_reply d s)),
     delete_secret = (\<lambda>s. State_Monad.return None),
     contains_finalizer = finalizer_present,
     add_finalizer = finalizer_added,
     remove_finalizer = finalizer_removed,
     set_status_condition = merge_condition,
     system_cert_pool = State_Monad.return (Inr []),
     append_certs_from_pem = (\<lambda>pool pem. (pool @ [pem], True)),
     x509_key_pair = (\<lambda>cert key. Inr cert),
     parse_authority_path = Inr,
     surreal_driver = demo_driver,
     rand_int = (\<lambda>m. State_Monad.return (if m = 0 then Inl (errorf ''empty range'') else Inr 0)),
     time_now = State_Monad.return 1000\<rparr>"

definition demo_admin :: "demo \<Rightarrow> unit Admin" where
  "demo_admin d =
    \<lparr>adm_define_user = (\<lambda>_ _ _ _. State_Monad.return (dm_define d)),
     adm_remove_user = (\<lambda>_ _. State_Monad.return (dm_remove d)),
     adm_ping = State_Monad.return None,
     adm_close = State_Monad.return None\<rparr>"

definition demo_factory :: "demo \<Rightarrow> unit admin_factory" where
  "demo_factory d = (\<lambda>_ _ _ _. State_Monad.return
     (case dm_connect d of Some err \<Rightarrow> Inl err | None \<Rightarrow> Inr (demo_admin d)))"

definition demo_reconciler :: "demo \<Rightarrow> unit reconciler" where
  "demo_reconciler d =
    \<lparr>rec_env = demo_env d, rec_admin_factory = Some (demo_factory d), rec_clock = None\<rparr>"

section \<open>Objects\<close>

definition demo_meta :: "string \<Rightarrow> string \<Rightarrow> ObjectMeta" where
  "demo_meta ns n = zero_meta\<lparr>om_namespace := ns, om_name := n, om_uid := ''u1'', om_generation := 2\<rparr>"

definition demo_provider :: SurrealDBProvider where
  "demo_provider =
    \<lparr>prov_meta = demo_meta [] ''primary'',
     prov_spec = \<lparr>ps_endpoint = ''ws://db:8000'',
       ps_root_credential_ref = \<lparr>rc_namespace = ''platform'', rc_name = ''root'',
         rc_username_key = [], rc_password_key = []\<rparr>,
       ps_tls = None\<rparr>,
     prov_status = \<lparr>pst_observed_generation = 0, pst_conditions = []\<rparr>\<rparr>"

definition demo_policy :: "string list \<Rightarrow> SurrealDBTenantPolicy" where
  "demo_policy databases =
    \<lparr>pol_meta = demo_meta ''demo'' ''rules'',
     pol_spec = \<lparr>tps_provider_ref = \<lparr>lpr_name = ''primary''\<rparr>, tps_surreal_namespace = ''tenant'',
       tps_database_users = \<lparr>dup_allowed_databases = databases, dup_allowed_roles = [RoleViewer, RoleEditor]\<rparr>,
       tps_namespace_users = \<lparr>nup_allowed = False, nup_allowed_roles = []\<rparr>\<rparr>,
     pol_status = \<lparr>tpst_observed_generation = 0, tpst_provider_ref = None, tpst_conditions = []\<rparr>\<rparr>"

definition demo_credential :: "ObjectMeta \<Rightarrow> SurrealDBCredential" where
  "demo_credential meta =
    \<lparr>cred_meta = meta,
     cred_spec = \<lparr>cs_policy_ref = \<lparr>lpolr_name = ''rules''\<rparr>, cs_level = UserLevelDatabase,
       cs_database = ''app'', cs_roles = [RoleEditor],
       cs_target_secret = \<lparr>ts_name = ''login''\<rparr>, cs_rotation = None\<rparr>,
     cred_status = \<lparr>cst_observed_generation = 0, cst_provider_ref = None, cst_surreal_namespace = [],
       cst_database = [], cst_username = [], cst_last_rotation_time = None,
       cst_next_rotation_time = None, cst_last_manual_rotation_trigger = [], cst_conditions = []\<rparr>\<rparr>"

definition fresh_meta :: ObjectMeta where "fresh_meta = demo_meta ''demo'' ''app''"

definition live_meta :: ObjectMeta where
  "live_meta = fresh_meta\<lparr>om_finalizers := [credentialFinalizer]\<rparr>"

definition deleting_meta :: "string gomap \<Rightarrow> ObjectMeta" where
  "deleting_meta annotations =
     live_meta\<lparr>om_deletion_timestamp := Some 500, om_annotations := annotations\<rparr>"

definition root_secret :: Secret where
  "root_secret = \<lparr>sec_meta = (demo_meta ''platform'' ''root'')\<lparr>om_uid := ''u2'', om_resource_version := ''1''\<rparr>, sec_type = ''Opaque'',
     sec_data = Some [''username'' \<mapsto> ''admin'', ''password'' \<mapsto> ''hunter2'']\<rparr>"

definition login_secret :: "OwnerReference list \<Rightarrow> Secret" where
  "login_secret owners = \<lparr>sec_meta = (demo_meta ''demo'' ''login'')\<lparr>om_resource_version := ''1'', om_owner_references := owners\<rparr>,
     sec_type = ''Opaque'', sec_data = Some [''password'' \<mapsto> ''s3cret'']\<rparr>"

definition owner :: OwnerReference where
  "owner = \<lparr>or_api_version = GroupVersion, or_kind = ''SurrealDBCredential'', or_name = ''app'',
     or_uid = ''u1'', or_controller = Some True, or_block_owner_deletion = Some True\<rparr>"

definition demo_secrets :: "Secret option \<Rightarrow> NamespacedName \<Rightarrow> Secret option" where
  "demo_secrets login k =
    (if k = NamespacedName ''platform'' ''root'' then Some root_secret
     else if k = NamespacedName ''demo'' ''login'' then login
     else None)"

definition demo_of :: "ObjectMeta \<Rightarrow> Secret option \<Rightarrow> demo" where
  "demo_of meta login =
    \<lparr>dm_credential = Inr (demo_credential meta), dm_policy = Inr (demo_policy [''app'']),
     dm_provider = Inr demo_provider, dm_secrets = demo_secrets login,
     dm_connect = None, dm_define = None, dm_remove = None, dm_write = None\<rparr>"

definition demo_req :: NamespacedName where "demo_req = NamespacedName ''demo'' ''app''"

lemmas demo_objects = demo_meta_def zero_meta_def demo_provider_def demo_policy_def demo_credential_def
  fresh_meta_def live_meta_def deleting_meta_def root_secret_def login_secret_def owner_def
  demo_secrets_def demo_of_def demo_req_def not_found_def

section \<open>The laws it satisfies\<close>

lemma demo_env_conditions: "condition_store (set_status_condition (demo_env d))"
  by (simp add: demo_env_def merge_store.condition_store_axioms)

lemma demo_env_finalizers: "finalizer_ops (contains_finalizer (demo_env d))
    (add_finalizer (demo_env d)) (remove_finalizer (demo_env d))"
  by (simp add: demo_env_def list_finalizers.finalizer_ops_axioms)

lemmas demo_conditions [simp] = condition_put [OF demo_env_conditions]

lemma demo_echoes: "echoes_conditions (demo_env d)"
  by (simp add: echoes_conditions_def can_return_def demo_env_def)

lemma demo_random: "rand_in_range (rand_int (demo_env d))"
  by (auto simp: rand_in_range_def demo_env_def split: if_splits)

lemma demo_endpoint:
  "ParseEndpointURL sample_ucd Inr ''ws://db:8000'' = Inr \<lparr>url_scheme = ''ws'', url_text = ''ws://db:8000''\<rparr>"
proof -
  have "getScheme [] ''ws://db:8000'' = Inr (''ws'', ''//db:8000'')"
    by (simp add: scheme_letter_def scheme_other_def)
  moreover have "to_lower sample_ucd ''ws'' = ''ws''"
    by (simp add: to_lower_ascii byte_lower_def)
  ultimately show ?thesis
    by (simp add: ParseEndpointURL_def parse_request_uri_def Let_def has_ctl_byte_def)
qed

section \<open>Evaluating a run\<close>

text \<open>
  One rule per call, over the fixed replies; the code in between is unfolded by the simplifier.
\<close>

lemma wp_call [wp]: "wp (call m ev) Q s =
    wp m (\<lambda>r w. Q r (s\<lparr>world := w, events := events s @ [ev r]\<rparr>)) (world s)"
  by (auto simp: wp_def call_def split: prod.splits)

lemma wp_quiet [wp]: "wp (quiet m) Q s = wp m (\<lambda>r w. Q r (s\<lparr>world := w\<rparr>)) (world s)"
  by (auto simp: wp_def quiet_def split: prod.splits)

lemma unit_world [simp]:
  "(s :: unit st)\<lparr>world := w\<rparr> = s" "(s :: unit st)\<lparr>world := w, events := L\<rparr> = s\<lparr>events := L\<rparr>"
  by (cases s; simp)+

named_theorems demo_eval "evaluation rules of the demo environment"

lemma wp_demo_calls [demo_eval]:
  fixes Q1 :: "SurrealDBCredential result \<Rightarrow> unit st \<Rightarrow> bool"
  shows
  "wp (api_get_credential (demo_env d) k) Q1 s =
     Q1 (dm_credential d) (s\<lparr>events := events s @ [EvGetCredential k (dm_credential d)]\<rparr>)"
  "wp (api_get_policy (demo_env d) k) Q2 s =
     Q2 (dm_policy d) (s\<lparr>events := events s @ [EvGetPolicy k (dm_policy d)]\<rparr>)"
  "wp (api_get_provider (demo_env d) k) Q3 s =
     Q3 (dm_provider d) (s\<lparr>events := events s @ [EvGetProvider k (dm_provider d)]\<rparr>)"
  "wp (api_get_secret (demo_env d) k) Q4 s =
     (case dm_secrets d k of
        None \<Rightarrow> Q4 (Inl not_found) (s\<lparr>events := events s @ [EvGetSecret k (Inl not_found)]\<rparr>)
      | Some x \<Rightarrow> Q4 (Inr x) (s\<lparr>events := events s @ [EvGetSecret k (Inr x)]\<rparr>))"
  "wp (api_update_credential (demo_env d) c) Q1 s =
     Q1 (Inr c) (s\<lparr>events := events s @ [EvUpdateCredential c (Inr c)]\<rparr>)"
  "wp (api_status_credential (demo_env d) c) Q1 s =
     Q1 (Inr c) (s\<lparr>events := events s @ [EvStatusCredential c (Inr c)]\<rparr>)"
  "wp (api_create_secret (demo_env d) x) Q4 s =
     Q4 (write_reply d x) (s\<lparr>events := events s @ [EvCreateSecret x (write_reply d x)]\<rparr>)"
  "wp (api_update_secret (demo_env d) x) Q4 s =
     Q4 (write_reply d x) (s\<lparr>events := events s @ [EvUpdateSecret x (write_reply d x)]\<rparr>)"
  "wp (api_delete_secret (demo_env d) x) Q5 s =
     Q5 None (s\<lparr>events := events s @ [EvDeleteSecret x None]\<rparr>)"
  by (simp_all add: demo_env_def wp api_get_credential_def api_get_policy_def api_get_provider_def
      api_get_secret_def api_update_credential_def api_status_credential_def api_create_secret_def
      api_update_secret_def api_delete_secret_def split: option.split)

lemma wp_demo_surreal [demo_eval]:
  fixes Q :: "unit Admin result \<Rightarrow> unit st \<Rightarrow> bool"
  shows
  "wp (newAdmin (demo_reconciler d) p un pw tls) Q s =
    (case dm_connect d of
       None \<Rightarrow> Q (Inr (demo_admin d))
         (s\<lparr>events := events s @ [EvConnect (ps_endpoint (prov_spec p)) un pw None]\<rparr>)
     | Some err \<Rightarrow> Q (Inl err)
         (s\<lparr>events := events s @ [EvConnect (ps_endpoint (prov_spec p)) un pw (Some err)]\<rparr>))"
  "wp (surreal_define_user (demo_admin d) t n pw roles) Q' s =
     Q' (dm_define d) (s\<lparr>events := events s @ [EvDefineUser t n pw roles (dm_define d)]\<rparr>)"
  "wp (surreal_remove_user (demo_admin d) t n) Q' s =
     Q' (dm_remove d) (s\<lparr>events := events s @ [EvRemoveUser t n (dm_remove d)]\<rparr>)"
  "wp (surreal_close (demo_admin d)) Q' s = Q' None (s\<lparr>events := events s @ [EvClose]\<rparr>)"
  by (simp_all add: newAdmin_def demo_reconciler_def demo_factory_def demo_admin_def wp
      surreal_connect_def surreal_define_user_def surreal_remove_user_def surreal_close_def
      split: option.split)

lemma wp_demo_quiet [demo_eval]:
  fixes s :: "unit st"
  shows
  "wp (cred_set (demo_env d) c ty st reason msg) Q s =
     Q (put_condition (demo_env d) 1000 c ty st reason msg) s"
  "wp (cred_not_ready (demo_env d) c reason msg) Q s =
     Q (put_condition (demo_env d) 1000 c TypeReady ConditionFalse reason msg) s"
  "wp (cred_ready (demo_env d) c reason msg) Q s =
     Q (put_condition (demo_env d) 1000 c TypeReady ConditionTrue reason msg) s"
  "wp (reconciler_now (demo_reconciler d)) Q' s = Q' 1000 s"
  "wp (quiet (time_now (demo_env d))) Q' s = Q' 1000 s"
  by (simp_all add: cred_set_def cred_not_ready_def cred_ready_def Ready_def NotReady_def Set_def
      put_condition_def reconciler_now_def wp) (simp_all add: demo_env_def demo_reconciler_def)

lemma wp_demo_clock [demo_eval]: "wp (time_now (demo_env d)) Q s = Q 1000 s"
  by (simp add: demo_env_def)

lemma demo_fields [demo_eval]:
  "rec_env (demo_reconciler d) = demo_env d"
  "env_ucd (demo_env d) = demo_ucd"
  "contains_finalizer (demo_env d) = finalizer_present"
  "dm_credential (demo_of meta login) = Inr (demo_credential meta)"
  "dm_policy (demo_of meta login) = Inr (demo_policy [''app''])"
  "dm_provider (demo_of meta login) = Inr demo_provider"
  "dm_secrets (demo_of meta login) = demo_secrets login"
  "dm_connect (demo_of meta login) = None" "dm_define (demo_of meta login) = None"
  "dm_remove (demo_of meta login) = None" "dm_write (demo_of meta login) = None"
  "cred_meta (demo_credential meta) = meta"
  "cs_rotation (cred_spec (demo_credential meta)) = None"
  "cs_roles (cred_spec (demo_credential meta)) = [RoleEditor]"
  "cs_target_secret (cred_spec (demo_credential meta)) = \<lparr>ts_name = ''login''\<rparr>"
  "om_namespace fresh_meta = ''demo''" "om_name fresh_meta = ''app''"
  "om_namespace live_meta = ''demo''" "om_name live_meta = ''app''"
  "om_namespace (deleting_meta ann) = ''demo''" "om_name (deleting_meta ann) = ''app''"
  "om_annotations live_meta = None" "om_annotations (deleting_meta ann) = ann"
  by (simp_all add: demo_reconciler_def demo_env_def demo_of_def demo_credential_def deleting_meta_def
      live_meta_def fresh_meta_def demo_meta_def zero_meta_def)

lemma demo_finalizers [demo_eval]:
  "finalizer_present (om_finalizers fresh_meta) credentialFinalizer \<longleftrightarrow> False"
  "finalizer_present (om_finalizers live_meta) credentialFinalizer \<longleftrightarrow> True"
  "finalizer_present (om_finalizers (deleting_meta ann)) credentialFinalizer \<longleftrightarrow> True"
  "deletion_is_zero fresh_meta \<longleftrightarrow> True" "deletion_is_zero live_meta \<longleftrightarrow> True"
  "deletion_is_zero (deleting_meta ann) \<longleftrightarrow> False"
  by (simp_all add: finalizer_present_def deletion_is_zero_def time_is_zero_def zero_time_def
      deleting_meta_def live_meta_def fresh_meta_def demo_meta_def zero_meta_def)

lemma demo_admits [demo_eval]:
  "ev_allowed (Evaluate u (pol_spec (demo_policy dbs)) (credential_request (demo_credential meta)))
    \<longleftrightarrow> ''app'' \<in> set dbs"
  by (simp add: Evaluate_allowed admits_def admits_database_def admits_namespace_def demo_policy_def
      demo_credential_def credential_request_def)

lemma demo_root [demo_eval]:
  "dm_secrets d = demo_secrets login \<Longrightarrow> wp (loadRootCredentials (demo_env d) demo_provider) Q s =
    Q (''admin'', ''hunter2'', True, None) (s\<lparr>events := events s @
      [EvGetSecret (NamespacedName ''platform'' ''root'') (Inr root_secret)]\<rparr>)"
  by (simp add: loadRootCredentials_def Let_def demo_provider_def demo_eval demo_secrets_def
      root_secret_def map_index_str_def)

lemma demo_tls [demo_eval]: "ps_tls (prov_spec demo_provider) = None"
  by (simp add: demo_provider_def)

definition demo_resolves :: "SurrealDBCredential \<Rightarrow> resolvedCredential" where
  "demo_resolves c = resolved_from demo_ucd c (demo_policy [''app'']) demo_provider root_secret None"

abbreviation demo_resolved :: "ObjectMeta \<Rightarrow> resolvedCredential" where
  "demo_resolved meta \<equiv> demo_resolves (demo_credential meta)"

definition standard :: "demo \<Rightarrow> bool" where
  "standard d \<longleftrightarrow> dm_policy d = Inr (demo_policy [''app'']) \<and> dm_provider d = Inr demo_provider \<and>
    (\<exists>login. dm_secrets d = demo_secrets login)"

lemma demo_resolve [demo_eval]:
  assumes "standard d" and "credential_request c = credential_request (demo_credential meta)"
  shows "wp (resolve (demo_reconciler d) c) Q s =
    Q (c, Some (demo_resolves c), None)
      (s\<lparr>events := events s @ [EvGetPolicy (policy_key c) (Inr (demo_policy [''app''])),
        EvGetProvider (provider_key (demo_policy [''app''])) (Inr demo_provider),
        EvGetSecret (NamespacedName ''platform'' ''root'') (Inr root_secret)]\<rparr>)"
proof -
  have roots: "root_username demo_provider root_secret = ''admin''"
    "root_password demo_provider root_secret = ''hunter2''"
    by (simp_all add: root_username_def root_password_def demo_provider_def root_secret_def map_index_str_def)
  from assms(1) obtain login where "dm_policy d = Inr (demo_policy [''app''])"
    "dm_provider d = Inr demo_provider" "dm_secrets d = demo_secrets login"
    by (auto simp: standard_def)
  moreover have "ev_target (Evaluate u (pol_spec (demo_policy dbs)) (credential_request (demo_credential meta)))
      = naming_target c (demo_policy dbs)" for u dbs
    using Evaluate_target_request [of u "demo_policy dbs" c] by (simp add: assms(2))
  ultimately show ?thesis
    by (simp add: resolve_def resolve_provider_def Let_def demo_eval roots assms(2)
        LoadTLSConfig_None demo_resolves_def resolved_from_def user_name_def user_target_def wp)
qed

lemmas demo_resolve_refl [demo_eval] = demo_resolve [OF _ refl]

lemma demo_standard [demo_eval]:
  "standard (demo_of meta login)"
  "standard (d\<lparr>dm_connect := x\<rparr>) = standard d" "standard (d\<lparr>dm_define := x\<rparr>) = standard d"
  "standard (d\<lparr>dm_write := x\<rparr>) = standard d"
  by (auto simp: standard_def demo_of_def)

lemma wp_demo_write [demo_eval]:
  "wp (reconcileTargetSecret (demo_env d) c R pw existing) Q s =
    Q (dm_write d) (s\<lparr>events := events s @ [write_event existing
      (written_secret existing (desired_secret (demo_env d) c R pw))
      (write_reply d (written_secret existing (desired_secret (demo_env d) c R pw)))]\<rparr>)"
  by (simp add: reconcileTargetSecret_def Let_def demo_eval write_event_def written_secret_def
      desired_secret_def wp write_reply_def split: option.split)

lemma write_reply_ok [demo_eval]: "dm_write d = None \<Longrightarrow> write_reply d s = Inr s"
  and write_reply_failed [demo_eval]: "dm_write d = Some err \<Longrightarrow> write_reply d s = Inl err"
  by (simp_all add: write_reply_def)

lemma demo_login [demo_eval]:
  "ExistingPassword (Some (login_secret owners)) = (''s3cret'', True)"
  "om_name (cred_meta c) = ''app'' \<Longrightarrow> om_uid (cred_meta c) = ''u1'' \<Longrightarrow>
    IsOwnedByCredential (login_secret [owner]) c"
  "\<not> IsOwnedByCredential (login_secret []) c"
  "om_name (cred_meta c) = ''app'' \<Longrightarrow> om_uid (cred_meta c) = ''u1'' \<Longrightarrow>
    EnsureCanManage (Some (login_secret [owner])) c = None"
  by (simp_all add: ExistingPassword_def IsOwnedByCredential_def login_secret_def owner_def)

lemma demo_uid [demo_eval]:
  "om_uid live_meta = ''u1''" "om_uid (deleting_meta a) = ''u1''" "om_uid fresh_meta = ''u1''"
  by (simp_all add: deleting_meta_def live_meta_def fresh_meta_def demo_meta_def)

lemma demo_no_rotation [demo_eval]:
  "Decide now True None trig lrt nrt None = reuse_decision trig lrt None"
  "cs_rotation (cred_spec c) = None \<Longrightarrow> rotationPeriod c = None"
  "\<not> generates (reuse_decision trig lrt nrt)"
  "dec_next_rotation_time (reuse_decision trig lrt nrt) = nrt"
  by (simp_all add: Decide_cases manual_pending_def manual_value_def schedule_due_def rotationPeriod_def
      generates_def reuse_decision_def)

lemma demo_login_key [demo_eval]:
  "demo_secrets login (NamespacedName ''demo'' ''login'') = login"
  by (simp add: demo_secrets_def)

lemmas reconcile_steps = Reconcile_def Let_def wp reconcile_resolved_def getTargetSecret_def
  reconcile_decided_def reconcile_connected_def reconcile_finish_def return_status_update_def
  reconcileDelete_def delete_connected_def deleteOwnedTargetSecret_def removeCredentialFinalizer_def

lemma reconcilesI:
  assumes "wp (Reconcile r req) (\<lambda>res s. P res (events s)) \<lparr>world = w, events = []\<rparr>"
  obtains res L where "reconciles r req res L" and "P res L"
proof -
  obtain res s' where "run_state (Reconcile r req) \<lparr>world = w, events = []\<rparr> = (res, s')"
    by (rule prod.exhaust)
  with assms show thesis
    by (intro that [of res "events s'"]) (auto simp: wp_def reconciles_def)
qed

section \<open>Runs\<close>

abbreviation start :: "unit st" where "start \<equiv> \<lparr>world = (), events = []\<rparr>"

definition demo_reads :: "ObjectMeta \<Rightarrow> event list" where
  "demo_reads meta =
    [EvGetCredential demo_req (Inr (demo_credential meta)),
     EvGetPolicy (policy_key (demo_credential meta)) (Inr (demo_policy [''app''])),
     EvGetProvider (provider_key (demo_policy [''app''])) (Inr demo_provider),
     EvGetSecret (NamespacedName ''platform'' ''root'') (Inr root_secret)]"

text \<open>A credential whose Secret exists: the password is reused.\<close>

definition demo_live :: demo where "demo_live = demo_of live_meta (Some (login_secret [owner]))"

definition demo_written :: Secret where
  "demo_written = written_secret (Some (login_secret [owner]))
     (desired_secret (demo_env demo_live) (demo_credential live_meta) (demo_resolved live_meta) ''s3cret'')"

definition demo_live_log :: "SurrealDBCredential \<Rightarrow> event list" where
  "demo_live_log c' = demo_reads live_meta @
     [EvGetSecret (NamespacedName ''demo'' ''login'') (Inr (login_secret [owner])),
      connect_event (demo_resolved live_meta) None,
      EvDefineUser (rv_surreal_target (demo_resolved live_meta)) (rv_username (demo_resolved live_meta))
        ''s3cret'' [RoleEditor] None,
      EvUpdateSecret demo_written (Inr demo_written),
      EvStatusCredential c' (Inr c'), EvClose]"

lemma demo_live_run: "\<exists>c'. reconciles (demo_reconciler demo_live) demo_req done_ok (demo_live_log c') \<and>
    cred_condition c' TypeReady = Some ConditionTrue"
proof -
  have "wp (Reconcile (demo_reconciler demo_live) demo_req)
     (\<lambda>res s. res = done_ok \<and> (\<exists>c'. events s = demo_live_log c' \<and>
       cred_condition c' TypeReady = Some ConditionTrue)) start"
    by (simp add: reconcile_steps demo_eval demo_reads_def connect_event_def demo_live_def
        write_event_def demo_written_def demo_live_log_def)
  then obtain res L where "reconciles (demo_reconciler demo_live) demo_req res L"
    and "res = done_ok \<and> (\<exists>c'. L = demo_live_log c' \<and> cred_condition c' TypeReady = Some ConditionTrue)"
    by (rule reconcilesI)
  then show ?thesis by blast
qed

lemma demo_live_log_simps:
  "hd (demo_live_log c') = EvGetCredential demo_req (Inr (demo_credential live_meta))"
  "EvUpdateSecret demo_written (Inr demo_written) \<in> set (demo_live_log c')"
  "EvStatusCredential c' (Inr c') \<in> set (demo_live_log c')"
  "EvDefineUser (rv_surreal_target (demo_resolved live_meta)) (rv_username (demo_resolved live_meta))
      ''s3cret'' [RoleEditor] None \<in> set (demo_live_log c')"
  by (simp_all add: demo_live_log_def demo_reads_def)

text \<open>A new credential gets the finalizer and nothing else.\<close>

definition demo_fresh :: demo where "demo_fresh = demo_of fresh_meta None"

lemma demo_fresh_run: "reconciles (demo_reconciler demo_fresh) demo_req done_ok
    [EvGetCredential demo_req (Inr (demo_credential fresh_meta)),
     EvUpdateCredential (with_finalizer (demo_env demo_fresh) (demo_credential fresh_meta))
       (Inr (with_finalizer (demo_env demo_fresh) (demo_credential fresh_meta)))]"
proof -
  have "wp (Reconcile (demo_reconciler demo_fresh) demo_req)
     (\<lambda>res s. res = done_ok \<and> events s =
       [EvGetCredential demo_req (Inr (demo_credential fresh_meta)),
        EvUpdateCredential (with_finalizer (demo_env demo_fresh) (demo_credential fresh_meta))
         (Inr (with_finalizer (demo_env demo_fresh) (demo_credential fresh_meta)))]) start"
    by (simp add: reconcile_steps demo_eval demo_fresh_def with_finalizer_def)
  then obtain res L where "reconciles (demo_reconciler demo_fresh) demo_req res L"
    and "res = done_ok \<and> L =
       [EvGetCredential demo_req (Inr (demo_credential fresh_meta)),
        EvUpdateCredential (with_finalizer (demo_env demo_fresh) (demo_credential fresh_meta))
         (Inr (with_finalizer (demo_env demo_fresh) (demo_credential fresh_meta)))]"
    by (rule reconcilesI)
  then show ?thesis by blast
qed

text \<open>A deletion that runs to its end, and a forced one.\<close>

definition demo_deleting :: demo where
  "demo_deleting = demo_of (deleting_meta None) (Some (login_secret [owner]))"

definition force_annotation :: "string gomap" where
  "force_annotation = Some [annotationForceCleanup \<mapsto> ''true'']"

definition demo_forced :: demo where
  "demo_forced = demo_of (deleting_meta force_annotation) (Some (login_secret [owner]))"

definition demo_release :: "string gomap \<Rightarrow> event list" where
  "demo_release ann =
    [EvGetSecret (NamespacedName ''demo'' ''login'') (Inr (login_secret [owner])),
     EvDeleteSecret (login_secret [owner]) None,
     EvGetCredential (NamespacedName ''demo'' ''app'') (Inr (demo_credential (deleting_meta ann))),
     EvUpdateCredential (without_finalizer (demo_env demo_deleting) (demo_credential (deleting_meta ann)))
       (Inr (without_finalizer (demo_env demo_deleting) (demo_credential (deleting_meta ann))))]"

lemma remove_finalizer_demo [demo_eval]: "remove_finalizer (demo_env d) = finalizer_removed"
  by (simp add: demo_env_def)

lemma annotation_eval [demo_eval]:
  "map_index_str force_annotation annotationForceCleanup = ''true''"
  by (simp add: map_index_str_def force_annotation_def)

definition demo_deleting_log :: "event list" where
  "demo_deleting_log = demo_reads (deleting_meta None) @
     [connect_event (demo_resolved (deleting_meta None)) None,
      EvRemoveUser (rv_surreal_target (demo_resolved (deleting_meta None)))
        (rv_username (demo_resolved (deleting_meta None))) None] @
     demo_release None @ [EvClose]"

lemma demo_deleting_run: "reconciles (demo_reconciler demo_deleting) demo_req done_ok demo_deleting_log"
proof -
  have "wp (Reconcile (demo_reconciler demo_deleting) demo_req)
     (\<lambda>res s. res = done_ok \<and> events s = demo_deleting_log) start"
    by (simp add: reconcile_steps demo_eval demo_deleting_def demo_deleting_log_def demo_reads_def
        connect_event_def demo_release_def without_finalizer_def object_key_def)
  then obtain res L where "reconciles (demo_reconciler demo_deleting) demo_req res L"
    and "res = done_ok \<and> L = demo_deleting_log" by (rule reconcilesI)
  then show ?thesis by blast
qed

definition demo_forced_log :: "event list" where
  "demo_forced_log = EvGetCredential demo_req (Inr (demo_credential (deleting_meta force_annotation))) #
     demo_release force_annotation"

lemma demo_forced_run: "reconciles (demo_reconciler demo_forced) demo_req done_ok demo_forced_log"
proof -
  have "wp (Reconcile (demo_reconciler demo_forced) demo_req)
     (\<lambda>res s. res = done_ok \<and> events s = demo_forced_log) start"
    by (simp add: reconcile_steps demo_eval demo_forced_def demo_forced_log_def
        demo_release_def without_finalizer_def object_key_def)
  then obtain res L where "reconciles (demo_reconciler demo_forced) demo_req res L"
    and "res = done_ok \<and> L = demo_forced_log" by (rule reconcilesI)
  then show ?thesis by blast
qed

text \<open>A request the policy denies, live and in deletion.\<close>

definition demo_denied :: "ObjectMeta \<Rightarrow> demo" where
  "demo_denied meta = (demo_of meta None)\<lparr>dm_policy := Inr (demo_policy [])\<rparr>"

lemma demo_denied_fields [demo_eval]:
  "dm_credential (demo_denied meta) = Inr (demo_credential meta)"
  "dm_policy (demo_denied meta) = Inr (demo_policy [])"
  by (simp_all add: demo_denied_def demo_of_def)

lemma demo_denied_run: "\<exists>c'. reconciles (demo_reconciler (demo_denied live_meta)) demo_req done_ok
    [EvGetCredential demo_req (Inr (demo_credential live_meta)),
     EvGetPolicy (policy_key (demo_credential live_meta)) (Inr (demo_policy [])),
     EvStatusCredential c' (Inr c')]"
proof -
  have "wp (Reconcile (demo_reconciler (demo_denied live_meta)) demo_req)
     (\<lambda>res s. res = done_ok \<and> (\<exists>c'. events s =
       [EvGetCredential demo_req (Inr (demo_credential live_meta)),
        EvGetPolicy (policy_key (demo_credential live_meta)) (Inr (demo_policy [])),
        EvStatusCredential c' (Inr c')])) start"
    by (simp add: reconcile_steps demo_eval resolve_def)
  then obtain res L where "reconciles (demo_reconciler (demo_denied live_meta)) demo_req res L"
    and "res = done_ok \<and> (\<exists>c'. L =
       [EvGetCredential demo_req (Inr (demo_credential live_meta)),
        EvGetPolicy (policy_key (demo_credential live_meta)) (Inr (demo_policy [])),
        EvStatusCredential c' (Inr c')])" by (rule reconcilesI)
  then show ?thesis by blast
qed

lemma demo_denied_deletion_run:
  "reconciles (demo_reconciler (demo_denied (deleting_meta None))) demo_req done_ok
    [EvGetCredential demo_req (Inr (demo_credential (deleting_meta None))),
     EvGetPolicy (policy_key (demo_credential (deleting_meta None))) (Inr (demo_policy []))]"
proof -
  have "wp (Reconcile (demo_reconciler (demo_denied (deleting_meta None))) demo_req)
     (\<lambda>res s. res = done_ok \<and> events s =
       [EvGetCredential demo_req (Inr (demo_credential (deleting_meta None))),
        EvGetPolicy (policy_key (demo_credential (deleting_meta None))) (Inr (demo_policy []))]) start"
    by (simp add: reconcile_steps demo_eval resolve_def)
  then obtain res L where "reconciles (demo_reconciler (demo_denied (deleting_meta None))) demo_req res L"
    and "res = done_ok \<and> L =
       [EvGetCredential demo_req (Inr (demo_credential (deleting_meta None))),
        EvGetPolicy (policy_key (demo_credential (deleting_meta None))) (Inr (demo_policy []))]"
    by (rule reconcilesI)
  then show ?thesis by blast
qed

text \<open>SurrealDB cannot be reached, or refuses the definition.\<close>

definition refused :: go_error where "refused = errorf ''refused''"

definition demo_down :: demo where
  "demo_down = (demo_of live_meta (Some (login_secret [owner])))\<lparr>dm_connect := Some refused\<rparr>"

definition demo_refusing :: demo where
  "demo_refusing = (demo_of live_meta (Some (login_secret [owner])))\<lparr>dm_define := Some refused\<rparr>"

lemma demo_failing_fields [demo_eval]:
  "dm_credential (d\<lparr>dm_connect := x\<rparr>) = dm_credential d" "dm_secrets (d\<lparr>dm_connect := x\<rparr>) = dm_secrets d"
  "dm_credential (d\<lparr>dm_define := y\<rparr>) = dm_credential d" "dm_secrets (d\<lparr>dm_define := y\<rparr>) = dm_secrets d"
  "dm_credential (d\<lparr>dm_write := z\<rparr>) = dm_credential d" "dm_secrets (d\<lparr>dm_write := z\<rparr>) = dm_secrets d"
  "dm_connect (d\<lparr>dm_define := y\<rparr>) = dm_connect d" "dm_connect (d\<lparr>dm_write := z\<rparr>) = dm_connect d"
  "dm_define (d\<lparr>dm_write := z\<rparr>) = dm_define d"
  by simp_all

definition demo_down_log :: "SurrealDBCredential \<Rightarrow> event list" where
  "demo_down_log c' = demo_reads live_meta @
     [EvGetSecret (NamespacedName ''demo'' ''login'') (Inr (login_secret [owner])),
      connect_event (demo_resolved live_meta) (Some refused), EvStatusCredential c' (Inr c')]"

lemma demo_down_run: "\<exists>c'. reconciles (demo_reconciler demo_down) demo_req
    (surrealDBUnavailableRequeue, None) (demo_down_log c')"
proof -
  have "wp (Reconcile (demo_reconciler demo_down) demo_req)
     (\<lambda>res s. res = (surrealDBUnavailableRequeue, None) \<and> (\<exists>c'. events s = demo_down_log c')) start"
    by (simp add: reconcile_steps demo_eval demo_reads_def connect_event_def demo_down_def demo_down_log_def)
  then obtain res L where "reconciles (demo_reconciler demo_down) demo_req res L"
    and "res = (surrealDBUnavailableRequeue, None) \<and> (\<exists>c'. L = demo_down_log c')" by (rule reconcilesI)
  then show ?thesis by blast
qed

definition demo_refusing_log :: "SurrealDBCredential \<Rightarrow> event list" where
  "demo_refusing_log c' = demo_reads live_meta @
     [EvGetSecret (NamespacedName ''demo'' ''login'') (Inr (login_secret [owner])),
      connect_event (demo_resolved live_meta) None,
      EvDefineUser (rv_surreal_target (demo_resolved live_meta)) (rv_username (demo_resolved live_meta))
        ''s3cret'' [RoleEditor] (Some refused), EvStatusCredential c' (Inr c'), EvClose]"

lemma demo_refusing_run:
  "\<exists>c'. reconciles (demo_reconciler demo_refusing) demo_req done_ok (demo_refusing_log c')"
proof -
  have "wp (Reconcile (demo_reconciler demo_refusing) demo_req)
     (\<lambda>res s. res = done_ok \<and> (\<exists>c'. events s = demo_refusing_log c')) start"
    by (simp add: reconcile_steps demo_eval demo_reads_def connect_event_def demo_refusing_def
        demo_refusing_log_def)
  then obtain res L where "reconciles (demo_reconciler demo_refusing) demo_req res L"
    and "res = done_ok \<and> (\<exists>c'. L = demo_refusing_log c')" by (rule reconcilesI)
  then show ?thesis by blast
qed

text \<open>The API server refuses to store the Secret.\<close>

definition demo_full :: demo where
  "demo_full = (demo_of live_meta (Some (login_secret [owner])))\<lparr>dm_write := Some refused\<rparr>"

definition demo_full_log :: "SurrealDBCredential \<Rightarrow> Secret \<Rightarrow> event list" where
  "demo_full_log c' s = demo_reads live_meta @
     [EvGetSecret (NamespacedName ''demo'' ''login'') (Inr (login_secret [owner])),
      connect_event (demo_resolved live_meta) None,
      EvDefineUser (rv_surreal_target (demo_resolved live_meta)) (rv_username (demo_resolved live_meta))
        ''s3cret'' [RoleEditor] None,
      EvUpdateSecret s (Inl refused), EvStatusCredential c' (Inr c'), EvClose]"

lemma demo_full_run:
  "\<exists>c' s. reconciles (demo_reconciler demo_full) demo_req done_ok (demo_full_log c' s)"
proof -
  have "wp (Reconcile (demo_reconciler demo_full) demo_req)
     (\<lambda>res st. res = done_ok \<and> (\<exists>c' s. events st = demo_full_log c' s)) start"
    by (simp add: reconcile_steps demo_eval demo_reads_def connect_event_def demo_full_def
        write_event_def demo_full_log_def)
  then obtain res L where "reconciles (demo_reconciler demo_full) demo_req res L"
    and "res = done_ok \<and> (\<exists>c' s. L = demo_full_log c' s)" by (rule reconcilesI)
  then show ?thesis by blast
qed

text \<open>A credential with a rotation period, whose next rotation is 4000 ns ahead.\<close>

definition scheduled_credential :: SurrealDBCredential where
  "scheduled_credential = (let c = demo_credential live_meta in
     c\<lparr>cred_spec := (cred_spec c)\<lparr>cs_rotation := Some \<lparr>rot_period = Some 3600000000000\<rparr>\<rparr>,
       cred_status := (cred_status c)\<lparr>cst_last_rotation_time := Some 900,
                                      cst_next_rotation_time := Some 5000\<rparr>\<rparr>)"

definition demo_scheduled :: demo where
  "demo_scheduled = (demo_of live_meta (Some (login_secret [owner])))\<lparr>dm_credential := Inr scheduled_credential\<rparr>"

lemma scheduled_fields [demo_eval]:
  "cred_meta scheduled_credential = live_meta"
  "credential_request scheduled_credential = credential_request (demo_credential live_meta)"
  "policy_key scheduled_credential = policy_key (demo_credential live_meta)"
  "cs_roles (cred_spec scheduled_credential) = [RoleEditor]"
  "cs_target_secret (cred_spec scheduled_credential) = \<lparr>ts_name = ''login''\<rparr>"
  by (simp_all add: scheduled_credential_def Let_def credential_request_def policy_key_def demo_eval)

lemma scheduled_decision [demo_eval]:
  "Decide 1000 True None trig (cst_last_rotation_time (cred_status scheduled_credential))
      (cst_next_rotation_time (cred_status scheduled_credential)) (rotationPeriod c) =
    reuse_decision trig (Some 900) (Some 5000)"
  if "cred_spec c = cred_spec scheduled_credential"
proof -
  have "sint (3600000000000 :: 64 word) = 3600000000000" by simp
  with that show ?thesis
    by (simp add: Decide_cases manual_pending_def manual_value_def schedule_due_def rotationPeriod_def
        scheduled_credential_def Let_def due_at_def period_end_def)
qed

lemma demo_of_credential [demo_eval]:
  "standard (d\<lparr>dm_credential := x\<rparr>) = standard d"
  "dm_secrets (d\<lparr>dm_credential := x\<rparr>) = dm_secrets d" "dm_connect (d\<lparr>dm_credential := x\<rparr>) = dm_connect d"
  "dm_define (d\<lparr>dm_credential := x\<rparr>) = dm_define d"
  by (simp_all add: standard_def)

definition scheduled_log :: "SurrealDBCredential \<Rightarrow> event list" where
  "scheduled_log c' =
     [EvGetCredential demo_req (Inr scheduled_credential),
      EvGetPolicy (policy_key (demo_credential live_meta)) (Inr (demo_policy [''app''])),
      EvGetProvider (provider_key (demo_policy [''app''])) (Inr demo_provider),
      EvGetSecret (NamespacedName ''platform'' ''root'') (Inr root_secret),
      EvGetSecret (NamespacedName ''demo'' ''login'') (Inr (login_secret [owner])),
      connect_event (demo_resolves scheduled_credential) None,
      EvDefineUser (rv_surreal_target (demo_resolves scheduled_credential))
        (rv_username (demo_resolves scheduled_credential)) ''s3cret'' [RoleEditor] None,
      EvUpdateSecret (written_secret (Some (login_secret [owner])) (desired_secret (demo_env demo_scheduled)
          scheduled_credential (demo_resolves scheduled_credential) ''s3cret''))
        (Inr (written_secret (Some (login_secret [owner])) (desired_secret (demo_env demo_scheduled)
          scheduled_credential (demo_resolves scheduled_credential) ''s3cret''))),
      EvStatusCredential c' (Inr c'), EvClose]"

lemma demo_scheduled_run: "\<exists>c'. reconciles (demo_reconciler demo_scheduled) demo_req
    (\<lparr>res_requeue = False, res_requeue_after = 4000\<rparr>, None) (scheduled_log c') \<and>
    cred_condition c' TypeReady = Some ConditionTrue \<and> cst_next_rotation_time (cred_status c') = Some 5000"
proof -
  have ts: "time_sub 5000 1000 = 4000" by (simp add: time_sub_def max_duration_def min_duration_def)
  have dl: "\<not> duration_less 4000 0" by (simp add: duration_less_def)
  have "wp (Reconcile (demo_reconciler demo_scheduled) demo_req)
     (\<lambda>res s. res = (\<lparr>res_requeue = False, res_requeue_after = 4000\<rparr>, None) \<and>
        (\<exists>c'. events s = scheduled_log c' \<and> cred_condition c' TypeReady = Some ConditionTrue \<and>
          cst_next_rotation_time (cred_status c') = Some 5000)) start"
    by (simp add: reconcile_steps demo_eval connect_event_def demo_scheduled_def scheduled_log_def
        write_event_def ts dl)
  then obtain res L where "reconciles (demo_reconciler demo_scheduled) demo_req res L"
    and "res = (\<lparr>res_requeue = False, res_requeue_after = 4000\<rparr>, None) \<and>
      (\<exists>c'. L = scheduled_log c' \<and> cred_condition c' TypeReady = Some ConditionTrue \<and>
          cst_next_rotation_time (cred_status c') = Some 5000)" by (rule reconcilesI)
  then show ?thesis by blast
qed

end
