(* ===== verification/CredentialProperties.thy ===== *)
theory CredentialProperties
  imports Demo
begin

text \<open>
  The properties of the credential reconciler, over every environment: what a run must have read
  and done before it defines a user, writes or deletes a Secret, reports readiness or releases the
  finalizer, and what it reports when it cannot.  Each is applied to a run of the demo environment.
\<close>

section \<open>Defining the user\<close>

text \<open>
  C2. A run defines a user in SurrealDB only for the credential it read, after reading the tenant
  policy that credential names, and only if that policy admits the request; the user's scope, name
  and roles are exactly those of the admitted request.
\<close>

theorem define_user_needs_policy:
  assumes "reconciles r req res L" and "EvDefineUser t n pw roles x \<in> set L"
  shows "\<exists>c pol. EvGetCredential req (Inr c) \<in> set (before KDefine L) \<and>
    EvGetPolicy (policy_key c) (Inr pol) \<in> set (before KDefine L) \<and>
    admits (pol_spec pol) (credential_request c) \<and>
    t = user_target c pol \<and> n = user_name (env_ucd (rec_env r)) c pol \<and>
    roles = cs_roles (cred_spec c)"
proof -
  from define_run [OF reconciles_run [OF assms(1)] assms(2)] obtain D rest
    where L: "before KDefine L = df_prefix (rec_env r) req D" and D: "df_facts (clock_of r) (rec_env r) D"
      and ev: "EvDefineUser t n pw roles x = df_define (rec_env r) D x" by metis
  show ?thesis
    unfolding L using D ev
    by (intro exI [of _ "df_credential D"] exI [of _ "df_policy D"])
      (auto simp: df_prefix_def df_define_def df_facts_def)
qed

theorem define_user_needs_policy_witness:
  "\<exists>L c pol. reconciles (demo_reconciler demo_live) demo_req done_ok L \<and>
    EvGetPolicy (policy_key c) (Inr pol) \<in> set (before KDefine L) \<and>
    admits (pol_spec pol) (credential_request c)"
proof -
  obtain c' where run: "reconciles (demo_reconciler demo_live) demo_req done_ok (demo_live_log c')"
    using demo_live_run by blast
  have "EvDefineUser (rv_surreal_target (demo_resolved live_meta)) (rv_username (demo_resolved live_meta))
      ''s3cret'' [RoleEditor] None \<in> set (demo_live_log c')"
    by (simp add: demo_live_log_def)
  from define_user_needs_policy [OF run this] run show ?thesis by blast
qed

section \<open>The target Secret\<close>

lemma secret_calls:
  assumes "reconciles r req res L" and "hd L = EvGetCredential req (Inr c)"
  shows "EvCreateSecret s x \<in> set L \<Longrightarrow>
      object_key (sec_meta s) = target_key c \<and> IsOwnedByCredential s c \<and>
      (\<exists>err. is_not_found err \<and> EvGetSecret (target_key c) (Inl err) \<in> set (before KWrite L))"
    and "EvUpdateSecret s x \<in> set L \<Longrightarrow> IsOwnedByCredential s c \<and>
      (\<exists>old. EvGetSecret (target_key c) (Inr old) \<in> set (before KWrite L) \<and>
        IsOwnedByCredential old c \<and> same_object (sec_meta s) (sec_meta old))"
    and "EvDeleteSecret s y \<in> set L \<Longrightarrow> IsOwnedByCredential s c \<and>
      EvGetSecret (target_key c) (Inr s) \<in> set (before KDelete L)"
proof -
  note run = reconciles_run [OF assms(1)]
  show "object_key (sec_meta s) = target_key c \<and> IsOwnedByCredential s c \<and>
      (\<exists>err. is_not_found err \<and> EvGetSecret (target_key c) (Inl err) \<in> set (before KWrite L))"
    if ev: "EvCreateSecret s x \<in> set L"
  proof (rule write_run [OF run ev])
    fix D y rest
    assume *: "L = df_prefix (rec_env r) req D @ df_define (rec_env r) D None # EvCreateSecret s x # rest"
      "EvCreateSecret s x = write_event (df_existing D) (df_written (rec_env r) D) y"
      "df_facts (clock_of r) (rec_env r) D"
      "before KWrite L = df_prefix (rec_env r) req D @ [df_define (rec_env r) D None]"
    have c: "c = df_credential D" using assms(2) *(1) by (simp add: df_prefix_def)
    have "df_existing D = None" "s = df_written (rec_env r) D"
      using *(2) by (auto simp: write_event_def split: option.splits)
    with * c show ?thesis
      by (auto simp: df_written_owned df_written_new df_facts_def df_prefix_def found_secret_def
          split: sum.splits)
  qed simp
  show "IsOwnedByCredential s c \<and>
      (\<exists>old. EvGetSecret (target_key c) (Inr old) \<in> set (before KWrite L) \<and>
        IsOwnedByCredential old c \<and> same_object (sec_meta s) (sec_meta old))"
    if ev: "EvUpdateSecret s x \<in> set L"
  proof (rule write_run [OF run ev])
    fix D y rest
    assume *: "L = df_prefix (rec_env r) req D @ df_define (rec_env r) D None # EvUpdateSecret s x # rest"
      "EvUpdateSecret s x = write_event (df_existing D) (df_written (rec_env r) D) y"
      "df_facts (clock_of r) (rec_env r) D"
      "before KWrite L = df_prefix (rec_env r) req D @ [df_define (rec_env r) D None]"
    have c: "c = df_credential D" using assms(2) *(1) by (simp add: df_prefix_def)
    obtain old where "df_existing D = Some old" "s = df_written (rec_env r) D"
      using *(2) by (auto simp: write_event_def split: option.splits)
    with * c show ?thesis
      by (auto simp: df_written_owned df_written_same df_facts_def df_prefix_def found_secret_def
          split: sum.splits)
  qed simp
  show "IsOwnedByCredential s c \<and> EvGetSecret (target_key c) (Inr s) \<in> set (before KDelete L)"
    if ev: "EvDeleteSecret s y \<in> set L"
    using run
  proof cases
    case (deleting c' new)
    with ev assms(2) delete_event [of "rec_env r" c' res new s y] show ?thesis by auto
  qed (use ev in \<open>auto dest!: resolve_only resolved_only dest: only_in\<close>)
qed

text \<open>
  C3. A run never touches a Secret of somebody else: it creates one only under the target key and
  after reading that none exists, it updates only the Secret it read at that key and found owned,
  keeping its identity, and it deletes only such a Secret.
\<close>

theorem secrets_not_clobbered:
  assumes "reconciles r req res L" and "hd L = EvGetCredential req (Inr c)"
  shows "(\<forall>s x. EvCreateSecret s x \<in> set L \<longrightarrow>
      object_key (sec_meta s) = target_key c \<and> IsOwnedByCredential s c \<and>
      (\<exists>err. is_not_found err \<and> EvGetSecret (target_key c) (Inl err) \<in> set (before KWrite L))) \<and>
    (\<forall>s x. EvUpdateSecret s x \<in> set L \<longrightarrow> IsOwnedByCredential s c \<and>
      (\<exists>old. EvGetSecret (target_key c) (Inr old) \<in> set (before KWrite L) \<and>
        IsOwnedByCredential old c \<and> same_object (sec_meta s) (sec_meta old))) \<and>
    (\<forall>s x. EvDeleteSecret s x \<in> set L \<longrightarrow> IsOwnedByCredential s c \<and>
      EvGetSecret (target_key c) (Inr s) \<in> set (before KDelete L))"
  using secret_calls [OF assms] by blast

theorem secrets_not_clobbered_witness:
  "\<exists>L. reconciles (demo_reconciler demo_live) demo_req done_ok L \<and>
    EvUpdateSecret demo_written (Inr demo_written) \<in> set L \<and>
    IsOwnedByCredential demo_written (demo_credential live_meta)"
proof -
  obtain c' where run: "reconciles (demo_reconciler demo_live) demo_req done_ok (demo_live_log c')"
    using demo_live_run by blast
  from secrets_not_clobbered [OF run demo_live_log_simps(1)] run demo_live_log_simps(2)
  show ?thesis by blast
qed

text \<open>
  C6. What is published is what SurrealDB accepted: a Secret is written only after the definition of
  the user has succeeded, and its entries are the name, password, scope and endpoint of that
  definition and of the provider the policy names.
\<close>

theorem published_login_is_defined:
  assumes "reconciles r req res L"
    and "EvCreateSecret s x \<in> set L \<or> EvUpdateSecret s x \<in> set L"
  shows "\<exists>t n pw roles pol prov.
    EvDefineUser t n pw roles None \<in> set (before KWrite L) \<and>
    EvGetProvider (provider_key pol) (Inr prov) \<in> set (before KWrite L) \<and>
    sec_data s = Some [''url'' \<mapsto> ps_endpoint (prov_spec prov), ''namespace'' \<mapsto> ut_namespace t,
      ''database'' \<mapsto> ut_database t, ''username'' \<mapsto> n, ''password'' \<mapsto> pw,
      ''level'' \<mapsto> to_lower (env_ucd (rec_env r)) (ut_level t),
      ''SURREAL_URL'' \<mapsto> ps_endpoint (prov_spec prov), ''SURREAL_NS'' \<mapsto> ut_namespace t,
      ''SURREAL_DB'' \<mapsto> ut_database t, ''SURREAL_USER'' \<mapsto> n, ''SURREAL_PASS'' \<mapsto> pw]"
proof -
  note run = reconciles_run [OF assms(1)]
  from assms(2) obtain ev where ev: "ev \<in> set L" "kind ev = KWrite"
    and s: "ev = EvCreateSecret s x \<or> ev = EvUpdateSecret s x" by force
  from write_run [OF run ev] obtain D y
    where *: "ev = write_event (df_existing D) (df_written (rec_env r) D) y"
      and L: "before KWrite L = df_prefix (rec_env r) req D @ [df_define (rec_env r) D None]" by metis
  from * s have s: "s = df_written (rec_env r) D"
    by (auto simp: write_event_def split: option.splits)
  show ?thesis
    unfolding L
    by (intro exI [of _ "user_target (df_credential D) (df_policy D)"]
        exI [of _ "user_name (env_ucd (rec_env r)) (df_credential D) (df_policy D)"]
        exI [of _ "df_password D"] exI [of _ "cs_roles (cred_spec (df_credential D))"]
        exI [of _ "df_policy D"] exI [of _ "df_provider D"])
      (simp add: df_prefix_def df_define_def s df_written_data BuildTargetSecret_def
        connection_data_def user_target_def)
qed

theorem published_login_is_defined_witness:
  "\<exists>L t n pw roles. reconciles (demo_reconciler demo_live) demo_req done_ok L \<and>
    EvDefineUser t n pw roles None \<in> set (before KWrite L) \<and>
    map_index (sec_data demo_written) ''password'' = Some pw"
proof -
  obtain c' where run: "reconciles (demo_reconciler demo_live) demo_req done_ok (demo_live_log c')"
    using demo_live_run by blast
  from published_login_is_defined [OF run disjI2, OF demo_live_log_simps(2)] run
  show ?thesis by fastforce
qed

section \<open>Readiness\<close>

lemma ready_run:
  assumes "credential_run ck e req res L" and "EvStatusCredential c' x \<in> set L"
    and "cred_condition c' TypeReady = Some ConditionTrue"
    and "condition_store (set_status_condition e)" and "echoes_conditions e"
  obtains D s now msg now1 now2 m1 m2 where "df_facts ck e D"
    and "L = df_prefix e req D @ [df_define e D None, write_event (df_existing D) (df_written e D) (Inr s),
      EvStatusCredential c' x, EvClose]"
    and "c' = ready_status e now1 now2 (put_condition e now (df_status D) TypeUserDefined
      ConditionTrue ReasonDefineUserSucceeded msg) (df_decision D) m1 m2"
    and "case x of Inl err \<Rightarrow> res = (no_requeue, Some err)
      | Inr c \<Rightarrow> \<exists>q. res = (q, None) \<and> requeued e (cst_next_rotation_time (cred_status c)) q"
proof -
  have "has_kind KWrite L"
    using run_not_ready [OF assms(1,4,5,2)] assms(3) by force
  then obtain D new where L: "L = df_prefix e req D @ new @ [EvClose]" and D: "df_facts ck e D"
    and conn: "connected_run e (df_status D) (df_resolved e D) (df_existing D)
      (df_decision D) (df_password D) res new"
    by (rule run_with_define [OF assms(1)]) auto
  have st: "EvStatusCredential c' x \<in> set new"
    using assms(2) L df_prefix_only [OF D, of req] by (auto dest: only_in)
  from conn D show thesis
  proof (cases rule: connected_runE)
    case (finished s y now msg now1 now2 m1 m2)
    from finished(1) st have "x = y" "c' = ready_status e now1 now2
        (put_condition e now (df_status D) TypeUserDefined ConditionTrue ReasonDefineUserSucceeded msg)
        (df_decision D) m1 m2"
      by (auto simp: df_define_def write_event_def split: option.splits)
    with finished L D show thesis by (intro that [of D s now1 now2 now msg m1 m2]) simp_all
  qed (use assms(3) st in \<open>auto simp: condition_failed [OF assms(4)] df_define_def write_event_def
    split: option.splits\<close>)
qed

text \<open>
  C7. A status with the condition Ready set to true is written only by a run that has defined the
  user and written the Secret without an error; then the other three conditions are true as well
  and the status is that of the generation that was read.
\<close>

theorem ready_only_after_success:
  assumes "reconciles r req res L" and "EvStatusCredential c' x \<in> set L"
    and "cred_condition c' TypeReady = Some ConditionTrue"
    and "condition_store (set_status_condition (rec_env r))" and "echoes_conditions (rec_env r)"
  shows "\<exists>c t n pw roles s y. hd L = EvGetCredential req (Inr c) \<and>
    EvDefineUser t n pw roles None \<in> set (before KStatus L) \<and>
    (EvCreateSecret s (Inr y) \<in> set (before KStatus L) \<or> EvUpdateSecret s (Inr y) \<in> set (before KStatus L)) \<and>
    cred_condition c' TypePolicyAccepted = Some ConditionTrue \<and>
    cred_condition c' TypeUserDefined = Some ConditionTrue \<and>
    cred_condition c' TypeSecretReady = Some ConditionTrue \<and>
    cst_observed_generation (cred_status c') = cred_generation c \<and> cst_username (cred_status c') = n"
proof -
  let ?e = "rec_env r"
  from ready_run [OF reconciles_run [OF assms(1)] assms(2-5)] obtain D s now msg now1 now2 m1 m2
    where D: "df_facts (clock_of r) ?e D" and L: "L = df_prefix ?e req D @ [df_define ?e D None,
        write_event (df_existing D) (df_written ?e D) (Inr s), EvStatusCredential c' x, EvClose]"
      and c': "c' = ready_status ?e now1 now2 (put_condition ?e now (df_status D) TypeUserDefined
        ConditionTrue ReasonDefineUserSucceeded msg) (df_decision D) m1 m2" by metis
  have bf: "before KStatus L = df_prefix ?e req D @
      [df_define ?e D None, write_event (df_existing D) (df_written ?e D) (Inr s)]"
    using L df_prefix_only [OF D, of req] by simp
  obtain now' msg' where st: "df_status D = accepted_status ?e now' (df_credential D) (df_resolved ?e D) msg'"
    using D by (auto simp: df_facts_def)
  have "hd L = EvGetCredential req (Inr (df_credential D))"
    by (simp add: L df_prefix_def)
  moreover have "df_define ?e D None \<in> set (before KStatus L)"
    and w: "write_event (df_existing D) (df_written ?e D) (Inr s) \<in> set (before KStatus L)"
    by (simp_all add: bf)
  moreover from w have "EvCreateSecret (df_written ?e D) (Inr s) \<in> set (before KStatus L) \<or>
      EvUpdateSecret (df_written ?e D) (Inr s) \<in> set (before KStatus L)"
    by (auto simp: write_event_def split: option.splits)
  moreover have "cred_condition c' TypePolicyAccepted = Some ConditionTrue"
    "cred_condition c' TypeUserDefined = Some ConditionTrue"
    "cred_condition c' TypeSecretReady = Some ConditionTrue"
    "cst_observed_generation (cred_status c') = cred_generation (df_credential D)"
    "cst_username (cred_status c') = user_name (env_ucd ?e) (df_credential D) (df_policy D)"
    by (simp_all add: c' st condition_ready [OF assms(4)] condition_put [OF assms(4)]
        condition_accepted [OF assms(4)])
  ultimately show ?thesis unfolding df_define_def by blast
qed

theorem ready_only_after_success_witness:
  "\<exists>L t n pw roles. reconciles (demo_reconciler demo_live) demo_req done_ok L \<and>
    EvDefineUser t n pw roles None \<in> set (before KStatus L)"
proof -
  obtain c' where run: "reconciles (demo_reconciler demo_live) demo_req done_ok (demo_live_log c')"
    and ready: "cred_condition c' TypeReady = Some ConditionTrue"
    using demo_live_run by blast
  have env: "rec_env (demo_reconciler demo_live) = demo_env demo_live" by (simp add: demo_eval)
  from ready_only_after_success [OF run demo_live_log_simps(3) ready] env
    demo_env_conditions demo_echoes run
  show ?thesis by metis
qed

section \<open>The finalizer\<close>

text \<open>
  C8. Before the credential carries the finalizer nothing happens outside it: a live credential
  without it only gets it, and one that is being deleted without it is left alone.
\<close>

theorem finalizer_before_effects:
  assumes "reconciles r req res L" and "hd L = EvGetCredential req (Inr c)"
    and "\<not> has_finalizer (rec_env r) c"
  shows "if deletion_is_zero (cred_meta c)
    then (\<exists>x. L = [hd L, EvUpdateCredential (with_finalizer (rec_env r) c) x] \<and> res = (no_requeue, error_of x))
    else L = [hd L] \<and> res = done_ok"
  using reconciles_run [OF assms(1)] assms(2,3)
  by cases (auto elim: delete_run.cases)

theorem finalizer_before_effects_witness:
  "\<exists>L x. reconciles (demo_reconciler demo_fresh) demo_req done_ok L \<and>
    L = [hd L, EvUpdateCredential (with_finalizer (demo_env demo_fresh) (demo_credential fresh_meta)) x]"
proof -
  have nf: "\<not> has_finalizer (rec_env (demo_reconciler demo_fresh)) (demo_credential fresh_meta)"
    and env: "rec_env (demo_reconciler demo_fresh) = demo_env demo_fresh"
    by (simp_all add: has_finalizer_def demo_eval)
  let ?L = "[EvGetCredential demo_req (Inr (demo_credential fresh_meta)),
     EvUpdateCredential (with_finalizer (demo_env demo_fresh) (demo_credential fresh_meta))
       (Inr (with_finalizer (demo_env demo_fresh) (demo_credential fresh_meta)))]"
  have "hd ?L = EvGetCredential demo_req (Inr (demo_credential fresh_meta))" by simp
  from finalizer_before_effects [OF demo_fresh_run this nf] obtain x
    where "?L = [hd ?L, EvUpdateCredential (with_finalizer (demo_env demo_fresh) (demo_credential fresh_meta)) x]"
    unfolding env by (auto simp: demo_eval)
  then show ?thesis using demo_fresh_run by blast
qed

lemma finalizer_run_update:
  assumes "finalizer_run e c res new" and "EvUpdateCredential c' x \<in> set new"
  obtains latest where "new = [EvGetCredential (object_key (cred_meta c)) (Inr latest), EvUpdateCredential c' x]"
    and "c' = without_finalizer e latest"
  using assms by cases auto

text \<open>What a deletion has done by the time it releases the finalizer.\<close>

definition released_properly ::
  "'w env \<Rightarrow> SurrealDBCredential \<Rightarrow> SurrealDBCredential \<Rightarrow> event list \<Rightarrow> bool" where
  "released_properly e c c' L \<longleftrightarrow>
    (\<exists>k latest. c' = without_finalizer e latest \<and> EvGetCredential k (Inr latest) \<in> set (before KUpdate L)) \<and>
    (if force_cleanup c then only {KRead, KStatus, KDelete, KUpdate} L
     else target_settled c (before KUpdate L) \<and>
       (\<exists>pol. EvGetPolicy (policy_key c) (Inr pol) \<in> set (before KUpdate L) \<and>
          EvRemoveUser (user_target c pol) (user_name (env_ucd e) c pol) None \<in> set (before KUpdate L)))"

lemma delete_update:
  assumes "delete_run e c res new" and "EvUpdateCredential c' x \<in> set new"
  shows "released_properly e c c' new"
  using assms(1)
proof cases
  case (forced new1 new2)
  note o1 = delete_secret_only [OF forced(4)]
  from assms(2) forced(1) o1 have "EvUpdateCredential c' x \<in> set new2" by (auto dest: only_in)
  from finalizer_run_update [OF forced(5) this] obtain latest where
    "new2 = [EvGetCredential (object_key (cred_meta c)) (Inr latest), EvUpdateCredential c' x]"
    "c' = without_finalizer e latest" .
  with forced o1 show ?thesis
    by (auto simp: released_properly_def intro: only_mono)
next
  case (forced_kept err new1 c1 y new2)
  note o1 = delete_secret_only [OF forced_kept(4)]
  from assms(2) forced_kept(1) o1 have "EvUpdateCredential c' x \<in> set new2" by (auto dest: only_in)
  from finalizer_run_update [OF forced_kept(7) this] obtain latest where
    "new2 = [EvGetCredential (object_key (cred_meta (refreshed c1 y))) (Inr latest), EvUpdateCredential c' x]"
    "c' = without_finalizer e latest" .
  with forced_kept o1 show ?thesis
    by (auto simp: released_properly_def intro: only_mono)
next
  case (removal R new1 new2)
  note o1 = resolve_Some_only [OF removal(4)]
  from assms(2) removal(1) o1 have "EvUpdateCredential c' x \<in> set new2"
    by (auto simp: connect_event_def dest: only_in)
  note u2 = this
  from removal(5) have "\<exists>d fin. new2 = EvRemoveUser (rv_surreal_target R) (rv_username R) None # d @ fin \<and>
      delete_secret_run c None d \<and> finalizer_run e c res fin"
  proof cases
    case (secret_kept err d c1 y)
    with u2 delete_secret_only [OF secret_kept(3)] show ?thesis by (auto dest: only_in)
  qed (use u2 in auto)
  then obtain d fin where
    n3: "new2 = EvRemoveUser (rv_surreal_target R) (rv_username R) None # d @ fin"
    and d: "delete_secret_run c None d" and fin: "finalizer_run e c res fin" by blast
  have u: "EvUpdateCredential c' x \<in> set fin"
    using u2 n3 delete_secret_only [OF d] by (auto dest: only_in)
  obtain latest where
    n2: "new2 = EvRemoveUser (rv_surreal_target R) (rv_username R) None # d @
      [EvGetCredential (object_key (cred_meta c)) (Inr latest), EvUpdateCredential c' x]"
      "c' = without_finalizer e latest"
    using finalizer_run_update [OF fin u] n3 by metis
  obtain pol prov root reads tls where R: "R = resolved_from (env_ucd e) c pol prov root tls"
    and n1: "new1 = EvGetPolicy (policy_key c) (Inr pol) # EvGetProvider (provider_key pol) (Inr prov) #
      EvGetSecret (root_key prov) (Inr root) # reads"
    using resolve_Some_log [OF removal(4)] by metis
  have b: "before KUpdate new = new1 @ connect_event R None #
      EvRemoveUser (rv_surreal_target R) (rv_username R) None # d @
      [EvGetCredential (object_key (cred_meta c)) (Inr latest)]"
    using removal(1) n2 o1 delete_secret_only [OF d] by simp
  have "target_settled c (before KUpdate new)"
    by (rule target_settled_mono [OF delete_secret_settled [OF d]]) (auto simp: b)
  with removal(3) n2(2) show ?thesis
    by (auto simp: released_properly_def b n1 R resolved_from_def)
qed (use assms(2) in \<open>auto simp: connect_event_def dest!: resolve_only dest: only_in\<close>)

text \<open>
  C9. The finalizer is taken off only from a credential that is being deleted, and only after its
  user was removed from SurrealDB and its target Secret is gone, absent or somebody else's; or, with
  the force-cleanup annotation, without any call to SurrealDB.
\<close>

theorem finalizer_removed_after_cleanup:
  assumes "reconciles r req res L" and "EvUpdateCredential c' x \<in> set L"
    and "\<not> has_finalizer (rec_env r) c'"
    and "finalizer_ops (contains_finalizer (rec_env r)) (add_finalizer (rec_env r)) (remove_finalizer (rec_env r))"
  shows "\<exists>c. hd L = EvGetCredential req (Inr c) \<and> \<not> deletion_is_zero (cred_meta c) \<and>
    released_properly (rec_env r) c c' L"
  using reconciles_run [OF assms(1)]
proof cases
  case (registered c y)
  have "has_finalizer (rec_env r) (with_finalizer (rec_env r) c)"
    using finalizer_ops.contains_add [OF assms(4)] by (simp add: has_finalizer_def with_finalizer_def)
  with registered assms(2,3) show ?thesis by auto
next
  case (deleting c new)
  then have "EvUpdateCredential c' x \<in> set new" using assms(2) by simp
  from delete_update [OF deleting(3) this] deleting show ?thesis
    by (auto simp: released_properly_def target_settled_def)
qed (use assms(2) in \<open>auto dest!: resolve_only resolved_only dest: only_in\<close>)

theorem finalizer_removed_after_cleanup_witness:
  "\<exists>c c' L. reconciles (demo_reconciler demo_deleting) demo_req done_ok L \<and>
    released_properly (demo_env demo_deleting) c c' L"
proof -
  let ?c = "demo_credential (deleting_meta None)"
  let ?c' = "without_finalizer (demo_env demo_deleting) ?c"
  have env: "rec_env (demo_reconciler demo_deleting) = demo_env demo_deleting" by (simp add: demo_eval)
  have "EvUpdateCredential ?c' (Inr ?c') \<in> set demo_deleting_log"
    by (simp add: demo_deleting_log_def demo_release_def)
  moreover have "\<not> has_finalizer (demo_env demo_deleting) ?c'"
    by (simp add: has_finalizer_def without_finalizer_def demo_eval finalizer_present_def
        finalizer_removed_def list_ex_iff)
  ultimately show ?thesis
    using finalizer_removed_after_cleanup [OF demo_deleting_run, unfolded env, OF _ _ demo_env_finalizers]
      demo_deleting_run by blast
qed

text \<open>The last step of a cleanup: read the latest version and take the finalizer off it.\<close>

definition release_attempted :: "'w env \<Rightarrow> reconcile_result \<Rightarrow> event list \<Rightarrow> bool" where
  "release_attempted e res L \<longleftrightarrow>
    (\<exists>k got. EvGetCredential k got \<in> set L \<and>
      (case got of
         Inl err \<Rightarrow> res = (no_requeue, IgnoreNotFound err)
       | Inr latest \<Rightarrow>
         if has_finalizer e latest
         then (\<exists>x. last L = EvUpdateCredential (without_finalizer e latest) x \<and>
                   res = (no_requeue, error_of x))
         else res = done_ok))"

lemma finalizer_run_attempted: "finalizer_run e c res new \<Longrightarrow> release_attempted e res (xs @ new)"
proof (cases rule: finalizer_run.cases)
  assume run: "finalizer_run e c res new"
  show ?thesis if "res = (no_requeue, IgnoreNotFound err)"
      "new = [EvGetCredential (object_key (cred_meta c)) (Inl err)]" for err
    using that unfolding release_attempted_def
    by (intro exI [of _ "object_key (cred_meta c)"] exI [of _ "Inl err"]) simp
  show ?thesis if "res = done_ok" "new = [EvGetCredential (object_key (cred_meta c)) (Inr latest)]"
      "\<not> has_finalizer e latest" for latest
    using that unfolding release_attempted_def
    by (intro exI [of _ "object_key (cred_meta c)"] exI [of _ "Inr latest"]) simp
  show ?thesis if "res = (no_requeue, error_of x)"
      "new = [EvGetCredential (object_key (cred_meta c)) (Inr latest),
        EvUpdateCredential (without_finalizer e latest) x]" "has_finalizer e latest" for latest x
    using that unfolding release_attempted_def
    by (intro exI [of _ "object_key (cred_meta c)"] exI [of _ "Inr latest"]) simp
qed

text \<open>
  C10. Force cleanup needs no SurrealDB: a deletion with the annotation makes no call to it and
  always comes to take the finalizer off the latest version of the credential, whether or not the
  target Secret could be deleted.
\<close>

theorem force_cleanup_releases:
  assumes "reconciles r req res L" and "hd L = EvGetCredential req (Inr c)"
    and "\<not> deletion_is_zero (cred_meta c)" and "has_finalizer (rec_env r) c" and "force_cleanup c"
  shows "only {KRead, KStatus, KDelete, KUpdate} L \<and> release_attempted (rec_env r) res (tl L)"
proof -
  from reconciles_run [OF assms(1)] assms(2,3) obtain new
    where L: "L = EvGetCredential req (Inr c) # new" and del: "delete_run (rec_env r) c res new"
    by cases auto
  from del assms(4,5) show ?thesis
  proof cases
    case (forced new1 new2)
    with finalizer_run_attempted [OF forced(5), of new1] show ?thesis
      by (auto simp: L dest!: delete_secret_only finalizer_only intro: only_mono)
  next
    case (forced_kept err new1 c1 y new2)
    with finalizer_run_attempted [OF forced_kept(7), of "new1 @ [EvStatusCredential c1 y]"] show ?thesis
      by (auto simp: L dest!: delete_secret_only finalizer_only intro: only_mono)
  qed simp_all
qed

theorem force_cleanup_releases_witness:
  "\<exists>L. reconciles (demo_reconciler demo_forced) demo_req done_ok L \<and>
    only {KRead, KStatus, KDelete, KUpdate} L"
proof -
  let ?c = "demo_credential (deleting_meta force_annotation)"
  have "hd demo_forced_log = EvGetCredential demo_req (Inr ?c)" by (simp add: demo_forced_log_def)
  moreover have "\<not> deletion_is_zero (cred_meta ?c)" by (simp add: demo_eval)
  moreover have "has_finalizer (rec_env (demo_reconciler demo_forced)) ?c"
    by (simp add: has_finalizer_def demo_eval)
  moreover have "force_cleanup ?c" by (simp add: force_cleanup_def demo_eval)
  ultimately show ?thesis using force_cleanup_releases [OF demo_forced_run] demo_forced_run by blast
qed

end
