(* ===== verification/CredentialOutcomes.thy ===== *)
theory CredentialOutcomes
  imports CredentialProperties
begin

text \<open>
  More properties of the credential reconciler: which password it publishes and what it records of
  the decision, how it uses and gives up its connection, and what it reports and returns when a
  request is denied, SurrealDB is away or refuses, or a rotation is scheduled.
\<close>

section \<open>The password\<close>

lemma generates_iff: "generates d \<longleftrightarrow> dec_action d \<noteq> ActionReuse"
  by (cases "dec_action d") (simp_all add: generates_def)

lemma password_of_generated:
  assumes "password_of e d existing (Inr pw)" and "rand_in_range (rand_int e)" and "generates d"
  shows "length pw = 48 \<and> list_all password_char pw"
proof -
  from assms(1,3) obtain w where "fst (run_state (GeneratePassword (rand_int e) DefaultPasswordLength) w) = Inr pw"
    by (auto simp: password_of_def can_return_def)
  with GeneratePassword_result [OF assms(2), of DefaultPasswordLength w] show ?thesis
    by (auto simp: wp_def DefaultPasswordLength_def split: prod.splits)
qed

lemma password_of_kept:
  assumes "password_of e (decision_of now c existing) existing (Inr pw)"
    and "\<not> generates (decision_of now c existing)"
  shows "ExistingPassword existing = (pw, True)"
  using assms ActionGenerate_no_password [OF assms(2)]
  by (simp add: password_of_def prod_eq_iff)

text \<open>
  C11. The password a run defines is the one in the target Secret when the decision, taken at a time
  its clock showed, is to reuse it, and otherwise a new one of 48 characters of the alphabet.
\<close>

theorem password_reused_or_fresh:
  assumes "reconciles r req res L" and "EvDefineUser t n pw roles x \<in> set L"
    and "rand_in_range (rand_int (rec_env r))"
  shows "\<exists>c got existing now. hd L = EvGetCredential req (Inr c) \<and>
    EvGetSecret (target_key c) got \<in> set (before KDefine L) \<and> found_secret got existing \<and>
    can_return (clock_of r) now \<and>
    (if dec_action (decision_of now c existing) = ActionReuse then ExistingPassword existing = (pw, True)
     else length pw = 48 \<and> list_all password_char pw)"
proof -
  from define_run [OF reconciles_run [OF assms(1)] assms(2)] obtain D rest
    where L: "L = df_prefix (rec_env r) req D @ EvDefineUser t n pw roles x # rest"
      "before KDefine L = df_prefix (rec_env r) req D" and D: "df_facts (clock_of r) (rec_env r) D"
      and ev: "EvDefineUser t n pw roles x = df_define (rec_env r) D x" by metis
  have pw: "password_of (rec_env r) (decision_of (df_now D) (df_credential D) (df_existing D))
      (df_existing D) (Inr pw)"
    using D ev by (simp add: df_facts_def df_define_def df_decision_def)
  have "if dec_action (decision_of (df_now D) (df_credential D) (df_existing D)) = ActionReuse
      then ExistingPassword (df_existing D) = (pw, True) else length pw = 48 \<and> list_all password_char pw"
    using password_of_kept [OF pw] password_of_generated [OF pw assms(3)] by (auto simp: generates_iff)
  moreover have "EvGetSecret (target_key (df_credential D)) (df_got D) \<in> set (before KDefine L)"
    and "hd L = EvGetCredential req (Inr (df_credential D))"
    using L by (simp_all add: df_prefix_def)
  moreover have "found_secret (df_got D) (df_existing D)" and "can_return (clock_of r) (df_now D)"
    using D by (simp_all add: df_facts_def)
  ultimately show ?thesis by blast
qed

theorem password_reused_or_fresh_witness:
  "\<exists>L c got. reconciles (demo_reconciler demo_live) demo_req done_ok L \<and>
    EvGetSecret (target_key c) got \<in> set (before KDefine L)"
proof -
  obtain c' where run: "reconciles (demo_reconciler demo_live) demo_req done_ok (demo_live_log c')"
    using demo_live_run by blast
  have "rand_in_range (rand_int (rec_env (demo_reconciler demo_live)))"
    by (simp add: demo_eval demo_random)
  from password_reused_or_fresh [OF run demo_live_log_simps(4) this] run show ?thesis by blast
qed

text \<open>
  C12. The status of a run that became ready records its decision: the next rotation, the manual
  trigger that was processed and, when a password was generated, the time it was.
\<close>

theorem decision_is_recorded:
  assumes "reconciles r req res L" and "EvStatusCredential c' x \<in> set L"
    and "cred_condition c' TypeReady = Some ConditionTrue"
    and "condition_store (set_status_condition (rec_env r))" and "echoes_conditions (rec_env r)"
  shows "\<exists>c got existing now. hd L = EvGetCredential req (Inr c) \<and>
    EvGetSecret (target_key c) got \<in> set L \<and> found_secret got existing \<and>
    can_return (clock_of r) now \<and>
    (let d = decision_of now c existing; st = cred_status c' in
       cst_next_rotation_time st = dec_next_rotation_time d \<and>
       cst_last_manual_rotation_trigger st = dec_manual_trigger d \<and>
       cst_last_rotation_time st =
         (if dec_action d = ActionReuse then cst_last_rotation_time (cred_status c) else Some now))"
proof -
  let ?e = "rec_env r"
  from ready_run [OF reconciles_run [OF assms(1)] assms(2-5)] obtain D s now msg now1 now2 m1 m2
    where D: "df_facts (clock_of r) ?e D" and L: "L = df_prefix ?e req D @ [df_define ?e D None,
        write_event (df_existing D) (df_written ?e D) (Inr s), EvStatusCredential c' x, EvClose]"
      and c': "c' = ready_status ?e now1 now2 (put_condition ?e now (df_status D) TypeUserDefined
        ConditionTrue ReasonDefineUserSucceeded msg) (df_decision D) m1 m2" by metis
  obtain now' msg' where st: "df_status D = accepted_status ?e now' (df_credential D) (df_resolved ?e D) msg'"
    using D by (auto simp: df_facts_def)
  have last: "dec_last_rotation_time (df_decision D) = Some (df_now D)" if "generates (df_decision D)"
    using that unfolding df_decision_def decision_of_def generates_iff by (rule Decide_last)
  have "let d = df_decision D; st = cred_status c' in
       cst_next_rotation_time st = dec_next_rotation_time d \<and>
       cst_last_manual_rotation_trigger st = dec_manual_trigger d \<and>
       cst_last_rotation_time st =
         (if dec_action d = ActionReuse then cst_last_rotation_time (cred_status (df_credential D))
          else Some (df_now D))"
    using last by (simp add: Let_def c' st generates_iff)
  moreover have "hd L = EvGetCredential req (Inr (df_credential D))"
    and "EvGetSecret (target_key (df_credential D)) (df_got D) \<in> set L"
    by (simp_all add: L df_prefix_def)
  moreover have "found_secret (df_got D) (df_existing D)" and "can_return (clock_of r) (df_now D)"
    using D by (simp_all add: df_facts_def)
  ultimately show ?thesis unfolding df_decision_def by blast
qed

theorem decision_is_recorded_witness:
  "\<exists>L c got. reconciles (demo_reconciler demo_live) demo_req done_ok L \<and>
    EvGetSecret (target_key c) got \<in> set L"
proof -
  obtain c' where run: "reconciles (demo_reconciler demo_live) demo_req done_ok (demo_live_log c')"
    and ready: "cred_condition c' TypeReady = Some ConditionTrue"
    using demo_live_run by blast
  have env: "rec_env (demo_reconciler demo_live) = demo_env demo_live" by (simp add: demo_eval)
  from decision_is_recorded [OF run demo_live_log_simps(3) ready, unfolded env, OF demo_env_conditions demo_echoes]
    run show ?thesis by blast
qed

section \<open>The connection\<close>

fun is_open :: "event \<Rightarrow> bool" where
  "is_open (EvConnect _ _ _ None) = True"
| "is_open _ = False"

definition opened :: "event list \<Rightarrow> nat" where
  "opened L = length (filter is_open L)"

definition closed_count :: "event list \<Rightarrow> nat" where
  "closed_count L = length (filter (\<lambda>ev. kind ev = KClose) L)"

lemma opened_simps [simp]:
  "opened [] = 0" "opened (xs @ ys) = opened xs + opened ys"
  "opened (ev # L) = (if is_open ev then Suc (opened L) else opened L)"
  by (simp_all add: opened_def)

lemma closed_count_simps [simp]:
  "closed_count [] = 0" "closed_count (xs @ ys) = closed_count xs + closed_count ys"
  "closed_count (ev # L) = (if kind ev = KClose then Suc (closed_count L) else closed_count L)"
  by (simp_all add: closed_count_def)

lemma is_open_connect [simp]: "is_open (connect_event R x) \<longleftrightarrow> x = None"
  by (cases x) (simp_all add: connect_event_def)

lemma is_open_kind: "is_open ev \<Longrightarrow> kind ev = KConnect"
  by (cases ev rule: is_open.cases) simp_all

lemma only_not_opened: "only ks L \<Longrightarrow> KConnect \<notin> ks \<Longrightarrow> opened L = 0"
  by (induction L) (auto dest: is_open_kind)

lemma only_not_closed: "only ks L \<Longrightarrow> KClose \<notin> ks \<Longrightarrow> closed_count L = 0"
  by (induction L) auto

lemmas not_opened_closed = only_not_opened only_not_closed

lemma decided_opened:
  "decided_run ck e c R existing res new \<Longrightarrow>
    opened new = closed_count new \<and> opened new \<le> 1 \<and> (opened new = 1 \<longrightarrow> last new = EvClose)"
  by (erule decided_run.cases)
    (auto dest!: connected_only simp: not_opened_closed)

lemma resolved_opened:
  "resolved_run ck e c R res new \<Longrightarrow>
    opened new = closed_count new \<and> opened new \<le> 1 \<and> (opened new = 1 \<longrightarrow> last new = EvClose)"
  by (erule resolved_run.cases) (auto dest!: decided_opened)

lemma delete_opened:
  "delete_run e c res new \<Longrightarrow>
    opened new = closed_count new \<and> opened new \<le> 1 \<and> (opened new = 1 \<longrightarrow> last new = EvClose)"
  by (erule delete_run.cases)
    (auto dest!: delete_secret_only finalizer_only resolve_only removal_only simp: not_opened_closed)

text \<open>
  C14. A run opens at most one connection to SurrealDB and closes exactly those it opened, as its
  last call, on every path.
\<close>

theorem connection_closed_once:
  assumes "reconciles r req res L"
  shows "opened L \<le> 1 \<and> closed_count L = opened L \<and> (opened L = 1 \<longrightarrow> last L = EvClose)"
  using reconciles_run [OF assms]
proof cases
  case (deleting c new)
  with delete_opened [OF deleting(3)] show ?thesis by auto
next
  case (active c R new new')
  have "new' \<noteq> []" if "opened new' = 1" using that by auto
  with active resolved_opened [OF active(5)] resolve_only [OF active(4)] show ?thesis
    by (auto simp: not_opened_closed last_append)
qed (auto dest!: resolve_only simp: not_opened_closed)

theorem connection_closed_once_witness:
  "\<exists>L. reconciles (demo_reconciler demo_live) demo_req done_ok L \<and> closed_count L = opened L \<and> opened L = 1"
proof -
  obtain c' where run: "reconciles (demo_reconciler demo_live) demo_req done_ok (demo_live_log c')"
    using demo_live_run by blast
  have "opened (demo_live_log c') = 1" by (simp add: demo_live_log_def demo_reads_def)
  with connection_closed_once [OF run] run show ?thesis by blast
qed

text \<open>
  A run connects only to the endpoint of the provider that an admitting policy names, with the
  non-empty root login of the Secret that provider references, all read before.
\<close>

lemma connects_as_root_of_provider:
  assumes "reconciles r req res L" and "EvConnect ep un pw x \<in> set L"
  shows "\<exists>c pol prov root. hd L = EvGetCredential req (Inr c) \<and>
    EvGetPolicy (policy_key c) (Inr pol) \<in> set (before KConnect L) \<and>
    admits (pol_spec pol) (credential_request c) \<and>
    EvGetProvider (provider_key pol) (Inr prov) \<in> set (before KConnect L) \<and>
    EvGetSecret (root_key prov) (Inr root) \<in> set (before KConnect L) \<and>
    ep = ps_endpoint (prov_spec prov) \<and> un = root_username prov root \<and> pw = root_password prov root \<and>
    un \<noteq> [] \<and> pw \<noteq> []"
proof -
  have shape: "?thesis" if L: "L = EvGetCredential req (Inr c) # new @ mid @ rest"
    and res: "resolve_run e c (c, Some R, None) new" and mid: "only {KRead} mid"
    and ev: "EvConnect ep un pw x = connect_event R y" for c new mid rest R e y
  proof -
    obtain pol prov root reads tls where R: "R = resolved_from (env_ucd e) c pol prov root tls"
      and adm: "admits (pol_spec pol) (credential_request c)"
        "root_username prov root \<noteq> []" "root_password prov root \<noteq> []"
      and new: "new = EvGetPolicy (policy_key c) (Inr pol) # EvGetProvider (provider_key pol) (Inr prov) #
      EvGetSecret (root_key prov) (Inr root) # reads"
      using resolve_Some_log [OF res] by metis
    have b: "set new \<subseteq> set (before KConnect L)"
      using L resolve_Some_only [OF res] by auto
    from ev have "ep = ps_endpoint (prov_spec prov)" "un = root_username prov root" "pw = root_password prov root"
      by (simp_all add: connect_event_def R resolved_from_def)
    with adm b L show ?thesis
      by (intro exI [of _ c] exI [of _ pol] exI [of _ prov] exI [of _ root]) (auto simp: new)
  qed
  have "has_kind KConnect L" using has_kindI [OF assms(2)] by simp
  with reconciles_run [OF assms(1)] show ?thesis
  proof (cases rule: run_with_connect)
    case (active c R new got existing c1 new1 y)
    from active(4) have o: "only {KDefine, KWrite, KStatus, KClose} new1"
      by cases (auto dest!: connected_only intro: only_mono)
    then have "EvConnect ep un pw x = connect_event R y"
      using assms(2) active(5) resolve_Some_only [OF active(1)] by (auto dest: only_in)
    from shape [OF _ active(1) _ this, of "[EvGetSecret (target_key c) got]"] active(5) show ?thesis by simp
  next
    case (unreachable c R new c' err y)
    then have "EvConnect ep un pw x = connect_event R (Some err)"
      using assms(2) resolve_Some_only [OF unreachable(1)] by (auto dest: only_in)
    from shape [OF _ unreachable(1) _ this, of "[]"] unreachable(5) show ?thesis by simp
  next
    case (removal c R new new1)
    then have "EvConnect ep un pw x = connect_event R None"
      using assms(2) resolve_Some_only [OF removal(1)] removal_only [OF removal(5)] by (auto dest: only_in)
    from shape [OF _ removal(1) _ this, of "[]"] removal(6) show ?thesis by simp
  qed
qed

lemma connects_as_root_of_provider_witness:
  "\<exists>L prov root. reconciles (demo_reconciler demo_live) demo_req done_ok L \<and>
    EvGetSecret (root_key prov) (Inr root) \<in> set (before KConnect L) \<and> root_password prov root \<noteq> []"
proof -
  obtain c' where run: "reconciles (demo_reconciler demo_live) demo_req done_ok (demo_live_log c')"
    using demo_live_run by blast
  have "EvConnect (ps_endpoint (prov_spec (rv_provider (demo_resolved live_meta))))
      (rv_root_username (demo_resolved live_meta)) (rv_root_password (demo_resolved live_meta)) None
      \<in> set (demo_live_log c')"
    by (simp add: demo_live_log_def connect_event_def)
  from connects_as_root_of_provider [OF run this] obtain prov root where
    "EvGetSecret (root_key prov) (Inr root) \<in> set (before KConnect (demo_live_log c'))"
    "root_password prov root \<noteq> []" by auto
  with run show ?thesis by blast
qed

section \<open>Removing the user\<close>

lemma removal_event:
  assumes "removal_run e c R res new" and "EvRemoveUser t n x \<in> set new"
  shows "t = rv_surreal_target R" and "n = rv_username R" and "hd new = EvRemoveUser t n x"
  using assms by (cases; force dest!: delete_secret_only finalizer_only dest: only_in)+

text \<open>
  C15. A run removes a user from SurrealDB only in a deletion without force, after reading the policy
  the credential names, which admits the request; the user is the one a definition for this
  credential under this policy would define, and the run defines none.  So a user that was defined
  for an earlier database, level or policy of the credential is never removed by it.
\<close>

theorem removes_only_current_user:
  assumes "reconciles r req res L" and "EvRemoveUser t n x \<in> set L"
  shows "\<exists>c pol. hd L = EvGetCredential req (Inr c) \<and> \<not> deletion_is_zero (cred_meta c) \<and> \<not> force_cleanup c \<and>
    EvGetPolicy (policy_key c) (Inr pol) \<in> set (before KRemove L) \<and>
    admits (pol_spec pol) (credential_request c) \<and>
    t = user_target c pol \<and> n = user_name (env_ucd (rec_env r)) c pol \<and> \<not> has_kind KDefine L"
  using reconciles_run [OF assms(1)]
proof cases
  case (deleting c new)
  from assms(2) deleting(1) have ev: "EvRemoveUser t n x \<in> set new" by simp
  from deleting(3) show ?thesis
  proof cases
    case (removal R new1 new2)
    note o1 = resolve_Some_only [OF removal(4)] and o2 = removal_only [OF removal(5)]
    from removal(4) obtain pol prov root reads tls where R: "R = resolved_from (env_ucd (rec_env r)) c pol prov root tls"
      and adm: "admits (pol_spec pol) (credential_request c)"
      and new1: "new1 = EvGetPolicy (policy_key c) (Inr pol) # EvGetProvider (provider_key pol) (Inr prov) #
        EvGetSecret (root_key prov) (Inr root) # reads" by (rule resolve_Some_log)
    have "EvRemoveUser t n x \<in> set new2"
      using ev removal(1) o1 by (auto simp: connect_event_def dest: only_in)
    note rm = removal_event [OF removal(5) this]
    have "EvGetPolicy (policy_key c) (Inr pol) \<in> set (before KRemove L)"
      by (simp add: deleting(1) removal(1) new1)
    moreover have "\<not> has_kind KDefine L"
      using only_has [OF o1] only_has [OF o2] by (auto simp: deleting(1) removal(1))
    ultimately show ?thesis
      using deleting(1,2) removal(3) adm rm(1,2) by (auto simp: R resolved_from_def)
  qed (use ev in \<open>auto simp: connect_event_def dest!: delete_secret_only finalizer_only resolve_only dest: only_in\<close>)
qed (use assms(2) in \<open>auto dest!: resolve_only resolved_only dest: only_in\<close>)

theorem removes_only_current_user_witness:
  "\<exists>c pol. reconciles (demo_reconciler demo_deleting) demo_req done_ok demo_deleting_log \<and>
    EvRemoveUser (user_target c pol) (user_name demo_ucd c pol) None \<in> set demo_deleting_log"
proof -
  let ?R = "demo_resolved (deleting_meta None)"
  have ev: "EvRemoveUser (rv_surreal_target ?R) (rv_username ?R) None \<in> set demo_deleting_log"
    by (simp add: demo_deleting_log_def)
  from removes_only_current_user [OF demo_deleting_run ev] obtain c pol where
    "rv_surreal_target ?R = user_target c pol" "rv_username ?R = user_name demo_ucd c pol"
    by (auto simp: demo_eval)
  with ev demo_deleting_run show ?thesis by metis
qed

end
