(* ===== verification/CredentialReports.thy ===== *)
theory CredentialReports
  imports CredentialOutcomes
begin

text \<open>
  What a run of the credential reconciler reports and when it asks to be run again: SurrealDB is
  away, the policy denies the request, the user cannot be defined, or the next rotation is due.
\<close>

section \<open>SurrealDB cannot be reached\<close>

lemma decided_unavailable:
  assumes "decided_run ck e c R existing res new" and "EvConnect ep un pw (Some err) \<in> set new"
  obtains c' now err' x where "new = [connect_event R (Some err'), EvStatusCredential c' x]"
    and "c' = put_condition e now c TypeReady ConditionFalse ReasonSurrealDBUnavailable (err_text err')"
    and "res = (case x of Inl err \<Rightarrow> (no_requeue, Some err) | Inr _ \<Rightarrow> (surrealDBUnavailableRequeue, None))"
  using assms by cases (auto simp: connect_event_def dest!: connected_only dest: only_in)

text \<open>
  C19. When the connection fails, the run changes neither SurrealDB nor any Secret: it reports the
  credential as not ready for that reason and asks to be run again (or returns the error of that
  status update), whether the credential is live or in deletion.
\<close>

theorem unavailable_is_retried:
  assumes "reconciles r req res L" and "EvConnect ep un pw (Some err) \<in> set L"
    and "condition_store (set_status_condition (rec_env r))"
  shows "only {KRead, KConnect, KStatus} L \<and>
    (\<exists>c' x. last L = EvStatusCredential c' x \<and>
      cred_condition c' TypeReady = Some ConditionFalse \<and>
      cred_reason c' TypeReady = Some ReasonSurrealDBUnavailable \<and>
      (res = (surrealDBUnavailableRequeue, None) \<or> (\<exists>err. x = Inl err \<and> res = (no_requeue, Some err))))"
proof -
  have "has_kind KConnect L" using has_kindI [OF assms(2)] by simp
  with reconciles_run [OF assms(1)] show ?thesis
  proof (cases rule: run_with_connect)
    case (active c R new got existing c1 new1 y)
    note o = resolve_Some_only [OF active(1)]
    have "EvConnect ep un pw (Some err) \<in> set (connect_event R y # new1)"
      using assms(2) active(5) o by (auto dest: only_in)
    from decided_unavailable [OF active(4) this] obtain c' now err' x
      where "connect_event R y # new1 = [connect_event R (Some err'), EvStatusCredential c' x]"
      and "c' = put_condition (rec_env r) now c1 TypeReady ConditionFalse ReasonSurrealDBUnavailable (err_text err')"
      and "res = (case x of Inl err \<Rightarrow> (no_requeue, Some err) | Inr _ \<Rightarrow> (surrealDBUnavailableRequeue, None))" .
    with o active(5) show ?thesis
      by (cases x) (auto simp: condition_put [OF assms(3)] intro: only_mono)
  next
    case (unreachable c R new c' err' x)
    with resolve_Some_only [OF unreachable(1)] condition_deleted [OF assms(3) unreachable(7)]
    show ?thesis by (auto intro: only_mono)
  next
    case (removal c R new new1)
    with assms(2) resolve_Some_only [OF removal(1)] removal_only [OF removal(5)] show ?thesis
      by (auto simp: connect_event_def dest: only_in)
  qed
qed

theorem unavailable_is_retried_witness:
  "\<exists>L. reconciles (demo_reconciler demo_down) demo_req (surrealDBUnavailableRequeue, None) L \<and>
    only {KRead, KConnect, KStatus} L"
proof -
  obtain c' where run: "reconciles (demo_reconciler demo_down) demo_req
      (surrealDBUnavailableRequeue, None) (demo_down_log c')"
    using demo_down_run by blast
  have "EvConnect (ps_endpoint (prov_spec (rv_provider (demo_resolved live_meta))))
      (rv_root_username (demo_resolved live_meta)) (rv_root_password (demo_resolved live_meta)) (Some refused)
      \<in> set (demo_down_log c')"
    by (simp add: demo_down_log_def connect_event_def)
  moreover have "rec_env (demo_reconciler demo_down) = demo_env demo_down" by (simp add: demo_eval)
  ultimately show ?thesis
    using unavailable_is_retried [OF run] demo_env_conditions run by metis
qed

section \<open>Denied requests\<close>

lemma resolved_no_policy: "resolved_run ck e c R res new \<Longrightarrow> EvGetPolicy k got \<notin> set new"
  by (erule resolved_run.cases) (auto dest!: decided_only dest: only_in)

lemma removal_no_policy: "removal_run e c R res new \<Longrightarrow> EvGetPolicy k got \<notin> set new"
  by (erule removal_run.cases)
    (auto elim!: delete_secret_run.cases finalizer_run.cases)

lemma resolve_denied:
  assumes "resolve_run e c x new" and "EvGetPolicy k (Inr pol) \<in> set new"
    and "\<not> admits (pol_spec pol) (credential_request c)"
  obtains now1 now2 msg where "new = [EvGetPolicy (policy_key c) (Inr pol)]"
    and "x = (observe_generation (put_condition e now2
      (put_condition e now1 c TypeReady ConditionFalse ReasonPolicyDenied msg)
      TypePolicyAccepted ConditionFalse ReasonPolicyDenied msg), None, None)"
  using assms by cases (auto simp: list_all_iff reads_secret_def)

lemma resolve_policy_missing:
  assumes "resolve_run e c x new" and "EvGetPolicy k (Inl err) \<in> set new" and "is_not_found err"
  shows "only {KRead} new \<and> (\<exists>c'. x = (c', None, None))"
  using assms by cases (auto simp: list_all_iff reads_secret_def)

text \<open>
  C20. A live credential whose policy does not admit it gets a status that says so, for the
  generation that was read, and nothing else happens: no provider or Secret is read, no connection
  is made.
\<close>

theorem denied_request_reported:
  assumes "reconciles r req res L" and "hd L = EvGetCredential req (Inr c)"
    and "deletion_is_zero (cred_meta c)" and "has_finalizer (rec_env r) c"
    and "EvGetPolicy k (Inr pol) \<in> set L" and "\<not> admits (pol_spec pol) (credential_request c)"
    and "condition_store (set_status_condition (rec_env r))"
  shows "\<exists>c' x. L = [EvGetCredential req (Inr c), EvGetPolicy (policy_key c) (Inr pol),
      EvStatusCredential c' x] \<and> res = (no_requeue, error_of x) \<and>
    (\<forall>t \<in> {TypeReady, TypePolicyAccepted}. cred_condition c' t = Some ConditionFalse \<and>
      cred_reason c' t = Some ReasonPolicyDenied) \<and>
    cst_observed_generation (cred_status c') = cred_generation c"
  using reconciles_run [OF assms(1)]
proof cases
  case (failed c1 c' err new)
  with assms(2,5) have "c1 = c" "EvGetPolicy k (Inr pol) \<in> set new" by auto
  with failed resolve_denied [OF failed(5) _ ] assms(6) show ?thesis by blast
next
  case (unresolved c1 c' new x)
  with assms(2,5) have c: "c1 = c" and "EvGetPolicy k (Inr pol) \<in> set new" by auto
  from resolve_denied [OF unresolved(5) [unfolded c] this(2) assms(6)] obtain now1 now2 msg
    where "new = [EvGetPolicy (policy_key c) (Inr pol)]"
      and "c' = observe_generation (put_condition (rec_env r) now2
      (put_condition (rec_env r) now1 c TypeReady ConditionFalse ReasonPolicyDenied msg)
      TypePolicyAccepted ConditionFalse ReasonPolicyDenied msg)" by (metis prod.inject)
  with unresolved c show ?thesis
    by (intro exI [of _ c'] exI [of _ x]) (simp add: condition_put [OF assms(7)])
next
  case (active c1 R new new')
  with assms(2,5) resolved_no_policy [OF active(5)] have "c1 = c" "EvGetPolicy k (Inr pol) \<in> set new"
    by auto
  with active resolve_denied [OF active(4)] assms(6) show ?thesis by blast
qed (use assms in auto)

theorem denied_request_reported_witness:
  "\<exists>L c'. reconciles (demo_reconciler (demo_denied live_meta)) demo_req done_ok L \<and>
    last L = EvStatusCredential c' (Inr c') \<and> cred_reason c' TypeReady = Some ReasonPolicyDenied"
proof -
  let ?c = "demo_credential live_meta" and ?r = "demo_reconciler (demo_denied live_meta)"
  obtain c' where run: "reconciles ?r demo_req done_ok [EvGetCredential demo_req (Inr ?c),
     EvGetPolicy (policy_key ?c) (Inr (demo_policy [])), EvStatusCredential c' (Inr c')]"
    using demo_denied_run by blast
  have env: "rec_env ?r = demo_env (demo_denied live_meta)" by (simp add: demo_eval)
  have "\<not> admits (pol_spec (demo_policy [])) (credential_request ?c)"
    using demo_admits [of demo_ucd "[]" live_meta] by (simp add: Evaluate_allowed)
  moreover have "deletion_is_zero (cred_meta ?c)" "has_finalizer (rec_env ?r) ?c"
    by (simp_all add: demo_eval has_finalizer_def)
  ultimately have "cred_reason c' TypeReady = Some ReasonPolicyDenied"
    using denied_request_reported [OF run, of ?c "policy_key ?c" "demo_policy []"] demo_env_conditions env
    by auto
  with run show ?thesis by force
qed

text \<open>
  C21. A deletion without the force annotation stalls silently when the policy is gone or no longer
  admits the credential: the run only reads, ends without an error and asks for no other run, so
  user, Secret and finalizer stay and no status says why.
\<close>

theorem denied_deletion_stalls:
  assumes "reconciles r req res L" and "hd L = EvGetCredential req (Inr c)"
    and "\<not> deletion_is_zero (cred_meta c)" and "has_finalizer (rec_env r) c" and "\<not> force_cleanup c"
    and "EvGetPolicy k got \<in> set L"
    and "case got of Inl err \<Rightarrow> is_not_found err
      | Inr pol \<Rightarrow> \<not> admits (pol_spec pol) (credential_request c)"
  shows "only {KRead} L \<and> res = done_ok"
proof -
  from reconciles_run [OF assms(1)] assms(2,3) obtain new
    where L: "L = EvGetCredential req (Inr c) # new" and del: "delete_run (rec_env r) c res new"
    by cases auto
  have stop: "only {KRead} new' \<and> (\<exists>c'. x = (c', None, None))"
    if "resolve_run (rec_env r) c x new'" "EvGetPolicy k got \<in> set new'" for x new'
  proof (cases got)
    case (Inl err)
    with resolve_policy_missing [OF that(1), of k err] that(2) assms(7) show ?thesis by simp
  next
    case (Inr pol)
    then have "EvGetPolicy k (Inr pol) \<in> set new'" and "\<not> admits (pol_spec pol) (credential_request c)"
      using that(2) assms(7) by simp_all
    then show ?thesis by (rule resolve_denied [OF that(1)]) simp
  qed
  from del show ?thesis
  proof cases
    case (unresolved c' err)
    with stop [OF unresolved(4)] assms(6) L show ?thesis by auto
  next
    case (no_connection R new1 c' err x)
    with stop [OF no_connection(5)] assms(6) L show ?thesis by (auto simp: connect_event_def)
  next
    case (removal R new1 new2)
    with stop [OF removal(4)] removal_no_policy [OF removal(5)] assms(6) L show ?thesis
      by (auto simp: connect_event_def)
  qed (use assms(4,5) in auto)
qed

theorem denied_deletion_stalls_witness:
  "\<exists>L. reconciles (demo_reconciler (demo_denied (deleting_meta None))) demo_req done_ok L \<and> only {KRead} L"
proof -
  let ?c = "demo_credential (deleting_meta None)" and ?r = "demo_reconciler (demo_denied (deleting_meta None))"
  let ?L = "[EvGetCredential demo_req (Inr ?c), EvGetPolicy (policy_key ?c) (Inr (demo_policy []))]"
  have "\<not> admits (pol_spec (demo_policy [])) (credential_request ?c)"
    using demo_admits [of demo_ucd "[]" "deleting_meta None"] by (simp add: Evaluate_allowed)
  moreover have "\<not> deletion_is_zero (cred_meta ?c)" "has_finalizer (rec_env ?r) ?c" "\<not> force_cleanup ?c"
    by (simp_all add: demo_eval has_finalizer_def force_cleanup_def)
  ultimately have "only {KRead} ?L"
    using denied_deletion_stalls [OF demo_denied_deletion_run, of ?c "policy_key ?c" "Inr (demo_policy [])"]
    by simp
  with demo_denied_deletion_run show ?thesis by blast
qed

section \<open>A failed definition\<close>

text \<open>
  When SurrealDB refuses the definition, no Secret is written; the conditions Ready and
  UserDefined are false for that reason.  The run returns no error and asks for no other run.
\<close>

lemma define_failure_reported:
  assumes "reconciles r req res L" and "EvDefineUser t n pw roles (Some err) \<in> set L"
    and "condition_store (set_status_condition (rec_env r))"
  shows "\<not> has_kind KWrite L \<and>
    (\<exists>c' x. EvStatusCredential c' x \<in> set L \<and> res = (no_requeue, error_of x) \<and>
      (\<forall>ty \<in> {TypeReady, TypeUserDefined}. cred_condition c' ty = Some ConditionFalse \<and>
        cred_reason c' ty = Some ReasonDefineUserFailed))"
proof -
  let ?e = "rec_env r"
  have "has_kind KDefine L" using has_kindI [OF assms(2)] by simp
  then obtain D new where L: "L = df_prefix ?e req D @ new @ [EvClose]" and D: "df_facts (clock_of r) ?e D"
    and run: "connected_run ?e (df_status D) (df_resolved ?e D) (df_existing D)
      (df_decision D) (df_password D) res new"
    by (rule run_with_define [OF reconciles_run [OF assms(1)]]) auto
  note pre = df_prefix_only [OF D, of req]
  have ev: "EvDefineUser t n pw roles (Some err) \<in> set new" using assms(2) L pre by (auto dest: only_in)
  from run D show ?thesis
  proof (cases rule: connected_runE)
    case (define_failed err' x now1 now2)
    let ?c' = "failed_status ?e now1 now2 (df_status D) TypeUserDefined ReasonDefineUserFailed (err_text err')"
    have "\<not> has_kind KWrite L"
      using L define_failed(1) only_has [OF pre] by auto
    moreover have "EvStatusCredential ?c' x \<in> set L" by (simp add: L define_failed(1))
    moreover have "\<forall>ty \<in> {TypeReady, TypeUserDefined}. cred_condition ?c' ty = Some ConditionFalse \<and>
        cred_reason ?c' ty = Some ReasonDefineUserFailed"
      by (simp add: condition_failed [OF assms(3)])
    ultimately show ?thesis using define_failed(2) by blast
  qed (use ev in \<open>auto simp: df_define_def write_event_def split: option.splits\<close>)
qed

lemma define_failure_reported_witness:
  "\<exists>L. reconciles (demo_reconciler demo_refusing) demo_req done_ok L \<and> \<not> has_kind KWrite L"
proof -
  obtain c' where run: "reconciles (demo_reconciler demo_refusing) demo_req done_ok (demo_refusing_log c')"
    using demo_refusing_run by blast
  have "EvDefineUser (rv_surreal_target (demo_resolved live_meta)) (rv_username (demo_resolved live_meta))
        ''s3cret'' [RoleEditor] (Some refused) \<in> set (demo_refusing_log c')"
    by (simp add: demo_refusing_log_def)
  moreover have "rec_env (demo_reconciler demo_refusing) = demo_env demo_refusing" by (simp add: demo_eval)
  ultimately show ?thesis
    using define_failure_reported [OF run] demo_env_conditions run by metis
qed

section \<open>A failed write of the Secret\<close>

lemma df_status_schedule:
  assumes "df_facts ck e D"
  shows "cst_next_rotation_time (cred_status (df_status D)) = cst_next_rotation_time (cred_status (df_credential D))"
    and "cst_last_rotation_time (cred_status (df_status D)) = cst_last_rotation_time (cred_status (df_credential D))"
    and "cst_last_manual_rotation_trigger (cred_status (df_status D)) =
      cst_last_manual_rotation_trigger (cred_status (df_credential D))"
  using assms by (auto simp: df_facts_def)

lemma df_written_password: "map_index (sec_data (df_written e D)) ''password'' = Some (df_password D)"
  by (simp add: df_written_data BuildTargetSecret_def connection_data_def map_index_def)

lemma df_password_kept:
  assumes "df_facts ck e D"
    and "dec_action (decision_of (df_now D) (df_credential D) (df_existing D)) = ActionReuse"
  shows "ExistingPassword (df_existing D) = (df_password D, True)"
  using assms
  by (intro password_of_kept [of e "df_now D" "df_credential D"])
    (simp_all add: df_facts_def df_decision_def generates_iff)

text \<open>
  C22. When the target Secret cannot be written, SurrealDB has already taken a password: the user has
  been defined with the one the refused Secret was to publish, which is the password of the Secret that
  was read when the decision was to reuse it.  Every write of the run failed; Ready and SecretReady are
  false with the reason SecretConflict while UserDefined is true, and the schedule stays as it was
  read, so that a rotation that was due is still due.  The run asks for no other run and returns no
  error but that of the status update.
\<close>

theorem write_failure_reported:
  assumes "reconciles r req res L"
    and "EvCreateSecret s (Inl err) \<in> set L \<or> EvUpdateSecret s (Inl err) \<in> set L"
    and "condition_store (set_status_condition (rec_env r))" and "hd L = EvGetCredential req (Inr c)"
  shows "(\<exists>t n pw roles got existing now. EvDefineUser t n pw roles None \<in> set L \<and>
      map_index (sec_data s) ''password'' = Some pw \<and>
      EvGetSecret (target_key c) got \<in> set L \<and> found_secret got existing \<and> can_return (clock_of r) now \<and>
      (dec_action (decision_of now c existing) = ActionReuse \<longrightarrow> ExistingPassword existing = (pw, True))) \<and>
    (\<forall>s' y. EvCreateSecret s' y \<in> set L \<or> EvUpdateSecret s' y \<in> set L \<longrightarrow> y = Inl err) \<and>
    (\<exists>c' x. EvStatusCredential c' x \<in> set L \<and> res = (no_requeue, error_of x) \<and>
      cred_condition c' TypeUserDefined = Some ConditionTrue \<and>
      (\<forall>ty \<in> {TypeReady, TypeSecretReady}. cred_condition c' ty = Some ConditionFalse \<and>
        cred_reason c' ty = Some ReasonSecretConflict) \<and>
      cst_next_rotation_time (cred_status c') = cst_next_rotation_time (cred_status c) \<and>
      cst_last_rotation_time (cred_status c') = cst_last_rotation_time (cred_status c) \<and>
      cst_last_manual_rotation_trigger (cred_status c') = cst_last_manual_rotation_trigger (cred_status c))"
proof -
  let ?e = "rec_env r"
  have "has_kind KWrite L" using has_kindI assms(2) by fastforce
  then obtain D new where L: "L = df_prefix ?e req D @ new @ [EvClose]" and D: "df_facts (clock_of r) ?e D"
    and run: "connected_run ?e (df_status D) (df_resolved ?e D) (df_existing D)
      (df_decision D) (df_password D) res new"
    by (rule run_with_define [OF reconciles_run [OF assms(1)]]) auto
  note pre = df_prefix_only [OF D, of req]
  have ev: "EvCreateSecret s (Inl err) \<in> set new \<or> EvUpdateSecret s (Inl err) \<in> set new"
    using assms(2) L pre by (auto dest: only_in)
  have c: "df_credential D = c" using assms(4) by (simp add: L df_prefix_def)
  from run D show ?thesis
  proof (cases rule: connected_runE)
    case (write_failed err' x now msg now1 now2)
    let ?c' = "failed_status ?e now1 now2 (put_condition ?e now (df_status D) TypeUserDefined ConditionTrue
      ReasonDefineUserSucceeded msg) TypeSecretReady ReasonSecretConflict (err_text err')"
    have err: "err' = err"
      using ev write_failed(1) by (auto simp: df_define_def write_event_def split: option.splits)
    have "y = Inl err" if "EvCreateSecret s' y \<in> set L \<or> EvUpdateSecret s' y \<in> set L" for s' y
      using that L pre by (auto simp: write_failed(1) err df_define_def write_event_def
          dest: only_in split: option.splits)
    moreover have "df_define ?e D None \<in> set L" "EvGetSecret (target_key c) (df_got D) \<in> set L"
      by (simp_all add: L write_failed(1) df_prefix_def c)
    moreover have "s = df_written ?e D"
      using ev write_failed(1) by (auto simp: df_define_def write_event_def split: option.splits)
    then have "map_index (sec_data s) ''password'' = Some (df_password D)" by (simp add: df_written_password)
    moreover have "found_secret (df_got D) (df_existing D)" "can_return (clock_of r) (df_now D)"
      using D by (simp_all add: df_facts_def)
    moreover note df_password_kept [OF D, unfolded c]
    moreover have "EvStatusCredential ?c' x \<in> set L" by (simp add: L write_failed(1))
    moreover have "cred_condition ?c' TypeUserDefined = Some ConditionTrue"
      by (simp add: condition_failed [OF assms(3)] condition_put [OF assms(3)])
    moreover have "\<forall>ty \<in> {TypeReady, TypeSecretReady}. cred_condition ?c' ty = Some ConditionFalse \<and>
        cred_reason ?c' ty = Some ReasonSecretConflict"
      by (simp add: condition_failed [OF assms(3)])
    moreover have "cst_next_rotation_time (cred_status ?c') = cst_next_rotation_time (cred_status c)"
      "cst_last_rotation_time (cred_status ?c') = cst_last_rotation_time (cred_status c)"
      "cst_last_manual_rotation_trigger (cred_status ?c') = cst_last_manual_rotation_trigger (cred_status c)"
      by (simp_all add: df_status_schedule [OF D] c)
    ultimately show ?thesis using write_failed(2) unfolding df_define_def by blast
  qed (use ev in \<open>auto simp: df_define_def write_event_def split: option.splits\<close>)
qed

theorem write_failure_reported_witness:
  "\<exists>L s. reconciles (demo_reconciler demo_full) demo_req done_ok L \<and> EvUpdateSecret s (Inl refused) \<in> set L \<and>
    (\<exists>t n pw roles. EvDefineUser t n pw roles None \<in> set L \<and> map_index (sec_data s) ''password'' = Some pw)"
proof -
  obtain c' s where run: "reconciles (demo_reconciler demo_full) demo_req done_ok (demo_full_log c' s)"
    using demo_full_run by blast
  have "EvUpdateSecret s (Inl refused) \<in> set (demo_full_log c' s)"
    and "hd (demo_full_log c' s) = EvGetCredential demo_req (Inr (demo_credential live_meta))"
    by (simp_all add: demo_full_log_def demo_reads_def)
  moreover have "condition_store (set_status_condition (rec_env (demo_reconciler demo_full)))"
    using demo_env_conditions [of demo_full] by (simp add: demo_eval)
  ultimately show ?thesis using write_failure_reported [OF run] run by metis
qed

section \<open>The next run\<close>

text \<open>
  C23. A run that became ready asks to be run again at the recorded next rotation: after the time
  that is left (at most the longest duration), after one second when the instant has passed, and
  not at all when no rotation is recorded.
\<close>

theorem requeue_reaches_next_rotation:
  assumes "reconciles r req res L" and "EvStatusCredential c' (Inr c'') \<in> set L"
    and "cred_condition c' TypeReady = Some ConditionTrue"
    and "condition_store (set_status_condition (rec_env r))" and "echoes_conditions (rec_env r)"
  shows "\<exists>d. res = (\<lparr>res_requeue = False, res_requeue_after = d\<rparr>, None) \<and>
    (case cst_next_rotation_time (cred_status c'') of
       None \<Rightarrow> d = 0
     | Some t \<Rightarrow> \<exists>now. can_return (time_now (rec_env r)) now \<and>
         sint d = (if t < now then 10 ^ 9 else min max_duration (t - now)))"
proof -
  from ready_run [OF reconciles_run [OF assms(1)] assms(2-5)] obtain q where res: "res = (q, None)"
    and q: "requeued (rec_env r) (cst_next_rotation_time (cred_status c'')) q" by auto
  show ?thesis
  proof (cases "cst_next_rotation_time (cred_status c'')")
    case None
    with res q show ?thesis by (simp add: requeued_def no_requeue_def)
  next
    case (Some t)
    with q obtain now where now: "can_return (time_now (rec_env r)) now"
      and q': "q = \<lparr>res_requeue = False, res_requeue_after =
        (if duration_less (time_sub t now) 0 then duration_second else time_sub t now)\<rparr>"
      by (auto simp: requeued_def)
    let ?d = "if duration_less (time_sub t now) 0 then duration_second else time_sub t now"
    have "sint ?d = (if t < now then 10 ^ 9 else min max_duration (t - now))"
      by (auto simp: duration_less_zero sint_time_sub max_duration_def min_duration_def)
    with res q' now Some show ?thesis by (intro exI [of _ ?d]) auto
  qed
qed

theorem requeue_reaches_next_rotation_witness:
  "\<exists>now. can_return (time_now (demo_env demo_scheduled)) now \<and>
    sint (4000 :: duration) = (if 5000 < now then 10 ^ 9 else min max_duration (5000 - now)) \<and>
    (\<exists>L. reconciles (demo_reconciler demo_scheduled) demo_req
      (\<lparr>res_requeue = False, res_requeue_after = 4000\<rparr>, None) L)"
proof -
  obtain c' where run: "reconciles (demo_reconciler demo_scheduled) demo_req
      (\<lparr>res_requeue = False, res_requeue_after = 4000\<rparr>, None) (scheduled_log c')"
    and ready: "cred_condition c' TypeReady = Some ConditionTrue"
    and nrt: "cst_next_rotation_time (cred_status c') = Some 5000"
    using demo_scheduled_run by blast
  have st: "EvStatusCredential c' (Inr c') \<in> set (scheduled_log c')" by (simp add: scheduled_log_def)
  have env: "rec_env (demo_reconciler demo_scheduled) = demo_env demo_scheduled" by (simp add: demo_eval)
  from requeue_reaches_next_rotation [OF run st ready, unfolded env, OF demo_env_conditions demo_echoes]
  have "\<exists>now. can_return (time_now (demo_env demo_scheduled)) now \<and>
    sint (4000 :: duration) = (if 5000 < now then 10 ^ 9 else min max_duration (5000 - now))"
    by (simp add: nrt)
  with run show ?thesis by blast
qed

end
