(* ===== verification/CredentialRounds.thy ===== *)
theory CredentialRounds
  imports CredentialReports
begin

text \<open>
  Two runs of the credential reconciler, one after the other: what a run published and recorded is
  what the next one goes on with, so reconciling again changes nothing until a rotation is asked for
  or due.
\<close>

section \<open>What a decision records\<close>

lemma Decide_reuse_last:
  "dec_action (Decide now has ann trig lrt nrt period) = ActionReuse \<Longrightarrow>
    dec_last_rotation_time (Decide now has ann trig lrt nrt period) = lrt"
  unfolding Decide_cases by (simp add: decision_defs split: if_splits)

text \<open>
  The credential the next run reads, as far as that run depends on it: the API server kept the
  request and the three fields of the schedule.
\<close>

definition unchanged_credential :: "SurrealDBCredential \<Rightarrow> SurrealDBCredential \<Rightarrow> bool" where
  "unchanged_credential c c' \<longleftrightarrow>
    cred_spec c' = cred_spec c \<and>
    om_namespace (cred_meta c') = om_namespace (cred_meta c) \<and> om_name (cred_meta c') = om_name (cred_meta c) \<and>
    om_annotations (cred_meta c') = om_annotations (cred_meta c) \<and>
    cst_last_manual_rotation_trigger (cred_status c') = cst_last_manual_rotation_trigger (cred_status c) \<and>
    cst_last_rotation_time (cred_status c') = cst_last_rotation_time (cred_status c) \<and>
    cst_next_rotation_time (cred_status c') = cst_next_rotation_time (cred_status c)"

lemma ready_status_schedule:
  assumes "df_facts ck e D"
    and "c' = ready_status e now1 now2 (put_condition e now (df_status D) ty st reason msg) (df_decision D) m1 m2"
  shows "cst_last_manual_rotation_trigger (cred_status c') = dec_manual_trigger (df_decision D)"
    and "cst_next_rotation_time (cred_status c') = dec_next_rotation_time (df_decision D)"
    and "cst_last_rotation_time (cred_status c') = dec_last_rotation_time (df_decision D)"
    and "cred_spec c' = cred_spec (df_credential D)" and "cred_meta c' = cred_meta (df_credential D)"
proof -
  have "cst_last_rotation_time (cred_status (df_status D)) = cst_last_rotation_time (cred_status (df_credential D))"
    by (rule df_status_schedule [OF assms(1)])
  moreover have "dec_last_rotation_time (df_decision D) = cst_last_rotation_time (cred_status (df_credential D))"
    if "\<not> generates (df_decision D)"
    using that unfolding generates_iff df_decision_def decision_of_def by (intro Decide_reuse_last) blast
  ultimately show "cst_last_rotation_time (cred_status c') = dec_last_rotation_time (df_decision D)"
    by (simp add: assms(2))
qed (simp_all add: assms(2) df_status_simps [OF assms(1)])

text \<open>The decision of the next run, taken before the recorded rotation.\<close>

lemma next_decision_reuses:
  assumes "df_facts ck e D"
    and "c' = ready_status e now1 now2 (put_condition e now (df_status D) ty st reason msg) (df_decision D) m1 m2"
    and "unchanged_credential c' c2" and "ExistingPassword existing = (pw, True)"
    and "df_now D \<le> t" and "\<forall>n. cst_next_rotation_time (cred_status c2) = Some n \<longrightarrow> t < n"
  shows "dec_action (decision_of t c2 existing) = ActionReuse"
proof -
  note sched = ready_status_schedule [OF assms(1,2)]
  let ?d = "df_decision D" and ?c = "df_credential D"
  have fields: "om_annotations (cred_meta c2) = om_annotations (cred_meta ?c)"
    "rotationPeriod c2 = rotationPeriod ?c"
    "cst_last_manual_rotation_trigger (cred_status c2) = dec_manual_trigger ?d"
    "cst_last_rotation_time (cred_status c2) = dec_last_rotation_time ?d"
    "cst_next_rotation_time (cred_status c2) = dec_next_rotation_time ?d"
    using assms(3) sched by (simp_all add: unchanged_credential_def rotationPeriod_def)
  have "Decide t True (om_annotations (cred_meta ?c)) (dec_manual_trigger ?d) (dec_last_rotation_time ?d)
      (dec_next_rotation_time ?d) (rotationPeriod ?c) =
    reuse_decision (dec_manual_trigger ?d) (dec_last_rotation_time ?d) (dec_next_rotation_time ?d)"
    using assms(5,6) fields(5)
    by (intro Decide_again) (simp_all add: df_decision_def decision_of_def)
  then show ?thesis by (simp add: decision_of_def fields assms(4) reuse_decision_def)
qed

section \<open>Two runs\<close>

lemma df_prefix_last:
  assumes "df_facts ck e D"
  shows "last (before KConnect (df_prefix e req D @ L)) = EvGetSecret (target_key (df_credential D)) (df_got D)"
proof -
  have "only {KRead} (df_reads D)"
    by (rule reads_only [of "tls_secret_keys (ps_tls (prov_spec (df_provider D)))"])
      (use assms in \<open>simp add: df_facts_def\<close>)
  then show ?thesis by (simp add: df_prefix_def)
qed

text \<open>What a run that defines a user has in its log, beside reads of Secrets and status updates.\<close>

definition defining_log :: "'w env \<Rightarrow> defining \<Rightarrow> event list \<Rightarrow> bool" where
  "defining_log e D new \<longleftrightarrow> (\<forall>ev \<in> set new. kind ev = KStatus \<or> (\<exists>y. ev = df_define e D y) \<or>
     (\<exists>z. ev = write_event (df_existing D) (df_written e D) z))"

lemma connected_defining_log:
  assumes "connected_run e (df_status D) (df_resolved e D) (df_existing D) (df_decision D) (df_password D) res new"
    and "df_facts ck e D"
  shows "defining_log e D new"
  using assms by (cases rule: connected_runE) (auto simp: defining_log_def)

lemma defining_log_only: "defining_log e D new \<Longrightarrow> only {KDefine, KWrite, KStatus} new"
  by (auto simp: defining_log_def only_def)

lemma defining_events:
  assumes "L = df_prefix e req D @ new @ [EvClose]" and "df_facts ck e D" and "defining_log e D new"
  shows "EvGetPolicy k (Inr pol) \<in> set L \<Longrightarrow> pol = df_policy D"
    and "EvGetProvider k' (Inr prov) \<in> set L \<Longrightarrow> prov = df_provider D"
    and "EvDefineUser t n pw roles x \<in> set L \<Longrightarrow> EvDefineUser t n pw roles x = df_define e D x"
    and "EvCreateSecret s y \<in> set L \<or> EvUpdateSecret s y \<in> set L \<Longrightarrow> s = df_written e D"
proof -
  have reads: "list_all (reads_secret (tls_secret_keys (ps_tls (prov_spec (df_provider D))))) (df_reads D)"
    using assms(2) by (simp add: df_facts_def)
  note o = only_in [OF reads_only [OF reads]] only_in [OF defining_log_only [OF assms(3)]]
  have no: "EvGetPolicy k (Inr pol) \<notin> set (df_reads D)" "EvGetProvider k' (Inr prov) \<notin> set (df_reads D)"
    using reads by (auto simp: list_all_iff reads_secret_def)
  show "EvGetPolicy k (Inr pol) \<in> set L \<Longrightarrow> pol = df_policy D"
    using no(1) by (auto simp: assms(1) df_prefix_def connect_event_def dest: o(2))
  show "EvGetProvider k' (Inr prov) \<in> set L \<Longrightarrow> prov = df_provider D"
    using no(2) by (auto simp: assms(1) df_prefix_def connect_event_def dest: o(2))
  show "EvDefineUser t n pw roles x = df_define e D x" if "EvDefineUser t n pw roles x \<in> set L"
  proof -
    from that have "EvDefineUser t n pw roles x \<in> set new"
      by (auto simp: assms(1) df_prefix_def connect_event_def dest: o(1))
    with assms(3) show ?thesis
      by (auto simp: defining_log_def df_define_def write_event_def split: option.splits)
  qed
  show "s = df_written e D" if "EvCreateSecret s y \<in> set L \<or> EvUpdateSecret s y \<in> set L"
  proof -
    from that have "EvCreateSecret s y \<in> set new \<or> EvUpdateSecret s y \<in> set new"
      by (auto simp: assms(1) df_prefix_def connect_event_def dest: o(1))
    with assms(3) show ?thesis
      by (auto simp: defining_log_def df_define_def write_event_def split: option.splits)
  qed
qed

lemma target_password:
  assumes "sec_data s' = sec_data (df_written e D)" and "df_password D \<noteq> []"
  shows "ExistingPassword (Some s') = (df_password D, True)"
  using assms by (simp add: ExistingPassword_def df_written_data BuildTargetSecret_def connection_data_def map_index_def)

lemma defined_password_nonempty:
  assumes "df_facts ck e D" and "rand_in_range (rand_int e)"
  shows "df_password D \<noteq> []"
proof (cases "generates (df_decision D)")
  case True
  from assms(1) have "password_of e (decision_of (df_now D) (df_credential D) (df_existing D))
      (df_existing D) (Inr (df_password D))" by (simp add: df_facts_def df_decision_def)
  from password_of_generated [OF this assms(2)] True show ?thesis by (auto simp: df_decision_def)
next
  case False
  have pw: "password_of e (decision_of (df_now D) (df_credential D) (df_existing D)) (df_existing D) (Inr (df_password D))"
    using assms(1) by (simp add: df_facts_def df_decision_def)
  from password_of_kept [OF pw] False ExistingPassword_snd [of "df_existing D"] show ?thesis
    by (auto simp: df_decision_def)
qed

text \<open>
  A round is one run of the reconciler, with the status it wrote last and the Secret it published.
  \<open>publishes_only\<close> says that all a run defines and publishes is one login.
\<close>

record 'w round =
  rd_reconciler :: "'w reconciler"
  rd_request :: NamespacedName
  rd_result :: reconcile_result
  rd_log :: "event list"
  rd_status :: SurrealDBCredential
  rd_secret :: Secret

definition publishes_only :: "event list \<Rightarrow> UserTarget \<Rightarrow> string \<Rightarrow> string \<Rightarrow> SurrealRole list \<Rightarrow>
    (string \<rightharpoonup> string) option \<Rightarrow> bool" where
  "publishes_only L t n pw roles d \<longleftrightarrow>
    (\<forall>t' n' pw' roles' x. EvDefineUser t' n' pw' roles' x \<in> set L \<longrightarrow>
      t' = t \<and> n' = n \<and> pw' = pw \<and> roles' = roles) \<and>
    (\<forall>s z. EvCreateSecret s z \<in> set L \<or> EvUpdateSecret s z \<in> set L \<longrightarrow> sec_data s = d)"

definition ready_round :: "'w round \<Rightarrow> bool" where
  "ready_round rd \<longleftrightarrow> condition_store (set_status_condition (rec_env (rd_reconciler rd))) \<and>
    echoes_conditions (rec_env (rd_reconciler rd)) \<and> rand_in_range (rand_int (rec_env (rd_reconciler rd))) \<and>
    reconciles (rd_reconciler rd) (rd_request rd) (rd_result rd) (rd_log rd) \<and>
    (\<exists>x. EvStatusCredential (rd_status rd) x \<in> set (rd_log rd)) \<and>
    cred_condition (rd_status rd) TypeReady = Some ConditionTrue \<and>
    (\<exists>y. EvCreateSecret (rd_secret rd) y \<in> set (rd_log rd) \<or> EvUpdateSecret (rd_secret rd) y \<in> set (rd_log rd))"

definition read_alike :: "event list \<Rightarrow> event list \<Rightarrow> bool" where
  "read_alike L L' \<longleftrightarrow> (\<exists>k k' pol p p' prov.
     EvGetPolicy k (Inr pol) \<in> set L \<and> EvGetPolicy k' (Inr pol) \<in> set L' \<and>
     EvGetProvider p (Inr prov) \<in> set L \<and> EvGetProvider p' (Inr prov) \<in> set L')"

text \<open>
  A round goes on with the one before it: it reads the credential with the request and the schedule
  as they were left, the same policy and provider and the published Secret, at times that are not
  before the other round's and before the rotation it recorded.
\<close>

definition goes_on :: "'w round \<Rightarrow> 'w round \<Rightarrow> bool" where
  "goes_on rd rd2 \<longleftrightarrow> reconciles (rd_reconciler rd2) (rd_request rd2) (rd_result rd2) (rd_log rd2) \<and>
    (\<exists>c s. hd (rd_log rd2) = EvGetCredential (rd_request rd2) (Inr c) \<and> unchanged_credential (rd_status rd) c \<and>
      last (before KConnect (rd_log rd2)) = EvGetSecret (target_key c) (Inr s) \<and>
      sec_data s = sec_data (rd_secret rd)) \<and>
    read_alike (rd_log rd) (rd_log rd2) \<and>
    env_ucd (rec_env (rd_reconciler rd2)) = env_ucd (rec_env (rd_reconciler rd)) \<and>
    (\<forall>t1 t2. can_return (clock_of (rd_reconciler rd)) t1 \<longrightarrow> can_return (clock_of (rd_reconciler rd2)) t2 \<longrightarrow>
      t1 \<le> t2 \<and> (\<forall>nrt. cst_next_rotation_time (cred_status (rd_status rd)) = Some nrt \<longrightarrow> t2 < nrt))"

text \<open>What a ready round defined and published.\<close>

lemma ready_roundE:
  assumes "ready_round rd"
  obtains D now msg now1 now2 m1 m2 L where "df_facts (clock_of (rd_reconciler rd)) (rec_env (rd_reconciler rd)) D"
    and "rd_log rd = df_prefix (rec_env (rd_reconciler rd)) (rd_request rd) D @ L @ [EvClose]"
    and "defining_log (rec_env (rd_reconciler rd)) D L" and "df_define (rec_env (rd_reconciler rd)) D None \<in> set L"
    and "rd_secret rd = df_written (rec_env (rd_reconciler rd)) D"
    and "rd_status rd = ready_status (rec_env (rd_reconciler rd)) now1 now2 (put_condition (rec_env (rd_reconciler rd))
      now (df_status D) TypeUserDefined ConditionTrue ReasonDefineUserSucceeded msg) (df_decision D) m1 m2"
proof -
  let ?e = "rec_env (rd_reconciler rd)"
  note rd = assms [unfolded ready_round_def]
  from rd obtain x where st: "EvStatusCredential (rd_status rd) x \<in> set (rd_log rd)" by blast
  from rd have "reconciles (rd_reconciler rd) (rd_request rd) (rd_result rd) (rd_log rd)"
    and laws: "cred_condition (rd_status rd) TypeReady = Some ConditionTrue"
      "condition_store (set_status_condition ?e)" "echoes_conditions ?e" by simp_all
  from this(1) obtain D s0 now msg now1 now2 m1 m2
    where D: "df_facts (clock_of (rd_reconciler rd)) ?e D"
      and L: "rd_log rd = df_prefix ?e (rd_request rd) D @ [df_define ?e D None,
        write_event (df_existing D) (df_written ?e D) (Inr s0), EvStatusCredential (rd_status rd) x, EvClose]"
      and c': "rd_status rd = ready_status ?e now1 now2 (put_condition ?e now (df_status D) TypeUserDefined
        ConditionTrue ReasonDefineUserSucceeded msg) (df_decision D) m1 m2"
    by - (rule ready_run [OF reconciles_run st laws], assumption, rule that; assumption)
  let ?L = "[df_define ?e D None, write_event (df_existing D) (df_written ?e D) (Inr s0),
      EvStatusCredential (rd_status rd) x]"
  have log: "rd_log rd = df_prefix ?e (rd_request rd) D @ ?L @ [EvClose]" using L by simp
  have only: "defining_log ?e D ?L" by (auto simp: defining_log_def)
  have "rd_secret rd = df_written ?e D" using rd defining_events(4) [OF log D only] by blast
  from that [OF D log only _ this c'] show thesis by simp
qed

lemma defining_publishes_only:
  assumes "L = df_prefix e req D @ new @ [EvClose]" and "df_facts ck e D" and "defining_log e D new"
    and "df_define e D None = EvDefineUser t n pw roles None" and "sec_data (df_written e D) = d"
  shows "publishes_only L t n pw roles d"
proof -
  have "df_define e D x = EvDefineUser t n pw roles x" for x
    using assms(4) by (simp add: df_define_def)
  then have "EvDefineUser t' n' pw' roles' x \<in> set L \<Longrightarrow>
      EvDefineUser t' n' pw' roles' x = EvDefineUser t n pw roles x" for t' n' pw' roles' x
    using defining_events(3) [OF assms(1-3)] by metis
  moreover have "EvCreateSecret s z \<in> set L \<or> EvUpdateSecret s z \<in> set L \<Longrightarrow> sec_data s = d" for s z
    using defining_events(4) [OF assms(1-3)] assms(5) by metis
  ultimately show ?thesis unfolding publishes_only_def by (intro conjI allI impI) simp_all
qed

text \<open>The round after a ready one defines and publishes the same.\<close>

lemma next_round_same:
  assumes "ready_round rd" and "goes_on rd rd2" and "publishes_only (rd_log rd) t n pw roles d"
  shows "publishes_only (rd_log rd2) t n pw roles d"
proof (cases "has_kind KDefine (rd_log rd2) \<or> has_kind KWrite (rd_log rd2)")
  case False
  then show ?thesis by (auto simp: publishes_only_def dest: has_kindI)
next
  case True
  let ?e = "rec_env (rd_reconciler rd)" and ?e2 = "rec_env (rd_reconciler rd2)"
  note on = assms(2) [unfolded goes_on_def]
  from ready_roundE [OF assms(1)] obtain D now msg now1 now2 m1 m2 L
    where D: "df_facts (clock_of (rd_reconciler rd)) ?e D"
      and L: "rd_log rd = df_prefix ?e (rd_request rd) D @ L @ [EvClose]" and dl: "defining_log ?e D L"
      and def1: "df_define ?e D None \<in> set L" and s: "rd_secret rd = df_written ?e D"
      and c': "rd_status rd = ready_status ?e now1 now2 (put_condition ?e now (df_status D) TypeUserDefined
        ConditionTrue ReasonDefineUserSucceeded msg) (df_decision D) m1 m2" .
  from True on obtain D2 new2 where L2: "rd_log rd2 = df_prefix ?e2 (rd_request rd2) D2 @ new2 @ [EvClose]"
    and D2: "df_facts (clock_of (rd_reconciler rd2)) ?e2 D2" and run2: "connected_run ?e2 (df_status D2)
      (df_resolved ?e2 D2) (df_existing D2) (df_decision D2) (df_password D2) (rd_result rd2) new2"
    by (blast elim: run_with_define [OF reconciles_run])
  note dl2 = connected_defining_log [OF run2 D2]
  note ev = defining_events [OF L D dl] and ev2 = defining_events [OF L2 D2 dl2]
  from on obtain c2 s2 where hd2: "hd (rd_log rd2) = EvGetCredential (rd_request rd2) (Inr c2)"
    and un: "unchanged_credential (rd_status rd) c2"
    and got2: "last (before KConnect (rd_log rd2)) = EvGetSecret (target_key c2) (Inr s2)"
    and dat: "sec_data s2 = sec_data (rd_secret rd)" by blast
  have same: "df_policy D2 = df_policy D" "df_provider D2 = df_provider D"
    using on ev(1,2) ev2(1,2) unfolding read_alike_def by metis+
  have c2: "df_credential D2 = c2" using hd2 by (simp add: L2 df_prefix_def)
  have "df_got D2 = Inr s2"
    using got2 df_prefix_last [OF D2, of "rd_request rd2" "new2 @ [EvClose]"] by (simp add: L2 c2)
  then have got: "df_existing D2 = Some s2" using D2 by (simp add: df_facts_def)
  have pw: "ExistingPassword (Some s2) = (df_password D, True)"
    using target_password [of s2 ?e D] defined_password_nonempty [OF D] assms(1) dat s
    by (simp add: ready_round_def)
  have "df_now D \<le> df_now D2" and "\<forall>n. cst_next_rotation_time (cred_status c2) = Some n \<longrightarrow> df_now D2 < n"
    using on un D D2 by (auto simp: df_facts_def unchanged_credential_def)
  from next_decision_reuses [OF D c' un pw this]
  have "\<not> generates (df_decision D2)" by (simp add: generates_iff df_decision_def c2 got)
  then have pw2: "df_password D2 = df_password D"
    using D2 pw by (simp add: df_facts_def password_of_def got)
  have cred: "cred_spec c2 = cred_spec (df_credential D)"
    "om_namespace (cred_meta c2) = om_namespace (cred_meta (df_credential D))"
    "om_name (cred_meta c2) = om_name (cred_meta (df_credential D))"
    using un ready_status_schedule(4,5) [OF D c'] by (simp_all add: unchanged_credential_def)
  have names: "user_target c2 pol = user_target (df_credential D) pol"
    "user_name u c2 pol = user_name u (df_credential D) pol" for u pol
    using cred by (simp_all add: user_target_def user_name_def naming_target_def)
  have ucd: "env_ucd ?e2 = env_ucd ?e" using on by blast
  have eq: "df_define ?e2 D2 x = df_define ?e D x" "sec_data (df_written ?e2 D2) = sec_data (df_written ?e D)" for x
    by (simp_all add: df_define_def df_written_data BuildTargetSecret_def connection_data_def
        same pw2 c2 cred names ucd)
  have "df_define ?e D None \<in> set (rd_log rd)" using def1 by (simp add: L)
  with assms(3) have "df_define ?e D None = EvDefineUser t n pw roles None"
    unfolding publishes_only_def df_define_def by blast
  moreover have "sec_data (df_written ?e D) = d"
    using assms(1,3) s unfolding publishes_only_def ready_round_def by metis
  ultimately show ?thesis
    using defining_publishes_only [OF L2 D2 dl2, of t n pw roles d] by (simp add: eq)
qed

lemma ready_round_publishes:
  assumes "ready_round rd" and "EvDefineUser t n pw roles x \<in> set (rd_log rd)"
  shows "publishes_only (rd_log rd) t n pw roles (sec_data (rd_secret rd))"
proof -
  let ?e = "rec_env (rd_reconciler rd)"
  from ready_roundE [OF assms(1)] obtain D L
    where D: "df_facts (clock_of (rd_reconciler rd)) ?e D"
      and L: "rd_log rd = df_prefix ?e (rd_request rd) D @ L @ [EvClose]" and dl: "defining_log ?e D L"
      and s: "rd_secret rd = df_written ?e D" by metis
  have "EvDefineUser t n pw roles x = df_define ?e D x" using defining_events(3) [OF L D dl] assms(2) by blast
  then have "df_define ?e D None = EvDefineUser t n pw roles None" by (simp add: df_define_def)
  from defining_publishes_only [OF L D dl this] s show ?thesis by simp
qed

text \<open>
  C13. Reconciling again changes nothing, however often: in a sequence of rounds that each go on with
  the one before, all of them ready but perhaps the last, every user defined is the user of the first
  round, in the same scope with the same password and roles, and every Secret written holds its data.
\<close>

theorem rounds_publish_one_login:
  assumes "successively goes_on (rd # rds)" and "\<forall>rd' \<in> set (butlast (rd # rds)). ready_round rd'"
    and "ready_round rd" and "EvDefineUser t n pw roles x \<in> set (rd_log rd)"
  shows "\<forall>rd' \<in> set (rd # rds). publishes_only (rd_log rd') t n pw roles (sec_data (rd_secret rd))"
proof -
  have "\<forall>rd' \<in> set (rd0 # rds). publishes_only (rd_log rd') t n pw roles d"
    if "successively goes_on (rd0 # rds)" and "\<forall>rd' \<in> set (butlast (rd0 # rds)). ready_round rd'"
      and "publishes_only (rd_log rd0) t n pw roles d" for rd0 d
    using that
  proof (induction rds arbitrary: rd0)
    case (Cons rd1 rds)
    then have "publishes_only (rd_log rd1) t n pw roles d" by (intro next_round_same [of rd0 rd1]) auto
    with Cons show ?case by auto
  qed simp
  from this [OF assms(1,2) ready_round_publishes [OF assms(3,4)]] show ?thesis .
qed

section \<open>Two runs of the demo environment\<close>

definition demo_again :: demo where "demo_again = demo_of live_meta (Some demo_written)"

lemma demo_written_login [demo_eval]:
  "ExistingPassword (Some demo_written) = (''s3cret'', True)"
  "om_name (cred_meta c) = ''app'' \<Longrightarrow> om_uid (cred_meta c) = ''u1'' \<Longrightarrow> EnsureCanManage (Some demo_written) c = None"
  by (simp_all add: demo_written_def written_secret_def desired_secret_def BuildTargetSecret_def
      connection_data_def ExistingPassword_def map_index_def IsOwnedByCredential_def demo_eval)

definition demo_again_log :: "SurrealDBCredential \<Rightarrow> Secret \<Rightarrow> event list" where
  "demo_again_log c' s = demo_reads live_meta @
     [EvGetSecret (NamespacedName ''demo'' ''login'') (Inr demo_written),
      connect_event (demo_resolved live_meta) None,
      EvDefineUser (rv_surreal_target (demo_resolved live_meta)) (rv_username (demo_resolved live_meta))
        ''s3cret'' [RoleEditor] None,
      EvUpdateSecret s (Inr s), EvStatusCredential c' (Inr c'), EvClose]"

lemma demo_again_run:
  "\<exists>c' s. reconciles (demo_reconciler demo_again) demo_req done_ok (demo_again_log c' s)"
proof -
  have "wp (Reconcile (demo_reconciler demo_again) demo_req)
     (\<lambda>res st. res = done_ok \<and> (\<exists>c' s. events st = demo_again_log c' s)) start"
    by (simp add: reconcile_steps demo_eval demo_reads_def connect_event_def demo_again_def
        write_event_def demo_again_log_def)
  then obtain res L where "reconciles (demo_reconciler demo_again) demo_req res L"
    and "res = done_ok \<and> (\<exists>c' s. L = demo_again_log c' s)" by (rule reconcilesI)
  then show ?thesis by blast
qed

lemma reuse_decision_simps:
  "dec_last_rotation_time (reuse_decision trig lrt nrt) = lrt"
  "dec_next_rotation_time (reuse_decision trig lrt nrt) = nrt"
  "dec_manual_trigger (reuse_decision trig lrt nrt) = trig"
  by (simp_all add: reuse_decision_def)

lemma demo_live_schedule:
  "\<exists>c'. reconciles (demo_reconciler demo_live) demo_req done_ok (demo_live_log c') \<and>
    cred_condition c' TypeReady = Some ConditionTrue \<and>
    unchanged_credential c' (demo_credential live_meta) \<and> cst_next_rotation_time (cred_status c') = None"
proof -
  have fields: "cst_last_rotation_time (cred_status (demo_credential live_meta)) = None"
    "cst_next_rotation_time (cred_status (demo_credential live_meta)) = None"
    "cst_last_manual_rotation_trigger (cred_status (demo_credential live_meta)) = []"
    by (simp_all add: demo_credential_def)
  have "wp (Reconcile (demo_reconciler demo_live) demo_req)
     (\<lambda>res s. res = done_ok \<and> (\<exists>c'. events s = demo_live_log c' \<and>
       cred_condition c' TypeReady = Some ConditionTrue \<and>
       unchanged_credential c' (demo_credential live_meta) \<and> cst_next_rotation_time (cred_status c') = None)) start"
    by (simp add: reconcile_steps demo_eval demo_reads_def connect_event_def demo_live_def
        write_event_def demo_written_def demo_live_log_def unchanged_credential_def fields
        reuse_decision_simps)
  then obtain res L where "reconciles (demo_reconciler demo_live) demo_req res L"
    and "res = done_ok \<and> (\<exists>c'. L = demo_live_log c' \<and> cred_condition c' TypeReady = Some ConditionTrue \<and>
       unchanged_credential c' (demo_credential live_meta) \<and> cst_next_rotation_time (cred_status c') = None)"
    by (rule reconcilesI)
  then show ?thesis by blast
qed

definition first_round :: "SurrealDBCredential \<Rightarrow> unit round" where
  "first_round c = \<lparr>rd_reconciler = demo_reconciler demo_live, rd_request = demo_req, rd_result = done_ok,
     rd_log = demo_live_log c, rd_status = c, rd_secret = demo_written\<rparr>"

definition second_round :: "SurrealDBCredential \<Rightarrow> Secret \<Rightarrow> unit round" where
  "second_round c s = \<lparr>rd_reconciler = demo_reconciler demo_again, rd_request = demo_req, rd_result = done_ok,
     rd_log = demo_again_log c s, rd_status = c, rd_secret = s\<rparr>"

lemma demo_rounds:
  obtains c1 c2 s2 where "ready_round (first_round c1)" and "goes_on (first_round c1) (second_round c2 s2)"
proof -
  obtain c' where run: "reconciles (demo_reconciler demo_live) demo_req done_ok (demo_live_log c')"
    and ready: "cred_condition c' TypeReady = Some ConditionTrue"
    and same: "unchanged_credential c' (demo_credential live_meta)"
    and no_next: "cst_next_rotation_time (cred_status c') = None"
    using demo_live_schedule by blast
  obtain c2 s2 where run2: "reconciles (demo_reconciler demo_again) demo_req done_ok (demo_again_log c2 s2)"
    using demo_again_run by blast
  have env: "rec_env (demo_reconciler d) = demo_env d" for d by (simp add: demo_eval)
  have "ready_round (first_round c')"
    unfolding ready_round_def first_round_def
    using demo_env_conditions demo_echoes demo_random run ready demo_live_log_simps(2,3) [of c']
    by (simp add: env) blast
  moreover have "read_alike (demo_live_log c') (demo_again_log c2 s2)"
    unfolding read_alike_def
    by (intro exI [of _ "policy_key (demo_credential live_meta)"] exI [of _ "demo_policy [''app'']"]
        exI [of _ "provider_key (demo_policy [''app''])"] exI [of _ demo_provider])
      (simp add: demo_live_log_def demo_again_log_def demo_reads_def)
  moreover have "can_return (clock_of (demo_reconciler d)) t \<Longrightarrow> t = 1000" for d t
    by (simp add: can_return_def clock_of_def demo_reconciler_def demo_env_def)
  then have "\<forall>t1 t2. can_return (clock_of (demo_reconciler demo_live)) t1 \<longrightarrow>
      can_return (clock_of (demo_reconciler demo_again)) t2 \<longrightarrow> t1 \<le> t2 \<and>
      (\<forall>n. cst_next_rotation_time (cred_status c') = Some n \<longrightarrow> t2 < n)"
    using no_next by auto
  moreover have "target_key (demo_credential live_meta) = NamespacedName ''demo'' ''login''"
    by (simp add: target_key_def demo_eval)
  then have "last (before KConnect (demo_again_log c2 s2)) =
      EvGetSecret (target_key (demo_credential live_meta)) (Inr demo_written)"
    by (simp add: demo_again_log_def demo_reads_def connect_event_def)
  moreover have "hd (demo_again_log c2 s2) = EvGetCredential demo_req (Inr (demo_credential live_meta))"
    by (simp add: demo_again_log_def demo_reads_def)
  moreover have "env_ucd (rec_env (demo_reconciler demo_again)) = env_ucd (rec_env (demo_reconciler demo_live))"
    by (simp add: env demo_env_def)
  ultimately have "goes_on (first_round c') (second_round c2 s2)"
    unfolding goes_on_def first_round_def second_round_def using run2 same by simp
  with \<open>ready_round (first_round c')\<close> show thesis by (rule that)
qed

theorem rounds_publish_one_login_witness:
  "\<exists>c1 c2 s2. goes_on (first_round c1) (second_round c2 s2) \<and> sec_data s2 = sec_data demo_written"
proof -
  obtain c1 c2 s2 where ready: "ready_round (first_round c1)"
    and on: "goes_on (first_round c1) (second_round c2 s2)" by (rule demo_rounds)
  have "publishes_only (rd_log (second_round c2 s2)) (rv_surreal_target (demo_resolved live_meta))
      (rv_username (demo_resolved live_meta)) ''s3cret'' [RoleEditor] (sec_data demo_written)"
    using rounds_publish_one_login [of "first_round c1" "[second_round c2 s2]"
        "rv_surreal_target (demo_resolved live_meta)" "rv_username (demo_resolved live_meta)" "''s3cret''"
        "[RoleEditor]" None] on ready demo_live_log_simps(4) [of c1]
    by (simp add: first_round_def)
  moreover have "EvUpdateSecret s2 (Inr s2) \<in> set (rd_log (second_round c2 s2))"
    by (simp add: second_round_def demo_again_log_def)
  ultimately have "sec_data s2 = sec_data demo_written" unfolding publishes_only_def by blast
  with on show ?thesis by blast
qed

end
