(* ===== verification/CredentialProgress.thy ===== *)
theory CredentialProgress
  imports CredentialOutcomes
begin

text \<open>
  Progress: when policy, provider, SurrealDB and the API server serve a run of the credential
  reconciler, the run comes to its end - a live credential becomes ready, a deleted one loses its
  user, its Secret and its finalizer.  The properties of the other theories bound what a run may do;
  these say that it does it.
\<close>

section \<open>Runs that are served\<close>

text \<open>
  A policy that admits the request of a credential, and a provider without TLS material (with which
  the client refuses every connection) whose root Secret holds a login.
\<close>

definition usable ::
  "SurrealDBTenantPolicy \<Rightarrow> SurrealDBProvider \<Rightarrow> Secret \<Rightarrow> SurrealDBCredential \<Rightarrow> bool" where
  "usable pol prov root c \<longleftrightarrow> admits (pol_spec pol) (credential_request c) \<and>
    ps_tls (prov_spec prov) = None \<and> root_username prov root \<noteq> [] \<and> root_password prov root \<noteq> []"

text \<open>
  A call that is served: the reads find these objects, the target Secret is absent or owned by the
  credential, and every other call succeeds.
\<close>

fun served ::
  "SurrealDBCredential \<Rightarrow> SurrealDBTenantPolicy \<Rightarrow> SurrealDBProvider \<Rightarrow> Secret \<Rightarrow> event \<Rightarrow> bool" where
  "served c pol prov root (EvGetPolicy _ got) = (got = Inr pol)"
| "served c pol prov root (EvGetProvider _ got) = (got = Inr prov)"
| "served c pol prov root (EvGetSecret k got) =
    ((k = root_key prov \<longrightarrow> got = Inr root) \<and>
     (k = target_key c \<longrightarrow>
       (case got of Inl err \<Rightarrow> is_not_found err | Inr s \<Rightarrow> IsOwnedByCredential s c)))"
| "served c pol prov root (EvGetCredential _ got) = (error_of got = None)"
| "served c pol prov root (EvUpdateCredential _ x) = (error_of x = None)"
| "served c pol prov root (EvStatusCredential _ x) = (error_of x = None)"
| "served c pol prov root (EvCreateSecret _ x) = (error_of x = None)"
| "served c pol prov root (EvUpdateSecret _ x) = (error_of x = None)"
| "served c pol prov root (EvDeleteSecret _ x) = (x = None)"
| "served c pol prov root (EvConnect _ _ _ x) = (x = None)"
| "served c pol prov root (EvDefineUser _ _ _ _ x) = (x = None)"
| "served c pol prov root (EvRemoveUser _ _ x) = (x = None)"
| "served c pol prov root _ = True"

lemma served_events [simp]:
  "served c pol prov root (connect_event R x) \<longleftrightarrow> x = None"
  "served c pol prov root (df_define e D x) \<longleftrightarrow> x = None"
  "served c pol prov root (write_event existing s y) \<longleftrightarrow> error_of y = None"
  by (simp_all add: connect_event_def df_define_def write_event_def split: option.split)

text \<open>The random source never fails, so a password can always be generated.\<close>

definition rand_available :: "'s random \<Rightarrow> bool" where
  "rand_available rand \<longleftrightarrow> (\<forall>m s err. 0 < m \<longrightarrow> fst (run_state (rand m) s) \<noteq> Inl err)"

lemma password_loop_available:
  assumes "rand_available rand"
  shows "fst (run_state (password_loop rand n out) s) \<noteq> Inl err"
proof (induction n arbitrary: out s)
  case (Suc n out s)
  obtain r s' where r: "run_state (rand (length passwordAlphabet)) s = (r, s')" by (rule prod.exhaust)
  then have "r \<noteq> Inl e" for e using assms password_alphabet_distinct(2) unfolding rand_available_def by (metis fst_conv zero_less_numeral)
  then obtain i where "r = Inr i" by (cases r) auto
  with r Suc.IH show ?case by simp
qed simp

lemma password_available:
  assumes "password_of e d existing (Inl err)" and "rand_available (rand_int e)"
  shows False
  using assms password_loop_available [OF assms(2)]
  by (auto simp: password_of_def can_return_def GeneratePassword_def DefaultPasswordLength_def
      split: if_splits)

text \<open>A resolution that is served succeeds, with three reads.\<close>

lemma resolve_served:
  assumes "resolve_run e c x new" and "usable pol prov root c"
    and "\<forall>ev \<in> set new. served c pol prov root ev"
  shows "\<exists>tls. x = (c, Some (resolved_from (env_ucd e) c pol prov root tls), None) \<and>
    new = [EvGetPolicy (policy_key c) (Inr pol), EvGetProvider (provider_key pol) (Inr prov),
      EvGetSecret (root_key prov) (Inr root)]"
  using assms
  by cases (auto simp: usable_def no_root_login_def tls_secret_keys_def reads_secret_def list_all_iff)

section \<open>A live credential becomes ready\<close>

lemma decided_served:
  assumes "decided_run ck e c' R existing res new" and "rand_available (rand_int e)"
    and "\<forall>ev \<in> set new. served c pol prov root ev"
  shows "has_kind KDefine new"
  using assms(1)
proof cases
  case (generate_failed now err c1 now1 x)
  with password_available [OF _ assms(2)] show ?thesis by blast
next
  case (connected now pw new')
  from connected(4) show ?thesis by cases (simp_all add: connected(1))
qed (use assms(3) in simp_all)

lemma resolved_served:
  assumes "resolved_run ck e c R res new" and "rand_available (rand_int e)"
    and "\<forall>ev \<in> set new. served c pol prov root ev"
  shows "has_kind KDefine new"
  using assms(1)
proof cases
  case (decided got existing c1 now msg1 new')
  with decided_served [OF decided(5) assms(2), of c pol prov root] assms(3) show ?thesis by auto
qed (use assms(3) in auto)

lemma live_run_defines:
  assumes "credential_run ck e req res L" and "hd L = EvGetCredential req (Inr c)"
    and "deletion_is_zero (cred_meta c)" and "has_finalizer e c" and "usable pol prov root c"
    and "\<forall>ev \<in> set L. served c pol prov root ev" and "rand_available (rand_int e)"
  shows "has_kind KDefine L"
  using assms(1)
proof cases
  case (failed c1 c' err new)
  with resolve_served [OF _ assms(5), of e _ new] assms(2,6) show ?thesis by auto
next
  case (unresolved c1 c' new x)
  with resolve_served [OF _ assms(5), of e _ new] assms(2,6) show ?thesis by auto
next
  case (active c1 R new new')
  with resolved_served [OF active(5) assms(7), of pol prov root] assms(2,6) show ?thesis by auto
qed (use assms in auto)


text \<open>
  C16. A live credential that carries the finalizer is made ready by one run that is served: if its policy
  admits it, the provider has a root login and no TLS material, the calls of the run succeed and the
  random source does not fail, then the run reads credential, policy, provider and root Secret, looks
  up the target Secret, connects with the root login, defines the user of the request, writes the
  Secret, reports the four conditions as true for the generation it read, and closes the connection;
  it returns no error.  A live credential without the finalizer gets it in a run of its own first.
\<close>

theorem served_credential_becomes_ready:
  assumes "reconciles r req res L" and "hd L = EvGetCredential req (Inr c)"
    and "deletion_is_zero (cred_meta c)" and "has_finalizer (rec_env r) c" and "usable pol prov root c"
    and "\<forall>ev \<in> set L. served c pol prov root ev" and "rand_available (rand_int (rec_env r))"
    and "condition_store (set_status_condition (rec_env r))"
  shows "\<exists>got pw write s y c' c''. L =
    [EvGetCredential req (Inr c), EvGetPolicy (policy_key c) (Inr pol), EvGetProvider (provider_key pol) (Inr prov),
     EvGetSecret (root_key prov) (Inr root), EvGetSecret (target_key c) got,
     EvConnect (ps_endpoint (prov_spec prov)) (root_username prov root) (root_password prov root) None,
     EvDefineUser (user_target c pol) (user_name (env_ucd (rec_env r)) c pol) pw (cs_roles (cred_spec c)) None,
     write, EvStatusCredential c' (Inr c''), EvClose] \<and>
    write \<in> {EvCreateSecret s (Inr y), EvUpdateSecret s (Inr y)} \<and>
    (\<forall>t \<in> {TypePolicyAccepted, TypeUserDefined, TypeSecretReady, TypeReady}.
      cred_condition c' t = Some ConditionTrue) \<and>
    cst_observed_generation (cred_status c') = cred_generation c \<and> snd res = None"
proof -
  let ?e = "rec_env r"
  have "has_kind KDefine L" by (rule live_run_defines [OF reconciles_run [OF assms(1)] assms(2-7)])
  then obtain D new where L: "L = df_prefix ?e req D @ new @ [EvClose]" and D: "df_facts (clock_of r) ?e D"
    and run: "connected_run ?e (df_status D) (df_resolved ?e D) (df_existing D)
      (df_decision D) (df_password D) res new"
    by (rule run_with_define [OF reconciles_run [OF assms(1)]]) auto
  have c: "df_credential D = c" using assms(2) by (simp add: L df_prefix_def)
  have objects: "df_policy D = pol" "df_provider D = prov" using assms(6) by (simp_all add: L df_prefix_def)
  then have root: "df_root D = root" using assms(6) by (simp add: L df_prefix_def)
  have reads: "df_reads D = []"
    using D assms(5) objects
    by (cases "df_reads D") (auto simp: df_facts_def usable_def tls_secret_keys_def reads_secret_def)
  from D obtain now' msg' where st: "df_status D = accepted_status ?e now' c (df_resolved ?e D) msg'"
    by (auto simp: df_facts_def c)
  have new: "\<forall>ev \<in> set new. served c pol prov root ev" using assms(6) by (simp add: L)
  from run D show ?thesis
  proof (cases rule: connected_runE)
    case (finished s x now msg now1 now2 m1 m2)
    let ?c' = "ready_status ?e now1 now2 (put_condition ?e now (df_status D) TypeUserDefined
      ConditionTrue ReasonDefineUserSucceeded msg) (df_decision D) m1 m2"
    from new finished(1) obtain c'' where x: "x = Inr c''" by (auto simp: error_of_None)
    have "L = [EvGetCredential req (Inr c), EvGetPolicy (policy_key c) (Inr pol),
        EvGetProvider (provider_key pol) (Inr prov), EvGetSecret (root_key prov) (Inr root),
        EvGetSecret (target_key c) (df_got D), EvConnect (ps_endpoint (prov_spec prov))
          (root_username prov root) (root_password prov root) None,
        EvDefineUser (user_target c pol) (user_name (env_ucd ?e) c pol) (df_password D)
          (cs_roles (cred_spec c)) None,
        write_event (df_existing D) (df_written ?e D) (Inr s), EvStatusCredential ?c' (Inr c''), EvClose]"
      by (simp add: L df_prefix_def finished(1) x c objects root reads connect_event_def df_define_def)
    moreover have "write_event (df_existing D) (df_written ?e D) (Inr s)
        \<in> {EvCreateSecret (df_written ?e D) (Inr s), EvUpdateSecret (df_written ?e D) (Inr s)}"
      by (simp add: write_event_def split: option.split)
    moreover have "\<forall>t \<in> {TypePolicyAccepted, TypeUserDefined, TypeSecretReady, TypeReady}.
        cred_condition ?c' t = Some ConditionTrue"
      by (simp add: condition_ready [OF assms(8)] condition_put [OF assms(8)]
          condition_accepted [OF assms(8)] st)
    moreover have "cst_observed_generation (cred_status ?c') = cred_generation c" by (simp add: st)
    moreover have "snd res = None" using finished(2) x by auto
    ultimately show ?thesis by blast
  qed (use new in simp_all)
qed

text \<open>The demonstration environment serves its runs.\<close>

lemma demo_usable: "usable (demo_policy [''app'']) demo_provider root_secret (demo_credential meta)"
  using demo_admits [of demo_ucd "[''app'']" meta]
  by (simp add: usable_def Evaluate_allowed root_username_def root_password_def demo_provider_def
      root_secret_def map_index_str_def)

lemma demo_keys:
  "root_key demo_provider = NamespacedName ''platform'' ''root''"
  "target_key (demo_credential live_meta) = NamespacedName ''demo'' ''login''"
  "target_key (demo_credential (deleting_meta ann)) = NamespacedName ''demo'' ''login''"
  by (simp_all add: root_key_def target_key_def demo_provider_def demo_eval)

lemma demo_available: "rand_available (rand_int (demo_env d))"
  by (simp add: rand_available_def demo_env_def)

theorem served_credential_becomes_ready_witness:
  "\<exists>c'. reconciles (demo_reconciler demo_live) demo_req done_ok (demo_live_log c') \<and>
    cred_condition c' TypeUserDefined = Some ConditionTrue"
proof -
  let ?c = "demo_credential live_meta" and ?pol = "demo_policy [''app'']"
  obtain c' where run: "reconciles (demo_reconciler demo_live) demo_req done_ok (demo_live_log c')"
    using demo_live_run by blast
  have env: "rec_env (demo_reconciler demo_live) = demo_env demo_live" by (simp add: demo_eval)
  have live: "deletion_is_zero (cred_meta ?c)" "has_finalizer (demo_env demo_live) ?c"
    by (simp_all add: demo_eval has_finalizer_def)
  have "\<forall>ev \<in> set (demo_live_log c'). served ?c ?pol demo_provider root_secret ev"
    by (simp add: demo_live_log_def demo_reads_def demo_keys demo_eval)
  from served_credential_becomes_ready [OF run demo_live_log_simps(1) live(1) _ demo_usable this, unfolded env,
      OF live(2) demo_available demo_env_conditions]
  have "cred_condition c' TypeUserDefined = Some ConditionTrue"
    by (auto simp: demo_live_log_def demo_reads_def connect_event_def)
  with run show ?thesis by blast
qed

section \<open>A deleted credential is released\<close>

lemma delete_secret_served:
  assumes "delete_secret_run c x new" and "\<forall>ev \<in> set new. served c pol prov root ev"
  shows "x = None"
  using assms by cases (auto split: sum.splits)

text \<open>
  C17. A deletion without force that is served removes the user, settles the target Secret, and
  takes the finalizer off the latest version of the credential, in this order, and returns no error.
\<close>

theorem served_deletion_releases:
  assumes "reconciles r req res L" and "hd L = EvGetCredential req (Inr c)"
    and "\<not> deletion_is_zero (cred_meta c)" and "has_finalizer (rec_env r) c" and "\<not> force_cleanup c"
    and "usable pol prov root c" and "\<forall>ev \<in> set L. served c pol prov root ev"
  shows "\<exists>cleanup latest y. L =
    [EvGetCredential req (Inr c), EvGetPolicy (policy_key c) (Inr pol), EvGetProvider (provider_key pol) (Inr prov),
     EvGetSecret (root_key prov) (Inr root),
     EvConnect (ps_endpoint (prov_spec prov)) (root_username prov root) (root_password prov root) None,
     EvRemoveUser (user_target c pol) (user_name (env_ucd (rec_env r)) c pol) None] @
    cleanup @ [EvGetCredential (object_key (cred_meta c)) (Inr latest)] @
    (if has_finalizer (rec_env r) latest
     then [EvUpdateCredential (without_finalizer (rec_env r) latest) (Inr y)] else []) @ [EvClose] \<and>
    only {KRead, KDelete} cleanup \<and> target_settled c cleanup \<and> res = done_ok"
proof -
  from reconciles_run [OF assms(1)] assms(2,3) obtain new
    where L: "L = EvGetCredential req (Inr c) # new" and del: "delete_run (rec_env r) c res new"
    by cases auto
  have new: "\<forall>ev \<in> set new. served c pol prov root ev" using assms(7) by (simp add: L)
  from del show ?thesis
  proof cases
    case (unresolved c' err)
    with resolve_served [OF unresolved(4) assms(6)] new show ?thesis by simp
  next
    case (removal R new1 new2)
    from removal(1) new have new12: "\<forall>ev \<in> set new1. served c pol prov root ev"
      "\<forall>ev \<in> set new2. served c pol prov root ev" by auto
    from resolve_served [OF removal(4) assms(6) new12(1)] obtain tls
      where R: "R = resolved_from (env_ucd (rec_env r)) c pol prov root tls"
        and new1: "new1 = [EvGetPolicy (policy_key c) (Inr pol), EvGetProvider (provider_key pol) (Inr prov),
          EvGetSecret (root_key prov) (Inr root)]" by auto
    from removal(5) show ?thesis
    proof cases
      case (secret_kept err cleanup c' x)
      with delete_secret_served [OF secret_kept(3), of pol prov root] new12(2) show ?thesis by simp
    next
      case (released cleanup new')
      note cleaned = delete_secret_only [OF released(2)] delete_secret_settled [OF released(2)]
      from released(3) show ?thesis
      proof cases
        case (already latest)
        with cleaned show ?thesis
          by (intro exI [of _ cleanup] exI [of _ latest])
            (simp add: L removal(1) new1 released(1) connect_event_def R resolved_from_def)
      next
        case (updated latest x)
        moreover from this new12(2) released(1) obtain y where "x = Inr y" by (auto simp: error_of_None)
        ultimately show ?thesis using cleaned
          by (intro exI [of _ cleanup] exI [of _ latest] exI [of _ y])
            (simp add: L removal(1) new1 released(1) connect_event_def R resolved_from_def)
      qed (use new12(2) released(1) in simp)
    qed (use new12(2) in simp)
  qed (use assms(4,5) new in simp_all)
qed


theorem served_deletion_releases_witness:
  "\<exists>cleanup. reconciles (demo_reconciler demo_deleting) demo_req done_ok demo_deleting_log \<and>
    target_settled (demo_credential (deleting_meta None)) cleanup"
proof -
  let ?c = "demo_credential (deleting_meta None)" and ?pol = "demo_policy [''app'']"
  let ?r = "demo_reconciler demo_deleting"
  have hd: "hd demo_deleting_log = EvGetCredential demo_req (Inr ?c)"
    by (simp add: demo_deleting_log_def demo_reads_def)
  have c: "\<not> deletion_is_zero (cred_meta ?c)" "has_finalizer (rec_env ?r) ?c" "\<not> force_cleanup ?c"
    by (simp_all add: demo_eval has_finalizer_def force_cleanup_def)
  have "\<forall>ev \<in> set demo_deleting_log. served ?c ?pol demo_provider root_secret ev"
    by (simp add: demo_deleting_log_def demo_reads_def demo_release_def demo_keys demo_eval)
  from served_deletion_releases [OF demo_deleting_run hd c demo_usable this] demo_deleting_run
  show ?thesis by blast
qed


section \<open>Every run ends soon\<close>

lemma resolve_length:
  assumes "resolve_run e c x new"
  shows "length new \<le> 6 \<and> (\<forall>c' R err. x = (c', Some R, err) \<longrightarrow> length new \<le> 5)"
  using assms
proof cases
  case (tls_failed pol c1 z prov root reads now msg)
  with tls_secret_keys_two [of "ps_tls (prov_spec prov)"] show ?thesis by simp
next
  case (resolved pol prov root reads tls)
  with tls_secret_keys_two [of "ps_tls (prov_spec prov)"] show ?thesis by simp
qed simp_all

lemma connected_length: "connected_run e c R existing d pw res new \<Longrightarrow> length new \<le> 3"
  by (induction rule: connected_run.induct) (auto elim: finish_run.cases)

lemma resolved_length: "resolved_run ck e c R res new \<Longrightarrow> length new \<le> 6"
  by (induction rule: resolved_run.induct) (auto elim!: decided_run.cases dest!: connected_length)

lemma delete_secret_length: "delete_secret_run c res new \<Longrightarrow> length new \<le> 2"
  by (induction rule: delete_secret_run.induct) simp_all

lemma finalizer_length: "finalizer_run e c res new \<Longrightarrow> length new \<le> 2"
  by (induction rule: finalizer_run.induct) simp_all

lemma removal_length: "removal_run e c R res new \<Longrightarrow> length new \<le> 5"
  by (induction rule: removal_run.induct) (auto dest!: delete_secret_length finalizer_length)

lemma delete_length: "delete_run e c res new \<Longrightarrow> length new \<le> 12"
  by (induction rule: delete_run.induct)
    (auto dest!: resolve_length delete_secret_length finalizer_length removal_length)

lemma run_length:
  assumes "credential_run ck e req res L"
  shows "length L \<le> 13"
  using assms
  by cases (auto dest!: resolve_length resolved_length delete_length)

text \<open>
  C18. Every run ends: from any state of the world, whatever the environment replies, the reconciler
  returns a result after at most thirteen calls.
\<close>

theorem run_ends_after_thirteen_calls:
  "\<exists>res s'. run_state (Reconcile r req) \<lparr>world = w, events = []\<rparr> = (res, s') \<and> length (events s') \<le> 13"
proof -
  obtain res s' where run: "run_state (Reconcile r req) \<lparr>world = w, events = []\<rparr> = (res, s')"
    by (rule prod.exhaust)
  then have "reconciles r req res (events s')" unfolding reconciles_def by blast
  from run_length [OF reconciles_run [OF this]] run show ?thesis by blast
qed

end
