(* ===== verification/Cluster.thy ===== *)
theory Cluster
  imports CredentialOutcomes
begin

text \<open>
  The credential reconciler in a cluster: runs for different credentials are interleaved call by
  call with each other and with other clients of the API server, and may be cut off at any call.
  What a call does to the objects is the documented contract of the API server and of SurrealDB;
  which calls a run makes is the model of the code, by \<open>reconciles\<close>.
\<close>

section \<open>Objects\<close>

text \<open>
  The part of the world that is the same whenever it is read: which provider and SurrealDB
  namespace a policy names, and the endpoint of a provider.  All the rest of a policy may change.
\<close>

record tenancy =
  tn_provider :: "NamespacedName \<Rightarrow> string"
  tn_namespace :: "NamespacedName \<Rightarrow> string"
  tn_endpoint :: "NamespacedName \<Rightarrow> string"

text \<open>A user of SurrealDB: the endpoint it is defined at, its scope and its name.\<close>

type_synonym surreal_user = "string \<times> UserTarget \<times> string"

text \<open>The user that belongs to a credential.\<close>

definition tenant_user :: "ucd \<Rightarrow> tenancy \<Rightarrow> SurrealDBCredential \<Rightarrow> surreal_user" where
  "tenant_user u T c =
    (let provider = tn_provider T (policy_key c); namespace = tn_namespace T (policy_key c) in
     (tn_endpoint T (NamespacedName [] provider),
      \<lparr>ut_level = cs_level (cred_spec c), ut_namespace = namespace, ut_database = cs_database (cred_spec c)\<rparr>,
      Username u (om_namespace (cred_meta c)) (om_name (cred_meta c))
        \<lparr>put_provider_name = provider, put_surreal_namespace = namespace,
         put_database = cs_database (cred_spec c), put_level = cs_level (cred_spec c)\<rparr>))"

definition policy_fits :: "tenancy \<Rightarrow> NamespacedName \<Rightarrow> SurrealDBTenantPolicy \<Rightarrow> bool" where
  "policy_fits T k pol \<longleftrightarrow> lpr_name (tps_provider_ref (pol_spec pol)) = tn_provider T k \<and>
     tps_surreal_namespace (pol_spec pol) = tn_namespace T k"

definition provider_fits :: "tenancy \<Rightarrow> NamespacedName \<Rightarrow> SurrealDBProvider \<Rightarrow> bool" where
  "provider_fits T k prov \<longleftrightarrow> ps_endpoint (prov_spec prov) = tn_endpoint T k"

lemma tenant_user_of_policy:
  assumes "policy_fits T (policy_key c) pol" and "provider_fits T (provider_key pol) prov"
  shows "(ps_endpoint (prov_spec prov), user_target c pol, user_name u c pol) = tenant_user u T c"
  using assms by (simp add: policy_fits_def provider_fits_def provider_key_def tenant_user_def Let_def
      user_target_def user_name_def naming_target_def)

text \<open>
  The objects of a cluster.  \<open>ob_uids\<close> holds the identities ever given to credentials and
  \<open>ob_versions\<close> every version of a Secret there was, by identity and resource version.
\<close>

record objects =
  ob_credentials :: "NamespacedName \<rightharpoonup> SurrealDBCredential"
  ob_secrets :: "NamespacedName \<rightharpoonup> Secret"
  ob_users :: "surreal_user set"
  ob_uids :: "string set"
  ob_versions :: "(string \<times> string) \<rightharpoonup> Secret"

definition finalized :: "SurrealDBCredential \<Rightarrow> bool" where
  "finalized c \<longleftrightarrow> credentialFinalizer \<in> set (om_finalizers (cred_meta c))"

definition version_of :: "Secret \<Rightarrow> string \<times> string" where
  "version_of s = (om_uid (sec_meta s), om_resource_version (sec_meta s))"

definition fresh_version :: "objects \<Rightarrow> Secret \<Rightarrow> bool" where
  "fresh_version ob s \<longleftrightarrow> version_of s \<notin> dom (ob_versions ob) \<and> om_resource_version (sec_meta s) \<noteq> []"

definition put_secret :: "Secret \<Rightarrow> objects \<Rightarrow> objects" where
  "put_secret s ob = ob\<lparr>ob_secrets := (ob_secrets ob)(object_key (sec_meta s) \<mapsto> s),
     ob_versions := (ob_versions ob)(version_of s \<mapsto> s)\<rparr>"

definition drop_secret :: "NamespacedName \<Rightarrow> objects \<Rightarrow> objects" where
  "drop_secret k ob = ob\<lparr>ob_secrets := (ob_secrets ob)(k := None)\<rparr>"

definition put_credential :: "SurrealDBCredential \<Rightarrow> objects \<Rightarrow> objects" where
  "put_credential c ob =
    ob\<lparr>ob_credentials := (ob_credentials ob)(object_key (cred_meta c) \<mapsto> c)\<rparr>"

section \<open>What a call does\<close>

text \<open>
  An update of a credential keeps its identity, its deletion time stamp and its status, and takes
  the request, the annotations and the finalizers of the update.
\<close>

definition updates_credential ::
  "SurrealDBCredential \<Rightarrow> SurrealDBCredential \<Rightarrow> SurrealDBCredential \<Rightarrow> bool" where
  "updates_credential old x new \<longleftrightarrow>
    object_key (cred_meta new) = object_key (cred_meta x) \<and> object_key (cred_meta old) = object_key (cred_meta x) \<and>
    om_uid (cred_meta old) = om_uid (cred_meta x) \<and> om_uid (cred_meta new) = om_uid (cred_meta x) \<and>
    om_deletion_timestamp (cred_meta new) = om_deletion_timestamp (cred_meta old) \<and>
    om_annotations (cred_meta new) = om_annotations (cred_meta x) \<and>
    om_finalizers (cred_meta new) = om_finalizers (cred_meta x) \<and>
    cred_spec new = cred_spec x \<and> cred_status new = cred_status old"

text \<open>A stored Secret is the one that was sent, with a version of its own.\<close>

definition stores_secret :: "Secret \<Rightarrow> Secret \<Rightarrow> bool" where
  "stores_secret x new \<longleftrightarrow> object_key (sec_meta new) = object_key (sec_meta x) \<and>
     om_labels (sec_meta new) = om_labels (sec_meta x) \<and>
     om_owner_references (sec_meta new) = om_owner_references (sec_meta x) \<and>
     sec_type new = sec_type x \<and> sec_data new = sec_data x"

text \<open>The calls that can end without having done anything.\<close>

fun no_effect :: "event \<Rightarrow> bool" where
  "no_effect (EvUpdateCredential _ (Inl _)) = True"
| "no_effect (EvStatusCredential _ (Inl _)) = True"
| "no_effect (EvCreateSecret _ (Inl _)) = True"
| "no_effect (EvUpdateSecret _ (Inl _)) = True"
| "no_effect (EvDeleteSecret _ (Some _)) = True"
| "no_effect (EvDefineUser _ _ _ _ (Some _)) = True"
| "no_effect (EvRemoveUser _ _ (Some _)) = True"
| "no_effect (EvConnect _ _ _ _) = True"
| "no_effect EvClose = True"
| "no_effect _ = False"

text \<open>
  The effect of a call over the connection to \<open>ep\<close>.  A write that reports an error may have been
  carried out all the same (its reply was lost); one that reports success has been.  An update of a
  Secret needs its identity and the version it names, if it names one; an update of a credential at
  least its identity; a deletion of a Secret needs neither, as the code sends no precondition.
\<close>

inductive effect :: "tenancy \<Rightarrow> string \<Rightarrow> event \<Rightarrow> objects \<Rightarrow> objects \<Rightarrow> bool" for T ep where
  credential_read: "ob_credentials ob k = Some c \<Longrightarrow> effect T ep (EvGetCredential k (Inr c)) ob ob"
| credential_unread: "(is_not_found err \<longrightarrow> ob_credentials ob k = None) \<Longrightarrow>
    effect T ep (EvGetCredential k (Inl err)) ob ob"
| policy_read: "(\<And>pol. got = Inr pol \<Longrightarrow> policy_fits T k pol) \<Longrightarrow> effect T ep (EvGetPolicy k got) ob ob"
| provider_read: "(\<And>prov. got = Inr prov \<Longrightarrow> provider_fits T k prov) \<Longrightarrow> effect T ep (EvGetProvider k got) ob ob"
| secret_read: "ob_secrets ob k = Some s \<Longrightarrow> effect T ep (EvGetSecret k (Inr s)) ob ob"
| secret_unread: "(is_not_found err \<longrightarrow> ob_secrets ob k = None) \<Longrightarrow>
    effect T ep (EvGetSecret k (Inl err)) ob ob"
| nothing: "no_effect ev \<Longrightarrow> effect T ep ev ob ob"
| credential_updated: "ob_credentials ob (object_key (cred_meta x)) = Some old \<Longrightarrow> updates_credential old x new \<Longrightarrow>
    effect T ep (EvUpdateCredential x y) ob (put_credential new ob)"
| status_updated: "ob_credentials ob (object_key (cred_meta x)) = Some old \<Longrightarrow>
    object_key (cred_meta old) = object_key (cred_meta x) \<Longrightarrow>
    effect T ep (EvStatusCredential x y) ob (put_credential (old\<lparr>cred_status := cred_status x\<rparr>) ob)"
| secret_created: "ob_secrets ob (object_key (sec_meta x)) = None \<Longrightarrow> stores_secret x new \<Longrightarrow>
    fresh_version ob new \<Longrightarrow> effect T ep (EvCreateSecret x y) ob (put_secret new ob)"
| secret_updated: "ob_secrets ob (object_key (sec_meta x)) = Some old \<Longrightarrow>
    om_uid (sec_meta old) = om_uid (sec_meta x) \<Longrightarrow>
    om_resource_version (sec_meta x) = [] \<or> version_of old = version_of x \<Longrightarrow> stores_secret x new \<Longrightarrow>
    fresh_version ob new \<Longrightarrow> effect T ep (EvUpdateSecret x y) ob (put_secret new ob)"
| secret_deleted: "effect T ep (EvDeleteSecret x y) ob (drop_secret (object_key (sec_meta x)) ob)"
| user_defined: "effect T ep (EvDefineUser t n pw roles y) ob (ob\<lparr>ob_users := insert (ep, t, n) (ob_users ob)\<rparr>)"
| user_removed: "effect T ep (EvRemoveUser t n y) ob (ob\<lparr>ob_users := ob_users ob - {(ep, t, n)}\<rparr>)"

inductive_simps effect_simps:
  "effect T ep (EvGetCredential k (Inr c)) ob ob'"
  "effect T ep (EvGetSecret k (Inr s)) ob ob'"
  "effect T ep (EvGetPolicy k got) ob ob'"
  "effect T ep (EvGetProvider k got) ob ob'"

section \<open>Other clients and interleaving\<close>

text \<open>
  What others do: create and change credentials as far as \<open>allowed\<close> says (never taking the finalizer
  off), put Secrets in place and delete them.  A credential without finalizers is gone once deleted.
\<close>

inductive edit ::
  "(SurrealDBCredential option \<Rightarrow> SurrealDBCredential \<Rightarrow> bool) \<Rightarrow> objects \<Rightarrow> objects \<Rightarrow> bool" for allowed where
  create: "ob_credentials ob (object_key (cred_meta c)) = None \<Longrightarrow> om_uid (cred_meta c) \<notin> ob_uids ob \<Longrightarrow>
    allowed None c \<Longrightarrow>
    edit allowed ob (put_credential c (ob\<lparr>ob_uids := insert (om_uid (cred_meta c)) (ob_uids ob)\<rparr>))"
| change: "ob_credentials ob (object_key (cred_meta c)) = Some old \<Longrightarrow> allowed (Some old) c \<Longrightarrow>
    om_uid (cred_meta c) = om_uid (cred_meta old) \<Longrightarrow> (finalized old \<longrightarrow> finalized c) \<Longrightarrow>
    (\<not> deletion_is_zero (cred_meta old) \<longrightarrow>
      om_deletion_timestamp (cred_meta c) = om_deletion_timestamp (cred_meta old)) \<Longrightarrow>
    edit allowed ob (put_credential c ob)"
| vanish: "ob_credentials ob k = Some c \<Longrightarrow> om_finalizers (cred_meta c) = [] \<Longrightarrow>
    edit allowed ob (ob\<lparr>ob_credentials := (ob_credentials ob)(k := None)\<rparr>)"
| secret_put: "fresh_version ob s \<Longrightarrow> edit allowed ob (put_secret s ob)"
| secret_dropped: "edit allowed ob (drop_secret k ob)"

text \<open>
  A state of the system: the objects, and for each credential the run that is under way, as the
  calls it has made and those it is still to make.  The work queue gives one credential to one
  worker at a time.
\<close>

record system =
  sy_objects :: objects
  sy_runs :: "NamespacedName \<rightharpoonup> event list \<times> event list"

text \<open>The endpoint a run is connected to.\<close>

fun connection :: "event list \<Rightarrow> string" where
  "connection [] = []"
| "connection (EvConnect ep _ _ _ # L) = ep"
| "connection (ev # L) = connection L"

inductive calls :: "tenancy \<Rightarrow> NamespacedName \<Rightarrow> event \<Rightarrow> system \<Rightarrow> system \<Rightarrow> bool" for T k ev where
  calls: "sy_runs s k = Some (made, ev # rest) \<Longrightarrow> effect T (connection made) ev (sy_objects s) ob \<Longrightarrow>
    calls T k ev s \<lparr>sy_objects = ob, sy_runs = (sy_runs s)(k \<mapsto> (made @ [ev], rest))\<rparr>"

definition empty_system :: system where
  "empty_system = \<lparr>sy_objects = \<lparr>ob_credentials = Map.empty, ob_secrets = Map.empty, ob_users = {},
     ob_uids = {}, ob_versions = Map.empty\<rparr>, sy_runs = Map.empty\<rparr>"

text \<open>
  The states that can be reached: a run starts with the calls the code makes in some environment,
  a call takes effect, a run ends - after its last call, or because the process died - and others
  change the objects.
\<close>

inductive reachable ::
  "'w reconciler set \<Rightarrow> tenancy \<Rightarrow> (SurrealDBCredential option \<Rightarrow> SurrealDBCredential \<Rightarrow> bool)
    \<Rightarrow> system \<Rightarrow> bool" for rs T allowed where
  initially: "reachable rs T allowed empty_system"
| start: "reachable rs T allowed s \<Longrightarrow> sy_runs s k = None \<Longrightarrow> r \<in> rs \<Longrightarrow> reconciles r k res L \<Longrightarrow>
    reachable rs T allowed (s\<lparr>sy_runs := (sy_runs s)(k \<mapsto> ([], L))\<rparr>)"
| call: "reachable rs T allowed s \<Longrightarrow> calls T k ev s s' \<Longrightarrow> reachable rs T allowed s'"
| stop: "reachable rs T allowed s \<Longrightarrow> reachable rs T allowed (s\<lparr>sy_runs := (sy_runs s)(k := None)\<rparr>)"
| edited: "reachable rs T allowed s \<Longrightarrow> edit allowed (sy_objects s) ob \<Longrightarrow>
    reachable rs T allowed (s\<lparr>sy_objects := ob\<rparr>)"

end
