(* ===== verification/ClusterRuns.thy ===== *)
theory ClusterRuns
  imports Cluster
begin

text \<open>
  What is known of a run at one of its calls, from the calls it has made before: the facts of
  \<open>CredentialFacts\<close> for a run that is cut in two at a definition, a removal or an update.
\<close>

section \<open>Calls that occur once\<close>

definition count_kind :: "call_kind \<Rightarrow> event list \<Rightarrow> nat" where
  "count_kind k L = length (filter (\<lambda>ev. kind ev = k) L)"

lemma count_kind_simps [simp]:
  "count_kind k [] = 0"
  "count_kind k (ev # L) = (if kind ev = k then Suc (count_kind k L) else count_kind k L)"
  "count_kind k (xs @ ys) = count_kind k xs + count_kind k ys"
  by (simp_all add: count_kind_def)

lemma count_kind_only: "only ks L \<Longrightarrow> k \<notin> ks \<Longrightarrow> count_kind k L = 0"
  by (auto simp: count_kind_def only_def filter_empty_conv)

lemma count_kind_none: "count_kind k L = 0 \<Longrightarrow> before k L = L"
  by (induction L) (auto split: if_splits)

lemma before_unique:
  assumes "count_kind (kind ev) (made @ ev # rest) \<le> 1"
  shows "before (kind ev) (made @ ev # rest) = made"
  using assms by (induction made) (auto split: if_splits)

lemma cut_unique:
  assumes "made @ ev # rest = xs @ ev' # ys" and "kind ev' = kind ev"
    and "count_kind (kind ev) (made @ ev # rest) \<le> 1"
  shows "made = xs \<and> ev = ev' \<and> rest = ys"
proof -
  have "before (kind ev) (made @ ev # rest) = made" by (rule before_unique [OF assms(3)])
  moreover have "before (kind ev') (xs @ ev' # ys) = xs"
    using assms by (intro before_unique) simp
  ultimately have "made = xs" using assms(1,2) by simp
  with assms(1) show ?thesis by simp
qed

lemma connected_counts:
  "connected_run e c R existing d pw res new \<Longrightarrow> count_kind KDefine new = 1 \<and> count_kind KWrite new \<le> 1"
  by (induction rule: connected_run.induct) (auto dest!: finish_only simp: count_kind_only)

lemma decided_counts: "decided_run ck e c R existing res new \<Longrightarrow> count_kind KDefine new \<le> 1 \<and> count_kind KWrite new \<le> 1"
  by (induction rule: decided_run.induct) (auto dest!: connected_counts)

lemma resolved_counts: "resolved_run ck e c R res new \<Longrightarrow> count_kind KDefine new \<le> 1 \<and> count_kind KWrite new \<le> 1"
  by (induction rule: resolved_run.induct) (auto dest!: decided_counts)

lemma finalizer_counts: "finalizer_run e c res new \<Longrightarrow> count_kind KUpdate new \<le> 1 \<and> only {KRead, KUpdate} new"
  by (induction rule: finalizer_run.induct) auto

lemma removal_counts:
  "removal_run e c R res new \<Longrightarrow> count_kind KRemove new = 1 \<and> count_kind KUpdate new \<le> 1"
  by (induction rule: removal_run.induct)
    (auto dest!: delete_secret_only finalizer_counts simp: count_kind_only)

lemma delete_counts: "delete_run e c res new \<Longrightarrow> count_kind KRemove new \<le> 1 \<and> count_kind KUpdate new \<le> 1"
  by (induction rule: delete_run.induct)
    (auto dest!: delete_secret_only resolve_only finalizer_counts removal_counts simp: count_kind_only)

lemma run_counts:
  assumes "credential_run ck e req res L" and "k \<in> {KDefine, KWrite, KRemove, KUpdate}"
  shows "count_kind k L \<le> 1"
  using assms(1)
proof cases
  case (deleting c new)
  with delete_counts [OF deleting(3)] delete_only [OF deleting(3)] assms(2) show ?thesis
    by (auto simp: count_kind_only)
next
  case (active c R new new')
  with resolve_Some_only [OF active(4)] resolved_only [OF active(5)] resolved_counts [OF active(5)] assms(2)
  show ?thesis by (auto simp: count_kind_only)
qed (use assms(2) in \<open>auto dest!: resolve_only simp: count_kind_only\<close>)

section \<open>The connection of a run\<close>

lemma connection_append: "only ks xs \<Longrightarrow> KConnect \<notin> ks \<Longrightarrow> connection (xs @ L) = connection L"
proof (induction xs)
  case (Cons ev xs)
  then have "kind ev \<noteq> KConnect" by auto
  with Cons show ?case by (cases ev) auto
qed simp

lemma connection_event [simp]:
  "connection (connect_event R x # L) = ps_endpoint (prov_spec (rv_provider R))"
  by (simp add: connect_event_def)

section \<open>What a run knows at a call\<close>

text \<open>A run has read a credential with the finalizer, its policy and its provider, and is connected.\<close>

definition knows_user ::
  "'w env \<Rightarrow> NamespacedName \<Rightarrow> event list \<Rightarrow> UserTarget \<Rightarrow> string \<Rightarrow> bool" where
  "knows_user e k made t n \<longleftrightarrow>
    (\<exists>c pol prov. made \<noteq> [] \<and> hd made = EvGetCredential k (Inr c) \<and> has_finalizer e c \<and>
      EvGetPolicy (policy_key c) (Inr pol) \<in> set made \<and> EvGetProvider (provider_key pol) (Inr prov) \<in> set made \<and>
      connection made = ps_endpoint (prov_spec prov) \<and> t = user_target c pol \<and> n = user_name (env_ucd e) c pol \<and>
      only {KRead, KConnect} made)"

lemma at_define:
  assumes "credential_run ck e k res (made @ EvDefineUser t n pw roles x # rest)"
  shows "knows_user e k made t n"
proof -
  let ?L = "made @ EvDefineUser t n pw roles x # rest"
  have "EvDefineUser t n pw roles x \<in> set ?L" by simp
  from assms this obtain D rest' where D: "df_facts ck e D" "before KDefine ?L = df_prefix e k D"
    and ev: "EvDefineUser t n pw roles x = df_define e D x" by (rule define_run)
  have made: "made = df_prefix e k D"
    using before_unique [of "EvDefineUser t n pw roles x" made rest] run_counts [OF assms, of KDefine] D(2) by simp
  have reads: "only {KRead} (df_reads D)"
    using D(1) by (intro reads_only [of "tls_secret_keys (ps_tls (prov_spec (df_provider D)))"]) (simp add: df_facts_def)
  have "connection made = ps_endpoint (prov_spec (df_provider D))"
    using connection_append [OF reads, of "[EvGetSecret (target_key (df_credential D)) (df_got D), connect_event (df_resolved e D) None]"]
    by (simp add: made df_prefix_def)
  then show ?thesis
    using D(1) ev df_prefix_only [OF D(1), of k] unfolding knows_user_def
    by (intro exI [of _ "df_credential D"] exI [of _ "df_policy D"] exI [of _ "df_provider D"])
      (simp add: made df_prefix_def df_facts_def df_define_def)
qed

text \<open>A deletion that connects, cut at the removal of the user.\<close>

lemma removal_prefix:
  assumes "resolve_run e c (c, Some R, None) new" and "has_finalizer e c"
  shows "knows_user e k (EvGetCredential k (Inr c) # new @ [connect_event R None]) (rv_surreal_target R) (rv_username R)"
proof -
  from assms(1) obtain pol prov root reads tls where R: "R = resolved_from (env_ucd e) c pol prov root tls"
    and new: "new = EvGetPolicy (policy_key c) (Inr pol) # EvGetProvider (provider_key pol) (Inr prov) #
      EvGetSecret (root_key prov) (Inr root) # reads" by (rule resolve_Some_log)
  note o = resolve_Some_only [OF assms(1)]
  have "connection (new @ [connect_event R None]) = ps_endpoint (prov_spec prov)"
    using connection_append [OF o, of "[connect_event R None]"] by (simp add: R resolved_from_def)
  then show ?thesis
    using assms(2) only_mono [OF o] unfolding knows_user_def
    by (intro exI [of _ c] exI [of _ pol] exI [of _ prov]) (simp add: new R resolved_from_def)
qed

lemma removal_run_start:
  assumes "removal_run e c R res new"
  obtains x new' where "new = EvRemoveUser (rv_surreal_target R) (rv_username R) x # new'" and "\<not> has_kind KRemove new'"
  using assms by cases (auto dest!: delete_secret_only finalizer_only dest: only_has)

lemma at_remove:
  assumes "credential_run ck e k res L" and "L = made @ EvRemoveUser t n x # rest"
  shows "knows_user e k made t n"
proof -
  have ev: "EvRemoveUser t n x \<in> set L" by (simp add: assms(2))
  from assms(1) show ?thesis
  proof cases
    case (deleting c new)
    have rm: "EvRemoveUser t n x \<in> set new" using ev deleting(1) by simp
    from deleting(3) show ?thesis
    proof cases
      case (removal R new1 new2)
      from removal(5) obtain y new3 where new2: "new2 = EvRemoveUser (rv_surreal_target R) (rv_username R) y # new3"
        by (rule removal_run_start)
      have "made @ EvRemoveUser t n x # rest = (EvGetCredential k (Inr c) # new1 @ [connect_event R None]) @
          EvRemoveUser (rv_surreal_target R) (rv_username R) y # new3 @ [EvClose]"
        using assms(2) deleting(1) removal(1) new2 by simp
      from cut_unique [OF this] run_counts [OF assms(1), of KRemove] assms(2) have
        "made = EvGetCredential k (Inr c) # new1 @ [connect_event R None]" "t = rv_surreal_target R" "n = rv_username R"
        by simp_all
      with removal_prefix [OF removal(4,2)] show ?thesis by simp
    qed (use rm in \<open>auto simp: connect_event_def dest!: resolve_only delete_secret_only finalizer_only dest: only_in\<close>)
  qed (use ev in \<open>auto dest!: resolve_only resolved_only dest: only_in\<close>)
qed

lemma finalizer_run_cut:
  assumes "finalizer_run e c res new" and "EvUpdateCredential x y \<in> set new"
  obtains latest where "new = [EvGetCredential (object_key (cred_meta c)) (Inr latest), EvUpdateCredential x y]"
    and "x = without_finalizer e latest"
  using assms by cases auto

text \<open>
  An update of the credential adds the finalizer, or takes it off a version that was read in this run
  - after a removal of the user that succeeded, unless the cleanup is forced.
\<close>

definition may_release :: "'w env \<Rightarrow> NamespacedName \<Rightarrow> event list \<Rightarrow> SurrealDBCredential \<Rightarrow> bool" where
  "may_release e k made x \<longleftrightarrow> (\<exists>c. made \<noteq> [] \<and> hd made = EvGetCredential k (Inr c) \<and>
     (x = with_finalizer e c \<or>
      (\<exists>k' latest. EvGetCredential k' (Inr latest) \<in> set made \<and> x = without_finalizer e latest \<and>
        (force_cleanup c \<or> k' = object_key (cred_meta c) \<and> (\<exists>t n. EvRemoveUser t n None \<in> set made)))))"

lemma at_update:
  assumes "credential_run ck e k res L" and "L = made @ EvUpdateCredential x y # rest"
  shows "may_release e k made x"
proof -
  let ?ev = "EvUpdateCredential x y"
  have ev: "?ev \<in> set L" by (simp add: assms(2))
  have made: "made = xs" if "L = xs @ ?ev # ys" for xs ys
    using cut_unique [of made ?ev rest xs ?ev ys] that run_counts [OF assms(1), of KUpdate] assms(2) by simp
  from assms(1) show ?thesis
  proof cases
    case (registered c x')
    with ev have "L = [EvGetCredential k (Inr c)] @ ?ev # []" by auto
    from made [OF this] registered ev show ?thesis by (auto simp: may_release_def)
  next
    case (deleting c new)
    have up: "?ev \<in> set new" using ev deleting(1) by simp
    have release: "may_release e k made x"
      if "finalizer_run e c' res' new2" "?ev \<in> set new2" "new = new1 @ new2 @ new3"
        "force_cleanup c \<or> c' = c \<and> (\<exists>t n. EvRemoveUser t n None \<in> set new1)" for c' res' new1 new2 new3
    proof -
      from that(1,2) obtain latest where new2: "new2 = [EvGetCredential (object_key (cred_meta c')) (Inr latest), ?ev]"
        and x: "x = without_finalizer e latest" by (rule finalizer_run_cut)
      have "made = EvGetCredential k (Inr c) # new1 @ [EvGetCredential (object_key (cred_meta c')) (Inr latest)]"
        using deleting(1) by (intro made [of _ new3]) (simp add: that(3) new2)
      with that(4) x show ?thesis unfolding may_release_def by (intro exI [of _ c]) auto
    qed
    from deleting(3) show ?thesis
    proof cases
      case (forced new1 new2)
      with up release [OF forced(5), of new1 "[]"] show ?thesis by (auto dest!: delete_secret_only dest: only_in)
    next
      case (forced_kept err new1 c' x' new2)
      with up release [OF forced_kept(7), of "new1 @ [EvStatusCredential c' x']" "[]"] show ?thesis
        by (auto dest!: delete_secret_only dest: only_in)
    next
      case (removal R new1 new2)
      have "?ev \<in> set new2" using up removal(1) resolve_only [OF removal(4)]
        by (auto simp: connect_event_def dest: only_in)
      with removal(5) show ?thesis
      proof cases
        case (released cleanup new')
        note o = delete_secret_only [OF released(2)]
        from \<open>?ev \<in> set new2\<close> released(1) o have "?ev \<in> set new'" by (auto dest: only_in)
        from release [OF released(3) this, of "new1 @ connect_event R None #
          EvRemoveUser (rv_surreal_target R) (rv_username R) None # cleanup" "[EvClose]"]
        show ?thesis by (auto simp: removal(1) released(1))
      qed (auto dest!: delete_secret_only dest: only_in)
    qed (use up in \<open>auto simp: connect_event_def dest!: resolve_only dest: only_in\<close>)
  qed (use ev in \<open>auto dest!: resolve_only resolved_only dest: only_in\<close>)
qed

text \<open>A write of the target Secret, in a run that has looked for it.\<close>

lemma at_write:
  assumes "credential_run ck e k res (made @ ev # rest)" and "kind ev = KWrite"
  obtains D y where "made = df_prefix e k D @ [df_define e D None]" and "df_facts ck e D"
    and "ev = write_event (df_existing D) (df_written e D) y"
proof -
  let ?L = "made @ ev # rest"
  have "ev \<in> set ?L" by simp
  from assms(1) this assms(2) obtain D y where "ev = write_event (df_existing D) (df_written e D) y"
    and "df_facts ck e D" and "before KWrite ?L = df_prefix e k D @ [df_define e D None]" by (rule write_run)
  moreover from this(3) have "made = df_prefix e k D @ [df_define e D None]"
    using before_unique [of ev made rest] run_counts [OF assms(1), of KWrite] assms(2) by simp
  ultimately show thesis using that by blast
qed

end
