(* ===== verification/ClusterInvariants.thy ===== *)
theory ClusterInvariants
  imports ClusterRuns
begin

text \<open>
  The invariants of the cluster: what a run has read stays true as far as it relies on it, and every
  user that was defined belongs to a credential that still carries the finalizer.
\<close>

section \<open>Operators\<close>

text \<open>The environments in which the operator runs: one set of letter tables, lawful finalizer helpers.\<close>

definition operators :: "ucd \<Rightarrow> 'w reconciler set" where
  "operators u = {r. env_ucd (rec_env r) = u \<and>
     finalizer_ops (contains_finalizer (rec_env r)) (add_finalizer (rec_env r)) (remove_finalizer (rec_env r))}"

lemma operator_finalizer:
  assumes "r \<in> operators u"
  shows "has_finalizer (rec_env r) c \<longleftrightarrow> finalized c"
    and "finalized (with_finalizer (rec_env r) c)"
proof -
  have ops: "finalizer_ops (contains_finalizer (rec_env r)) (add_finalizer (rec_env r)) (remove_finalizer (rec_env r))"
    using assms by (simp add: operators_def)
  show "has_finalizer (rec_env r) c \<longleftrightarrow> finalized c" and "finalized (with_finalizer (rec_env r) c)"
    by (simp_all add: has_finalizer_def finalized_def with_finalizer_def
        finalizer_ops.contains_iff [OF ops] finalizer_ops.set_add [OF ops])
qed

text \<open>Others do not force a cleanup and do not change which user a credential stands for.\<close>

definition undisturbed ::
  "ucd \<Rightarrow> tenancy \<Rightarrow> SurrealDBCredential option \<Rightarrow> SurrealDBCredential \<Rightarrow> bool" where
  "undisturbed u T old new \<longleftrightarrow> \<not> force_cleanup new \<and>
     (\<forall>c. old = Some c \<longrightarrow> tenant_user u T new = tenant_user u T c)"

section \<open>What a run relies on\<close>

lemma tenant_user_cong:
  "object_key (cred_meta c) = object_key (cred_meta c') \<Longrightarrow> cred_spec c = cred_spec c' \<Longrightarrow>
    tenant_user u T c = tenant_user u T c'"
  by (simp add: tenant_user_def policy_key_def object_key_def)

lemma force_cleanup_cong:
  "om_annotations (cred_meta c) = om_annotations (cred_meta c') \<Longrightarrow> force_cleanup c = force_cleanup c'"
  by (simp add: force_cleanup_def)

text \<open>A version of the credential at a key: as long as it is the same object, it is the same user.\<close>

definition known :: "ucd \<Rightarrow> tenancy \<Rightarrow> objects \<Rightarrow> NamespacedName \<Rightarrow> SurrealDBCredential \<Rightarrow> bool" where
  "known u T ob k c \<longleftrightarrow> object_key (cred_meta c) = k \<and> \<not> force_cleanup c \<and>
     om_uid (cred_meta c) \<in> ob_uids ob \<and>
     (\<forall>c'. ob_credentials ob k = Some c' \<longrightarrow> om_uid (cred_meta c') = om_uid (cred_meta c) \<longrightarrow>
       tenant_user u T c' = tenant_user u T c)"

lemma known_cong:
  assumes "known u T ob k c" and "object_key (cred_meta c') = object_key (cred_meta c)"
    and "om_uid (cred_meta c') = om_uid (cred_meta c)" and "cred_spec c' = cred_spec c"
    and "om_annotations (cred_meta c') = om_annotations (cred_meta c)"
  shows "known u T ob k c'"
  using assms tenant_user_cong [OF assms(2,4), of u T] force_cleanup_cong [OF assms(5)]
  by (simp add: known_def)

lemma known_finalizer:
  assumes "known u T ob k c"
  shows "known u T ob k (with_finalizer e c)" and "known u T ob k (without_finalizer e c)"
  by (rule known_cong [OF assms]; simp add: with_finalizer_def without_finalizer_def object_key_def)+

definition sound_objects :: "ucd \<Rightarrow> tenancy \<Rightarrow> objects \<Rightarrow> bool" where
  "sound_objects u T ob \<longleftrightarrow> (\<forall>k c. ob_credentials ob k = Some c \<longrightarrow> known u T ob k c)"

text \<open>
  How the credentials of a cluster evolve: a stored one stays the same object and user, keeping the
  finalizer except at the keys \<open>K\<close>; one without it can vanish; a new one has a new identity.
\<close>

definition evolves :: "ucd \<Rightarrow> tenancy \<Rightarrow> NamespacedName set \<Rightarrow> objects \<Rightarrow> objects \<Rightarrow> bool" where
  "evolves u T K ob ob' \<longleftrightarrow> ob_uids ob \<subseteq> ob_uids ob' \<and>
    (\<forall>k c. ob_credentials ob k = Some c \<longrightarrow> k \<notin> K \<longrightarrow> finalized c \<longrightarrow>
      (\<exists>c'. ob_credentials ob' k = Some c' \<and> finalized c')) \<and>
    (\<forall>k c'. ob_credentials ob' k = Some c' \<longrightarrow>
      object_key (cred_meta c') = k \<and> \<not> force_cleanup c' \<and> om_uid (cred_meta c') \<in> ob_uids ob' \<and>
      (case ob_credentials ob k of
         None \<Rightarrow> om_uid (cred_meta c') \<notin> ob_uids ob
       | Some c \<Rightarrow> om_uid (cred_meta c') = om_uid (cred_meta c) \<and> tenant_user u T c' = tenant_user u T c))"

lemma evolves_same:
  assumes "sound_objects u T ob" and "ob_credentials ob' = ob_credentials ob" and "ob_uids ob' = ob_uids ob"
  shows "evolves u T K ob ob'"
  using assms by (auto simp: evolves_def sound_objects_def known_def)

lemma evolves_put:
  assumes "sound_objects u T ob" and "ob_credentials ob (object_key (cred_meta c)) = Some old"
    and "om_uid (cred_meta c) = om_uid (cred_meta old)" and "tenant_user u T c = tenant_user u T old"
    and "\<not> force_cleanup c" and "object_key (cred_meta c) \<notin> K \<Longrightarrow> finalized old \<Longrightarrow> finalized c"
  shows "evolves u T K ob (put_credential c ob)"
  using assms by (auto simp: evolves_def put_credential_def sound_objects_def known_def)

lemma evolves_known:
  assumes "evolves u T K ob ob'" and "known u T ob k c"
  shows "known u T ob' k c"
  using assms unfolding evolves_def known_def by (auto split: option.splits) (metis option.exhaust)+

lemma evolves_sound: "evolves u T K ob ob' \<Longrightarrow> sound_objects u T ob'"
  by (simp add: evolves_def sound_objects_def known_def)

lemma evolves_finalized:
  assumes "evolves u T K ob ob'" and "k \<notin> K" and "ob_credentials ob k = Some c" and "finalized c"
  shows "\<exists>c'. ob_credentials ob' k = Some c' \<and> finalized c' \<and> tenant_user u T c' = tenant_user u T c"
proof -
  from assms obtain c' where c': "ob_credentials ob' k = Some c'" "finalized c'"
    unfolding evolves_def by blast
  with assms(1,3) have "tenant_user u T c' = tenant_user u T c" unfolding evolves_def by fastforce
  with c' show ?thesis by blast
qed

lemma edit_evolves:
  assumes "edit (undisturbed u T) ob ob'" and "sound_objects u T ob"
  shows "evolves u T {} ob ob'"
  using assms(1)
proof cases
  case (create c)
  then show ?thesis using assms(2)
    by (auto simp: evolves_def put_credential_def sound_objects_def known_def undisturbed_def)
next
  case (change c old)
  then show ?thesis using assms(2) unfolding change(1)
    by (intro evolves_put [OF assms(2) change(2)]) (auto simp: undisturbed_def)
next
  case (vanish k c)
  then show ?thesis using assms(2)
    by (auto simp: evolves_def sound_objects_def known_def finalized_def)
qed (use assms(2) in \<open>auto intro!: evolves_same simp: put_secret_def drop_secret_def\<close>)

lemma edit_users: "edit allowed ob ob' \<Longrightarrow> ob_users ob' = ob_users ob"
  by (erule edit.cases) (simp_all add: put_credential_def put_secret_def drop_secret_def)

text \<open>The calls that change credentials or users.\<close>

lemma effect_evolves:
  assumes "effect T ep ev ob ob'" and "sound_objects u T ob" and "kind ev \<noteq> KUpdate"
  shows "evolves u T K ob ob'"
  using assms(1)
proof cases
  case (status_updated x old y)
  have "known u T ob (object_key (cred_meta x)) old"
    using assms(2) status_updated(3) by (simp add: sound_objects_def)
  with status_updated(3,4) show ?thesis unfolding status_updated(2)
    by (intro evolves_put [OF assms(2)])
      (auto simp: known_def finalized_def force_cleanup_def intro!: tenant_user_cong)
qed (use assms(2,3) in \<open>auto intro!: evolves_same simp: put_secret_def drop_secret_def\<close>)

lemma effect_update_evolves:
  assumes "effect T ep (EvUpdateCredential x y) ob ob'" and "sound_objects u T ob"
    and "known u T ob k x" and "k \<notin> K \<Longrightarrow> finalized x"
  shows "evolves u T K ob ob'"
  using assms(1)
proof cases
  case nothing
  with assms(2) show ?thesis by (simp add: evolves_same)
next
  case (credential_updated old new)
  from credential_updated(3) have "tenant_user u T new = tenant_user u T x" and "\<not> force_cleanup new"
    using assms(3) tenant_user_cong [of new x] force_cleanup_cong [of new x]
    by (simp_all add: updates_credential_def known_def)
  with credential_updated assms show ?thesis unfolding credential_updated(1)
    by (intro evolves_put [OF assms(2), of new old])
      (auto simp: known_def updates_credential_def finalized_def)
qed

lemma effect_users:
  assumes "effect T ep ev ob ob'" and "usr \<in> ob_users ob'"
  shows "usr \<in> ob_users ob \<or> (\<exists>t n pw roles x. ev = EvDefineUser t n pw roles x \<and> usr = (ep, t, n))"
  using assms by cases (auto simp: put_credential_def put_secret_def drop_secret_def)

lemma effect_removed:
  assumes "effect T ep (EvRemoveUser t n None) ob ob'"
  shows "ob_users ob' = ob_users ob - {(ep, t, n)}"
  using assms by cases simp_all


section \<open>The invariant\<close>

definition removed :: "event list \<Rightarrow> bool" where
  "removed made \<longleftrightarrow> (\<exists>t n. EvRemoveUser t n None \<in> set made)"

text \<open>
  What a run has read fits the tenancy and is known; the credential it has read with the finalizer
  is still there until the run updates it.
\<close>

definition sound_run :: "ucd \<Rightarrow> tenancy \<Rightarrow> objects \<Rightarrow> NamespacedName \<Rightarrow> event list \<Rightarrow> bool" where
  "sound_run u T ob k made \<longleftrightarrow>
    (\<forall>k' c. EvGetCredential k' (Inr c) \<in> set made \<longrightarrow> known u T ob k' c) \<and>
    (\<forall>k' pol. EvGetPolicy k' (Inr pol) \<in> set made \<longrightarrow> policy_fits T k' pol) \<and>
    (\<forall>k' prov. EvGetProvider k' (Inr prov) \<in> set made \<longrightarrow> provider_fits T k' prov) \<and>
    (\<forall>c. made \<noteq> [] \<longrightarrow> hd made = EvGetCredential k (Inr c) \<longrightarrow> finalized c \<longrightarrow> \<not> has_kind KUpdate made \<longrightarrow>
      (\<exists>c'. ob_credentials ob k = Some c' \<and> finalized c' \<and> tenant_user u T c' = tenant_user u T c))"

text \<open>A user belongs to a credential with the finalizer whose current run has not removed it.\<close>

definition owned_user :: "ucd \<Rightarrow> tenancy \<Rightarrow> system \<Rightarrow> surreal_user \<Rightarrow> bool" where
  "owned_user u T s usr \<longleftrightarrow> (\<exists>k c. ob_credentials (sy_objects s) k = Some c \<and> finalized c \<and>
     tenant_user u T c = usr \<and> (\<forall>made rest. sy_runs s k = Some (made, rest) \<longrightarrow> \<not> removed made))"

definition run_of :: "'w reconciler set \<Rightarrow> NamespacedName \<Rightarrow> event list \<Rightarrow> bool" where
  "run_of rs k L \<longleftrightarrow> (\<exists>r \<in> rs. \<exists>res. reconciles r k res L)"

lemma run_ofI: "r \<in> rs \<Longrightarrow> reconciles r k res L \<Longrightarrow> run_of rs k L"
  unfolding run_of_def by blast

definition sound :: "'w reconciler set \<Rightarrow> ucd \<Rightarrow> tenancy \<Rightarrow> system \<Rightarrow> bool" where
  "sound rs u T s \<longleftrightarrow> sound_objects u T (sy_objects s) \<and>
    (\<forall>k made rest. sy_runs s k = Some (made, rest) \<longrightarrow>
      run_of rs k (made @ rest) \<and> sound_run u T (sy_objects s) k made) \<and>
    (\<forall>usr \<in> ob_users (sy_objects s). owned_user u T s usr)"

lemmas soundI = sound_def [THEN iffD2, OF conjI, OF _ conjI, rule_format]

lemma soundD:
  assumes "sound rs u T s"
  shows "sound_objects u T (sy_objects s)"
    and "sy_runs s k = Some (made, rest) \<Longrightarrow> run_of rs k (made @ rest)"
    and "sy_runs s k = Some (made, rest) \<Longrightarrow> sound_run u T (sy_objects s) k made"
    and "usr \<in> ob_users (sy_objects s) \<Longrightarrow> owned_user u T s usr"
  using assms unfolding sound_def by blast+

lemma sound_run_evolves:
  assumes "sound_run u T ob k made" and "evolves u T K ob ob'" and "k \<notin> K"
  shows "sound_run u T ob' k made"
proof -
  have "\<exists>c'. ob_credentials ob' k = Some c' \<and> finalized c' \<and> tenant_user u T c' = tenant_user u T c"
    if "made \<noteq> []" "hd made = EvGetCredential k (Inr c)" "finalized c" "\<not> has_kind KUpdate made" for c
  proof -
    from assms(1) that obtain c1 where c1: "ob_credentials ob k = Some c1" "finalized c1"
      "tenant_user u T c1 = tenant_user u T c" unfolding sound_run_def by blast
    with evolves_finalized [OF assms(2,3) c1(1,2)] show ?thesis by simp
  qed
  then show ?thesis
    using assms(1) evolves_known [OF assms(2)] unfolding sound_run_def by blast
qed

text \<open>The user a run defines or removes is that of the credential that is stored at its key.\<close>

lemma knows_tenant_user:
  assumes "knows_user (rec_env r) k made t n" and "r \<in> operators u" and "sound_run u T ob k made"
  shows "\<exists>c. ob_credentials ob k = Some c \<and> finalized c \<and> tenant_user u T c = (connection made, t, n)"
proof -
  from assms(1) obtain c pol prov where made: "made \<noteq> []" "hd made = EvGetCredential k (Inr c)"
    and c: "has_finalizer (rec_env r) c" and pol: "EvGetPolicy (policy_key c) (Inr pol) \<in> set made"
    and prov: "EvGetProvider (provider_key pol) (Inr prov) \<in> set made"
    and user: "connection made = ps_endpoint (prov_spec prov)" "t = user_target c pol"
      "n = user_name (env_ucd (rec_env r)) c pol" and o: "only {KRead, KConnect} made"
    unfolding knows_user_def by blast
  have "policy_fits T (policy_key c) pol" "provider_fits T (provider_key pol) prov"
    using assms(3) pol prov unfolding sound_run_def by blast+
  then have "tenant_user u T c = (connection made, t, n)"
    using assms(2) by (simp add: user operators_def flip: tenant_user_of_policy)
  moreover have "finalized c" "\<not> has_kind KUpdate made"
    using c operator_finalizer(1) [OF assms(2)] only_has [OF o] by auto
  ultimately show ?thesis using assms(3) made unfolding sound_run_def by metis
qed

lemma knows_not_removed: "knows_user e k made t n \<Longrightarrow> \<not> removed made"
  unfolding knows_user_def removed_def by (auto dest: only_in)


section \<open>Preservation\<close>

lemma sound_run_call:
  assumes "sound_run u T ob k made" and "sound_objects u T ob" and "effect T ep ev ob ob'"
    and "evolves u T K ob ob'" and "kind ev \<noteq> KUpdate \<Longrightarrow> k \<notin> K"
  shows "sound_run u T ob' k (made @ [ev])"
proof -
  note keep = evolves_known [OF assms(4)]
  have "known u T ob' k' c" if "EvGetCredential k' (Inr c) \<in> set (made @ [ev])" for k' c
  proof (cases "ev = EvGetCredential k' (Inr c)")
    case True
    with assms(2,3) have "known u T ob k' c" by (simp add: effect_simps sound_objects_def)
    then show ?thesis by (rule keep)
  next
    case False
    with that assms(1) have "known u T ob k' c" by (simp add: sound_run_def)
    then show ?thesis by (rule keep)
  qed
  moreover have "policy_fits T k' pol" if "EvGetPolicy k' (Inr pol) \<in> set (made @ [ev])" for k' pol
    using that assms(1,3) by (auto simp: sound_run_def effect_simps)
  moreover have "provider_fits T k' prov" if "EvGetProvider k' (Inr prov) \<in> set (made @ [ev])" for k' prov
    using that assms(1,3) by (auto simp: sound_run_def effect_simps)
  moreover have "\<exists>c'. ob_credentials ob' k = Some c' \<and> finalized c' \<and> tenant_user u T c' = tenant_user u T c"
    if "hd (made @ [ev]) = EvGetCredential k (Inr c)" "finalized c" "\<not> has_kind KUpdate (made @ [ev])" for c
  proof (cases "made = []")
    case True
    with that assms(3) show ?thesis by (simp add: effect_simps)
  next
    case False
    have "k \<notin> K" using assms(5) that(3) by simp
    from sound_run_evolves [OF assms(1,4) this] that False show ?thesis by (simp add: sound_run_def)
  qed
  ultimately show ?thesis by (simp add: sound_run_def)
qed

text \<open>A user keeps its owner when the credentials evolve and the owner's run has not just removed it.\<close>

lemma owned_user_evolves:
  assumes "owned_user u T s usr" and "evolves u T K (sy_objects s) (sy_objects s')"
    and "\<And>k c. ob_credentials (sy_objects s) k = Some c \<Longrightarrow> tenant_user u T c = usr \<Longrightarrow>
      (\<And>made rest. sy_runs s k = Some (made, rest) \<Longrightarrow> \<not> removed made) \<Longrightarrow>
      k \<notin> K \<and> (\<forall>made rest. sy_runs s' k = Some (made, rest) \<longrightarrow> \<not> removed made)"
  shows "owned_user u T s' usr"
proof -
  from assms(1) obtain k c where c: "ob_credentials (sy_objects s) k = Some c" "finalized c" "tenant_user u T c = usr"
    and run: "\<And>made rest. sy_runs s k = Some (made, rest) \<Longrightarrow> \<not> removed made"
    unfolding owned_user_def by blast
  from assms(3) [OF c(1,3) run] have k: "k \<notin> K"
    and run': "\<forall>made rest. sy_runs s' k = Some (made, rest) \<longrightarrow> \<not> removed made" by simp_all
  from evolves_finalized [OF assms(2) k c(1,2)] c(3) run' show ?thesis unfolding owned_user_def by blast
qed

text \<open>How a call of a run changes the credentials: it can only take the finalizer off its own.\<close>

lemma call_evolves:
  assumes "effect T ep ev ob ob'" and "sound_objects u T ob" and "sound_run u T ob k made"
    and "r \<in> operators u" and "reconciles r k res (made @ ev # rest)"
  shows "evolves u T {} ob ob' \<or> kind ev = KUpdate \<and> removed made \<and> evolves u T {k} ob ob'"
proof (cases "kind ev = KUpdate")
  case False
  from effect_evolves [OF assms(1,2) this] show ?thesis ..
next
  case True
  then obtain x y where ev: "ev = EvUpdateCredential x y" by (cases ev) auto
  note up = effect_update_evolves [OF assms(1) [unfolded ev] assms(2)]
  have "may_release (rec_env r) k made x"
    by (rule at_update [OF reconciles_run [OF assms(5)] arg_cong [OF ev]])
  then obtain c where "made \<noteq> []" "hd made = EvGetCredential k (Inr c)" and
    x: "x = with_finalizer (rec_env r) c \<or> (\<exists>k' latest. EvGetCredential k' (Inr latest) \<in> set made \<and>
      x = without_finalizer (rec_env r) latest \<and>
      (force_cleanup c \<or> k' = object_key (cred_meta c) \<and> (\<exists>t n. EvRemoveUser t n None \<in> set made)))"
    unfolding may_release_def by blast
  then have c: "known u T ob k c" using assms(3) unfolding sound_run_def by (metis hd_in_set)
  from x show ?thesis
  proof
    assume x: "x = with_finalizer (rec_env r) c"
    from up [OF known_finalizer(1) [OF c, of "rec_env r", folded x], of "{}"] operator_finalizer(2) [OF assms(4)]
    show ?thesis by (simp add: x)
  next
    assume "\<exists>k' latest. EvGetCredential k' (Inr latest) \<in> set made \<and>
      x = without_finalizer (rec_env r) latest \<and>
      (force_cleanup c \<or> k' = object_key (cred_meta c) \<and> (\<exists>t n. EvRemoveUser t n None \<in> set made))"
    then obtain latest where "EvGetCredential k (Inr latest) \<in> set made"
      and x: "x = without_finalizer (rec_env r) latest" and "removed made"
      using c unfolding known_def removed_def by blast
    then have "known u T ob k latest" using assms(3) unfolding sound_run_def by blast
    from up [OF known_finalizer(2) [OF this, of "rec_env r", folded x], of "{k}"] True \<open>removed made\<close>
    show ?thesis by simp
  qed
qed


lemma sound_call:
  assumes "sound rs u T s" and "calls T k ev s s'" and "rs \<subseteq> operators u"
  shows "sound rs u T s'"
  using assms(2)
proof cases
  case (calls made rest ob)
  let ?ob = "sy_objects s"
  note sd = soundD [OF assms(1)]
  note made = sd(3) [OF calls(2)]
  from sd(2) [OF calls(2)] obtain r res where rs: "r \<in> rs"
    and L: "reconciles r k res (made @ ev # rest)" unfolding run_of_def by blast
  from rs assms(3) have r: "r \<in> operators u" by blast
  from call_evolves [OF calls(3) sd(1) made r L] obtain K where K: "evolves u T K ?ob ob"
    "K \<subseteq> {k}" "kind ev \<noteq> KUpdate \<Longrightarrow> k \<notin> K" "K \<noteq> {} \<Longrightarrow> removed made" by blast
  have s': "sy_objects s' = ob" "sy_runs s' = (sy_runs s)(k \<mapsto> (made @ [ev], rest))"
    by (simp_all add: calls(1))
  show ?thesis
  proof (rule soundI)
    show "sound_objects u T (sy_objects s')" unfolding s' by (rule evolves_sound [OF K(1)])
    show "run_of rs k1 (made1 @ rest1) \<and> sound_run u T (sy_objects s') k1 made1"
      if "sy_runs s' k1 = Some (made1, rest1)" for k1 made1 rest1
    proof (cases "k1 = k")
      case True
      with that have "made1 = made @ [ev]" "rest1 = rest" by (simp_all add: s')
      with run_ofI [OF rs L] sound_run_call [OF made sd(1) calls(3) K(1,3)] True show ?thesis
        by (simp add: s')
    next
      case False
      with that have run: "sy_runs s k1 = Some (made1, rest1)" by (simp add: s')
      have "k1 \<notin> K" using False K(2) by blast
      from sd(2) [OF run] sound_run_evolves [OF sd(3) [OF run] K(1) this] show ?thesis by (simp add: s')
    qed
    show "owned_user u T s' usr" if usr: "usr \<in> ob_users (sy_objects s')" for usr
      using effect_users [OF calls(3) usr [unfolded s']]
    proof
      assume old: "usr \<in> ob_users ?ob"
      show ?thesis
      proof (rule owned_user_evolves [OF sd(4) [OF old]])
        show "evolves u T K ?ob (sy_objects s')" using K(1) by (simp add: s')
        fix k1 c assume c: "ob_credentials ?ob k1 = Some c" "tenant_user u T c = usr"
          and run: "\<And>made rest. sy_runs s k1 = Some (made, rest) \<Longrightarrow> \<not> removed made"
        have "\<not> removed (made @ [ev])" if k1: "k1 = k"
        proof
          assume "removed (made @ [ev])"
          with run calls(2) k1 obtain t n where ev: "ev = EvRemoveUser t n None" by (auto simp: removed_def)
          have "knows_user (rec_env r) k made t n"
            by (rule at_remove [OF reconciles_run [OF L] arg_cong [OF ev]])
          from knows_tenant_user [OF this r made] c k1 have "usr = (connection made, t, n)" by auto
          with effect_removed [OF calls(3) [unfolded ev]] usr show False by (simp add: s')
        qed
        moreover have "k1 \<notin> K" using K(2,4) run calls(2) by blast
        ultimately show "k1 \<notin> K \<and> (\<forall>made rest. sy_runs s' k1 = Some (made, rest) \<longrightarrow> \<not> removed made)"
          using run by (auto simp: s')
      qed
    next
      assume "\<exists>t n pw roles x. ev = EvDefineUser t n pw roles x \<and> usr = (connection made, t, n)"
      then obtain t n pw roles x where ev: "ev = EvDefineUser t n pw roles x" and usr: "usr = (connection made, t, n)"
        by blast
      have user: "knows_user (rec_env r) k made t n"
        by (rule at_define [OF reconciles_run [OF L [unfolded ev]]])
      from knows_tenant_user [OF this r made] obtain c where c: "ob_credentials ?ob k = Some c" "finalized c"
        "tenant_user u T c = usr" using usr by blast
      have "k \<notin> K" using K(3) by (simp add: ev)
      from evolves_finalized [OF K(1) this c(1,2)] c(3) knows_not_removed [OF user] show ?thesis
        unfolding owned_user_def by (auto simp: s' ev removed_def)
    qed
  qed
qed

text \<open>The other steps only change runs, or objects in a way that evolves.\<close>

lemma sound_runs:
  assumes "sound rs u T s" and "runs' = (sy_runs s)(k := run)"
    and "run = None \<or> (\<exists>L. run = Some ([], L) \<and> run_of rs k L)"
  shows "sound rs u T (s\<lparr>sy_runs := runs'\<rparr>)"
proof (rule soundI)
  note sd = soundD [OF assms(1)]
  show "sound_objects u T (sy_objects (s\<lparr>sy_runs := runs'\<rparr>))" using sd(1) by simp
  have same: "evolves u T {} (sy_objects s) (sy_objects s)" by (rule evolves_same [OF sd(1)]) simp_all
  show "run_of rs k1 (made @ rest) \<and> sound_run u T (sy_objects (s\<lparr>sy_runs := runs'\<rparr>)) k1 made"
    if "sy_runs (s\<lparr>sy_runs := runs'\<rparr>) k1 = Some (made, rest)" for k1 made rest
  proof (cases "k1 = k")
    case True
    with that assms(2,3) show ?thesis by (auto simp: sound_run_def)
  next
    case False
    with that assms(2) have "sy_runs s k1 = Some (made, rest)" by simp
    with sd(2,3) show ?thesis by simp
  qed
  show "owned_user u T (s\<lparr>sy_runs := runs'\<rparr>) usr" if "usr \<in> ob_users (sy_objects (s\<lparr>sy_runs := runs'\<rparr>))" for usr
  proof (rule owned_user_evolves [of u T s usr "{}"])
    show "owned_user u T s usr" using that sd(4) by simp
  qed (use same assms(2,3) in \<open>auto simp: removed_def\<close>)
qed

lemma sound_edit:
  assumes "sound rs u T s" and "edit (undisturbed u T) (sy_objects s) ob"
  shows "sound rs u T (s\<lparr>sy_objects := ob\<rparr>)"
proof (rule soundI)
  note sd = soundD [OF assms(1)]
  note ev = edit_evolves [OF assms(2) sd(1)]
  show "sound_objects u T (sy_objects (s\<lparr>sy_objects := ob\<rparr>))" using evolves_sound [OF ev] by simp
  show "run_of rs k (made @ rest) \<and> sound_run u T (sy_objects (s\<lparr>sy_objects := ob\<rparr>)) k made"
    if "sy_runs (s\<lparr>sy_objects := ob\<rparr>) k = Some (made, rest)" for k made rest
    using that sd(2,3) sound_run_evolves [OF _ ev] by simp
  show "owned_user u T (s\<lparr>sy_objects := ob\<rparr>) usr" if "usr \<in> ob_users (sy_objects (s\<lparr>sy_objects := ob\<rparr>))" for usr
  proof (rule owned_user_evolves [of u T s usr "{}"])
    show "owned_user u T s usr" using that sd(4) edit_users [OF assms(2)] by simp
  qed (use ev in simp_all)
qed

lemma reachable_sound:
  "reachable rs T (undisturbed u T) s \<Longrightarrow> rs \<subseteq> operators u \<Longrightarrow> sound rs u T s"
proof (induction rule: reachable.induct)
  case initially
  show ?case by (simp add: sound_def sound_objects_def empty_system_def)
next
  case (start s k r res L)
  have "run_of rs k L" by (rule run_ofI [OF start(3,4)])
  with start(5,6) show ?case by (intro sound_runs [OF _ refl]) simp_all
next
  case (call s k ev s')
  from sound_call [OF call(3) [OF call(4)] call(2,4)] show ?case .
next
  case (stop s k)
  from sound_runs [OF stop(2) [OF stop(3)] refl, of None k] show ?case by simp
next
  case (edited s ob)
  from sound_edit [OF edited(3) [OF edited(4)] edited(2)] show ?case .
qed


section \<open>Secrets\<close>

text \<open>A stored or read Secret is a version that was recorded, at the key it was stored at.\<close>

definition recorded :: "objects \<Rightarrow> NamespacedName \<Rightarrow> Secret \<Rightarrow> bool" where
  "recorded ob k s \<longleftrightarrow> object_key (sec_meta s) = k \<and> ob_versions ob (version_of s) = Some s \<and>
     om_resource_version (sec_meta s) \<noteq> []"

text \<open>Versions are never forgotten, and what is stored is recorded.\<close>

definition versions_kept :: "objects \<Rightarrow> objects \<Rightarrow> bool" where
  "versions_kept ob ob' \<longleftrightarrow> (\<forall>v x. ob_versions ob v = Some x \<longrightarrow> ob_versions ob' v = Some x)"

definition all_recorded :: "objects \<Rightarrow> bool" where
  "all_recorded ob \<longleftrightarrow> (\<forall>k x. ob_secrets ob k = Some x \<longrightarrow> recorded ob k x)"

lemma recorded_mono: "recorded ob k x \<Longrightarrow> versions_kept ob ob' \<Longrightarrow> recorded ob' k x"
  unfolding recorded_def versions_kept_def by blast

definition secrets_step :: "objects \<Rightarrow> objects \<Rightarrow> bool" where
  "secrets_step ob ob' \<longleftrightarrow> versions_kept ob ob' \<and> all_recorded ob'"

lemma secrets_same:
  assumes "all_recorded ob" and "ob_versions ob' = ob_versions ob"
    and "\<And>k x. ob_secrets ob' k = Some x \<Longrightarrow> ob_secrets ob k = Some x"
  shows "secrets_step ob ob'"
  using assms unfolding secrets_step_def versions_kept_def all_recorded_def recorded_def by metis

lemma secrets_unchanged:
  assumes "all_recorded ob" and "ob_versions ob' = ob_versions ob" and "ob_secrets ob' = ob_secrets ob"
  shows "secrets_step ob ob'"
  using assms by (intro secrets_same) simp_all

lemma secrets_put:
  assumes "all_recorded ob" and "fresh_version ob x"
  shows "secrets_step ob (put_secret x ob)"
proof -
  have new: "ob_versions ob (version_of x) = None" using assms(2) by (auto simp: fresh_version_def)
  then have kept: "versions_kept ob (put_secret x ob)" by (auto simp: versions_kept_def put_secret_def)
  have "recorded (put_secret x ob) k y" if "ob_secrets (put_secret x ob) k = Some y" for k y
  proof (cases "k = object_key (sec_meta x)")
    case True
    with that assms(2) show ?thesis by (simp add: put_secret_def recorded_def fresh_version_def)
  next
    case False
    with that assms(1) have "recorded ob k y" by (simp add: put_secret_def all_recorded_def)
    then show ?thesis using kept by (rule recorded_mono)
  qed
  with kept show ?thesis by (simp add: secrets_step_def all_recorded_def)
qed

lemma secrets_dropped: "all_recorded ob \<Longrightarrow> secrets_step ob (drop_secret k ob)"
  by (erule secrets_same) (simp_all add: drop_secret_def split: if_splits)

lemma effect_secrets:
  assumes "effect T ep ev ob ob'" and "all_recorded ob"
  shows "secrets_step ob ob'"
  using assms(1)
  by cases (simp_all add: secrets_put secrets_dropped secrets_unchanged assms(2) put_credential_def)

lemma edit_secrets:
  assumes "edit allowed ob ob'" and "all_recorded ob"
  shows "secrets_step ob ob'"
  using assms(1)
  by cases (simp_all add: secrets_put secrets_dropped secrets_unchanged assms(2) put_credential_def)

definition sound_secrets :: "'w reconciler set \<Rightarrow> system \<Rightarrow> bool" where
  "sound_secrets rs s \<longleftrightarrow> all_recorded (sy_objects s) \<and>
    (\<forall>k made rest. sy_runs s k = Some (made, rest) \<longrightarrow> run_of rs k (made @ rest) \<and>
      (\<forall>k' x. EvGetSecret k' (Inr x) \<in> set made \<longrightarrow> recorded (sy_objects s) k' x))"

lemma secretsD:
  assumes "sound_secrets rs s"
  shows "all_recorded (sy_objects s)"
    and "sy_runs s k = Some (made, rest) \<Longrightarrow> run_of rs k (made @ rest)"
    and "sy_runs s k = Some (made, rest) \<Longrightarrow> EvGetSecret k' (Inr x) \<in> set made \<Longrightarrow> recorded (sy_objects s) k' x"
  using assms unfolding sound_secrets_def by blast+

lemma secrets_call:
  assumes "sound_secrets rs s" and "calls T k ev s s'"
  shows "sound_secrets rs s'"
  using assms(2)
proof cases
  case (calls made rest ob)
  note sd = secretsD [OF assms(1)]
  note ob = effect_secrets [OF calls(3) sd(1), unfolded secrets_step_def]
  have "recorded ob k1 x" if "sy_runs s' k2 = Some (made2, rest2)" "EvGetSecret k1 (Inr x) \<in> set made2" for k1 k2 x made2 rest2
  proof (cases "k2 = k \<and> ev = EvGetSecret k1 (Inr x)")
    case True
    with calls(3) sd(1) have "recorded (sy_objects s) k1 x" by (simp add: effect_simps all_recorded_def)
    with ob show ?thesis by (blast intro: recorded_mono)
  next
    case False
    with that calls(1,2) have "recorded (sy_objects s) k1 x"
      by (auto simp: sd(3) split: if_splits)
    with ob show ?thesis by (blast intro: recorded_mono)
  qed
  moreover have "run_of rs k2 (made2 @ rest2)" if "sy_runs s' k2 = Some (made2, rest2)" for k2 made2 rest2
    using that calls(1) sd(2) [OF calls(2)] sd(2) [of k2 made2 rest2] by (auto split: if_splits)
  ultimately show ?thesis using ob calls(1) by (simp add: sound_secrets_def)
qed

lemma reachable_secrets: "reachable rs T allowed s \<Longrightarrow> sound_secrets rs s"
proof (induction rule: reachable.induct)
  case initially
  show ?case by (simp add: sound_secrets_def all_recorded_def empty_system_def)
next
  case (start s k r res L)
  with run_ofI [OF start(3,4)] show ?case by (simp add: sound_secrets_def)
next
  case (stop s k)
  then show ?case by (simp add: sound_secrets_def)
next
  case (edited s ob)
  note sd = secretsD [OF edited(3)] and ob = edit_secrets [OF edited(2) secretsD(1) [OF edited(3)], unfolded secrets_step_def]
  have "recorded ob k1 x" if "sy_runs s k = Some (made, rest)" "EvGetSecret k1 (Inr x) \<in> set made" for k k1 x made rest
    using sd(3) [OF that] ob by (blast intro: recorded_mono)
  with ob sd(2) show ?case by (simp add: sound_secrets_def)
next
  case (call s k ev s')
  from secrets_call [OF call(3,2)] show ?case .
qed

end
