(* ===== verification/ClusterProperties.thy ===== *)
theory ClusterProperties
  imports ClusterInvariants
begin

text \<open>
  What holds of a cluster whatever the interleaving: no user is left without a credential that will
  remove it, and the operator overwrites a Secret only while it is the credential's own.  The second
  fails for deletions, and the first when the scope of a credential is changed; runs that show it
  are built from the demonstration environment.
\<close>

section \<open>Users\<close>

text \<open>
  C1. No user is orphaned: as long as nobody forces a cleanup, takes the finalizer off by hand or
  changes which user a credential stands for, every user the operator defined is that of a credential
  that exists and carries the finalizer, however runs interleave with each other and with other
  clients, whichever calls fail or lose their reply, and wherever the process dies.
\<close>

theorem no_orphaned_users:
  assumes "reachable rs T (undisturbed u T) s" and "rs \<subseteq> operators u"
    and "usr \<in> ob_users (sy_objects s)"
  shows "\<exists>k c. ob_credentials (sy_objects s) k = Some c \<and> object_key (cred_meta c) = k \<and>
    credentialFinalizer \<in> set (om_finalizers (cred_meta c)) \<and> tenant_user u T c = usr"
proof -
  have s: "sound rs u T s" using reachable_sound [OF assms(1,2)] .
  from soundD(4) [OF s assms(3)] obtain k c where "ob_credentials (sy_objects s) k = Some c"
    "finalized c" "tenant_user u T c = usr" unfolding owned_user_def by blast
  with soundD(1) [OF s] show ?thesis
    unfolding sound_objects_def known_def finalized_def by blast
qed

section \<open>Steps of a history\<close>

text \<open>The effects of the next calls of a run, one after the other.\<close>

inductive effects :: "tenancy \<Rightarrow> event list \<Rightarrow> event list \<Rightarrow> objects \<Rightarrow> objects \<Rightarrow> bool" for T where
  no_call: "effects T made [] ob ob"
| next_call: "effect T (connection made) ev ob ob1 \<Longrightarrow> effects T (made @ [ev]) L ob1 ob2 \<Longrightarrow>
    effects T made (ev # L) ob ob2"

lemma reachable_calls:
  assumes "effects T made L ob ob'" and "reachable rs T allowed s" and "sy_objects s = ob"
    and "sy_runs s k = Some (made, L @ rest)"
  shows "reachable rs T allowed \<lparr>sy_objects = ob', sy_runs = (sy_runs s)(k \<mapsto> (made @ L, rest))\<rparr>"
  using assms
proof (induction arbitrary: s rule: effects.induct)
  case (no_call made ob)
  have s: "\<lparr>sy_objects = ob, sy_runs = (sy_runs s)(k \<mapsto> (made, rest))\<rparr> = s"
    using no_call(2,3) by (simp add: fun_upd_idem)
  show ?case unfolding append_Nil2 s by (rule no_call(1))
next
  case (next_call made ev ob ob1 L ob2)
  let ?s = "\<lparr>sy_objects = ob1, sy_runs = (sy_runs s)(k \<mapsto> (made @ [ev], L @ rest))\<rparr>"
  have "calls T k ev s ?s" using next_call.hyps(1) next_call.prems(2,3) by (intro calls.intros) simp_all
  from reachable.call [OF next_call.prems(1) this] have "reachable rs T allowed ?s" .
  from next_call.IH [OF this] show ?case
    by (simp only: system.select_convs fun_upd_upd fun_upd_same append.assoc append_Cons append_Nil)
qed

text \<open>A whole run that starts when none is under way, up to some call.\<close>

lemma reachable_run:
  assumes "reachable rs T allowed \<lparr>sy_objects = ob, sy_runs = Map.empty\<rparr>"
    and "r \<in> rs" and "reconciles r k res (L @ rest)" and "effects T [] L ob ob'"
  shows "reachable rs T allowed \<lparr>sy_objects = ob', sy_runs = [k \<mapsto> (L, rest)]\<rparr>"
proof -
  from reachable.start [OF assms(1) _ assms(2,3)]
  have "reachable rs T allowed \<lparr>sy_objects = ob, sy_runs = [k \<mapsto> ([], L @ rest)]\<rparr>" by simp
  from reachable_calls [OF assms(4) this, of k rest] show ?thesis by simp
qed

lemma reachable_ends:
  assumes "reachable rs T allowed \<lparr>sy_objects = ob, sy_runs = [k \<mapsto> run]\<rparr>"
  shows "reachable rs T allowed \<lparr>sy_objects = ob, sy_runs = Map.empty\<rparr>"
  using reachable.stop [OF assms, of k] by simp

lemma reachable_edit:
  assumes "reachable rs T allowed \<lparr>sy_objects = ob, sy_runs = runs\<rparr>" and "edit allowed ob ob'"
  shows "reachable rs T allowed \<lparr>sy_objects = ob', sy_runs = runs\<rparr>"
  using reachable.edited [OF assms(1)] assms(2) by simp

section \<open>Secrets\<close>

text \<open>
  C4. Whatever others do between two calls of a run, a call that is not a deletion changes a stored
  Secret only if that Secret is, at that moment, the target of the credential and owned by it.
\<close>

theorem writes_hit_owned_secrets:
  assumes "reachable rs T allowed s" and "calls T k ev s s'" and "kind ev \<noteq> KDelete"
    and "ob_secrets (sy_objects s) k' = Some x0" and "ob_secrets (sy_objects s') k' \<noteq> Some x0"
  shows "\<exists>c made rest. sy_runs s k = Some (made, rest) \<and> hd made = EvGetCredential k (Inr c) \<and>
    k' = target_key c \<and> IsOwnedByCredential x0 c"
  using assms(2)
proof cases
  case (calls made rest ob)
  note sd = secretsD [OF reachable_secrets [OF assms(1)]]
  from calls(3) assms(3,4,5) obtain x y new where ev: "ev = EvUpdateSecret x y"
    and k': "k' = object_key (sec_meta x)"
    and version: "om_resource_version (sec_meta x) = [] \<or> version_of x0 = version_of x"
    by cases (auto simp: calls(1) put_credential_def put_secret_def drop_secret_def stores_secret_def
        split: if_splits)
  from sd(2) [OF calls(2)] obtain r res where "r \<in> rs" and L: "reconciles r k res (made @ ev # rest)"
    unfolding run_of_def by blast
  from reconciles_run [OF L] obtain D z where made: "made = df_prefix (rec_env r) k D @ [df_define (rec_env r) D None]"
    and D: "df_facts (clock_of r) (rec_env r) D"
    and w: "ev = write_event (df_existing D) (df_written (rec_env r) D) z"
    by (rule at_write) (auto simp: ev)
  from w ev obtain e0 where e0: "df_existing D = Some e0" and x: "x = df_written (rec_env r) D"
    by (auto simp: write_event_def split: option.splits)
  from df_written_same [OF e0, of "rec_env r"] have "version_of x = version_of e0"
    by (simp add: x version_of_def same_object_def)
  moreover from D e0 have got: "df_got D = Inr e0" and owned: "IsOwnedByCredential e0 (df_credential D)"
    by (auto simp: df_facts_def found_secret_def split: sum.splits)
  then have "EvGetSecret (target_key (df_credential D)) (Inr e0) \<in> set made" by (simp add: made df_prefix_def)
  note e0_recorded = sd(3) [OF calls(2) this]
  moreover from e0_recorded \<open>version_of x = version_of e0\<close> have "om_resource_version (sec_meta x) \<noteq> []"
    by (simp add: recorded_def version_of_def)
  moreover have "recorded (sy_objects s) k' x0" using sd(1) assms(4) by (simp add: all_recorded_def)
  ultimately have "x0 = e0" "k' = target_key (df_credential D)" using version by (simp_all add: recorded_def)
  with owned calls(2) made show ?thesis by (auto simp: df_prefix_def)
qed


section \<open>A history\<close>

definition demo_tenancy :: tenancy where
  "demo_tenancy = \<lparr>tn_provider = (\<lambda>_. ''primary''), tn_namespace = (\<lambda>_. ''tenant''),
     tn_endpoint = (\<lambda>_. ''ws://db:8000'')\<rparr>"

definition demo_login :: Secret where "demo_login = login_secret [owner]"

abbreviation root_key_name :: NamespacedName where "root_key_name \<equiv> NamespacedName ''platform'' ''root''"
abbreviation login_key_name :: NamespacedName where "login_key_name \<equiv> NamespacedName ''demo'' ''login''"

definition demo_cluster :: "SurrealDBCredential \<Rightarrow> surreal_user set \<Rightarrow> objects" where
  "demo_cluster c users =
    \<lparr>ob_credentials = [demo_req \<mapsto> c],
     ob_secrets = [root_key_name \<mapsto> root_secret, login_key_name \<mapsto> demo_login],
     ob_users = users, ob_uids = {''u1''},
     ob_versions = [version_of root_secret \<mapsto> root_secret, version_of demo_login \<mapsto> demo_login]\<rparr>"

lemma demo_cluster_sel [simp]:
  "ob_credentials (demo_cluster c users) demo_req = Some c"
  "ob_secrets (demo_cluster c users) root_key_name = Some root_secret"
  "ob_secrets (demo_cluster c users) login_key_name = Some demo_login"
  "ob_users (demo_cluster c users) = users"
  by (simp_all add: demo_cluster_def)

lemma demo_put [simp]:
  "object_key (cred_meta c) = demo_req \<Longrightarrow> put_credential c (demo_cluster old users) = demo_cluster c users"
  "ob_users_update f (demo_cluster c users) = demo_cluster c (f users)"
  by (simp_all add: put_credential_def demo_cluster_def)

lemma demo_identities [simp]:
  "object_key fresh_meta = demo_req" "object_key live_meta = demo_req" "object_key (deleting_meta ann) = demo_req"
  "object_key (sec_meta root_secret) = root_key_name" "object_key (sec_meta demo_login) = login_key_name"
  "version_of root_secret = (''u2'', ''1'')" "version_of demo_login = (''u1'', ''1'')"
  "cred_meta (demo_credential meta) = meta"
  "om_resource_version (sec_meta root_secret) = ''1''" "om_resource_version (sec_meta demo_login) = ''1''"
  by (simp_all add: demo_login_def demo_objects object_key_def version_of_def)

lemma demo_created:
  assumes "allowed None (demo_credential fresh_meta)"
  shows "reachable rs T allowed \<lparr>sy_objects = demo_cluster (demo_credential fresh_meta) {}, sy_runs = Map.empty\<rparr>"
proof -
  let ?ob = "sy_objects empty_system"
  have "reachable rs T allowed \<lparr>sy_objects = ?ob, sy_runs = Map.empty\<rparr>"
    using reachable.initially [of rs T allowed] by (simp add: empty_system_def)
  moreover have "edit allowed ?ob (put_secret root_secret ?ob)"
    by (rule edit.secret_put) (simp add: fresh_version_def empty_system_def)
  moreover have "edit allowed (put_secret root_secret ?ob) (put_secret demo_login (put_secret root_secret ?ob))"
    by (rule edit.secret_put) (simp add: fresh_version_def empty_system_def put_secret_def)
  moreover have "edit allowed (put_secret demo_login (put_secret root_secret ?ob))
    (demo_cluster (demo_credential fresh_meta) {})"
    using edit.create [of "put_secret demo_login (put_secret root_secret ?ob)" "demo_credential fresh_meta" allowed] assms
    by (simp add: empty_system_def put_secret_def put_credential_def demo_cluster_def)
      (simp add: demo_objects)
  ultimately show ?thesis by (blast intro: reachable_edit)
qed

text \<open>The calls of the demonstration runs take effect in these clusters.\<close>

lemma demo_fits [simp]:
  "policy_fits demo_tenancy k (demo_policy dbs)" "provider_fits demo_tenancy k demo_provider"
  by (simp_all add: policy_fits_def provider_fits_def demo_tenancy_def demo_policy_def demo_provider_def)

lemma effects_append:
  "effects T made L ob ob1 \<Longrightarrow> effects T (made @ L) L' ob1 ob2 \<Longrightarrow> effects T made (L @ L') ob ob2"
  by (induction arbitrary: rule: effects.induct) (auto intro: effects.next_call)

lemma read_effects:
  "effect T (connection made) ev ob ob \<Longrightarrow> effects T (made @ [ev]) L ob ob' \<Longrightarrow> effects T made (ev # L) ob ob'"
  by (rule effects.next_call)

lemmas effect_reads = effect.credential_read effect.policy_read effect.provider_read effect.secret_read
  effect.nothing

lemma demo_reads_effects:
  "effects demo_tenancy [] (demo_reads meta) (demo_cluster (demo_credential meta) users)
    (demo_cluster (demo_credential meta) users)"
  unfolding demo_reads_def by (intro read_effects effects.no_call effect_reads) auto

text \<open>The first run puts the finalizer on the credential.\<close>

lemma demo_with_finalizer [simp]:
  "with_finalizer (demo_env d) (demo_credential fresh_meta) = demo_credential live_meta"
  by (simp add: with_finalizer_def demo_env_def demo_objects finalizer_added_def finalizer_present_def)

lemma demo_operators: "{demo_reconciler d |d. True} \<subseteq> operators demo_ucd"
  using demo_env_finalizers by (auto simp: operators_def demo_reconciler_def demo_env_def)

definition demos :: "unit reconciler set" where "demos = {demo_reconciler d |d. True}"

lemma demo_registered:
  assumes "allowed None (demo_credential fresh_meta)"
  shows "reachable demos demo_tenancy allowed
    \<lparr>sy_objects = demo_cluster (demo_credential live_meta) {}, sy_runs = Map.empty\<rparr>"
proof -
  let ?c = "demo_credential fresh_meta" and ?c' = "demo_credential live_meta"
  let ?L = "[EvGetCredential demo_req (Inr ?c), EvUpdateCredential ?c' (Inr ?c')]"
  have "updates_credential ?c ?c' ?c'"
    by (simp add: updates_credential_def) (simp add: demo_objects)
  then have "effect demo_tenancy [] (EvUpdateCredential ?c' (Inr ?c')) (demo_cluster ?c {}) (put_credential ?c' (demo_cluster ?c {}))"
    by (intro effect.credential_updated [where old = ?c]) simp_all
  then have "effects demo_tenancy [] ?L (demo_cluster ?c {}) (demo_cluster ?c' {})"
    by (intro read_effects effects.next_call [OF _ effects.no_call] effect_reads) simp_all
  moreover have "demo_reconciler demo_fresh \<in> demos" by (auto simp: demos_def)
  moreover have "reconciles (demo_reconciler demo_fresh) demo_req done_ok (?L @ [])"
    using demo_fresh_run by simp
  ultimately show ?thesis
    using reachable_run [OF demo_created, of allowed] reachable_ends assms by blast
qed


text \<open>The second defines the user.\<close>

definition demo_user :: surreal_user where
  "demo_user = (''ws://db:8000'', rv_surreal_target (demo_resolved live_meta), rv_username (demo_resolved live_meta))"

definition demo_define :: event where
  "demo_define = EvDefineUser (rv_surreal_target (demo_resolved live_meta))
     (rv_username (demo_resolved live_meta)) ''s3cret'' [RoleEditor] None"

lemma demo_connection [simp]:
  "connection (demo_reads meta @ L) = connection L"
  "ps_endpoint (prov_spec (rv_provider (demo_resolved meta))) = ''ws://db:8000''"
  "connection (EvGetSecret k got # L) = connection L"
  by (simp_all add: demo_reads_def demo_resolves_def resolved_from_def demo_provider_def)

definition demo_made :: "event list" where
  "demo_made = demo_reads live_meta @ [EvGetSecret login_key_name (Inr demo_login),
     connect_event (demo_resolved live_meta) None, demo_define]"

lemma demo_defined:
  assumes "allowed None (demo_credential fresh_meta)"
  shows "\<exists>rest. reachable demos demo_tenancy allowed
    \<lparr>sy_objects = demo_cluster (demo_credential live_meta) {demo_user},
     sy_runs = [demo_req \<mapsto> (demo_made, EvUpdateSecret demo_written (Inr demo_written) # rest)]\<rparr>"
proof -
  let ?c = "demo_credential live_meta"
  let ?get = "EvGetSecret login_key_name (Inr demo_login)" and ?connect = "connect_event (demo_resolved live_meta) None"
  obtain c' where "reconciles (demo_reconciler demo_live) demo_req done_ok (demo_live_log c')"
    using demo_live_run by blast
  moreover have "demo_live_log c' = demo_made @ EvUpdateSecret demo_written (Inr demo_written) #
      [EvStatusCredential c' (Inr c'), EvClose]"
    by (simp add: demo_live_log_def demo_made_def demo_define_def demo_login_def)
  moreover have "effect demo_tenancy ''ws://db:8000'' demo_define (demo_cluster ?c {})
      ((demo_cluster ?c {})\<lparr>ob_users := insert demo_user (ob_users (demo_cluster ?c {}))\<rparr>)"
    unfolding demo_define_def demo_user_def by (rule effect.user_defined)
  then have "effects demo_tenancy (demo_reads live_meta @ [?get, ?connect]) [demo_define]
      (demo_cluster ?c {}) (demo_cluster ?c {demo_user})"
    by (intro effects.next_call [OF _ effects.no_call]) simp
  then have "effects demo_tenancy (demo_reads live_meta) [?get, ?connect, demo_define]
      (demo_cluster ?c {}) (demo_cluster ?c {demo_user})"
    by (intro read_effects [of _ _ ?get] read_effects [of _ _ ?connect] effect_reads)
      (simp_all add: connect_event_def)
  then have "effects demo_tenancy [] demo_made (demo_cluster ?c {}) (demo_cluster ?c {demo_user})"
    using effects_append [OF demo_reads_effects] by (simp add: demo_made_def)
  moreover have "demo_reconciler demo_live \<in> demos" by (auto simp: demos_def)
  ultimately show ?thesis using reachable_run [OF demo_registered, of allowed] assms by metis
qed

lemma demo_undisturbed: "undisturbed u T None (demo_credential fresh_meta)"
  by (simp add: undisturbed_def force_cleanup_def demo_objects map_index_str_def annotationForceCleanup_def)

theorem no_orphaned_users_witness:
  "\<exists>s k c. reachable demos demo_tenancy (undisturbed demo_ucd demo_tenancy) s \<and> demo_user \<in> ob_users (sy_objects s) \<and>
    ob_credentials (sy_objects s) k = Some c \<and> tenant_user demo_ucd demo_tenancy c = demo_user"
proof -
  obtain runs where s: "reachable demos demo_tenancy (undisturbed demo_ucd demo_tenancy)
      \<lparr>sy_objects = demo_cluster (demo_credential live_meta) {demo_user}, sy_runs = runs\<rparr>"
    using demo_defined [of "undisturbed demo_ucd demo_tenancy"] demo_undisturbed by blast
  from no_orphaned_users [OF this, of demo_user] demo_operators s show ?thesis
    by (fastforce simp: demos_def)
qed

text \<open>
  A change of the database of a credential leaves a user behind that no credential stands for: the
  condition on changes in the theorem above is needed, because the code neither refuses such a change
  nor remembers the user it defined before.
\<close>

lemma scope_change_orphans:
  "\<exists>s. reachable demos demo_tenancy (\<lambda>_ c. \<not> force_cleanup c) s \<and> demo_user \<in> ob_users (sy_objects s) \<and>
    (\<forall>k c. ob_credentials (sy_objects s) k = Some c \<longrightarrow> tenant_user demo_ucd demo_tenancy c \<noteq> demo_user)"
proof -
  let ?allowed = "\<lambda>_ c. \<not> force_cleanup c" and ?c = "demo_credential live_meta"
  let ?c' = "?c\<lparr>cred_spec := (cred_spec ?c)\<lparr>cs_database := ''other''\<rparr>\<rparr>"
  have calm: "\<not> force_cleanup (demo_credential fresh_meta)" "\<not> force_cleanup ?c'"
    by (simp_all add: force_cleanup_def demo_objects map_index_str_def annotationForceCleanup_def)
  obtain runs where "reachable demos demo_tenancy ?allowed \<lparr>sy_objects = demo_cluster ?c {demo_user}, sy_runs = runs\<rparr>"
    using demo_defined [of ?allowed] calm by blast
  moreover have "edit ?allowed (demo_cluster ?c {demo_user}) (put_credential ?c' (demo_cluster ?c {demo_user}))"
    using calm(2) by (intro edit.change [where old = ?c]) (simp_all add: finalized_def)
  ultimately have s: "reachable demos demo_tenancy ?allowed \<lparr>sy_objects = demo_cluster ?c' {demo_user}, sy_runs = runs\<rparr>"
    using reachable_edit by fastforce
  have "tenant_user demo_ucd demo_tenancy ?c' \<noteq> demo_user"
    by (simp add: tenant_user_def demo_user_def Let_def demo_resolves_def resolved_from_def user_target_def)
      (simp add: demo_credential_def)
  with s show ?thesis
    by (intro exI [of _ "\<lparr>sy_objects = demo_cluster ?c' {demo_user}, sy_runs = runs\<rparr>"])
      (simp add: demo_cluster_def)
qed

lemma demo_written_version: "version_of demo_written = version_of demo_login"
  "object_key (sec_meta demo_written) = login_key_name" "om_uid (sec_meta demo_written) = om_uid (sec_meta demo_login)"
  by (simp_all add: demo_written_def written_secret_def version_of_def object_key_def demo_login_def demo_objects)

theorem writes_hit_owned_secrets_witness:
  "\<exists>s c made rest. reachable demos demo_tenancy (undisturbed demo_ucd demo_tenancy) s \<and>
    sy_runs s demo_req = Some (made, rest) \<and> hd made = EvGetCredential demo_req (Inr c) \<and>
    IsOwnedByCredential demo_login c"
proof -
  let ?allowed = "undisturbed demo_ucd demo_tenancy" and ?ob = "demo_cluster (demo_credential live_meta) {demo_user}"
  let ?new = "demo_written\<lparr>sec_meta := (sec_meta demo_written)\<lparr>om_resource_version := ''2''\<rparr>\<rparr>"
  obtain rest where s: "reachable demos demo_tenancy ?allowed \<lparr>sy_objects = ?ob,
      sy_runs = [demo_req \<mapsto> (demo_made, EvUpdateSecret demo_written (Inr demo_written) # rest)]\<rparr>"
    using demo_defined [of ?allowed] demo_undisturbed by blast
  have new: "version_of ?new = (''u1'', ''2'')" "object_key (sec_meta ?new) = login_key_name"
    using demo_written_version demo_identities(7) unfolding version_of_def object_key_def by simp_all
  have "effect demo_tenancy (connection demo_made) (EvUpdateSecret demo_written (Inr demo_written)) ?ob (put_secret ?new ?ob)"
    using new by (intro effect.secret_updated [where old = demo_login])
      (simp_all add: demo_written_version stores_secret_def fresh_version_def demo_cluster_def)
  then have "calls demo_tenancy demo_req (EvUpdateSecret demo_written (Inr demo_written))
      \<lparr>sy_objects = ?ob, sy_runs = [demo_req \<mapsto> (demo_made, EvUpdateSecret demo_written (Inr demo_written) # rest)]\<rparr>
      \<lparr>sy_objects = put_secret ?new ?ob,
       sy_runs = [demo_req \<mapsto> (demo_made, EvUpdateSecret demo_written (Inr demo_written) # rest)]
         (demo_req \<mapsto> (demo_made @ [EvUpdateSecret demo_written (Inr demo_written)], rest))\<rparr>"
    using calls.calls [of "\<lparr>sy_objects = ?ob, sy_runs = [demo_req \<mapsto>
        (demo_made, EvUpdateSecret demo_written (Inr demo_written) # rest)]\<rparr>" demo_req demo_made
        "EvUpdateSecret demo_written (Inr demo_written)" rest demo_tenancy] by simp
  note call = writes_hit_owned_secrets [OF s this, of login_key_name demo_login]
  have "?new \<noteq> demo_login" using arg_cong [of ?new demo_login version_of] new(1) by fastforce
  with call new(2) s show ?thesis by (fastforce simp: put_secret_def)
qed

text \<open>Marking the credential as deleted is a change others may make.\<close>

lemma demo_marked:
  "undisturbed u T (Some (demo_credential live_meta)) (demo_credential (deleting_meta None))"
  "deletion_is_zero live_meta" "om_uid (deleting_meta None) = om_uid live_meta"
  "finalized (demo_credential (deleting_meta None))"
  by (simp_all add: undisturbed_def finalized_def tenant_user_def policy_key_def deletion_is_zero_def
      time_is_zero_def force_cleanup_def map_index_str_def annotationForceCleanup_def demo_objects)

text \<open>The deletion has looked at the target Secret, which is then replaced by one of nobody's.\<close>

definition demo_foreign :: Secret where
  "demo_foreign = (login_secret [])\<lparr>sec_meta := (sec_meta (login_secret []))\<lparr>om_uid := ''u9''\<rparr>\<rparr>"

lemma demo_foreign_simps [simp]:
  "object_key (sec_meta demo_foreign) = login_key_name" "version_of demo_foreign = (''u9'', ''1'')"
  "\<not> IsOwnedByCredential demo_foreign c" "om_resource_version (sec_meta demo_foreign) = ''1''"
  by (simp_all add: demo_foreign_def login_secret_def demo_meta_def zero_meta_def object_key_def version_of_def
      IsOwnedByCredential_def)

definition demo_looked :: "event list" where
  "demo_looked = demo_reads (deleting_meta None) @
    [connect_event (demo_resolved (deleting_meta None)) None,
     EvRemoveUser (rv_surreal_target (demo_resolved (deleting_meta None)))
       (rv_username (demo_resolved (deleting_meta None))) None,
     EvGetSecret login_key_name (Inr demo_login)]"

lemma demo_looked_effects:
  "effects demo_tenancy [] demo_looked (demo_cluster (demo_credential (deleting_meta None)) {})
    (demo_cluster (demo_credential (deleting_meta None)) {})"
proof -
  let ?ob = "demo_cluster (demo_credential (deleting_meta None)) {}" and ?R = "demo_resolved (deleting_meta None)"
  let ?made = "demo_reads (deleting_meta None) @ [connect_event ?R None]"
  have "effect demo_tenancy (connection ?made) (EvRemoveUser (rv_surreal_target ?R) (rv_username ?R) None) ?ob
      (?ob\<lparr>ob_users := ob_users ?ob - {(connection ?made, rv_surreal_target ?R, rv_username ?R)}\<rparr>)"
    by (rule effect.user_removed)
  then have "effects demo_tenancy (demo_reads (deleting_meta None))
      [connect_event ?R None, EvRemoveUser (rv_surreal_target ?R) (rv_username ?R) None,
       EvGetSecret login_key_name (Inr demo_login)] ?ob ?ob"
    by (intro read_effects effects.no_call effect.secret_read) (simp_all add: effect.nothing connect_event_def)
  from effects_append [of demo_tenancy "[]", simplified, OF demo_reads_effects this] show ?thesis
    unfolding demo_looked_def .
qed

lemma demo_replaced:
  "\<exists>rest. reachable demos demo_tenancy (undisturbed demo_ucd demo_tenancy)
    \<lparr>sy_objects = put_secret demo_foreign (demo_cluster (demo_credential (deleting_meta None)) {}),
     sy_runs = [demo_req \<mapsto> (demo_looked, EvDeleteSecret demo_login None # rest)]\<rparr>"
proof -
  let ?allowed = "undisturbed demo_ucd demo_tenancy" and ?old = "demo_credential live_meta"
  let ?c = "demo_credential (deleting_meta None)"
  obtain rest where log: "demo_deleting_log = demo_looked @ EvDeleteSecret demo_login None # rest"
    by (simp add: demo_deleting_log_def demo_release_def demo_login_def demo_looked_def)
  have "edit ?allowed (demo_cluster ?old {}) (put_credential ?c (demo_cluster ?old {}))"
    using demo_marked by (intro edit.change [where old = ?old]) simp_all
  with demo_registered [of ?allowed] demo_undisturbed reachable_edit
  have deleting: "reachable demos demo_tenancy ?allowed \<lparr>sy_objects = demo_cluster ?c {}, sy_runs = Map.empty\<rparr>"
    by fastforce
  have "demo_reconciler demo_deleting \<in> demos" by (auto simp: demos_def)
  from reachable_run [OF deleting this demo_deleting_run [unfolded log] demo_looked_effects]
  have "reachable demos demo_tenancy ?allowed \<lparr>sy_objects = demo_cluster ?c {},
      sy_runs = [demo_req \<mapsto> (demo_looked, EvDeleteSecret demo_login None # rest)]\<rparr>" .
  moreover have "edit ?allowed (demo_cluster ?c {}) (put_secret demo_foreign (demo_cluster ?c {}))"
    by (rule edit.secret_put) (simp add: fresh_version_def, simp add: demo_cluster_def)
  ultimately show ?thesis using reachable_edit by blast
qed

text \<open>
  C5. A deletion is not protected in this way: the code looks at the Secret and then deletes whatever
  has its name.  When the Secret is replaced in between, a Secret that no credential owns is deleted.
\<close>

theorem deletion_can_hit_foreign_secret:
  "\<exists>s s' x x0. reachable demos demo_tenancy (undisturbed demo_ucd demo_tenancy) s \<and>
    calls demo_tenancy demo_req (EvDeleteSecret x None) s s' \<and>
    ob_secrets (sy_objects s) (object_key (sec_meta x)) = Some x0 \<and> (\<forall>c. \<not> IsOwnedByCredential x0 c) \<and>
    ob_secrets (sy_objects s') (object_key (sec_meta x)) = None"
proof -
  let ?ob = "put_secret demo_foreign (demo_cluster (demo_credential (deleting_meta None)) {})"
  obtain rest where s: "reachable demos demo_tenancy (undisturbed demo_ucd demo_tenancy) \<lparr>sy_objects = ?ob,
      sy_runs = [demo_req \<mapsto> (demo_looked, EvDeleteSecret demo_login None # rest)]\<rparr>" (is "reachable _ _ _ ?s")
    using demo_replaced by blast
  have "calls demo_tenancy demo_req (EvDeleteSecret demo_login None) ?s
      \<lparr>sy_objects = drop_secret (object_key (sec_meta demo_login)) ?ob,
       sy_runs = (sy_runs ?s)(demo_req \<mapsto> (demo_looked @ [EvDeleteSecret demo_login None], rest))\<rparr>"
    by (rule calls.calls) (simp, simp only: system.select_convs, rule effect.secret_deleted)
  moreover have "ob_secrets ?ob login_key_name = Some demo_foreign" by (simp add: put_secret_def)
  ultimately show ?thesis using s by (fastforce simp: drop_secret_def)
qed

end
