(* ===== verification/ControllerProperties.thy ===== *)
theory ControllerProperties
  imports Demo
begin

text \<open>
  The properties of the provider and policy reconcilers and of the watch on Secrets, over every
  environment, with their runs in the demo environment.
\<close>

section \<open>Runs of the two reconcilers\<close>

definition policy_reconciles ::
  "'w env \<Rightarrow> NamespacedName \<Rightarrow> reconcile_result \<Rightarrow> event list \<Rightarrow> bool" where
  "policy_reconciles e req res L \<longleftrightarrow>
    (\<exists>w s'. run_state (ReconcilePolicy e req) \<lparr>world = w, events = []\<rparr> = (res, s') \<and> events s' = L)"

lemma policy_reconciles_run: "policy_reconciles e req res L \<Longrightarrow> policy_run e req res L"
  unfolding policy_reconciles_def using ReconcilePolicy_run [of e req]
  by (metis always_run st.select_convs(2))

definition provider_reconciles ::
  "'w env \<Rightarrow> NamespacedName \<Rightarrow> reconcile_result \<Rightarrow> event list \<Rightarrow> bool" where
  "provider_reconciles e req res L \<longleftrightarrow>
    (\<exists>w s'. run_state (ReconcileProvider e req) \<lparr>world = w, events = []\<rparr> = (res, s') \<and> events s' = L)"

lemma provider_reconciles_run: "provider_reconciles e req res L \<Longrightarrow> provider_run e req res L"
  unfolding provider_reconciles_def using ReconcileProvider_run [of e req]
  by (metis always_run st.select_convs(2))

lemma referenced_root: "hd (referencedSecrets p) = root_key p"
  by (simp add: referencedSecrets_eq root_key_def)

lemma root_secret_complete_iff:
  "root_secret_complete (ps_root_credential_ref (prov_spec p)) s \<longleftrightarrow>
    root_username p s \<noteq> [] \<and> root_password p s \<noteq> []"
  by (simp add: root_secret_complete_def root_username_def root_password_def)

lemma valid_scheme:
  assumes "ValidateEndpointScheme u pap ep = None"
  shows "\<exists>url. ParseEndpointURL u pap ep = Inr url \<and> url_scheme url \<in> {''ws'', ''wss''}"
  using assms
  by (auto simp: ValidateEndpointScheme_def simp del: insert_iff split: sum.splits
      dest: ParseEndpointURL_scheme)

text \<open>A run that wrote a status, whatever it says.\<close>

lemma provider_status_run:
  assumes "provider_reconciles e req res L" and "EvStatusProvider p' x \<in> set L"
  obtains p new ok where "L = EvGetProvider req (Inr p) # new @ [EvStatusProvider p' x]"
    and "list_all (reads_secret (referencedSecrets p)) new" and "ok \<Longrightarrow> provider_valid e p new"
    and "provider_reported e p ok p'"
proof -
  have "L \<noteq> [EvGetProvider req (Inl err)]" for err using assms(2) by auto
  with provider_reconciles_run [OF assms(1)] obtain p new ok q r where
    L: "L = EvGetProvider req (Inr p) # new @ [EvStatusProvider q r]"
    and *: "list_all (reads_secret (referencedSecrets p)) new" "ok \<longrightarrow> provider_valid e p new"
      "provider_reported e p ok q"
    unfolding provider_run_def by blast
  have "EvStatusProvider p' x \<notin> set new"
    using only_in [OF reads_only [OF *(1)]] by fastforce
  with assms(2) L have "q = p'" "r = x" by auto
  with L * show thesis by (intro that [of p new ok]) simp_all
qed

lemma provider_reported_status:
  assumes "provider_reported e p ok p'" and "condition_store (set_status_condition e)"
  shows "status_of (pst_conditions (prov_status p')) TypeReady =
    Some (if ok then ConditionTrue else ConditionFalse)"
  using assms(1) condition_store.status_new [OF assms(2)] by (auto simp: provider_reported_def)

section \<open>Runs in the demo environment\<close>

lemma wp_demo_status [demo_eval]:
  fixes s :: "unit st"
  shows
  "wp (api_status_provider (demo_env d) p) Q1 s =
     Q1 (Inr p) (s\<lparr>events := events s @ [EvStatusProvider p (Inr p)]\<rparr>)"
  "wp (api_status_policy (demo_env d) q) Q2 s =
     Q2 (Inr q) (s\<lparr>events := events s @ [EvStatusPolicy q (Inr q)]\<rparr>)"
  "wp (Ready (demo_env d) cs g reason msg) Q3 s =
     Q3 (merge_condition 1000 cs (new_condition g TypeReady ConditionTrue reason msg)) s"
  "wp (NotReady (demo_env d) cs g reason msg) Q3 s =
     Q3 (merge_condition 1000 cs (new_condition g TypeReady ConditionFalse reason msg)) s"
  by (simp_all add: demo_env_def wp api_status_provider_def api_status_policy_def Ready_def NotReady_def Set_def)

lemma demo_scheme: "ValidateEndpointScheme demo_ucd Inr ''ws://db:8000'' = None"
  by (simp add: ValidateEndpointScheme_def demo_endpoint)

lemma demo_validate [demo_eval]:
  assumes "prov_spec p = prov_spec demo_provider"
  shows "wp (validateProvider (demo_env (demo_of meta login)) p) Q s =
    Q None (s\<lparr>events := events s @ [EvGetSecret (NamespacedName ''platform'' ''root'') (Inr root_secret)]\<rparr>)"
proof -
  have "parse_authority_path (demo_env d) = Inr" for d by (simp add: demo_env_def)
  with assms show ?thesis
    by (simp add: validateProvider_def Let_def demo_eval demo_scheme demo_provider_def demo_secrets_def
        root_secret_def map_index_str_def LoadTLSConfig_None wp)
qed

definition provider_req :: NamespacedName where "provider_req = NamespacedName [] ''primary''"

definition demo_provider_log :: "SurrealDBProvider \<Rightarrow> event list" where
  "demo_provider_log p' = [EvGetProvider provider_req (Inr demo_provider),
     EvGetSecret (NamespacedName ''platform'' ''root'') (Inr root_secret), EvStatusProvider p' (Inr p')]"

lemma demo_provider_run:
  "\<exists>p'. provider_reconciles (demo_env demo_live) provider_req done_ok (demo_provider_log p') \<and>
    status_of (pst_conditions (prov_status p')) TypeReady = Some ConditionTrue"
proof -
  have "wp (ReconcileProvider (demo_env demo_live) provider_req)
    (\<lambda>res s. res = done_ok \<and> (\<exists>p'. events s = demo_provider_log p' \<and>
      status_of (pst_conditions (prov_status p')) TypeReady = Some ConditionTrue)) start"
    by (simp add: ReconcileProvider_def Let_def demo_eval demo_live_def wp demo_provider_log_def
        set_provider_conditions_def merge_store.status_new)
  then show ?thesis
    by (auto simp: provider_reconciles_def wp_def split: prod.splits)
qed

definition policy_req :: NamespacedName where "policy_req = NamespacedName ''demo'' ''rules''"

lemma demo_policy_run:
  "\<exists>p'. policy_reconciles (demo_env demo_live) policy_req done_ok
    [EvGetPolicy policy_req (Inr (demo_policy [''app''])),
     EvGetProvider (policy_provider_key (demo_policy [''app''])) (Inr demo_provider),
     EvStatusPolicy p' (Inr p')]"
proof -
  have "wp (ReconcilePolicy (demo_env demo_live) policy_req)
    (\<lambda>res s. res = done_ok \<and> (\<exists>p'. events s =
      [EvGetPolicy policy_req (Inr (demo_policy [''app''])),
       EvGetProvider (policy_provider_key (demo_policy [''app''])) (Inr demo_provider),
       EvStatusPolicy p' (Inr p')])) start"
    by (simp add: ReconcilePolicy_def Let_def demo_eval demo_live_def wp policy_provider_key_def)
  then show ?thesis
    by (auto simp: policy_reconciles_def wp_def split: prod.splits)
qed

lemma demo_watch_run:
  "run_state (providersForSecret (demo_env demo_live) (sec_meta root_secret)) start =
    ([provider_req], \<lparr>world = (), events = [EvListProviders (Inr [demo_provider])]\<rparr>)"
  by (simp add: providersForSecret_def api_list_providers_def call_def demo_env_def demo_live_def
      demo_of_def demo_provider_def referencedSecrets_def root_secret_def demo_meta_def object_key_def
      zero_meta_def provider_req_def Let_def)

section \<open>The properties\<close>

text \<open>
  C24. A provider is reported ready only for the generation that was read, when its endpoint is a
  web socket URL, its root Secret was read and holds a user name and a password, and every TLS
  Secret it references was read; the run reports and changes nothing else.
\<close>

theorem provider_ready_only_if_valid:
  assumes "provider_reconciles e req res L" and "EvStatusProvider p' x \<in> set L"
    and "status_of (pst_conditions (prov_status p')) TypeReady = Some ConditionTrue"
    and "condition_store (set_status_condition e)"
  shows "\<exists>p root url. hd L = EvGetProvider req (Inr p) \<and>
    ParseEndpointURL (env_ucd e) (parse_authority_path e) (ps_endpoint (prov_spec p)) = Inr url \<and>
    url_scheme url \<in> {''ws'', ''wss''} \<and>
    EvGetSecret (root_key p) (Inr root) \<in> set L \<and> root_username p root \<noteq> [] \<and> root_password p root \<noteq> [] \<and>
    (\<forall>k \<in> set (tls_secret_keys (ps_tls (prov_spec p))). \<exists>s. EvGetSecret k (Inr s) \<in> set L) \<and>
    prov_spec p' = prov_spec p \<and>
    pst_observed_generation (prov_status p') = om_generation (prov_meta p) \<and>
    only {KRead, KStatus} L"
proof -
  obtain p new ok where L: "L = EvGetProvider req (Inr p) # new @ [EvStatusProvider p' x]"
    and reads: "list_all (reads_secret (referencedSecrets p)) new"
    and valid: "ok \<Longrightarrow> provider_valid e p new" and rep: "provider_reported e p ok p'"
    using provider_status_run [OF assms(1,2)] by metis
  have ok using provider_reported_status [OF rep assms(4)] assms(3) by (cases ok) simp_all
  note valid = valid [OF this]
  from valid obtain url where
    url: "ParseEndpointURL (env_ucd e) (parse_authority_path e) (ps_endpoint (prov_spec p)) = Inr url"
      "url_scheme url \<in> {''ws'', ''wss''}"
    unfolding provider_valid_def by (blast dest: valid_scheme)
  from valid obtain root where root: "EvGetSecret (root_key p) (Inr root) \<in> set new"
    "root_username p root \<noteq> []" "root_password p root \<noteq> []"
    unfolding provider_valid_def referenced_root root_secret_complete_iff by blast
  have tls: "\<forall>k \<in> set (tls_secret_keys (ps_tls (prov_spec p))). \<exists>s. EvGetSecret k (Inr s) \<in> set L"
    using valid loaded_secrets_all [of "referencedSecrets p" new]
    by (auto simp: provider_valid_def L referencedSecrets_eq)
  have "only {KRead, KStatus} L"
    using reads_only [OF reads] by (auto simp: L intro: only_mono)
  moreover have "hd L = EvGetProvider req (Inr p)" and "EvGetSecret (root_key p) (Inr root) \<in> set L"
    using root(1) by (simp_all add: L)
  moreover have "prov_spec p' = prov_spec p"
    and "pst_observed_generation (prov_status p') = om_generation (prov_meta p)"
    using rep by (simp_all add: provider_reported_def)
  ultimately show ?thesis using url root(2,3) tls by blast
qed

theorem provider_ready_only_if_valid_witness:
  "\<exists>L p root. provider_reconciles (demo_env demo_live) provider_req done_ok L \<and>
    EvGetSecret (root_key p) (Inr root) \<in> set L \<and> root_password p root \<noteq> []"
proof -
  obtain p' where run: "provider_reconciles (demo_env demo_live) provider_req done_ok (demo_provider_log p')"
    and ready: "status_of (pst_conditions (prov_status p')) TypeReady = Some ConditionTrue"
    using demo_provider_run by blast
  have "EvStatusProvider p' (Inr p') \<in> set (demo_provider_log p')" by (simp add: demo_provider_log_def)
  from provider_ready_only_if_valid [OF run this ready demo_env_conditions] run show ?thesis by blast
qed

text \<open>
  C25. The watch covers what a reconciliation depends on: every Secret a run reads, found or not,
  leads the watch back to the provider of that run; and only to providers that reference it.
\<close>

theorem provider_watch_covers_reads:
  assumes "provider_reconciles e req res L" and "hd L = EvGetProvider req (Inr p)"
    and "EvGetSecret (object_key obj) got \<in> set L"
    and "run_state (providersForSecret e obj) s = (reqs, s')"
    and "events s' = events s @ [EvListProviders (Inr ps)]" and "p \<in> set ps"
  shows "NamespacedName [] (om_name (prov_meta p)) \<in> set reqs \<and>
    (\<forall>q \<in> set reqs. \<exists>p' \<in> set ps. q = NamespacedName [] (om_name (prov_meta p')) \<and>
      object_key obj \<in> set (referencedSecrets p'))"
proof -
  have "wp (providersForSecret e obj)
      (\<lambda>reqs s'. events s' = events s @ [EvListProviders (Inr ps)] \<longrightarrow>
        reqs = provider_requests ps (object_key obj)) s"
    by (auto simp: providersForSecret_def api_list_providers_def wp call_def wp_def
        split: prod.splits sum.splits)
  with assms(4,5) have reqs: "reqs = provider_requests ps (object_key obj)"
    by (simp add: wp_def)
  from provider_reconciles_run [OF assms(1)] assms(2,3) obtain new where
    "list_all (reads_secret (referencedSecrets p)) new" "EvGetSecret (object_key obj) got \<in> set new"
    unfolding provider_run_def by auto
  then have "object_key obj \<in> set (referencedSecrets p)"
    using reads_secret_only by fastforce
  with assms(6) show ?thesis by (auto simp: reqs provider_requests_filter)
qed

theorem provider_watch_covers_reads_witness:
  "\<exists>L. provider_reconciles (demo_env demo_live) provider_req done_ok L \<and>
    NamespacedName [] (om_name (prov_meta demo_provider)) \<in> set [provider_req]"
proof -
  obtain p' where run: "provider_reconciles (demo_env demo_live) provider_req done_ok (demo_provider_log p')"
    using demo_provider_run by blast
  have "hd (demo_provider_log p') = EvGetProvider provider_req (Inr demo_provider)"
    "EvGetSecret (object_key (sec_meta root_secret)) (Inr root_secret) \<in> set (demo_provider_log p')"
    by (simp_all add: demo_provider_log_def object_key_def root_secret_def demo_meta_def zero_meta_def)
  from provider_watch_covers_reads [OF run this demo_watch_run, of "[demo_provider]"] run
  show ?thesis by auto
qed

lemma policy_reported_status:
  assumes "policy_reported e p ok p'" and "condition_store (set_status_condition e)"
  shows "status_of (tpst_conditions (pol_status p')) TypeReady =
    Some (if ok then ConditionTrue else ConditionFalse)"
  using assms(1) condition_store.status_new [OF assms(2)] by (auto simp: policy_reported_def)

text \<open>
  C26. A policy's status is written exactly once a run has looked its provider up: ready if it
  exists, not ready if it does not, for the generation and with the reference that was read; any
  other failure is returned and nothing is written.
\<close>

theorem policy_ready_iff_provider_exists:
  assumes "policy_reconciles e req res L" and "hd L = EvGetPolicy req (Inr p)"
    and "condition_store (set_status_condition e)"
  shows "\<exists>got. L ! 1 = EvGetProvider (policy_provider_key p) got \<and>
    (case got of
       Inl err \<Rightarrow>
         if is_not_found err then (\<exists>p' x. tl (tl L) = [EvStatusPolicy p' x] \<and> res = (no_requeue, error_of x) \<and>
           status_of (tpst_conditions (pol_status p')) TypeReady = Some ConditionFalse \<and>
           tpst_observed_generation (pol_status p') = om_generation (pol_meta p))
         else tl (tl L) = [] \<and> res = (no_requeue, Some err)
     | Inr _ \<Rightarrow> \<exists>p' x. tl (tl L) = [EvStatusPolicy p' x] \<and> res = (no_requeue, error_of x) \<and>
         status_of (tpst_conditions (pol_status p')) TypeReady = Some ConditionTrue \<and>
         tpst_observed_generation (pol_status p') = om_generation (pol_meta p) \<and>
         tpst_provider_ref (pol_status p') = Some (tps_provider_ref (pol_spec p)))"
proof -
  from policy_reconciles_run [OF assms(1)] assms(2)
  consider (failed) err where "L = [EvGetPolicy req (Inr p), EvGetProvider (policy_provider_key p) (Inl err)]"
      "\<not> is_not_found err" "res = (no_requeue, Some err)"
    | (written) got ok p' x where "L = [EvGetPolicy req (Inr p), EvGetProvider (policy_provider_key p) got,
         EvStatusPolicy p' x]" "res = (no_requeue, error_of x)"
      "case got of Inl err \<Rightarrow> is_not_found err \<and> \<not> ok | Inr _ \<Rightarrow> ok" "policy_reported e p ok p'"
    unfolding policy_run_def by auto
  then show ?thesis
  proof cases
    case (failed err)
    then show ?thesis by (intro exI [of _ "Inl err"]) simp
  next
    case (written got ok p' x)
    then show ?thesis
      using policy_reported_status [OF written(4) assms(3)]
      by (intro exI [of _ got]) (auto simp: policy_reported_def split: sum.split)
  qed
qed

theorem policy_ready_iff_provider_exists_witness:
  "\<exists>L got. policy_reconciles (demo_env demo_live) policy_req done_ok L \<and>
    L ! 1 = EvGetProvider (policy_provider_key (demo_policy [''app''])) got"
proof -
  obtain p' where run: "policy_reconciles (demo_env demo_live) policy_req done_ok
    [EvGetPolicy policy_req (Inr (demo_policy [''app''])),
     EvGetProvider (policy_provider_key (demo_policy [''app''])) (Inr demo_provider),
     EvStatusPolicy p' (Inr p')]"
    using demo_policy_run by blast
  from policy_ready_iff_provider_exists [OF run list.sel(1) demo_env_conditions] run show ?thesis by blast
qed

end
