(* ===== verification/ClientProperties.thy ===== *)
theory ClientProperties
  imports Demo
begin

text \<open>
  The properties of the administration client and of the loading of TLS material, over every driver
  and API server.
\<close>

section \<open>Examples to apply them to\<close>

lemma printable_ident_ok_plain: "ident_ok ''tenant''" "ident_ok ''app''" "ident_ok ''k8s_app''"
  by (simp_all add: printable_ident_ok)

text \<open>A driver that answers a query with the query itself.\<close>

definition echo_driver :: "unit driver" where
  "echo_driver = demo_driver\<lparr>drv_query := (\<lambda>_ q. State_Monad.return (Inl (errorf q)))\<rparr>"

lemma echo_define:
  assumes "pw \<noteq> []"
  shows "\<exists>err. run_state (DefineUser sample_ucd echo_driver 0 sample_user ''k8s_app'' pw [RoleEditor]) ()
    = (Some err, ())"
  using sample_queries(1) [of pw] assms
  by (auto simp: DefineUser_def execQuery_def echo_driver_def redactPasswordError_def Let_def
      State_Monad.bind_def State_Monad.return_def)

definition demo_tls :: ProviderTLSConfig where
  "demo_tls = \<lparr>tls_ca_secret_ref = Some \<lparr>ca_namespace = ''platform'', ca_name = ''root'', ca_key = ''password''\<rparr>,
     tls_client_certificate_ref = None, tls_insecure_skip_verify = False\<rparr>"

lemma demo_tls_run:
  "\<exists>tls s'. run_state (LoadTLSConfig (demo_env demo_live) (Some demo_tls)) start = (Inr (Some tls), s')"
  by (simp add: LoadTLSConfig_def load_ca_def demo_tls_def demo_live_def demo_of_def demo_env_def
      demo_secrets_def root_secret_def api_get_secret_def call_def quiet_def Let_def nonempty_entry_def
      map_index_def default_key_def State_Monad.bind_def State_Monad.return_def)

lemma demo_connects:
  "\<exists>admin. run_state (NewAdminClientWithTLS (demo_env demo_live) ''ws://db:8000'' ''admin'' ''hunter2'' None) ()
    = (Inr admin, ())"
  by (simp add: NewAdminClientWithTLS_def openDB_def demo_env_def demo_driver_def demo_endpoint
      State_Monad.bind_def State_Monad.return_def)

section \<open>The properties\<close>

text \<open>
  C36. The error of a definition that reached SurrealDB never shows the password: for a generated
  password, no text the driver can return gets it into the error of the client.
\<close>

theorem define_error_hides_password:
  assumes "run_state (DefineUser u d db t n pw roles) w = (Some err, w')"
    and "DefineUserQuery u t n pw roles = Inr q" and "list_all password_char pw" and "8 < length pw"
  shows "\<not> occurs pw (err_text err)"
proof -
  from DefineUser_query_error [of u d db t n pw roles w] assms(1,2) obtain e0
    where r: "redactPasswordError u (Some e0) pw = Some err" by (auto simp: wp_def)
  have "\<not> occurs pw ''redacted''"
    using assms(4) by (auto dest!: occurs_length)
  moreover have "pw \<noteq> []" using assms(4) by auto
  ultimately show ?thesis
    using redactPasswordError_hides [OF r] password_chars_no_bracket [OF assms(3)] by blast
qed

theorem define_error_hides_password_witness:
  "\<exists>err. run_state (DefineUser sample_ucd echo_driver 0 sample_user ''k8s_app'' ''aaaaaaaaaaaa'' [RoleEditor]) ()
      = (Some err, ()) \<and> \<not> occurs ''aaaaaaaaaaaa'' (err_text err)"
proof -
  obtain err where run: "run_state (DefineUser sample_ucd echo_driver 0 sample_user ''k8s_app'' ''aaaaaaaaaaaa''
      [RoleEditor]) () = (Some err, ())"
    using echo_define [of "''aaaaaaaaaaaa''"] by blast
  obtain q where q: "DefineUserQuery sample_ucd sample_user ''k8s_app'' ''aaaaaaaaaaaa'' [RoleEditor] = Inr q"
    using sample_queries(1) by blast
  have "list_all password_char ''aaaaaaaaaaaa''" by (simp add: password_char_def passwordAlphabet_def)
  from define_error_hides_password [OF run q this] run show ?thesis by simp
qed

text \<open>
  C37. A client exists only for a web socket endpoint without TLS material, after a sign-in that
  succeeded: a provider that references TLS Secrets is never connected to.
\<close>

theorem client_needs_plain_websocket:
  assumes "run_state (NewAdminClientWithTLS e endpoint username password tls) w = (Inr admin, w')"
  shows "tls = None \<and>
    (\<exists>url db w1 w2. ParseEndpointURL (env_ucd e) (parse_authority_path e) endpoint = Inr url \<and>
      url_scheme url \<in> {''ws'', ''wss''} \<and>
      run_state (drv_from_endpoint (surreal_driver e) (url_text url)) w = (Inr db, w1) \<and>
      run_state (drv_sign_in (surreal_driver e) db username password) w1 = (None, w2) \<and>
      admin = admin_client (env_ucd e) (surreal_driver e) db)"
proof -
  from assms obtain db w1 where opened: "run_state (openDB e endpoint tls) w = (Inr db, w1)"
    and signed: "run_state (drv_sign_in (surreal_driver e) db username password) w1 = (None, w')"
    and admin: "admin = admin_client (env_ucd e) (surreal_driver e) db"
    by (auto simp: NewAdminClientWithTLS_def State_Monad.bind_def State_Monad.return_def
        split: prod.splits sum.splits option.splits)
  from openDB_needs_websocket [of e endpoint tls w] opened obtain url where "tls = None"
    and url: "ParseEndpointURL (env_ucd e) (parse_authority_path e) endpoint = Inr url"
    and "url_scheme url \<in> {''ws'', ''wss''}" by (auto simp: wp_def simp del: insert_iff)
  moreover from opened url \<open>tls = None\<close>
  have "run_state (drv_from_endpoint (surreal_driver e) (url_text url)) w = (Inr db, w1)"
    by (simp add: openDB_def)
  ultimately show ?thesis using signed admin by blast
qed

theorem client_needs_plain_websocket_witness:
  "\<exists>admin. run_state (NewAdminClientWithTLS (demo_env demo_live) ''ws://db:8000'' ''admin'' ''hunter2'' None) ()
      = (Inr admin, ()) \<and> (\<exists>db. admin = admin_client demo_ucd demo_driver db)"
proof -
  obtain admin where run: "run_state (NewAdminClientWithTLS (demo_env demo_live) ''ws://db:8000'' ''admin''
      ''hunter2'' None) () = (Inr admin, ())"
    using demo_connects by blast
  have "env_ucd (demo_env demo_live) = demo_ucd" "surreal_driver (demo_env demo_live) = demo_driver"
    by (simp_all add: demo_env_def)
  with client_needs_plain_websocket [OF run] run show ?thesis by metis
qed

text \<open>
  TLS material that loads is the material the provider references: every referenced Secret was
  read with success, in order and nothing else was done, and the configuration verifies the server
  unless told otherwise, with a root pool and a client certificate exactly when they are referenced.
\<close>

lemma tls_material_as_referenced:
  assumes "run_state (LoadTLSConfig e cfg) s = (Inr tls, s')"
  shows "(\<exists>new. events s' = events s @ new \<and> loaded_secrets (tls_secret_keys cfg) new) \<and>
    (case cfg of
       None \<Rightarrow> tls = None
     | Some c \<Rightarrow> \<exists>t. tls = Some t \<and> tc_insecure_skip_verify t = tls_insecure_skip_verify c \<and>
         (tc_root_cas t = None \<longleftrightarrow> tls_ca_secret_ref c = None) \<and>
         length (tc_certificates t) = (if tls_client_certificate_ref c = None then 0 else 1))"
proof -
  from always_run [OF LoadTLSConfig_reads assms] obtain new
    where "events s' = events s @ new" and "tls_outcome cfg (Inr tls) new" by auto
  then show ?thesis
    by (auto simp: tls_outcome_def tls_matches_def split: option.splits)
qed

lemma tls_material_as_referenced_witness:
  "\<exists>tls. tc_root_cas tls \<noteq> None \<and> \<not> tc_insecure_skip_verify tls \<and>
    (\<exists>s'. run_state (LoadTLSConfig (demo_env demo_live) (Some demo_tls)) start = (Inr (Some tls), s'))"
proof -
  obtain tls s' where run: "run_state (LoadTLSConfig (demo_env demo_live) (Some demo_tls)) start = (Inr (Some tls), s')"
    using demo_tls_run by blast
  from tls_material_as_referenced [OF run] run show ?thesis by (auto simp: demo_tls_def)
qed

end
