(* ===== verification/Flags.thy ===== *)
theory Flags
  imports Prelude
begin

text \<open>
  The command line of \<^verbatim>\<open>cmd/main.go\<close>: its flags with their defaults, and \<^verbatim>\<open>flag.Parse\<close> of the
  standard library over them.  The flags that libraries register (those of zap, and \<^verbatim>\<open>kubeconfig\<close>)
  are a parameter: which names they have, whether one is boolean, and how a value is set.
\<close>

section \<open>The flags\<close>

record flags =
  metricsAddr :: string
  probeAddr :: string
  enableLeaderElection :: bool
  secureMetrics :: bool
  webhookCertPath :: string
  webhookCertName :: string
  webhookCertKey :: string
  metricsCertPath :: string
  metricsCertName :: string
  metricsCertKey :: string
  enableHTTP2 :: bool

definition default_flags :: flags where
  "default_flags =
    \<lparr>metricsAddr = ''0'', probeAddr = '':8081'', enableLeaderElection = False, secureMetrics = True,
     webhookCertPath = [], webhookCertName = ''tls.crt'', webhookCertKey = ''tls.key'',
     metricsCertPath = [], metricsCertName = ''tls.crt'', metricsCertKey = ''tls.key'',
     enableHTTP2 = False\<rparr>"

datatype flag_var =
  StringVar "string \<Rightarrow> flags \<Rightarrow> flags"
| BoolVar "bool \<Rightarrow> flags \<Rightarrow> flags"

definition flag_vars :: "(string \<times> flag_var) list" where
  "flag_vars =
    [(''metrics-bind-address'', StringVar (\<lambda>v f. f\<lparr>metricsAddr := v\<rparr>)),
     (''health-probe-bind-address'', StringVar (\<lambda>v f. f\<lparr>probeAddr := v\<rparr>)),
     (''leader-elect'', BoolVar (\<lambda>b f. f\<lparr>enableLeaderElection := b\<rparr>)),
     (''metrics-secure'', BoolVar (\<lambda>b f. f\<lparr>secureMetrics := b\<rparr>)),
     (''webhook-cert-path'', StringVar (\<lambda>v f. f\<lparr>webhookCertPath := v\<rparr>)),
     (''webhook-cert-name'', StringVar (\<lambda>v f. f\<lparr>webhookCertName := v\<rparr>)),
     (''webhook-cert-key'', StringVar (\<lambda>v f. f\<lparr>webhookCertKey := v\<rparr>)),
     (''metrics-cert-path'', StringVar (\<lambda>v f. f\<lparr>metricsCertPath := v\<rparr>)),
     (''metrics-cert-name'', StringVar (\<lambda>v f. f\<lparr>metricsCertName := v\<rparr>)),
     (''metrics-cert-key'', StringVar (\<lambda>v f. f\<lparr>metricsCertKey := v\<rparr>)),
     (''enable-http2'', BoolVar (\<lambda>b f. f\<lparr>enableHTTP2 := b\<rparr>))]"

record 'z foreign_flags =
  ff_is_bool :: "string \<Rightarrow> bool option"
  ff_set :: "string \<Rightarrow> string \<Rightarrow> 'z \<Rightarrow> 'z result"

section \<open>Parsing\<close>

text \<open>\<^verbatim>\<open>strconv.ParseBool\<close>\<close>

definition parse_bool :: "string \<Rightarrow> bool option" where
  "parse_bool s =
    (if s \<in> {''1'', ''t'', ''T'', ''true'', ''TRUE'', ''True''} then Some True
     else if s \<in> {''0'', ''f'', ''F'', ''false'', ''FALSE'', ''False''} then Some False
     else None)"

text \<open>One word of the command line, as \<^verbatim>\<open>parseOne\<close> takes it apart.\<close>

datatype flag_word = NotAFlag | Terminator | BadSyntax | FlagWord string "string option"

definition split_value :: "string \<Rightarrow> string \<times> string option" where
  "split_value name =
    (case dropWhile (\<lambda>c. c \<noteq> CHR ''='') name of
       [] \<Rightarrow> (name, None)
     | _ # v \<Rightarrow> (takeWhile (\<lambda>c. c \<noteq> CHR ''='') name, Some v))"

definition flag_word :: "string \<Rightarrow> flag_word" where
  "flag_word s =
    (if length s < 2 \<or> hd s \<noteq> CHR ''-'' then NotAFlag
     else if s = ''--'' then Terminator
     else let name = drop (if s ! 1 = CHR ''-'' then 2 else 1) s
       in if name = [] \<or> hd name = CHR ''-'' \<or> hd name = CHR ''='' then BadSyntax
          else case split_value name of (n, v) \<Rightarrow> FlagWord n v)"

text \<open>How parsing ends other than by running out of flags, as exit codes of \<^verbatim>\<open>flag.ExitOnError\<close>.\<close>

definition exit_help :: nat where "exit_help = 0"
definition exit_usage :: nat where "exit_usage = 2"

type_synonym 'z flag_state = "flags \<times> 'z"

text \<open>Whether a name is a flag, and then a boolean one; setting a flag, which fails for a value it refuses.\<close>

definition is_bool_flag :: "'z foreign_flags \<Rightarrow> string \<Rightarrow> bool option" where
  "is_bool_flag ff n =
    (case map_of flag_vars n of
       Some (BoolVar _) \<Rightarrow> Some True
     | Some (StringVar _) \<Rightarrow> Some False
     | None \<Rightarrow> ff_is_bool ff n)"

definition set_flag :: "'z foreign_flags \<Rightarrow> string \<Rightarrow> string \<Rightarrow> 'z flag_state \<Rightarrow> 'z flag_state option" where
  "set_flag ff n v st =
    (case map_of flag_vars n of
       Some (StringVar upd) \<Rightarrow> Some (upd v (fst st), snd st)
     | Some (BoolVar upd) \<Rightarrow>
         (case parse_bool v of None \<Rightarrow> None | Some b \<Rightarrow> Some (upd b (fst st), snd st))
     | None \<Rightarrow> (case ff_set ff n v (snd st) of Inl _ \<Rightarrow> None | Inr z \<Rightarrow> Some (fst st, z)))"

text \<open>\<^verbatim>\<open>flag.Parse\<close>: an exit code, or the values that are set and the arguments that are left.\<close>

fun parse_flags ::
  "'z foreign_flags \<Rightarrow> string list \<Rightarrow> 'z flag_state \<Rightarrow> nat + ('z flag_state \<times> string list)" where
  "parse_flags ff [] st = Inr (st, [])"
| "parse_flags ff (s # args) st =
    (case flag_word s of
       NotAFlag \<Rightarrow> Inr (st, s # args)
     | Terminator \<Rightarrow> Inr (st, args)
     | BadSyntax \<Rightarrow> Inl exit_usage
     | FlagWord n v \<Rightarrow>
         (case is_bool_flag ff n of
            None \<Rightarrow> Inl (if n = ''help'' \<or> n = ''h'' then exit_help else exit_usage)
          | Some True \<Rightarrow>
              (case set_flag ff n (case v of None \<Rightarrow> ''true'' | Some v \<Rightarrow> v) st of
                 None \<Rightarrow> Inl exit_usage
               | Some st \<Rightarrow> parse_flags ff args st)
          | Some False \<Rightarrow>
              (case v of
                 Some v \<Rightarrow>
                   (case set_flag ff n v st of
                      None \<Rightarrow> Inl exit_usage
                    | Some st \<Rightarrow> parse_flags ff args st)
               | None \<Rightarrow>
                   (case args of
                      [] \<Rightarrow> Inl exit_usage
                    | v # args' \<Rightarrow>
                        (case set_flag ff n v st of
                           None \<Rightarrow> Inl exit_usage
                         | Some st \<Rightarrow> parse_flags ff args' st)))))"

section \<open>Reading back\<close>

text \<open>A flag written as \<^verbatim>\<open>--name=value\<close>.\<close>

definition flag_arg :: "string \<Rightarrow> string \<Rightarrow> string" where
  "flag_arg n v = ''--'' @ n @ ''='' @ v"

definition flag_name :: "string \<Rightarrow> bool" where
  "flag_name n \<longleftrightarrow> n \<noteq> [] \<and> hd n \<noteq> CHR ''-'' \<and> CHR ''='' \<notin> set n"

lemma split_value_eq:
  assumes "CHR ''='' \<notin> set n"
  shows "split_value (n @ CHR ''='' # v) = (n, Some v)"
proof -
  have "\<forall>c \<in> set n. c \<noteq> CHR ''=''" using assms by metis
  then have "takeWhile (\<lambda>c. c \<noteq> CHR ''='') (n @ CHR ''='' # v) = n"
    and "dropWhile (\<lambda>c. c \<noteq> CHR ''='') (n @ CHR ''='' # v) = CHR ''='' # v" by simp_all
  then show ?thesis by (simp add: split_value_def)
qed

lemma flag_word_arg:
  assumes "flag_name n"
  shows "flag_word (flag_arg n v) = FlagWord n (Some v)"
proof -
  have ne: "n \<noteq> []" "hd n \<noteq> CHR ''-''" "CHR ''='' \<notin> set n" using assms by (simp_all add: flag_name_def)
  have "hd n \<noteq> CHR ''=''" using ne(1,3) by (cases n) auto
  then show ?thesis
    using ne split_value_eq [OF ne(3), of v] by (simp add: flag_word_def flag_arg_def Let_def hd_append)
qed

definition bool_text :: "bool \<Rightarrow> string" where
  "bool_text b = (if b then ''true'' else ''false'')"

lemma parse_bool_text [simp]: "parse_bool (bool_text b) = Some b"
  by (simp add: parse_bool_def bool_text_def)

lemma parse_string_flag:
  assumes "map_of flag_vars n = Some (StringVar upd)" and "flag_name n"
  shows "parse_flags ff (flag_arg n v # args) (f, z) = parse_flags ff args (upd v f, z)"
  using assms by (simp add: flag_word_arg is_bool_flag_def set_flag_def)

lemma parse_bool_flag:
  assumes "map_of flag_vars n = Some (BoolVar upd)" and "flag_name n"
  shows "parse_flags ff (flag_arg n (bool_text b) # args) (f, z) = parse_flags ff args (upd b f, z)"
  using assms by (simp add: flag_word_arg is_bool_flag_def set_flag_def)

text \<open>The whole record of flags as a command line.\<close>

definition flag_args :: "flags \<Rightarrow> string list" where
  "flag_args f =
    [flag_arg ''metrics-bind-address'' (metricsAddr f),
     flag_arg ''health-probe-bind-address'' (probeAddr f),
     flag_arg ''leader-elect'' (bool_text (enableLeaderElection f)),
     flag_arg ''metrics-secure'' (bool_text (secureMetrics f)),
     flag_arg ''webhook-cert-path'' (webhookCertPath f),
     flag_arg ''webhook-cert-name'' (webhookCertName f),
     flag_arg ''webhook-cert-key'' (webhookCertKey f),
     flag_arg ''metrics-cert-path'' (metricsCertPath f),
     flag_arg ''metrics-cert-name'' (metricsCertName f),
     flag_arg ''metrics-cert-key'' (metricsCertKey f),
     flag_arg ''enable-http2'' (bool_text (enableHTTP2 f))]"

lemma flag_vars_lookup:
  "map_of flag_vars ''metrics-bind-address'' = Some (StringVar (\<lambda>v f. f\<lparr>metricsAddr := v\<rparr>))"
  "map_of flag_vars ''health-probe-bind-address'' = Some (StringVar (\<lambda>v f. f\<lparr>probeAddr := v\<rparr>))"
  "map_of flag_vars ''leader-elect'' = Some (BoolVar (\<lambda>b f. f\<lparr>enableLeaderElection := b\<rparr>))"
  "map_of flag_vars ''metrics-secure'' = Some (BoolVar (\<lambda>b f. f\<lparr>secureMetrics := b\<rparr>))"
  "map_of flag_vars ''webhook-cert-path'' = Some (StringVar (\<lambda>v f. f\<lparr>webhookCertPath := v\<rparr>))"
  "map_of flag_vars ''webhook-cert-name'' = Some (StringVar (\<lambda>v f. f\<lparr>webhookCertName := v\<rparr>))"
  "map_of flag_vars ''webhook-cert-key'' = Some (StringVar (\<lambda>v f. f\<lparr>webhookCertKey := v\<rparr>))"
  "map_of flag_vars ''metrics-cert-path'' = Some (StringVar (\<lambda>v f. f\<lparr>metricsCertPath := v\<rparr>))"
  "map_of flag_vars ''metrics-cert-name'' = Some (StringVar (\<lambda>v f. f\<lparr>metricsCertName := v\<rparr>))"
  "map_of flag_vars ''metrics-cert-key'' = Some (StringVar (\<lambda>v f. f\<lparr>metricsCertKey := v\<rparr>))"
  "map_of flag_vars ''enable-http2'' = Some (BoolVar (\<lambda>b f. f\<lparr>enableHTTP2 := b\<rparr>))"
  by (simp_all add: flag_vars_def)

lemmas parse_own_flags =
  flag_vars_lookup(1) [THEN parse_string_flag] flag_vars_lookup(2) [THEN parse_string_flag]
  flag_vars_lookup(3) [THEN parse_bool_flag] flag_vars_lookup(4) [THEN parse_bool_flag]
  flag_vars_lookup(5) [THEN parse_string_flag] flag_vars_lookup(6) [THEN parse_string_flag]
  flag_vars_lookup(7) [THEN parse_string_flag] flag_vars_lookup(8) [THEN parse_string_flag]
  flag_vars_lookup(9) [THEN parse_string_flag] flag_vars_lookup(10) [THEN parse_string_flag]
  flag_vars_lookup(11) [THEN parse_bool_flag]

text \<open>
  Flags read back: the command line that gives every flag its value is parsed to these values,
  whatever characters they hold and whatever was set before, and parsing goes on with the rest.
\<close>

lemma flags_read_back:
  "parse_flags ff (flag_args f @ args) (f0, z) = parse_flags ff args (f, z)"
  by (cases f; cases f0) (simp add: flag_args_def parse_own_flags flag_name_def del: parse_flags.simps)

section \<open>Flags that are not given\<close>

text \<open>A flag keeps its default unless an argument names it.\<close>

lemma split_value_prefix: "split_value name = (n, v) \<Longrightarrow> \<exists>b. name = n @ b"
proof -
  assume n: "split_value name = (n, v)"
  let ?t = "takeWhile (\<lambda>c. c \<noteq> CHR ''='') name" and ?d = "dropWhile (\<lambda>c. c \<noteq> CHR ''='') name"
  have "n = name \<or> n = ?t" using n by (simp add: split_value_def split: list.splits)
  then show ?thesis
  proof
    assume "n = ?t"
    then have "name = n @ ?d" by simp
    then show ?thesis ..
  qed simp
qed

lemma flag_word_occurs:
  assumes "flag_word s = FlagWord n v"
  shows "occurs n s"
proof -
  define name where "name = drop (if s ! 1 = CHR ''-'' then 2 else 1) s"
  have "split_value name = (n, v)"
    using assms by (simp add: flag_word_def name_def Let_def split: if_splits prod.splits)
  from split_value_prefix [OF this] obtain b where "name = n @ b" ..
  then have "s = take (if s ! 1 = CHR ''-'' then 2 else 1) s @ n @ b"
    using append_take_drop_id [of "if s ! 1 = CHR ''-'' then 2 else 1" s] by (simp only: name_def)
  then show ?thesis by (rule occursI)
qed

text \<open>Whatever property of the flags every setting of a named flag keeps, parsing keeps.\<close>

lemma parse_step:
  assumes "flag_word s = FlagWord n v" and "parse_flags ff (s # args) st = Inr out"
  obtains w st1 args' where "set_flag ff n w st = Some st1" and "parse_flags ff args' st1 = Inr out"
    and "set args' \<subseteq> set args" and "length args' \<le> length args"
  using assms(2)
  by (simp add: assms(1) split: option.splits bool.splits list.splits)
    (blast intro: that le_SucI le_refl)+

lemma parse_flags_keeps:
  assumes "parse_flags ff args st = Inr (st', rest)" and "P (fst st)"
    and "\<And>n v st st' s. s \<in> set args \<Longrightarrow> occurs n s \<Longrightarrow> P (fst st) \<Longrightarrow> set_flag ff n v st = Some st' \<Longrightarrow> P (fst st')"
  shows "P (fst st')"
  using assms
proof (induction "length args" arbitrary: args st rule: less_induct)
  case less
  show ?case
  proof (cases args)
    case Nil
    with less.prems show ?thesis by simp
  next
    case (Cons s args1)
    show ?thesis
    proof (cases "flag_word s")
      case (FlagWord n v)
      from less.prems(1) obtain w st1 args' where set: "set_flag ff n w st = Some st1"
        and parse: "parse_flags ff args' st1 = Inr (st', rest)" and sub: "set args' \<subseteq> set args1"
        and len: "length args' \<le> length args1"
        unfolding Cons by (rule parse_step [OF FlagWord])
      have "P (fst st1)"
        by (rule less.prems(3) [OF _ flag_word_occurs [OF FlagWord] less.prems(2) set]) (simp add: Cons)
      moreover have "length args' < length args" using len Cons by simp
      moreover have "set args' \<subseteq> set args" using sub Cons by auto
      ultimately show ?thesis using less.hyps [OF _ parse] less.prems(3) by blast
    qed (use less.prems Cons in auto)
  qed
qed

text \<open>The flags that switch protection off: HTTP/2, and the plain metrics endpoint.\<close>

lemma set_flag_cases:
  assumes "set_flag ff n v st = Some st'"
  shows "n = ''enable-http2'' \<or> enableHTTP2 (fst st') = enableHTTP2 (fst st)"
    and "n = ''metrics-secure'' \<or> secureMetrics (fst st') = secureMetrics (fst st)"
  using assms by (auto simp: set_flag_def flag_vars_def split: if_splits option.splits sum.splits)

lemma flags_stay:
  assumes "parse_flags ff args (f, z) = Inr ((f', z'), rest)"
  shows "\<forall>s \<in> set args. \<not> occurs ''enable-http2'' s \<Longrightarrow> enableHTTP2 f' = enableHTTP2 f"
    and "\<forall>s \<in> set args. \<not> occurs ''metrics-secure'' s \<Longrightarrow> secureMetrics f' = secureMetrics f"
proof -
  assume no: "\<forall>s \<in> set args. \<not> occurs ''enable-http2'' s"
  have "enableHTTP2 (fst (f', z')) = enableHTTP2 f"
  proof (rule parse_flags_keeps [OF assms])
    fix n v s and st st' :: "flags \<times> 'a"
    assume "s \<in> set args" "occurs n s" "enableHTTP2 (fst st) = enableHTTP2 f" "set_flag ff n v st = Some st'"
    with no set_flag_cases(1) [of ff n v st st'] show "enableHTTP2 (fst st') = enableHTTP2 f" by metis
  qed simp
  then show "enableHTTP2 f' = enableHTTP2 f" by simp
next
  assume no: "\<forall>s \<in> set args. \<not> occurs ''metrics-secure'' s"
  have "secureMetrics (fst (f', z')) = secureMetrics f"
  proof (rule parse_flags_keeps [OF assms])
    fix n v s and st st' :: "flags \<times> 'a"
    assume "s \<in> set args" "occurs n s" "secureMetrics (fst st) = secureMetrics f" "set_flag ff n v st = Some st'"
    with no set_flag_cases(2) [of ff n v st st'] show "secureMetrics (fst st') = secureMetrics f" by metis
  qed simp
  then show "secureMetrics f' = secureMetrics f" by simp
qed

end
