(* ===== verification/Manager.thy ===== *)
theory Manager
  imports CredentialController ProviderController PolicyController Flags
begin

text \<open>
  \<^verbatim>\<open>cmd/main.go\<close> and the \<^verbatim>\<open>SetupWithManager\<close> methods: from the command line to the options of the
  manager, the registration of the three controllers, and the start.  controller-runtime is a
  parameter; every call to it is logged with its outcome.
\<close>

section \<open>The scheme\<close>

text \<open>The \<^verbatim>\<open>init\<close> functions of the types register objects with \<^verbatim>\<open>SchemeBuilder\<close>, in file order.\<close>

definition credential_objects :: "string list" where
  "credential_objects = [''SurrealDBCredential'', ''SurrealDBCredentialList'']"

definition provider_objects :: "string list" where
  "provider_objects = [''SurrealDBProvider'', ''SurrealDBProviderList'']"

definition policy_objects :: "string list" where
  "policy_objects = [''SurrealDBTenantPolicy'', ''SurrealDBTenantPolicyList'']"

definition AddToScheme :: "(string \<times> string) list \<Rightarrow> (string \<times> string) list" where
  "AddToScheme s = s @ map (Pair GroupVersion) (credential_objects @ provider_objects @ policy_objects)"

text \<open>\<open>client_go\<close>: the kinds of \<^verbatim>\<open>clientgoscheme\<close>.\<close>

definition scheme :: "(string \<times> string) list \<Rightarrow> (string \<times> string) list" where
  "scheme client_go = AddToScheme client_go"

section \<open>The controllers\<close>

text \<open>
  What \<^verbatim>\<open>NewControllerManagedBy\<close> is told: the kind it reconciles, the kinds it owns and watches
  (with the function from an object to requests), its name and its reconciler.
\<close>

record 'w controller =
  ctl_for :: "string \<times> string"
  ctl_owns :: "(string \<times> string) list"
  ctl_watches :: "((string \<times> string) \<times> (ObjectMeta \<Rightarrow> ('w, NamespacedName list) prog)) list"
  ctl_name :: string
  ctl_reconcile :: "NamespacedName \<Rightarrow> ('w, reconcile_result) prog"

definition core_secret :: "string \<times> string" where "core_secret = (''v1'', ''Secret'')"

definition provider_controller :: "'w env \<Rightarrow> 'w controller" where
  "provider_controller e =
    \<lparr>ctl_for = (GroupVersion, ''SurrealDBProvider''), ctl_owns = [],
     ctl_watches = [(core_secret, providersForSecret e)],
     ctl_name = ''surrealdbprovider'', ctl_reconcile = ReconcileProvider e\<rparr>"

definition policy_controller :: "'w env \<Rightarrow> 'w controller" where
  "policy_controller e =
    \<lparr>ctl_for = (GroupVersion, ''SurrealDBTenantPolicy''), ctl_owns = [], ctl_watches = [],
     ctl_name = ''surrealdbtenantpolicy'', ctl_reconcile = ReconcilePolicy e\<rparr>"

definition credential_controller :: "'w reconciler \<Rightarrow> 'w controller" where
  "credential_controller r =
    \<lparr>ctl_for = (GroupVersion, ''SurrealDBCredential''), ctl_owns = [core_secret], ctl_watches = [],
     ctl_name = ''surrealdbcredential'', ctl_reconcile = Reconcile r\<rparr>"

text \<open>\<^verbatim>\<open>main\<close> sets neither the factory nor the clock of the credential reconciler.\<close>

definition main_reconciler :: "'w env \<Rightarrow> 'w reconciler" where
  "main_reconciler e = \<lparr>rec_env = e, rec_admin_factory = None, rec_clock = None\<rparr>"

section \<open>The options of the manager\<close>

text \<open>\<^verbatim>\<open>tls.Config\<close>: its protocols for negotiation, and the rest.\<close>

record 't tls_settings =
  tset_next_protos :: "string list"
  tset_other :: 't

type_synonym 't tls_option = "'t tls_settings \<Rightarrow> 't tls_settings"

definition disableHTTP2 :: "'t tls_option" where
  "disableHTTP2 c = c\<lparr>tset_next_protos := [''http/1.1'']\<rparr>"

definition tls_opts :: "flags \<Rightarrow> 't tls_option list" where
  "tls_opts f = (if \<not> enableHTTP2 f then [disableHTTP2] else [])"

record 't webhook_options =
  who_tls_opts :: "'t tls_option list"
  who_cert_dir :: string
  who_cert_name :: string
  who_key_name :: string

definition webhook_options :: "flags \<Rightarrow> 't webhook_options" where
  "webhook_options f =
    (let options = \<lparr>who_tls_opts = tls_opts f, who_cert_dir = [], who_cert_name = [], who_key_name = []\<rparr>
     in if 0 < length (webhookCertPath f)
        then options\<lparr>who_cert_dir := webhookCertPath f, who_cert_name := webhookCertName f,
          who_key_name := webhookCertKey f\<rparr>
        else options)"

datatype filter_provider = WithAuthenticationAndAuthorization

record 't metrics_options =
  mso_bind_address :: string
  mso_secure_serving :: bool
  mso_tls_opts :: "'t tls_option list"
  mso_filter_provider :: "filter_provider option"
  mso_cert_dir :: string
  mso_cert_name :: string
  mso_key_name :: string

definition metrics_options :: "flags \<Rightarrow> 't metrics_options" where
  "metrics_options f =
    (let options = \<lparr>mso_bind_address = metricsAddr f, mso_secure_serving = secureMetrics f,
           mso_tls_opts = tls_opts f, mso_filter_provider = None,
           mso_cert_dir = [], mso_cert_name = [], mso_key_name = []\<rparr>;
         options = (if secureMetrics f
           then options\<lparr>mso_filter_provider := Some WithAuthenticationAndAuthorization\<rparr> else options)
     in if 0 < length (metricsCertPath f)
        then options\<lparr>mso_cert_dir := metricsCertPath f, mso_cert_name := metricsCertName f,
          mso_key_name := metricsCertKey f\<rparr>
        else options)"

record 't manager_options =
  mgo_scheme :: "(string \<times> string) list"
  mgo_metrics :: "'t metrics_options"
  mgo_webhook :: "'t webhook_options"
  mgo_probe_address :: string
  mgo_leader_election :: bool
  mgo_leader_election_id :: string

definition manager_options :: "(string \<times> string) list \<Rightarrow> flags \<Rightarrow> 't manager_options" where
  "manager_options client_go f =
    \<lparr>mgo_scheme = scheme client_go, mgo_metrics = metrics_options f, mgo_webhook = webhook_options f,
     mgo_probe_address = probeAddr f, mgo_leader_election = enableLeaderElection f,
     mgo_leader_election_id = ''752c7691.seamlezz.com''\<rparr>"

section \<open>The start\<close>

text \<open>controller-runtime, over the world \<open>'s\<close> of the process; \<open>'k\<close> is the client configuration.\<close>

record ('s, 'w, 'k, 't) platform =
  pf_get_config :: "('s, 'k option) state"
  pf_new_manager :: "'k \<Rightarrow> 't manager_options \<Rightarrow> ('s, go_error option) state"
  pf_complete :: "'w controller \<Rightarrow> ('s, go_error option) state"
  pf_add_healthz :: "string \<Rightarrow> ('s, go_error option) state"
  pf_add_readyz :: "string \<Rightarrow> ('s, go_error option) state"
  pf_start :: "('s, go_error option) state"

datatype ('w, 't) start_event =
  StNewManager "'t manager_options" "go_error option"
| StComplete "'w controller" "go_error option"
| StHealthz string "go_error option"
| StReadyz string "go_error option"
| StStart "go_error option"

type_synonym ('s, 'w, 't) starting = "('s \<times> ('w, 't) start_event list, nat) state"

text \<open>
  \<^verbatim>\<open>if err := call; err != nil { log; os.Exit(1) }\<close>, and then the rest; the result is the exit code
  of the process, 0 when \<^verbatim>\<open>main\<close> returns.
\<close>

definition or_exit ::
  "('s, go_error option) state \<Rightarrow> (go_error option \<Rightarrow> ('w, 't) start_event) \<Rightarrow> ('s, 'w, 't) starting
    \<Rightarrow> ('s, 'w, 't) starting" where
  "or_exit m ev rest = do {
     err \<leftarrow> State (\<lambda>(s, L). case run_state m s of (r, s') \<Rightarrow> (r, (s', L @ [ev r])));
     (if err \<noteq> None then State_Monad.return 1 else rest)
   }"

definition run_manager ::
  "('s, 'w, 'k, 't) platform \<Rightarrow> 'w env \<Rightarrow> (string \<times> string) list \<Rightarrow> flags \<Rightarrow> ('s, 'w, 't) starting" where
  "run_manager p e client_go f = do {
     config \<leftarrow> State (\<lambda>(s, L). case run_state (pf_get_config p) s of (r, s') \<Rightarrow> (r, (s', L)));
     (case config of
        None \<Rightarrow> State_Monad.return 1
      | Some config \<Rightarrow>
          (let options = manager_options client_go f;
               providers = provider_controller e;
               policies = policy_controller e;
               credentials = credential_controller (main_reconciler e)
           in or_exit (pf_new_manager p config options) (StNewManager options)
              (or_exit (pf_complete p providers) (StComplete providers)
              (or_exit (pf_complete p policies) (StComplete policies)
              (or_exit (pf_complete p credentials) (StComplete credentials)
              (or_exit (pf_add_healthz p ''healthz'') (StHealthz ''healthz'')
              (or_exit (pf_add_readyz p ''readyz'') (StReadyz ''readyz'')
              (or_exit (pf_start p) StStart
              (State_Monad.return 0)))))))))
   }"

definition main ::
  "('s, 'w, 'k, 't) platform \<Rightarrow> 'w env \<Rightarrow> (string \<times> string) list \<Rightarrow> 'z foreign_flags \<Rightarrow> 'z \<Rightarrow> string list
    \<Rightarrow> ('s, 'w, 't) starting" where
  "main p e client_go ff z args =
    (case parse_flags ff args (default_flags, z) of
       Inl code \<Rightarrow> State_Monad.return code
     | Inr ((f, _), _) \<Rightarrow> run_manager p e client_go f)"

section \<open>What a start looks like\<close>

text \<open>The calls of a complete start, each up to its outcome.\<close>

definition start_calls ::
  "'w env \<Rightarrow> (string \<times> string) list \<Rightarrow> flags \<Rightarrow> (go_error option \<Rightarrow> ('w, 't) start_event) list" where
  "start_calls e client_go f =
    [StNewManager (manager_options client_go f), StComplete (provider_controller e),
     StComplete (policy_controller e), StComplete (credential_controller (main_reconciler e)),
     StHealthz ''healthz'', StReadyz ''readyz'', StStart]"

text \<open>
  \<open>stops_at_failure calls code L\<close>: the log \<open>L\<close> holds successful calls in the given order, up to the
  first that fails, with exit code 1, or to the last, with exit code 0.
\<close>

fun stops_at_failure :: "(go_error option \<Rightarrow> 'e) list \<Rightarrow> nat \<Rightarrow> 'e list \<Rightarrow> bool" where
  "stops_at_failure [] code L \<longleftrightarrow> L = [] \<and> code = 0"
| "stops_at_failure (c # cs) code L \<longleftrightarrow>
    (\<exists>err. L = [c (Some err)] \<and> code = 1) \<or>
    (\<exists>L'. L = c None # L' \<and> stops_at_failure cs code L')"

lemma or_exit_stops:
  assumes "\<And>s L. wp rest (\<lambda>code (s', L'). \<exists>new. L' = L @ new \<and> stops_at_failure cs code new) (s, L)"
  shows "wp (or_exit m ev rest) (\<lambda>code (s', L'). \<exists>new. L' = L @ new \<and> stops_at_failure (ev # cs) code new) (s, L)"
proof -
  obtain r s1 where m: "run_state m s = (r, s1)" by force
  show ?thesis
  proof (cases r)
    case None
    have "wp rest (\<lambda>code (s', L'). \<exists>new. L' = L @ new \<and> stops_at_failure (ev # cs) code new) (s1, L @ [ev None])"
      by (rule wp_mono [OF assms]) auto
    with None m show ?thesis by (simp add: or_exit_def wp_def split: prod.splits)
  next
    case (Some err)
    with m show ?thesis by (auto simp: or_exit_def wp_def)
  qed
qed

lemma return_stops:
  "wp (State_Monad.return 0) (\<lambda>code (s', L'). \<exists>new. L' = L @ new \<and> stops_at_failure [] code new) (s, L)"
  by simp

lemma run_manager_stops:
  "wp (run_manager p e client_go f) (\<lambda>code (s', L').
     (L' = L \<and> code = 1) \<or> (\<exists>new. L' = L @ new \<and> stops_at_failure (start_calls e client_go f) code new)) (s, L)"
proof -
  obtain config s1 where c: "run_state (pf_get_config p) s = (config, s1)" by force
  show ?thesis
  proof (cases config)
    case None
    with c show ?thesis by (simp add: run_manager_def wp_def)
  next
    case (Some k)
    note stops = or_exit_stops [OF or_exit_stops [OF or_exit_stops [OF or_exit_stops
        [OF or_exit_stops [OF or_exit_stops [OF or_exit_stops [OF return_stops]]]]]]]
    have "wp (run_manager p e client_go f) (\<lambda>code (s', L').
        \<exists>new. L' = L @ new \<and> stops_at_failure (start_calls e client_go f) code new) (s, L)"
      unfolding run_manager_def Let_def start_calls_def wp_bind
      by (subst wp_def) (simp add: c Some del: stops_at_failure.simps, rule stops)
    then show ?thesis by (rule wp_mono) auto
  qed
qed

lemma main_stops:
  assumes "run_state (main p e client_go ff z args) (s, []) = (code, (s', L))"
  shows "case parse_flags ff args (default_flags, z) of
      Inl c \<Rightarrow> code = c \<and> L = [] \<and> s' = s
    | Inr ((f, _), _) \<Rightarrow> (L = [] \<and> code = 1) \<or> stops_at_failure (start_calls e client_go f) code L"
proof (cases "parse_flags ff args (default_flags, z)")
  case (Inl c)
  with assms show ?thesis by (simp add: main_def)
next
  case (Inr st)
  obtain f z' rest where st: "st = ((f, z'), rest)" by (metis surj_pair)
  have "run_state (run_manager p e client_go f) (s, []) = (code, (s', L))"
    using assms by (simp add: main_def Inr st)
  from wp_run [OF run_manager_stops this] show ?thesis by (auto simp: Inr st)
qed

text \<open>The manager is created at most once, with the options of the flags.\<close>

lemma stops_at_failure_events:
  "stops_at_failure cs code L \<Longrightarrow> ev \<in> set L \<Longrightarrow> \<exists>c \<in> set cs. \<exists>r. ev = c r"
  by (induction cs code L rule: stops_at_failure.induct) (auto, blast+)

lemma created_manager:
  assumes "run_state (main p e client_go ff z args) (s, []) = (code, (s', L))"
    and "StNewManager options err \<in> set L"
  obtains f z' rest where "parse_flags ff args (default_flags, z) = Inr ((f, z'), rest)"
    and "options = manager_options client_go f"
proof (cases "parse_flags ff args (default_flags, z)")
  case (Inl c)
  with main_stops [OF assms(1)] assms(2) show thesis by simp
next
  case (Inr st)
  obtain f z' rest where st: "st = ((f, z'), rest)" by (metis surj_pair)
  with main_stops [OF assms(1)] assms(2) Inr
  have "stops_at_failure (start_calls e client_go f) code L" by auto
  from stops_at_failure_events [OF this assms(2)] have "options = manager_options client_go f"
    by (auto simp: start_calls_def)
  with Inr st show thesis by (intro that) auto
qed

lemma every_controlled_kind_is_in_the_scheme:
  assumes "core_secret \<in> set client_go"
    and "c \<in> {provider_controller e, policy_controller e, credential_controller (main_reconciler e)}"
  shows "insert (ctl_for c) (set (ctl_owns c) \<union> fst ` set (ctl_watches c)) \<subseteq> set (scheme client_go)"
  using assms by (auto simp: provider_controller_def policy_controller_def credential_controller_def
      scheme_def AddToScheme_def provider_objects_def policy_objects_def credential_objects_def)

definition apply_tls :: "'t tls_option list \<Rightarrow> 't tls_option" where
  "apply_tls opts c = fold (\<lambda>opt. opt) opts c"

end
