(* ===== verification/ManagerProperties.thy ===== *)
theory ManagerProperties
  imports Manager Demo
begin

text \<open>
  What holds of every start of the process, with a platform on which the witnesses run it.
\<close>

section \<open>A platform\<close>

definition no_foreign :: "unit foreign_flags" where
  "no_foreign = \<lparr>ff_is_bool = (\<lambda>_. None), ff_set = (\<lambda>_ _ z. Inr z)\<rparr>"

text \<open>Everything succeeds except, when asked to, adding the health check.\<close>

definition demo_platform :: "go_error option \<Rightarrow> (unit, unit, unit, unit) platform" where
  "demo_platform health =
    \<lparr>pf_get_config = State_Monad.return (Some ()), pf_new_manager = (\<lambda>_ _. State_Monad.return None),
     pf_complete = (\<lambda>_. State_Monad.return None), pf_add_healthz = (\<lambda>_. State_Monad.return health),
     pf_add_readyz = (\<lambda>_. State_Monad.return None), pf_start = State_Monad.return None\<rparr>"

lemma demo_args:
  "parse_flags no_foreign [''--leader-elect''] (f, z) = Inr ((f\<lparr>enableLeaderElection := True\<rparr>, z), [])"
  by (simp add: flag_word_def split_value_def is_bool_flag_def set_flag_def flag_vars_lookup parse_bool_def)

lemma demo_start:
  "run_state (main (demo_platform health) e client_go no_foreign () [''--leader-elect'']) ((), []) =
    (case health of
       None \<Rightarrow> (0, ((), map (\<lambda>c. c None) (start_calls e client_go (default_flags\<lparr>enableLeaderElection := True\<rparr>))))
     | Some err \<Rightarrow> (1, ((), map (\<lambda>c. c None) (take 4 (start_calls e client_go
         (default_flags\<lparr>enableLeaderElection := True\<rparr>))) @ [StHealthz ''healthz'' (Some err)])))"
  by (simp add: main_def demo_args run_manager_def demo_platform_def or_exit_def start_calls_def Let_def
      del: parse_flags.simps split: option.split)

section \<open>The properties\<close>

text \<open>
  C38. The manager is started only when everything before succeeded: a process whose command line is
  accepted creates the manager with the options the flags ask for, registers the provider, policy
  and credential controllers with their reconcilers and watches, adds the two checks and starts, in
  this order; the first failure ends it with exit code 1 and nothing is called after it.  A command
  line that is refused, or asks for help, ends it before any call.
\<close>

theorem start_stops_at_first_failure:
  assumes "run_state (main p e client_go ff z args) (s, []) = (code, (s', L))"
  shows "case parse_flags ff args (default_flags, z) of
      Inl c \<Rightarrow> code = c \<and> L = [] \<and> s' = s
    | Inr ((f, _), _) \<Rightarrow> (L = [] \<and> code = 1) \<or> stops_at_failure (start_calls e client_go f) code L"
  by (rule main_stops [OF assms])

theorem start_stops_at_first_failure_witness:
  "\<exists>L. run_state (main (demo_platform (Some refused)) (demo_env demo_live) [core_secret] no_foreign ()
      [''--leader-elect'']) ((), []) = (1, ((), L)) \<and> length L = 5 \<and>
    stops_at_failure (start_calls (demo_env demo_live) [core_secret]
      (default_flags\<lparr>enableLeaderElection := True\<rparr>)) 1 L"
proof -
  obtain L where run: "run_state (main (demo_platform (Some refused)) (demo_env demo_live) [core_secret]
      no_foreign () [''--leader-elect'']) ((), []) = (1, ((), L))" and len: "length L = 5"
    by (simp add: demo_start start_calls_def)
  from start_stops_at_first_failure [OF run] len
  have "stops_at_failure (start_calls (demo_env demo_live) [core_secret]
      (default_flags\<lparr>enableLeaderElection := True\<rparr>)) 1 L"
    by (auto simp: demo_args simp del: parse_flags.simps)
  with run len show ?thesis by blast
qed

text \<open>
  C39. Protection is switched off only on request: unless an argument mentions the flag, both servers
  of a manager offer HTTP/1.1 alone, whatever their settings were, and the metrics are served over
  TLS to authenticated and authorised clients.
\<close>

theorem protection_is_the_default:
  assumes "run_state (main p e client_go ff z args) (s, []) = (code, (s', L))"
    and "StNewManager options err \<in> set L"
  shows "((\<forall>a \<in> set args. \<not> occurs ''enable-http2'' a) \<longrightarrow>
      (\<forall>c. tset_next_protos (apply_tls (mso_tls_opts (mgo_metrics options)) c) = [''http/1.1''] \<and>
           tset_next_protos (apply_tls (who_tls_opts (mgo_webhook options)) c) = [''http/1.1''])) \<and>
    ((\<forall>a \<in> set args. \<not> occurs ''metrics-secure'' a) \<longrightarrow>
      mso_secure_serving (mgo_metrics options) \<and>
      mso_filter_provider (mgo_metrics options) = Some WithAuthenticationAndAuthorization)"
proof -
  from created_manager [OF assms] obtain f z' rest
    where parse: "parse_flags ff args (default_flags, z) = Inr ((f, z'), rest)"
      and options: "options = manager_options client_go f" .
  have "enableHTTP2 default_flags = False" "secureMetrics default_flags = True"
    by (simp_all add: default_flags_def)
  with flags_stay [OF parse] show ?thesis
    by (simp add: options manager_options_def metrics_options_def webhook_options_def Let_def
        tls_opts_def apply_tls_def disableHTTP2_def)
qed

theorem protection_is_the_default_witness:
  "\<exists>L options. run_state (main (demo_platform None) (demo_env demo_live) [core_secret] no_foreign ()
      [''--leader-elect'']) ((), []) = (0, ((), L)) \<and> StNewManager options None \<in> set L \<and>
    mso_secure_serving (mgo_metrics options)"
proof -
  let ?f = "default_flags\<lparr>enableLeaderElection := True\<rparr>"
  obtain L where run: "run_state (main (demo_platform None) (demo_env demo_live) [core_secret]
      no_foreign () [''--leader-elect'']) ((), []) = (0, ((), L))"
    and new: "StNewManager (manager_options [core_secret] ?f) None \<in> set L"
    by (simp add: demo_start start_calls_def)
  have "\<not> occurs ''metrics-secure'' ''--leader-elect''"
    by (auto dest!: occurs_set)
  with protection_is_the_default [OF run new] run new show ?thesis by auto
qed

end
