(* ===== verification/Store.thy ===== *)
theory Store
  imports Prelude
begin

text \<open>
  Go memory as far as copies depend on it: a store of cells, one for each allocated variable or
  backing array, with pointers and slices into it.  A view says what a value denotes in a store and
  which cells it uses; the locale \<open>deep_copier\<close> is the contract of a deep copy over a view, with the
  independence of copy and original proved once, and the constructions of pointers, slices and
  structs carry the contract over.
\<close>

section \<open>Memory\<close>

text \<open>A store is the list of its cells, so allocation appends; nothing is freed.\<close>

type_synonym addr = nat
type_synonym 'c store = "'c list"

record slice =
  sl_array :: addr
  sl_offset :: nat
  sl_len :: nat

definition alloc :: "'c \<Rightarrow> ('c store, addr) state" where
  "alloc c = State (\<lambda>h. (length h, h @ [c]))"

definition load :: "('c \<Rightarrow> 'a) \<Rightarrow> addr \<Rightarrow> ('c store, 'a) state" where
  "load sel a = State (\<lambda>h. (sel (h ! a), h))"

definition assign :: "addr \<Rightarrow> 'c \<Rightarrow> ('c store, unit) state" where
  "assign a c = State (\<lambda>h. ((), h[a := c]))"

definition slice_elems :: "slice \<Rightarrow> 'a list \<Rightarrow> 'a list" where
  "slice_elems s xs = take (sl_len s) (drop (sl_offset s) xs)"

text \<open>
  The three patterns of the generated code, for a type whose values live in cells \<open>mk x\<close>, read back
  by \<open>sel\<close>: \<open>new\<close> a variable and copy the one pointed to into it; \<open>make\<close> an array and copy the
  elements into it, one after the other.  New memory is \<open>zero\<close> until it is assigned.
\<close>

definition copy_pointer ::
  "'c \<Rightarrow> ('a \<Rightarrow> 'c) \<Rightarrow> ('c \<Rightarrow> 'a) \<Rightarrow> ('a \<Rightarrow> ('c store, 'a) state) \<Rightarrow> addr option
    \<Rightarrow> ('c store, addr option) state" where
  "copy_pointer zero mk sel into p =
    (case p of
       None \<Rightarrow> State_Monad.return None
     | Some a \<Rightarrow> do {
         out \<leftarrow> alloc zero;
         x \<leftarrow> load sel a;
         y \<leftarrow> into x;
         _ \<leftarrow> assign out (mk y);
         State_Monad.return (Some out)
       })"

fun copy_each :: "('a \<Rightarrow> ('s, 'a) state) \<Rightarrow> 'a list \<Rightarrow> ('s, 'a list) state" where
  "copy_each into [] = State_Monad.return []"
| "copy_each into (x # xs) = do {
     y \<leftarrow> into x;
     ys \<leftarrow> copy_each into xs;
     State_Monad.return (y # ys)
   }"

definition copy_slice ::
  "'c \<Rightarrow> ('a list \<Rightarrow> 'c) \<Rightarrow> ('c \<Rightarrow> 'a list) \<Rightarrow> ('a \<Rightarrow> ('c store, 'a) state) \<Rightarrow> slice option
    \<Rightarrow> ('c store, slice option) state" where
  "copy_slice zero mk sel into s =
    (case s of
       None \<Rightarrow> State_Monad.return None
     | Some s \<Rightarrow> do {
         out \<leftarrow> alloc zero;
         xs \<leftarrow> load sel (sl_array s);
         ys \<leftarrow> copy_each into (slice_elems s xs);
         _ \<leftarrow> assign out (mk ys);
         State_Monad.return (Some \<lparr>sl_array = out, sl_offset = 0, sl_len = sl_len s\<rparr>)
       })"

definition copy_both :: "('a \<Rightarrow> ('s, 'a) state) \<Rightarrow> ('b \<Rightarrow> ('s, 'b) state) \<Rightarrow> 'a \<times> 'b \<Rightarrow> ('s, 'a \<times> 'b) state" where
  "copy_both f g p = do {
     a \<leftarrow> f (fst p);
     b \<leftarrow> g (snd p);
     State_Monad.return (a, b)
   }"

lemma wp_store [wp]:
  "wp (alloc c) Q h = Q (length h) (h @ [c])"
  "wp (load sel a) Q' h = Q' (sel (h ! a)) h"
  "wp (assign a c) Q'' h = Q'' () (h[a := c])"
  by (simp_all add: wp_def alloc_def load_def assign_def)

lemma wp_return_fun [wp]: "wp (State_Monad.return a) Q = Q a"
  by (rule ext) simp

section \<open>Views\<close>

text \<open>
  \<open>V h x F v\<close>: in the store \<open>h\<close> the value \<open>x\<close> denotes \<open>v\<close>, by reading the cells \<open>F\<close>.  Cells may be
  shared; a nil pointer or slice is told apart from an empty one.
\<close>

type_synonym ('c, 'a, 'v) view = "'c store \<Rightarrow> 'a \<Rightarrow> addr set \<Rightarrow> 'v \<Rightarrow> bool"

definition value_view :: "('c, 'a, 'a) view" where
  "value_view h x F v \<longleftrightarrow> F = {} \<and> v = x"

definition pointer_view :: "('a \<Rightarrow> 'c) \<Rightarrow> ('c, 'a, 'v) view \<Rightarrow> ('c, addr option, 'v option) view" where
  "pointer_view mk V h p F v \<longleftrightarrow>
    (case p of
       None \<Rightarrow> F = {} \<and> v = None
     | Some a \<Rightarrow> a < length h \<and> (\<exists>x G w. h ! a = mk x \<and> V h x G w \<and> F = insert a G \<and> v = Some w))"

fun each_view :: "('c, 'a, 'v) view \<Rightarrow> ('c, 'a list, 'v list) view" where
  "each_view V h [] F vs \<longleftrightarrow> F = {} \<and> vs = []"
| "each_view V h (x # xs) F vs \<longleftrightarrow>
    (\<exists>G H w ws. V h x G w \<and> each_view V h xs H ws \<and> F = G \<union> H \<and> vs = w # ws)"

definition slice_view :: "('a list \<Rightarrow> 'c) \<Rightarrow> ('c, 'a, 'v) view \<Rightarrow> ('c, slice option, 'v list option) view" where
  "slice_view mk V h s F v \<longleftrightarrow>
    (case s of
       None \<Rightarrow> F = {} \<and> v = None
     | Some s \<Rightarrow> sl_array s < length h \<and>
         (\<exists>xs G ws. h ! sl_array s = mk xs \<and> sl_offset s + sl_len s \<le> length xs \<and>
           each_view V h (slice_elems s xs) G ws \<and> F = insert (sl_array s) G \<and> v = Some ws))"

definition both_view :: "('c, 'a, 'v) view \<Rightarrow> ('c, 'b, 'w) view \<Rightarrow> ('c, 'a \<times> 'b, 'v \<times> 'w) view" where
  "both_view V W h p F v \<longleftrightarrow>
    (\<exists>G H. V h (fst p) G (fst v) \<and> W h (snd p) H (snd v) \<and> F = G \<union> H)"

text \<open>
  Stores that agree on some cells; a store after assignments to some cells only, and allocations; a
  store that extends another; cells beyond a store.
\<close>

definition agree :: "addr set \<Rightarrow> 'c store \<Rightarrow> 'c store \<Rightarrow> bool" where
  "agree F h h' \<longleftrightarrow> (\<forall>i \<in> F. i < length h' \<and> h' ! i = h ! i)"

definition changes_only :: "addr set \<Rightarrow> 'c store \<Rightarrow> 'c store \<Rightarrow> bool" where
  "changes_only F h h' \<longleftrightarrow> length h \<le> length h' \<and> (\<forall>i < length h. i \<notin> F \<longrightarrow> h' ! i = h ! i)"

definition keeps :: "'c store \<Rightarrow> 'c store \<Rightarrow> bool" where
  "keeps h h' \<longleftrightarrow> (\<exists>new. h' = h @ new)"

definition fresh :: "'c store \<Rightarrow> addr set \<Rightarrow> bool" where
  "fresh h F \<longleftrightarrow> (\<forall>i \<in> F. length h \<le> i)"

lemma keeps_refl [simp]: "keeps h h"
  and keeps_append [simp]: "keeps h (h @ c)"
  by (auto simp: keeps_def)

lemma keeps_trans: "keeps h h' \<Longrightarrow> keeps h' h'' \<Longrightarrow> keeps h h''"
  by (auto simp: keeps_def)

lemma keeps_length: "keeps h h' \<Longrightarrow> length h \<le> length h'"
  by (auto simp: keeps_def)

lemma keeps_agree: "keeps h h' \<Longrightarrow> (\<And>i. i \<in> F \<Longrightarrow> i < length h) \<Longrightarrow> agree F h h'"
  unfolding agree_def using keeps_length by (fastforce simp: keeps_def nth_append)

lemma keeps_update: "keeps h h' \<Longrightarrow> length h \<le> a \<Longrightarrow> keeps h (h'[a := c])"
  by (auto simp: keeps_def list_update_append)

lemma fresh_simps [simp]:
  "fresh h {}" "fresh h (insert a F) \<longleftrightarrow> length h \<le> a \<and> fresh h F" "fresh h (F \<union> G) \<longleftrightarrow> fresh h F \<and> fresh h G"
  by (auto simp: fresh_def)

lemma fresh_keeps: "fresh h' F \<Longrightarrow> keeps h h' \<Longrightarrow> fresh h F"
  unfolding fresh_def using keeps_length le_trans by blast

lemma agree_simps [simp]:
  "agree {} h h'" "agree (insert a F) h h' \<longleftrightarrow> a < length h' \<and> h' ! a = h ! a \<and> agree F h h'"
  "agree (F \<union> G) h h' \<longleftrightarrow> agree F h h' \<and> agree G h h'"
  by (auto simp: agree_def)

section \<open>The contract of a deep copy\<close>

locale deep_copier =
  fixes V :: "('c, 'a, 'v) view"
    and copy :: "'a \<Rightarrow> ('c store, 'a) state"
  assumes frame: "V h x F v \<Longrightarrow> agree F h h' \<Longrightarrow> V h' x F v"
    and bounded: "V h x F v \<Longrightarrow> i \<in> F \<Longrightarrow> i < length h"
    and copies: "V h x F v \<Longrightarrow> wp (copy x) (\<lambda>y h'. keeps h h' \<and> (\<exists>G. V h' y G v \<and> fresh h G)) h"
begin

text \<open>What a value denotes is not changed by later allocations, nor by assignments to other cells.\<close>

lemma later: "V h x F v \<Longrightarrow> keeps h h' \<Longrightarrow> V h' x F v"
  by (rule frame) (auto intro: keeps_agree bounded)

lemma assigned:
  assumes "V h x F v" and "a \<notin> F"
  shows "V (h[a := c]) x F v"
proof (rule frame [OF assms(1)])
  have "a \<noteq> i" if "i \<in> F" for i using that assms(2) by blast
  then show "agree F h (h[a := c])" by (simp add: agree_def bounded [OF assms(1)])
qed

lemma copy_then:
  assumes "V h x F v" and "\<And>y h' G. keeps h h' \<Longrightarrow> V h' y G v \<Longrightarrow> fresh h G \<Longrightarrow> wp (k y) Q h'"
  shows "wp (State_Monad.bind (copy x) k) Q h"
  unfolding wp_bind by (rule wp_mono [OF copies [OF assms(1)]]) (use assms(2) in blast)

text \<open>
  Original and copy denote the same value and share no cell, so that whatever is done to the cells
  of the one, the other still denotes it.
\<close>

lemma isolated:
  assumes "V h x F v" and "run_state (copy x) h = (y, h')"
  shows "keeps h h' \<and> (\<exists>G. F \<inter> G = {} \<and> V h' x F v \<and> V h' y G v \<and>
    (\<forall>h''. changes_only G h' h'' \<longrightarrow> V h'' x F v) \<and> (\<forall>h''. changes_only F h' h'' \<longrightarrow> V h'' y G v))"
proof -
  from wp_run [OF copies [OF assms(1)] assms(2)] obtain G
    where k: "keeps h h'" and y: "V h' y G v" and G: "fresh h G" by blast
  have disj: "F \<inter> G = {}" using bounded [OF assms(1)] G by (force simp: fresh_def)
  have x: "V h' x F v" by (rule later [OF assms(1) k])
  moreover have "V h'' x F v" if "changes_only G h' h''" for h''
    using that disj bounded [OF x] by (intro frame [OF x]) (force simp: agree_def changes_only_def)
  moreover have "V h'' y G v" if "changes_only F h' h''" for h''
    using that disj bounded [OF y] by (intro frame [OF y]) (force simp: agree_def changes_only_def)
  ultimately show ?thesis using k y disj by blast
qed

end

lemma pointer_viewI:
  "a < length h \<Longrightarrow> h ! a = mk x \<Longrightarrow> V h x G w \<Longrightarrow> pointer_view mk V h (Some a) (insert a G) (Some w)"
  by (auto simp: pointer_view_def)

lemma slice_viewI:
  assumes "sl_array s < length h" and "h ! sl_array s = mk xs" and "sl_offset s + sl_len s \<le> length xs"
    and "each_view V h (slice_elems s xs) G ws"
  shows "slice_view mk V h (Some s) (insert (sl_array s) G) (Some ws)"
  unfolding slice_view_def using assms by auto

section \<open>Copies of values, pointers, slices and structs\<close>

interpretation plain: deep_copier value_view State_Monad.return
  by unfold_locales (auto simp: value_view_def)

lemma deep_copier_pointer:
  assumes "deep_copier V into" and sel: "\<And>x. sel (mk x) = x"
  shows "deep_copier (pointer_view mk V) (copy_pointer zero mk sel into)"
proof
  note later = deep_copier.later [OF assms(1)] and frame = deep_copier.frame [OF assms(1)]
    and bounded = deep_copier.bounded [OF assms(1)]
  show "pointer_view mk V h' p F v" if "pointer_view mk V h p F v" and "agree F h h'" for h h' p F v
    using that by (auto simp: pointer_view_def split: option.splits) (blast intro: frame)
  show "i < length h" if "pointer_view mk V h p F v" and "i \<in> F" for h p F v i
    using that by (auto simp: pointer_view_def dest: bounded split: option.splits)
  show "wp (copy_pointer zero mk sel into p) (\<lambda>q h'. keeps h h' \<and>
      (\<exists>G. pointer_view mk V h' q G v \<and> fresh h G)) h" if "pointer_view mk V h p F v" for h p F v
  proof (cases p)
    case None
    with that show ?thesis by (auto simp: copy_pointer_def pointer_view_def)
  next
    case (Some a)
    with that obtain x G w where a: "a < length h" "h ! a = mk x" and x: "V h x G w" and v: "v = Some w"
      by (auto simp: pointer_view_def)
    have "V (h @ [zero]) x G w" by (rule later [OF x]) simp
    then have "wp (State_Monad.bind (into x) (\<lambda>y. State_Monad.bind (assign (length h) (mk y))
        (\<lambda>_. State_Monad.return (Some (length h))))) (\<lambda>q h'. keeps h h' \<and>
        (\<exists>G. pointer_view mk V h' q G v \<and> fresh h G)) (h @ [zero])"
    proof (rule deep_copier.copy_then [OF assms(1)])
      fix y h' G'
      assume k: "keeps (h @ [zero]) h'" and y: "V h' y G' w" and fr: "fresh (h @ [zero]) G'"
      let ?h' = "h'[length h := mk y]"
      have "V ?h' y G' w"
        by (rule deep_copier.assigned [OF assms(1) y]) (use fr in \<open>auto simp: fresh_def\<close>)
      then have "pointer_view mk V ?h' (Some (length h)) (insert (length h) G') v"
        unfolding v using keeps_length [OF k] by (intro pointer_viewI) auto
      moreover have "keeps h ?h'" by (rule keeps_update [OF keeps_trans [OF _ k]]) simp_all
      moreover have "fresh h (insert (length h) G')" using fresh_keeps [OF fr, of h] by simp
      ultimately show "wp (State_Monad.bind (assign (length h) (mk y)) (\<lambda>_. State_Monad.return (Some (length h))))
          (\<lambda>q h'. keeps h h' \<and> (\<exists>G. pointer_view mk V h' q G v \<and> fresh h G)) h'"
        by (auto simp: wp)
    qed
    then show ?thesis using a by (simp add: Some copy_pointer_def wp sel nth_append)
  qed
qed

lemma each_view_length: "each_view V h xs F vs \<Longrightarrow> length vs = length xs"
  by (induction xs arbitrary: F vs) auto

lemma deep_copier_each:
  assumes "deep_copier V into"
  shows "deep_copier (each_view V) (copy_each into)"
proof
  note frame = deep_copier.frame [OF assms] and bounded = deep_copier.bounded [OF assms]
  show frames: "each_view V h' xs F vs" if "each_view V h xs F vs" and "agree F h h'" for h h' xs F vs
    using that by (induction xs arbitrary: F vs) (auto, metis frame)
  show bounds: "i < length h" if "each_view V h xs F vs" and "i \<in> F" for h xs F vs i
    using that by (induction xs arbitrary: F vs) (auto dest: bounded)
  show "wp (copy_each into xs) (\<lambda>ys h'. keeps h h' \<and> (\<exists>G. each_view V h' ys G vs \<and> fresh h G)) h"
    if "each_view V h xs F vs" for h xs F vs
    using that
  proof (induction xs arbitrary: h F vs)
    case (Cons x xs)
    then obtain G H w ws where x: "V h x G w" and xs: "each_view V h xs H ws" and vs: "vs = w # ws" by auto
    show ?case unfolding copy_each.simps
    proof (rule deep_copier.copy_then [OF assms x])
      fix y h' G'
      assume k: "keeps h h'" and y: "V h' y G' w" and fr: "fresh h G'"
      have "each_view V h' xs H ws"
        by (rule frames [OF xs]) (rule keeps_agree [OF k], rule bounds [OF xs])
      from Cons.IH [OF this]
      have "wp (copy_each into xs) (\<lambda>ys h''. keeps h h'' \<and> (\<exists>G. each_view V h'' (y # ys) G vs \<and> fresh h G)) h'"
      proof (rule wp_mono, elim conjE exE)
        fix ys h'' H'
        assume k': "keeps h' h''" and ys: "each_view V h'' ys H' ws" and fr': "fresh h' H'"
        have "V h'' y G' w" by (rule deep_copier.later [OF assms y k'])
        with ys have "each_view V h'' (y # ys) (G' \<union> H') vs" by (auto simp: vs)
        moreover have "fresh h (G' \<union> H')" using fr fresh_keeps [OF fr' k] by simp
        ultimately show "keeps h h'' \<and> (\<exists>G. each_view V h'' (y # ys) G vs \<and> fresh h G)"
          using keeps_trans [OF k k'] by blast
      qed
      then show "wp (State_Monad.bind (copy_each into xs) (\<lambda>ys. State_Monad.return (y # ys)))
          (\<lambda>ys h'. keeps h h' \<and> (\<exists>G. each_view V h' ys G vs \<and> fresh h G)) h'" by (simp only: wp_bind wp_return_fun)
    qed
  qed auto
qed

lemma deep_copier_slice:
  assumes "deep_copier V into" and sel: "\<And>xs. sel (mk xs) = xs"
  shows "deep_copier (slice_view mk V) (copy_slice zero mk sel into)"
proof
  note each = deep_copier_each [OF assms(1)]
  note later = deep_copier.later [OF each] and frame = deep_copier.frame [OF each]
    and bounded = deep_copier.bounded [OF each]
  show "slice_view mk V h' s F v" if "slice_view mk V h s F v" and "agree F h h'" for h h' s F v
    using that by (auto simp: slice_view_def split: option.splits) (blast intro: frame)
  show "i < length h" if "slice_view mk V h s F v" and "i \<in> F" for h s F v i
    using that by (auto simp: slice_view_def dest: bounded split: option.splits)
  show "wp (copy_slice zero mk sel into s) (\<lambda>q h'. keeps h h' \<and>
      (\<exists>G. slice_view mk V h' q G v \<and> fresh h G)) h" if "slice_view mk V h s F v" for h s F v
  proof (cases s)
    case None
    with that show ?thesis by (auto simp: copy_slice_def slice_view_def)
  next
    case (Some s')
    with that obtain xs G ws where a: "sl_array s' < length h" "h ! sl_array s' = mk xs"
      and len: "sl_offset s' + sl_len s' \<le> length xs"
      and xs: "each_view V h (slice_elems s' xs) G ws" and v: "v = Some ws"
      by (auto simp: slice_view_def)
    let ?s = "\<lparr>sl_array = length h, sl_offset = 0, sl_len = sl_len s'\<rparr>"
    have "each_view V (h @ [zero]) (slice_elems s' xs) G ws" by (rule later [OF xs]) simp
    then have "wp (State_Monad.bind (copy_each into (slice_elems s' xs)) (\<lambda>ys. State_Monad.bind
        (assign (length h) (mk ys)) (\<lambda>_. State_Monad.return (Some ?s)))) (\<lambda>q h'. keeps h h' \<and>
        (\<exists>G. slice_view mk V h' q G v \<and> fresh h G)) (h @ [zero])"
    proof (rule deep_copier.copy_then [OF each])
      fix ys h' G'
      assume k: "keeps (h @ [zero]) h'" and ys: "each_view V h' ys G' ws" and fr: "fresh (h @ [zero]) G'"
      let ?h' = "h'[length h := mk ys]"
      have ys': "length ys = sl_len s'"
        using each_view_length [OF ys] each_view_length [OF xs] len by (simp add: slice_elems_def)
      have "each_view V ?h' ys G' ws"
        by (rule deep_copier.assigned [OF each ys]) (use fr in \<open>auto simp: fresh_def\<close>)
      then have "slice_view mk V ?h' (Some ?s) (insert (length h) G') v"
        unfolding v using keeps_length [OF k] ys' slice_viewI [of ?s ?h' mk ys V G' ws]
        by (simp add: slice_elems_def)
      moreover have "keeps h ?h'" by (rule keeps_update [OF keeps_trans [OF _ k]]) simp_all
      moreover have "fresh h (insert (length h) G')" using fresh_keeps [OF fr, of h] by simp
      ultimately show "wp (State_Monad.bind (assign (length h) (mk ys)) (\<lambda>_. State_Monad.return (Some ?s)))
          (\<lambda>q h'. keeps h h' \<and> (\<exists>G. slice_view mk V h' q G v \<and> fresh h G)) h'"
        by (auto simp: wp)
    qed
    then show ?thesis using a by (simp add: Some copy_slice_def wp sel nth_append)
  qed
qed

lemma deep_copier_both:
  assumes "deep_copier V f" and "deep_copier W g"
  shows "deep_copier (both_view V W) (copy_both f g)"
proof
  show "both_view V W h' p F v" if "both_view V W h p F v" and "agree F h h'" for h h' p F v
    using that unfolding both_view_def
    by auto (blast intro: deep_copier.frame [OF assms(1)] deep_copier.frame [OF assms(2)])
  show "i < length h" if "both_view V W h p F v" and "i \<in> F" for h p F v i
    using that unfolding both_view_def
    by (auto dest: deep_copier.bounded [OF assms(1)] deep_copier.bounded [OF assms(2)])
  show "wp (copy_both f g p) (\<lambda>q h'. keeps h h' \<and> (\<exists>G. both_view V W h' q G v \<and> fresh h G)) h"
    if pv: "both_view V W h p F v" for h p F v
  proof -
    from pv obtain G H where x: "V h (fst p) G (fst v)" and y: "W h (snd p) H (snd v)"
      by (auto simp: both_view_def)
    show ?thesis unfolding copy_both_def
    proof (rule deep_copier.copy_then [OF assms(1) x], rule deep_copier.copy_then [OF assms(2)])
      fix a h' G'
      assume k: "keeps h h'" and a: "V h' a G' (fst v)" and fr: "fresh h G'"
      show "W h' (snd p) H (snd v)" by (rule deep_copier.later [OF assms(2) y k])
      fix b h'' H'
      assume k': "keeps h' h''" and b: "W h'' b H' (snd v)" and fr': "fresh h' H'"
      have "both_view V W h'' (a, b) (G' \<union> H') v"
        unfolding both_view_def using deep_copier.later [OF assms(1) a k'] b by auto
      moreover have "fresh h (G' \<union> H')" using fr fresh_keeps [OF fr' k] by simp
      ultimately show "wp (State_Monad.return (a, b)) (\<lambda>q h'. keeps h h' \<and>
          (\<exists>G. both_view V W h' q G v \<and> fresh h G)) h''"
        using keeps_trans [OF k k'] by auto
    qed
  qed
qed

text \<open>
  A struct is copied flat, then its fields that refer to other cells are replaced: \<open>part\<close> selects
  them, \<open>put\<close> replaces them, and \<open>flat\<close> compares the others.
\<close>

lemma deep_copier_struct:
  assumes "deep_copier V f"
    and view: "\<And>h x F v. W h x F v \<longleftrightarrow> V h (part x) F (part' v) \<and> flat x v"
    and put: "\<And>x y. part (put x y) = y" "\<And>x y v. flat (put x y) v = flat x v"
    and code: "\<And>x. into x = State_Monad.bind (f (part x)) (\<lambda>y. State_Monad.return (put x y))"
  shows "deep_copier W into"
proof
  show "W h' x F v" if "W h x F v" and "agree F h h'" for h h' x F v
    using that by (auto simp: view intro: deep_copier.frame [OF assms(1)])
  show "i < length h" if "W h x F v" and "i \<in> F" for h x F v i
    using that by (auto simp: view dest: deep_copier.bounded [OF assms(1)])
  show "wp (into x) (\<lambda>y h'. keeps h h' \<and> (\<exists>G. W h' y G v \<and> fresh h G)) h" if "W h x F v" for h x F v
    using that unfolding code view
    by (intro deep_copier.copy_then [OF assms(1), of h "part x" F "part' v"]) (auto simp: put)
qed

end
