(* ===== verification/DeepCopies.thy ===== *)
theory DeepCopies
  imports ApiTypes Store
begin

text \<open>
  \<^verbatim>\<open>api/v1alpha1/zz_generated.deepcopy.go\<close> over the explicit store of \<open>Store\<close>: the structs as they
  lie in memory, with addresses and slices where the code has pointers and slices, and one
  definition per generated method.  \<open>DeepCopyInto\<close> takes what \<^verbatim>\<open>in\<close> points to and returns what it
  leaves in \<^verbatim>\<open>*out\<close>, which is new memory in every call; \<open>DeepCopy\<close> and \<open>DeepCopyObject\<close> take and
  return the pointer.  The methods of apimachinery they call are parameters.
\<close>

section \<open>Structs in memory\<close>

text \<open>
  The parameters are the types of the fields that refer to other cells: addresses and slices in
  memory, the values they denote in what a view shows.
\<close>

record TypeMeta =
  tm_kind :: string
  tm_api_version :: string

record NamespacedSecretReference =
  nsr_namespace :: string
  nsr_name :: string

record 's DatabaseUserPolicyMem =
  mdu_databases :: 's
  mdu_roles :: 's

record 's NamespaceUserPolicyMem =
  mnu_allowed :: bool
  mnu_roles :: 's

record ('a, 'b) ProviderTLSConfigMem =
  mt_ca :: 'a
  mt_certificate :: 'b
  mt_insecure :: bool

record 'p RotationSpecMem =
  mr_period :: 'p

record ('s, 'p) SurrealDBCredentialSpecMem =
  mcs_policy_ref :: LocalPolicyReference
  mcs_level :: UserLevel
  mcs_database :: string
  mcs_roles :: 's
  mcs_target_secret :: TargetSecretSpec
  mcs_rotation :: 'p

record ('p, 't, 's) SurrealDBCredentialStatusMem =
  mct_observed_generation :: int
  mct_provider_ref :: 'p
  mct_surreal_namespace :: string
  mct_database :: string
  mct_username :: string
  mct_last_rotation_time :: 't
  mct_next_rotation_time :: 't
  mct_last_manual_rotation_trigger :: string
  mct_conditions :: 's

record 'p SurrealDBProviderSpecMem =
  mps_endpoint :: string
  mps_root_credential_ref :: RootCredentialReference
  mps_tls :: 'p

record 's SurrealDBProviderStatusMem =
  mpt_observed_generation :: int
  mpt_conditions :: 's

record ('d, 'n) SurrealDBTenantPolicySpecMem =
  mts_provider_ref :: LocalProviderReference
  mts_surreal_namespace :: string
  mts_database_users :: 'd
  mts_namespace_users :: 'n

record ('p, 's) SurrealDBTenantPolicyStatusMem =
  mtt_observed_generation :: int
  mtt_provider_ref :: 'p
  mtt_conditions :: 's

text \<open>The three resources and their lists have the same shape.\<close>

record ('m, 'd, 't) ObjectMem =
  mo_type_meta :: TypeMeta
  mo_meta :: 'm
  mo_spec :: 'd
  mo_status :: 't

record ('l, 'i) ObjectListMem =
  ml_type_meta :: TypeMeta
  ml_meta :: 'l
  ml_items :: 'i

type_synonym ptr = "addr option"
type_synonym slc = "slice option"

type_synonym database_users_mem = "slc DatabaseUserPolicyMem"
type_synonym namespace_users_mem = "slc NamespaceUserPolicyMem"
type_synonym tls_mem = "(ptr, ptr) ProviderTLSConfigMem"
type_synonym rotation_mem = "ptr RotationSpecMem"
type_synonym credential_spec_mem = "(slc, ptr) SurrealDBCredentialSpecMem"
type_synonym credential_status_mem = "(ptr, ptr, slc) SurrealDBCredentialStatusMem"
type_synonym provider_spec_mem = "ptr SurrealDBProviderSpecMem"
type_synonym provider_status_mem = "slc SurrealDBProviderStatusMem"
type_synonym policy_spec_mem = "(database_users_mem, namespace_users_mem) SurrealDBTenantPolicySpecMem"
type_synonym policy_status_mem = "(ptr, slc) SurrealDBTenantPolicyStatusMem"
type_synonym 'm credential_mem = "('m, credential_spec_mem, credential_status_mem) ObjectMem"
type_synonym 'm provider_mem = "('m, provider_spec_mem, provider_status_mem) ObjectMem"
type_synonym 'm policy_mem = "('m, policy_spec_mem, policy_status_mem) ObjectMem"
type_synonym 'l list_mem = "('l, slc) ObjectListMem"

text \<open>
  The cells: variables of the types the code takes pointers to, and backing arrays.  \<open>'m\<close> and \<open>'l\<close>
  are \<^verbatim>\<open>ObjectMeta\<close> and \<^verbatim>\<open>ListMeta\<close> as apimachinery lays them out, \<open>'x\<close> the cells only it knows.
\<close>

datatype ('m, 'l, 'x) cell =
  ZeroCell
| StringsCell (strings_in: "string list")
| RolesCell (roles_in: "SurrealRole list")
| ConditionsCell (conditions_in: "Condition list")
| CACell (ca_in: CASecretReference)
| ClientCertificateCell (client_certificate_in: ClientCertificateReference)
| PolicyRefCell (policy_ref_in: LocalPolicyReference)
| ProviderRefCell (provider_ref_in: LocalProviderReference)
| SecretRefCell (secret_ref_in: NamespacedSecretReference)
| RootRefCell (root_ref_in: RootCredentialReference)
| TargetSecretCell (target_secret_in: TargetSecretSpec)
| DurationCell (duration_in: duration)
| TimeCell (time_in: gtime)
| DatabaseUsersCell (database_users_in: database_users_mem)
| NamespaceUsersCell (namespace_users_in: namespace_users_mem)
| TLSCell (tls_in: tls_mem)
| RotationCell (rotation_in: rotation_mem)
| CredentialSpecCell (credential_spec_in: credential_spec_mem)
| CredentialStatusCell (credential_status_in: credential_status_mem)
| ProviderSpecCell (provider_spec_in: provider_spec_mem)
| ProviderStatusCell (provider_status_in: provider_status_mem)
| PolicySpecCell (policy_spec_in: policy_spec_mem)
| PolicyStatusCell (policy_status_in: policy_status_mem)
| CredentialCell (credential_in: "'m credential_mem")
| ProviderCell (provider_in: "'m provider_mem")
| PolicyCell (policy_in: "'m policy_mem")
| CredentialsCell (credentials_in: "'m credential_mem list")
| ProvidersCell (providers_in: "'m provider_mem list")
| PoliciesCell (policies_in: "'m policy_mem list")
| CredentialListCell (credential_list_in: "'l list_mem")
| ProviderListCell (provider_list_in: "'l list_mem")
| PolicyListCell (policy_list_in: "'l list_mem")
| ForeignCell 'x

type_synonym ('m, 'l, 'x, 'a) copying = "(('m, 'l, 'x) cell store, 'a) state"

text \<open>The methods of apimachinery the code calls.\<close>

record ('m, 'l, 'x) apimachinery =
  meta_DeepCopyInto :: "'m \<Rightarrow> ('m, 'l, 'x, 'm) copying"
  list_meta_DeepCopyInto :: "'l \<Rightarrow> ('m, 'l, 'x, 'l) copying"
  condition_DeepCopyInto :: "Condition \<Rightarrow> ('m, 'l, 'x, Condition) copying"
  time_DeepCopy :: "ptr \<Rightarrow> ('m, 'l, 'x, ptr) copying"

section \<open>The methods\<close>

text \<open>Structs without pointers: \<^verbatim>\<open>*out = *in\<close>.\<close>

definition CASecretReference_DeepCopyInto ::
  "CASecretReference \<Rightarrow> ('m, 'l, 'x, CASecretReference) copying" where
  "CASecretReference_DeepCopyInto src = State_Monad.return src"

definition CASecretReference_DeepCopy :: "ptr \<Rightarrow> ('m, 'l, 'x, ptr) copying" where
  "CASecretReference_DeepCopy p =
    copy_pointer ZeroCell CACell ca_in CASecretReference_DeepCopyInto p"

definition ClientCertificateReference_DeepCopyInto ::
  "ClientCertificateReference \<Rightarrow> ('m, 'l, 'x, ClientCertificateReference) copying" where
  "ClientCertificateReference_DeepCopyInto src = State_Monad.return src"

definition ClientCertificateReference_DeepCopy :: "ptr \<Rightarrow> ('m, 'l, 'x, ptr) copying" where
  "ClientCertificateReference_DeepCopy p =
    copy_pointer ZeroCell ClientCertificateCell client_certificate_in ClientCertificateReference_DeepCopyInto p"

definition LocalPolicyReference_DeepCopyInto ::
  "LocalPolicyReference \<Rightarrow> ('m, 'l, 'x, LocalPolicyReference) copying" where
  "LocalPolicyReference_DeepCopyInto src = State_Monad.return src"

definition LocalPolicyReference_DeepCopy :: "ptr \<Rightarrow> ('m, 'l, 'x, ptr) copying" where
  "LocalPolicyReference_DeepCopy p =
    copy_pointer ZeroCell PolicyRefCell policy_ref_in LocalPolicyReference_DeepCopyInto p"

definition LocalProviderReference_DeepCopyInto ::
  "LocalProviderReference \<Rightarrow> ('m, 'l, 'x, LocalProviderReference) copying" where
  "LocalProviderReference_DeepCopyInto src = State_Monad.return src"

definition LocalProviderReference_DeepCopy :: "ptr \<Rightarrow> ('m, 'l, 'x, ptr) copying" where
  "LocalProviderReference_DeepCopy p =
    copy_pointer ZeroCell ProviderRefCell provider_ref_in LocalProviderReference_DeepCopyInto p"

definition NamespacedSecretReference_DeepCopyInto ::
  "NamespacedSecretReference \<Rightarrow> ('m, 'l, 'x, NamespacedSecretReference) copying" where
  "NamespacedSecretReference_DeepCopyInto src = State_Monad.return src"

definition NamespacedSecretReference_DeepCopy :: "ptr \<Rightarrow> ('m, 'l, 'x, ptr) copying" where
  "NamespacedSecretReference_DeepCopy p =
    copy_pointer ZeroCell SecretRefCell secret_ref_in NamespacedSecretReference_DeepCopyInto p"

definition RootCredentialReference_DeepCopyInto ::
  "RootCredentialReference \<Rightarrow> ('m, 'l, 'x, RootCredentialReference) copying" where
  "RootCredentialReference_DeepCopyInto src = State_Monad.return src"

definition RootCredentialReference_DeepCopy :: "ptr \<Rightarrow> ('m, 'l, 'x, ptr) copying" where
  "RootCredentialReference_DeepCopy p =
    copy_pointer ZeroCell RootRefCell root_ref_in RootCredentialReference_DeepCopyInto p"

definition TargetSecretSpec_DeepCopyInto ::
  "TargetSecretSpec \<Rightarrow> ('m, 'l, 'x, TargetSecretSpec) copying" where
  "TargetSecretSpec_DeepCopyInto src = State_Monad.return src"

definition TargetSecretSpec_DeepCopy :: "ptr \<Rightarrow> ('m, 'l, 'x, ptr) copying" where
  "TargetSecretSpec_DeepCopy p =
    copy_pointer ZeroCell TargetSecretCell target_secret_in TargetSecretSpec_DeepCopyInto p"

text \<open>
  A nil pointer or slice stays nil, as \<^verbatim>\<open>*out = *in\<close> left it; any other field of this kind gets new
  memory.
\<close>

definition DatabaseUserPolicy_DeepCopyInto ::
  "database_users_mem \<Rightarrow> ('m, 'l, 'x, database_users_mem) copying" where
  "DatabaseUserPolicy_DeepCopyInto src = do {
     databases \<leftarrow> copy_slice ZeroCell StringsCell strings_in State_Monad.return (mdu_databases src);
     roles \<leftarrow> copy_slice ZeroCell RolesCell roles_in State_Monad.return (mdu_roles src);
     State_Monad.return (src\<lparr>mdu_databases := databases, mdu_roles := roles\<rparr>)
   }"

definition DatabaseUserPolicy_DeepCopy :: "ptr \<Rightarrow> ('m, 'l, 'x, ptr) copying" where
  "DatabaseUserPolicy_DeepCopy p =
    copy_pointer ZeroCell DatabaseUsersCell database_users_in DatabaseUserPolicy_DeepCopyInto p"

definition NamespaceUserPolicy_DeepCopyInto ::
  "namespace_users_mem \<Rightarrow> ('m, 'l, 'x, namespace_users_mem) copying" where
  "NamespaceUserPolicy_DeepCopyInto src = do {
     roles \<leftarrow> copy_slice ZeroCell RolesCell roles_in State_Monad.return (mnu_roles src);
     State_Monad.return (src\<lparr>mnu_roles := roles\<rparr>)
   }"

definition NamespaceUserPolicy_DeepCopy :: "ptr \<Rightarrow> ('m, 'l, 'x, ptr) copying" where
  "NamespaceUserPolicy_DeepCopy p =
    copy_pointer ZeroCell NamespaceUsersCell namespace_users_in NamespaceUserPolicy_DeepCopyInto p"

definition ProviderTLSConfig_DeepCopyInto ::
  "tls_mem \<Rightarrow> ('m, 'l, 'x, tls_mem) copying" where
  "ProviderTLSConfig_DeepCopyInto src = do {
     ca \<leftarrow> copy_pointer ZeroCell CACell ca_in State_Monad.return (mt_ca src);
     certificate \<leftarrow> copy_pointer ZeroCell ClientCertificateCell client_certificate_in
       State_Monad.return (mt_certificate src);
     State_Monad.return (src\<lparr>mt_ca := ca, mt_certificate := certificate\<rparr>)
   }"

definition ProviderTLSConfig_DeepCopy :: "ptr \<Rightarrow> ('m, 'l, 'x, ptr) copying" where
  "ProviderTLSConfig_DeepCopy p =
    copy_pointer ZeroCell TLSCell tls_in ProviderTLSConfig_DeepCopyInto p"

definition RotationSpec_DeepCopyInto ::
  "rotation_mem \<Rightarrow> ('m, 'l, 'x, rotation_mem) copying" where
  "RotationSpec_DeepCopyInto src = do {
     period \<leftarrow> copy_pointer ZeroCell DurationCell duration_in State_Monad.return (mr_period src);
     State_Monad.return (src\<lparr>mr_period := period\<rparr>)
   }"

definition RotationSpec_DeepCopy :: "ptr \<Rightarrow> ('m, 'l, 'x, ptr) copying" where
  "RotationSpec_DeepCopy p =
    copy_pointer ZeroCell RotationCell rotation_in RotationSpec_DeepCopyInto p"

definition SurrealDBCredentialSpec_DeepCopyInto ::
  "credential_spec_mem \<Rightarrow> ('m, 'l, 'x, credential_spec_mem) copying" where
  "SurrealDBCredentialSpec_DeepCopyInto src = do {
     roles \<leftarrow> copy_slice ZeroCell RolesCell roles_in State_Monad.return (mcs_roles src);
     rotation \<leftarrow> copy_pointer ZeroCell RotationCell rotation_in RotationSpec_DeepCopyInto (mcs_rotation src);
     State_Monad.return (src\<lparr>mcs_roles := roles, mcs_rotation := rotation\<rparr>)
   }"

definition SurrealDBCredentialSpec_DeepCopy :: "ptr \<Rightarrow> ('m, 'l, 'x, ptr) copying" where
  "SurrealDBCredentialSpec_DeepCopy p =
    copy_pointer ZeroCell CredentialSpecCell credential_spec_in SurrealDBCredentialSpec_DeepCopyInto p"

definition copy_time :: "('m, 'l, 'x) apimachinery \<Rightarrow> ptr \<Rightarrow> ('m, 'l, 'x, ptr) copying" where
  "copy_time x p = (if p = None then State_Monad.return None else time_DeepCopy x p)"

definition SurrealDBCredentialStatus_DeepCopyInto ::
  "('m, 'l, 'x) apimachinery \<Rightarrow> credential_status_mem \<Rightarrow> ('m, 'l, 'x, credential_status_mem) copying" where
  "SurrealDBCredentialStatus_DeepCopyInto x src = do {
     provider_ref \<leftarrow> copy_pointer ZeroCell ProviderRefCell provider_ref_in State_Monad.return
       (mct_provider_ref src);
     last_time \<leftarrow> copy_time x (mct_last_rotation_time src);
     next_time \<leftarrow> copy_time x (mct_next_rotation_time src);
     conditions \<leftarrow> copy_slice ZeroCell ConditionsCell conditions_in (condition_DeepCopyInto x)
       (mct_conditions src);
     State_Monad.return (src\<lparr>mct_provider_ref := provider_ref, mct_last_rotation_time := last_time,
       mct_next_rotation_time := next_time, mct_conditions := conditions\<rparr>)
   }"

definition SurrealDBCredentialStatus_DeepCopy :: "('m, 'l, 'x) apimachinery \<Rightarrow> ptr \<Rightarrow> ('m, 'l, 'x, ptr) copying" where
  "SurrealDBCredentialStatus_DeepCopy x p =
    copy_pointer ZeroCell CredentialStatusCell credential_status_in (SurrealDBCredentialStatus_DeepCopyInto x) p"

definition SurrealDBProviderSpec_DeepCopyInto ::
  "provider_spec_mem \<Rightarrow> ('m, 'l, 'x, provider_spec_mem) copying" where
  "SurrealDBProviderSpec_DeepCopyInto src = do {
     tls \<leftarrow> copy_pointer ZeroCell TLSCell tls_in ProviderTLSConfig_DeepCopyInto (mps_tls src);
     State_Monad.return (src\<lparr>mps_tls := tls\<rparr>)
   }"

definition SurrealDBProviderSpec_DeepCopy :: "ptr \<Rightarrow> ('m, 'l, 'x, ptr) copying" where
  "SurrealDBProviderSpec_DeepCopy p =
    copy_pointer ZeroCell ProviderSpecCell provider_spec_in SurrealDBProviderSpec_DeepCopyInto p"

definition SurrealDBProviderStatus_DeepCopyInto ::
  "('m, 'l, 'x) apimachinery \<Rightarrow> provider_status_mem \<Rightarrow> ('m, 'l, 'x, provider_status_mem) copying" where
  "SurrealDBProviderStatus_DeepCopyInto x src = do {
     conditions \<leftarrow> copy_slice ZeroCell ConditionsCell conditions_in (condition_DeepCopyInto x)
       (mpt_conditions src);
     State_Monad.return (src\<lparr>mpt_conditions := conditions\<rparr>)
   }"

definition SurrealDBProviderStatus_DeepCopy :: "('m, 'l, 'x) apimachinery \<Rightarrow> ptr \<Rightarrow> ('m, 'l, 'x, ptr) copying" where
  "SurrealDBProviderStatus_DeepCopy x p =
    copy_pointer ZeroCell ProviderStatusCell provider_status_in (SurrealDBProviderStatus_DeepCopyInto x) p"

definition SurrealDBTenantPolicySpec_DeepCopyInto ::
  "policy_spec_mem \<Rightarrow> ('m, 'l, 'x, policy_spec_mem) copying" where
  "SurrealDBTenantPolicySpec_DeepCopyInto src = do {
     database_users \<leftarrow> DatabaseUserPolicy_DeepCopyInto (mts_database_users src);
     namespace_users \<leftarrow> NamespaceUserPolicy_DeepCopyInto (mts_namespace_users src);
     State_Monad.return (src\<lparr>mts_database_users := database_users, mts_namespace_users := namespace_users\<rparr>)
   }"

definition SurrealDBTenantPolicySpec_DeepCopy :: "ptr \<Rightarrow> ('m, 'l, 'x, ptr) copying" where
  "SurrealDBTenantPolicySpec_DeepCopy p =
    copy_pointer ZeroCell PolicySpecCell policy_spec_in SurrealDBTenantPolicySpec_DeepCopyInto p"

definition SurrealDBTenantPolicyStatus_DeepCopyInto ::
  "('m, 'l, 'x) apimachinery \<Rightarrow> policy_status_mem \<Rightarrow> ('m, 'l, 'x, policy_status_mem) copying" where
  "SurrealDBTenantPolicyStatus_DeepCopyInto x src = do {
     provider_ref \<leftarrow> copy_pointer ZeroCell ProviderRefCell provider_ref_in State_Monad.return
       (mtt_provider_ref src);
     conditions \<leftarrow> copy_slice ZeroCell ConditionsCell conditions_in (condition_DeepCopyInto x)
       (mtt_conditions src);
     State_Monad.return (src\<lparr>mtt_provider_ref := provider_ref, mtt_conditions := conditions\<rparr>)
   }"

definition SurrealDBTenantPolicyStatus_DeepCopy :: "('m, 'l, 'x) apimachinery \<Rightarrow> ptr \<Rightarrow> ('m, 'l, 'x, ptr) copying" where
  "SurrealDBTenantPolicyStatus_DeepCopy x p =
    copy_pointer ZeroCell PolicyStatusCell policy_status_in (SurrealDBTenantPolicyStatus_DeepCopyInto x) p"

text \<open>The resources and their lists.\<close>

definition SurrealDBCredential_DeepCopyInto ::
  "('m, 'l, 'x) apimachinery \<Rightarrow> 'm credential_mem \<Rightarrow> ('m, 'l, 'x, 'm credential_mem) copying" where
  "SurrealDBCredential_DeepCopyInto x src = do {
     meta \<leftarrow> meta_DeepCopyInto x (mo_meta src);
     spec \<leftarrow> SurrealDBCredentialSpec_DeepCopyInto (mo_spec src);
     status \<leftarrow> SurrealDBCredentialStatus_DeepCopyInto x (mo_status src);
     State_Monad.return (src\<lparr>mo_meta := meta, mo_spec := spec, mo_status := status\<rparr>)
   }"

definition SurrealDBCredential_DeepCopy :: "('m, 'l, 'x) apimachinery \<Rightarrow> ptr \<Rightarrow> ('m, 'l, 'x, ptr) copying" where
  "SurrealDBCredential_DeepCopy x p =
    copy_pointer ZeroCell CredentialCell credential_in (SurrealDBCredential_DeepCopyInto x) p"

definition SurrealDBCredentialList_DeepCopyInto ::
  "('m, 'l, 'x) apimachinery \<Rightarrow> 'l list_mem \<Rightarrow> ('m, 'l, 'x, 'l list_mem) copying" where
  "SurrealDBCredentialList_DeepCopyInto x src = do {
     meta \<leftarrow> list_meta_DeepCopyInto x (ml_meta src);
     items \<leftarrow> copy_slice ZeroCell CredentialsCell credentials_in (SurrealDBCredential_DeepCopyInto x) (ml_items src);
     State_Monad.return (src\<lparr>ml_meta := meta, ml_items := items\<rparr>)
   }"

definition SurrealDBCredentialList_DeepCopy :: "('m, 'l, 'x) apimachinery \<Rightarrow> ptr \<Rightarrow> ('m, 'l, 'x, ptr) copying" where
  "SurrealDBCredentialList_DeepCopy x p =
    copy_pointer ZeroCell CredentialListCell credential_list_in (SurrealDBCredentialList_DeepCopyInto x) p"

definition SurrealDBProvider_DeepCopyInto ::
  "('m, 'l, 'x) apimachinery \<Rightarrow> 'm provider_mem \<Rightarrow> ('m, 'l, 'x, 'm provider_mem) copying" where
  "SurrealDBProvider_DeepCopyInto x src = do {
     meta \<leftarrow> meta_DeepCopyInto x (mo_meta src);
     spec \<leftarrow> SurrealDBProviderSpec_DeepCopyInto (mo_spec src);
     status \<leftarrow> SurrealDBProviderStatus_DeepCopyInto x (mo_status src);
     State_Monad.return (src\<lparr>mo_meta := meta, mo_spec := spec, mo_status := status\<rparr>)
   }"

definition SurrealDBProvider_DeepCopy :: "('m, 'l, 'x) apimachinery \<Rightarrow> ptr \<Rightarrow> ('m, 'l, 'x, ptr) copying" where
  "SurrealDBProvider_DeepCopy x p =
    copy_pointer ZeroCell ProviderCell provider_in (SurrealDBProvider_DeepCopyInto x) p"

definition SurrealDBProviderList_DeepCopyInto ::
  "('m, 'l, 'x) apimachinery \<Rightarrow> 'l list_mem \<Rightarrow> ('m, 'l, 'x, 'l list_mem) copying" where
  "SurrealDBProviderList_DeepCopyInto x src = do {
     meta \<leftarrow> list_meta_DeepCopyInto x (ml_meta src);
     items \<leftarrow> copy_slice ZeroCell ProvidersCell providers_in (SurrealDBProvider_DeepCopyInto x) (ml_items src);
     State_Monad.return (src\<lparr>ml_meta := meta, ml_items := items\<rparr>)
   }"

definition SurrealDBProviderList_DeepCopy :: "('m, 'l, 'x) apimachinery \<Rightarrow> ptr \<Rightarrow> ('m, 'l, 'x, ptr) copying" where
  "SurrealDBProviderList_DeepCopy x p =
    copy_pointer ZeroCell ProviderListCell provider_list_in (SurrealDBProviderList_DeepCopyInto x) p"

definition SurrealDBTenantPolicy_DeepCopyInto ::
  "('m, 'l, 'x) apimachinery \<Rightarrow> 'm policy_mem \<Rightarrow> ('m, 'l, 'x, 'm policy_mem) copying" where
  "SurrealDBTenantPolicy_DeepCopyInto x src = do {
     meta \<leftarrow> meta_DeepCopyInto x (mo_meta src);
     spec \<leftarrow> SurrealDBTenantPolicySpec_DeepCopyInto (mo_spec src);
     status \<leftarrow> SurrealDBTenantPolicyStatus_DeepCopyInto x (mo_status src);
     State_Monad.return (src\<lparr>mo_meta := meta, mo_spec := spec, mo_status := status\<rparr>)
   }"

definition SurrealDBTenantPolicy_DeepCopy :: "('m, 'l, 'x) apimachinery \<Rightarrow> ptr \<Rightarrow> ('m, 'l, 'x, ptr) copying" where
  "SurrealDBTenantPolicy_DeepCopy x p =
    copy_pointer ZeroCell PolicyCell policy_in (SurrealDBTenantPolicy_DeepCopyInto x) p"

definition SurrealDBTenantPolicyList_DeepCopyInto ::
  "('m, 'l, 'x) apimachinery \<Rightarrow> 'l list_mem \<Rightarrow> ('m, 'l, 'x, 'l list_mem) copying" where
  "SurrealDBTenantPolicyList_DeepCopyInto x src = do {
     meta \<leftarrow> list_meta_DeepCopyInto x (ml_meta src);
     items \<leftarrow> copy_slice ZeroCell PoliciesCell policies_in (SurrealDBTenantPolicy_DeepCopyInto x) (ml_items src);
     State_Monad.return (src\<lparr>ml_meta := meta, ml_items := items\<rparr>)
   }"

definition SurrealDBTenantPolicyList_DeepCopy :: "('m, 'l, 'x) apimachinery \<Rightarrow> ptr \<Rightarrow> ('m, 'l, 'x, ptr) copying" where
  "SurrealDBTenantPolicyList_DeepCopy x p =
    copy_pointer ZeroCell PolicyListCell policy_list_in (SurrealDBTenantPolicyList_DeepCopyInto x) p"

text \<open>
  A value of the interface \<^verbatim>\<open>runtime.Object\<close>: nil, or a pointer with its dynamic type.  A nil pointer
  is answered by the nil interface, not by an interface that holds a nil pointer.
\<close>

datatype runtime_object =
  CredentialObject ptr | CredentialListObject ptr | ProviderObject ptr | ProviderListObject ptr
| PolicyObject ptr | PolicyListObject ptr

definition SurrealDBCredential_DeepCopyObject ::
  "('m, 'l, 'x) apimachinery \<Rightarrow> ptr \<Rightarrow> ('m, 'l, 'x, runtime_object option) copying" where
  "SurrealDBCredential_DeepCopyObject x p = do {
     c \<leftarrow> SurrealDBCredential_DeepCopy x p;
     State_Monad.return (if c \<noteq> None then Some (CredentialObject c) else None)
   }"

definition SurrealDBCredentialList_DeepCopyObject ::
  "('m, 'l, 'x) apimachinery \<Rightarrow> ptr \<Rightarrow> ('m, 'l, 'x, runtime_object option) copying" where
  "SurrealDBCredentialList_DeepCopyObject x p = do {
     c \<leftarrow> SurrealDBCredentialList_DeepCopy x p;
     State_Monad.return (if c \<noteq> None then Some (CredentialListObject c) else None)
   }"

definition SurrealDBProvider_DeepCopyObject ::
  "('m, 'l, 'x) apimachinery \<Rightarrow> ptr \<Rightarrow> ('m, 'l, 'x, runtime_object option) copying" where
  "SurrealDBProvider_DeepCopyObject x p = do {
     c \<leftarrow> SurrealDBProvider_DeepCopy x p;
     State_Monad.return (if c \<noteq> None then Some (ProviderObject c) else None)
   }"

definition SurrealDBProviderList_DeepCopyObject ::
  "('m, 'l, 'x) apimachinery \<Rightarrow> ptr \<Rightarrow> ('m, 'l, 'x, runtime_object option) copying" where
  "SurrealDBProviderList_DeepCopyObject x p = do {
     c \<leftarrow> SurrealDBProviderList_DeepCopy x p;
     State_Monad.return (if c \<noteq> None then Some (ProviderListObject c) else None)
   }"

definition SurrealDBTenantPolicy_DeepCopyObject ::
  "('m, 'l, 'x) apimachinery \<Rightarrow> ptr \<Rightarrow> ('m, 'l, 'x, runtime_object option) copying" where
  "SurrealDBTenantPolicy_DeepCopyObject x p = do {
     c \<leftarrow> SurrealDBTenantPolicy_DeepCopy x p;
     State_Monad.return (if c \<noteq> None then Some (PolicyObject c) else None)
   }"

definition SurrealDBTenantPolicyList_DeepCopyObject ::
  "('m, 'l, 'x) apimachinery \<Rightarrow> ptr \<Rightarrow> ('m, 'l, 'x, runtime_object option) copying" where
  "SurrealDBTenantPolicyList_DeepCopyObject x p = do {
     c \<leftarrow> SurrealDBTenantPolicyList_DeepCopy x p;
     State_Monad.return (if c \<noteq> None then Some (PolicyListObject c) else None)
   }"

text \<open>The call of the method of an interface goes to the dynamic type.\<close>

fun DeepCopyObject ::
  "('m, 'l, 'x) apimachinery \<Rightarrow> runtime_object \<Rightarrow> ('m, 'l, 'x, runtime_object option) copying" where
  "DeepCopyObject x (CredentialObject p) = SurrealDBCredential_DeepCopyObject x p"
| "DeepCopyObject x (CredentialListObject p) = SurrealDBCredentialList_DeepCopyObject x p"
| "DeepCopyObject x (ProviderObject p) = SurrealDBProvider_DeepCopyObject x p"
| "DeepCopyObject x (ProviderListObject p) = SurrealDBProviderList_DeepCopyObject x p"
| "DeepCopyObject x (PolicyObject p) = SurrealDBTenantPolicy_DeepCopyObject x p"
| "DeepCopyObject x (PolicyListObject p) = SurrealDBTenantPolicyList_DeepCopyObject x p"

end
