(* ===== verification/CopyProperties.thy ===== *)
theory CopyProperties
  imports DeepCopies
begin

text \<open>
  What the generated deep copies promise: copy and original denote the same value, nil and empty
  slices told apart, and share no memory.  A view for each struct says what it denotes; the contract
  \<open>deep_copier\<close> is carried from the fields to the structs, the resources and their lists.
\<close>

section \<open>What the structs denote\<close>

type_synonym strings_value = "string list option"
type_synonym conditions_value = "Condition list option"
type_synonym tls_value = "(CASecretReference option, ClientCertificateReference option) ProviderTLSConfigMem"
type_synonym rotation_value = "duration option RotationSpecMem"
type_synonym credential_spec_value = "(strings_value, rotation_value option) SurrealDBCredentialSpecMem"
type_synonym credential_status_value =
  "(LocalProviderReference option, gtime option, conditions_value) SurrealDBCredentialStatusMem"
type_synonym policy_spec_value =
  "(strings_value DatabaseUserPolicyMem, strings_value NamespaceUserPolicyMem) SurrealDBTenantPolicySpecMem"
type_synonym policy_status_value = "(LocalProviderReference option, conditions_value) SurrealDBTenantPolicyStatusMem"
type_synonym 'mv credential_value = "('mv, credential_spec_value, credential_status_value) ObjectMem"
type_synonym 'mv provider_value =
  "('mv, tls_value option SurrealDBProviderSpecMem, conditions_value SurrealDBProviderStatusMem) ObjectMem"
type_synonym 'mv policy_value = "('mv, policy_spec_value, policy_status_value) ObjectMem"

abbreviation "strings_view \<equiv> slice_view StringsCell value_view"
abbreviation "roles_view \<equiv> slice_view RolesCell value_view"
abbreviation "conditions_view \<equiv> slice_view ConditionsCell value_view"
abbreviation "time_view \<equiv> pointer_view TimeCell value_view"
abbreviation "provider_ref_view \<equiv> pointer_view ProviderRefCell value_view"

definition database_users_view :: "(('m, 'l, 'x) cell, database_users_mem, strings_value DatabaseUserPolicyMem) view" where
  "database_users_view h s F v \<longleftrightarrow>
     both_view strings_view roles_view h
       (mdu_databases s, mdu_roles s) F (mdu_databases v, mdu_roles v)"

definition namespace_users_view :: "(('m, 'l, 'x) cell, namespace_users_mem, strings_value NamespaceUserPolicyMem) view" where
  "namespace_users_view h s F v \<longleftrightarrow>
     roles_view h
       (mnu_roles s) F (mnu_roles v) \<and>
     mnu_allowed v = mnu_allowed s"

definition tls_view :: "(('m, 'l, 'x) cell, tls_mem, tls_value) view" where
  "tls_view h s F v \<longleftrightarrow>
     both_view (pointer_view CACell value_view) (pointer_view ClientCertificateCell value_view) h
       (mt_ca s, mt_certificate s) F (mt_ca v, mt_certificate v) \<and>
     mt_insecure v = mt_insecure s"

definition rotation_view :: "(('m, 'l, 'x) cell, rotation_mem, rotation_value) view" where
  "rotation_view h s F v \<longleftrightarrow>
     pointer_view DurationCell value_view h
       (mr_period s) F (mr_period v)"

definition credential_spec_view :: "(('m, 'l, 'x) cell, credential_spec_mem, credential_spec_value) view" where
  "credential_spec_view h s F v \<longleftrightarrow>
     both_view roles_view (pointer_view RotationCell rotation_view) h
       (mcs_roles s, mcs_rotation s) F (mcs_roles v, mcs_rotation v) \<and>
     mcs_policy_ref v = mcs_policy_ref s \<and>
     mcs_level v = mcs_level s \<and>
     mcs_database v = mcs_database s \<and>
     mcs_target_secret v = mcs_target_secret s"

definition credential_status_view :: "(('m, 'l, 'x) cell, credential_status_mem, credential_status_value) view" where
  "credential_status_view h s F v \<longleftrightarrow>
     both_view provider_ref_view (both_view time_view (both_view time_view conditions_view)) h
       (mct_provider_ref s, mct_last_rotation_time s, mct_next_rotation_time s, mct_conditions s) F (mct_provider_ref v, mct_last_rotation_time v, mct_next_rotation_time v, mct_conditions v) \<and>
     mct_observed_generation v = mct_observed_generation s \<and>
     mct_surreal_namespace v = mct_surreal_namespace s \<and>
     mct_database v = mct_database s \<and>
     mct_username v = mct_username s \<and>
     mct_last_manual_rotation_trigger v = mct_last_manual_rotation_trigger s"

definition provider_spec_view :: "(('m, 'l, 'x) cell, provider_spec_mem, tls_value option SurrealDBProviderSpecMem) view" where
  "provider_spec_view h s F v \<longleftrightarrow>
     pointer_view TLSCell tls_view h
       (mps_tls s) F (mps_tls v) \<and>
     mps_endpoint v = mps_endpoint s \<and>
     mps_root_credential_ref v = mps_root_credential_ref s"

definition provider_status_view :: "(('m, 'l, 'x) cell, provider_status_mem, conditions_value SurrealDBProviderStatusMem) view" where
  "provider_status_view h s F v \<longleftrightarrow>
     conditions_view h
       (mpt_conditions s) F (mpt_conditions v) \<and>
     mpt_observed_generation v = mpt_observed_generation s"

definition policy_spec_view :: "(('m, 'l, 'x) cell, policy_spec_mem, policy_spec_value) view" where
  "policy_spec_view h s F v \<longleftrightarrow>
     both_view database_users_view namespace_users_view h
       (mts_database_users s, mts_namespace_users s) F (mts_database_users v, mts_namespace_users v) \<and>
     mts_provider_ref v = mts_provider_ref s \<and>
     mts_surreal_namespace v = mts_surreal_namespace s"

definition policy_status_view :: "(('m, 'l, 'x) cell, policy_status_mem, policy_status_value) view" where
  "policy_status_view h s F v \<longleftrightarrow>
     both_view provider_ref_view conditions_view h
       (mtt_provider_ref s, mtt_conditions s) F (mtt_provider_ref v, mtt_conditions v) \<and>
     mtt_observed_generation v = mtt_observed_generation s"

definition credential_view :: "(('m, 'l, 'x) cell, 'm, 'mv) view \<Rightarrow> (('m, 'l, 'x) cell, 'm credential_mem, 'mv credential_value) view" where
  "credential_view Vm h s F v \<longleftrightarrow>
     both_view Vm (both_view credential_spec_view credential_status_view) h
       (mo_meta s, mo_spec s, mo_status s) F (mo_meta v, mo_spec v, mo_status v) \<and>
     mo_type_meta v = mo_type_meta s"

definition provider_view :: "(('m, 'l, 'x) cell, 'm, 'mv) view \<Rightarrow> (('m, 'l, 'x) cell, 'm provider_mem, 'mv provider_value) view" where
  "provider_view Vm h s F v \<longleftrightarrow>
     both_view Vm (both_view provider_spec_view provider_status_view) h
       (mo_meta s, mo_spec s, mo_status s) F (mo_meta v, mo_spec v, mo_status v) \<and>
     mo_type_meta v = mo_type_meta s"

definition policy_view :: "(('m, 'l, 'x) cell, 'm, 'mv) view \<Rightarrow> (('m, 'l, 'x) cell, 'm policy_mem, 'mv policy_value) view" where
  "policy_view Vm h s F v \<longleftrightarrow>
     both_view Vm (both_view policy_spec_view policy_status_view) h
       (mo_meta s, mo_spec s, mo_status s) F (mo_meta v, mo_spec v, mo_status v) \<and>
     mo_type_meta v = mo_type_meta s"

text \<open>A list, over the view \<open>V\<close> of its items, which lie in cells \<open>mk\<close>.\<close>

definition list_view ::
  "(('m, 'l, 'x) cell, 'l, 'lv) view \<Rightarrow> ('i list \<Rightarrow> ('m, 'l, 'x) cell) \<Rightarrow> (('m, 'l, 'x) cell, 'i, 'iv) view \<Rightarrow>
    (('m, 'l, 'x) cell, 'l list_mem, ('lv, 'iv list option) ObjectListMem) view" where
  "list_view Vl mk V h s F v \<longleftrightarrow>
     both_view Vl (slice_view mk V) h (ml_meta s, ml_items s) F (ml_meta v, ml_items v) \<and>
     ml_type_meta v = ml_type_meta s"

section \<open>The copies keep the contract\<close>

text \<open>
  What is asked of the methods of apimachinery: they are deep copies themselves, over some view of
  \<^verbatim>\<open>ObjectMeta\<close> and of \<^verbatim>\<open>ListMeta\<close>.  A \<^verbatim>\<open>Condition\<close> and a \<^verbatim>\<open>Time\<close> hold no reference that is written.
\<close>

definition apimachinery_copies ::
  "('m, 'l, 'x) apimachinery \<Rightarrow> (('m, 'l, 'x) cell, 'm, 'mv) view \<Rightarrow> (('m, 'l, 'x) cell, 'l, 'lv) view \<Rightarrow> bool" where
  "apimachinery_copies x Vm Vl \<longleftrightarrow>
     deep_copier Vm (meta_DeepCopyInto x) \<and> deep_copier Vl (list_meta_DeepCopyInto x) \<and>
     deep_copier value_view (condition_DeepCopyInto x) \<and> deep_copier time_view (time_DeepCopy x)"

lemma copy_time_copier:
  assumes "deep_copier time_view (time_DeepCopy x)"
  shows "deep_copier time_view (copy_time x)"
proof (rule deep_copier.intro, goal_cases)
  case (3 h p F v)
  then show ?case
    using deep_copier.copies [OF assms 3] by (auto simp: copy_time_def pointer_view_def)
qed (fact deep_copier.frame [OF assms] deep_copier.bounded [OF assms])+

lemma value_copiers:
  "deep_copier strings_view (copy_slice ZeroCell StringsCell strings_in State_Monad.return)"
  "deep_copier roles_view (copy_slice ZeroCell RolesCell roles_in State_Monad.return)"
  "deep_copier (pointer_view CACell value_view) (copy_pointer ZeroCell CACell ca_in State_Monad.return)"
  "deep_copier (pointer_view ClientCertificateCell value_view)
     (copy_pointer ZeroCell ClientCertificateCell client_certificate_in State_Monad.return)"
  "deep_copier (pointer_view DurationCell value_view) (copy_pointer ZeroCell DurationCell duration_in State_Monad.return)"
  "deep_copier provider_ref_view (copy_pointer ZeroCell ProviderRefCell provider_ref_in State_Monad.return)"
  by (intro deep_copier_slice deep_copier_pointer plain.deep_copier_axioms; simp)+

lemma conditions_copier:
  assumes "deep_copier value_view (condition_DeepCopyInto x)"
  shows "deep_copier conditions_view
    (copy_slice ZeroCell ConditionsCell conditions_in (condition_DeepCopyInto x))"
  by (rule deep_copier_slice [OF assms]) simp

lemmas strings_copier = value_copiers(1) and roles_copier = value_copiers(2)
  and ca_copier = value_copiers(3) and certificate_copier = value_copiers(4)
  and duration_copier = value_copiers(5) and provider_ref_copier = value_copiers(6)

lemma database_users_copier:
  "deep_copier database_users_view DatabaseUserPolicy_DeepCopyInto"
  by (rule deep_copier_struct [OF deep_copier_both [OF strings_copier roles_copier], where
        part = "\<lambda>s. (mdu_databases s, mdu_roles s)" and part' = "\<lambda>v. (mdu_databases v, mdu_roles v)" and
        put = "\<lambda>s (a, b). s\<lparr>mdu_databases := a, mdu_roles := b\<rparr>" and
        flat = "\<lambda>s v. True"])
    (simp_all add: database_users_view_def DatabaseUserPolicy_DeepCopyInto_def copy_both_def split: prod.splits)

lemma namespace_users_copier:
  "deep_copier namespace_users_view NamespaceUserPolicy_DeepCopyInto"
  by (rule deep_copier_struct [OF roles_copier, where
        part = "\<lambda>s. mnu_roles s" and part' = "\<lambda>v. mnu_roles v" and
        put = "\<lambda>s a. s\<lparr>mnu_roles := a\<rparr>" and
        flat = "\<lambda>s v. mnu_allowed v = mnu_allowed s"])
    (simp_all add: namespace_users_view_def NamespaceUserPolicy_DeepCopyInto_def copy_both_def split: prod.splits)

lemma tls_copier:
  "deep_copier tls_view ProviderTLSConfig_DeepCopyInto"
  by (rule deep_copier_struct [OF deep_copier_both [OF ca_copier certificate_copier], where
        part = "\<lambda>s. (mt_ca s, mt_certificate s)" and part' = "\<lambda>v. (mt_ca v, mt_certificate v)" and
        put = "\<lambda>s (a, b). s\<lparr>mt_ca := a, mt_certificate := b\<rparr>" and
        flat = "\<lambda>s v. mt_insecure v = mt_insecure s"])
    (simp_all add: tls_view_def ProviderTLSConfig_DeepCopyInto_def copy_both_def split: prod.splits)

lemma rotation_copier:
  "deep_copier rotation_view RotationSpec_DeepCopyInto"
  by (rule deep_copier_struct [OF duration_copier, where
        part = "\<lambda>s. mr_period s" and part' = "\<lambda>v. mr_period v" and
        put = "\<lambda>s a. s\<lparr>mr_period := a\<rparr>" and
        flat = "\<lambda>s v. True"])
    (simp_all add: rotation_view_def RotationSpec_DeepCopyInto_def copy_both_def split: prod.splits)

lemma credential_spec_copier:
  "deep_copier credential_spec_view SurrealDBCredentialSpec_DeepCopyInto"
  by (rule deep_copier_struct [OF deep_copier_both [OF roles_copier deep_copier_pointer [OF rotation_copier]], where
        part = "\<lambda>s. (mcs_roles s, mcs_rotation s)" and part' = "\<lambda>v. (mcs_roles v, mcs_rotation v)" and
        put = "\<lambda>s (a, b). s\<lparr>mcs_roles := a, mcs_rotation := b\<rparr>" and
        flat = "\<lambda>s v. mcs_policy_ref v = mcs_policy_ref s \<and>
          mcs_level v = mcs_level s \<and>
          mcs_database v = mcs_database s \<and>
          mcs_target_secret v = mcs_target_secret s"])
    (simp_all add: credential_spec_view_def SurrealDBCredentialSpec_DeepCopyInto_def copy_both_def split: prod.splits)

lemma credential_status_copier:
  assumes "deep_copier value_view (condition_DeepCopyInto x)" and "deep_copier time_view (time_DeepCopy x)"
  shows "deep_copier credential_status_view (SurrealDBCredentialStatus_DeepCopyInto x)"
  by (rule deep_copier_struct [OF deep_copier_both [OF provider_ref_copier deep_copier_both [OF copy_time_copier [OF assms(2)]
        deep_copier_both [OF copy_time_copier [OF assms(2)] conditions_copier [OF assms(1)]]]], where
        part = "\<lambda>s. (mct_provider_ref s, mct_last_rotation_time s, mct_next_rotation_time s, mct_conditions s)" and part' = "\<lambda>v. (mct_provider_ref v, mct_last_rotation_time v, mct_next_rotation_time v, mct_conditions v)" and
        put = "\<lambda>s (a, b, c, d). s\<lparr>mct_provider_ref := a, mct_last_rotation_time := b, mct_next_rotation_time := c, mct_conditions := d\<rparr>" and
        flat = "\<lambda>s v. mct_observed_generation v = mct_observed_generation s \<and>
          mct_surreal_namespace v = mct_surreal_namespace s \<and>
          mct_database v = mct_database s \<and>
          mct_username v = mct_username s \<and>
          mct_last_manual_rotation_trigger v = mct_last_manual_rotation_trigger s"])
    (simp_all add: credential_status_view_def SurrealDBCredentialStatus_DeepCopyInto_def copy_both_def split: prod.splits)

lemma provider_spec_copier:
  "deep_copier provider_spec_view SurrealDBProviderSpec_DeepCopyInto"
  by (rule deep_copier_struct [OF deep_copier_pointer [OF tls_copier], where
        part = "\<lambda>s. mps_tls s" and part' = "\<lambda>v. mps_tls v" and
        put = "\<lambda>s a. s\<lparr>mps_tls := a\<rparr>" and
        flat = "\<lambda>s v. mps_endpoint v = mps_endpoint s \<and>
          mps_root_credential_ref v = mps_root_credential_ref s"])
    (simp_all add: provider_spec_view_def SurrealDBProviderSpec_DeepCopyInto_def copy_both_def split: prod.splits)

lemma provider_status_copier:
  assumes "deep_copier value_view (condition_DeepCopyInto x)"
  shows "deep_copier provider_status_view (SurrealDBProviderStatus_DeepCopyInto x)"
  by (rule deep_copier_struct [OF conditions_copier [OF assms(1)], where
        part = "\<lambda>s. mpt_conditions s" and part' = "\<lambda>v. mpt_conditions v" and
        put = "\<lambda>s a. s\<lparr>mpt_conditions := a\<rparr>" and
        flat = "\<lambda>s v. mpt_observed_generation v = mpt_observed_generation s"])
    (simp_all add: provider_status_view_def SurrealDBProviderStatus_DeepCopyInto_def copy_both_def split: prod.splits)

lemma policy_spec_copier:
  "deep_copier policy_spec_view SurrealDBTenantPolicySpec_DeepCopyInto"
  by (rule deep_copier_struct [OF deep_copier_both [OF database_users_copier namespace_users_copier], where
        part = "\<lambda>s. (mts_database_users s, mts_namespace_users s)" and part' = "\<lambda>v. (mts_database_users v, mts_namespace_users v)" and
        put = "\<lambda>s (a, b). s\<lparr>mts_database_users := a, mts_namespace_users := b\<rparr>" and
        flat = "\<lambda>s v. mts_provider_ref v = mts_provider_ref s \<and>
          mts_surreal_namespace v = mts_surreal_namespace s"])
    (simp_all add: policy_spec_view_def SurrealDBTenantPolicySpec_DeepCopyInto_def copy_both_def split: prod.splits)

lemma policy_status_copier:
  assumes "deep_copier value_view (condition_DeepCopyInto x)"
  shows "deep_copier policy_status_view (SurrealDBTenantPolicyStatus_DeepCopyInto x)"
  by (rule deep_copier_struct [OF deep_copier_both [OF provider_ref_copier conditions_copier [OF assms(1)]], where
        part = "\<lambda>s. (mtt_provider_ref s, mtt_conditions s)" and part' = "\<lambda>v. (mtt_provider_ref v, mtt_conditions v)" and
        put = "\<lambda>s (a, b). s\<lparr>mtt_provider_ref := a, mtt_conditions := b\<rparr>" and
        flat = "\<lambda>s v. mtt_observed_generation v = mtt_observed_generation s"])
    (simp_all add: policy_status_view_def SurrealDBTenantPolicyStatus_DeepCopyInto_def copy_both_def split: prod.splits)

lemma credential_copier:
  assumes "deep_copier Vm (meta_DeepCopyInto x)" and "deep_copier value_view (condition_DeepCopyInto x)" and "deep_copier time_view (time_DeepCopy x)"
  shows "deep_copier (credential_view Vm) (SurrealDBCredential_DeepCopyInto x)"
  by (rule deep_copier_struct [OF deep_copier_both [OF assms(1) deep_copier_both [OF credential_spec_copier
        credential_status_copier [OF assms(2,3)]]], where
        part = "\<lambda>s. (mo_meta s, mo_spec s, mo_status s)" and part' = "\<lambda>v. (mo_meta v, mo_spec v, mo_status v)" and
        put = "\<lambda>s (a, b, c). s\<lparr>mo_meta := a, mo_spec := b, mo_status := c\<rparr>" and
        flat = "\<lambda>s v. mo_type_meta v = mo_type_meta s"])
    (simp_all add: credential_view_def SurrealDBCredential_DeepCopyInto_def copy_both_def split: prod.splits)

lemma provider_copier:
  assumes "deep_copier Vm (meta_DeepCopyInto x)" and "deep_copier value_view (condition_DeepCopyInto x)"
  shows "deep_copier (provider_view Vm) (SurrealDBProvider_DeepCopyInto x)"
  by (rule deep_copier_struct [OF deep_copier_both [OF assms(1) deep_copier_both [OF provider_spec_copier
        provider_status_copier [OF assms(2)]]], where
        part = "\<lambda>s. (mo_meta s, mo_spec s, mo_status s)" and part' = "\<lambda>v. (mo_meta v, mo_spec v, mo_status v)" and
        put = "\<lambda>s (a, b, c). s\<lparr>mo_meta := a, mo_spec := b, mo_status := c\<rparr>" and
        flat = "\<lambda>s v. mo_type_meta v = mo_type_meta s"])
    (simp_all add: provider_view_def SurrealDBProvider_DeepCopyInto_def copy_both_def split: prod.splits)

lemma policy_copier:
  assumes "deep_copier Vm (meta_DeepCopyInto x)" and "deep_copier value_view (condition_DeepCopyInto x)"
  shows "deep_copier (policy_view Vm) (SurrealDBTenantPolicy_DeepCopyInto x)"
  by (rule deep_copier_struct [OF deep_copier_both [OF assms(1) deep_copier_both [OF policy_spec_copier
        policy_status_copier [OF assms(2)]]], where
        part = "\<lambda>s. (mo_meta s, mo_spec s, mo_status s)" and part' = "\<lambda>v. (mo_meta v, mo_spec v, mo_status v)" and
        put = "\<lambda>s (a, b, c). s\<lparr>mo_meta := a, mo_spec := b, mo_status := c\<rparr>" and
        flat = "\<lambda>s v. mo_type_meta v = mo_type_meta s"])
    (simp_all add: policy_view_def SurrealDBTenantPolicy_DeepCopyInto_def copy_both_def split: prod.splits)

lemma list_copier:
  assumes "deep_copier Vl (list_meta_DeepCopyInto x)" and "deep_copier V into" and "\<And>xs. sel (mk xs) = xs"
    and "\<And>src. list_into src = do {
       meta \<leftarrow> list_meta_DeepCopyInto x (ml_meta src);
       items \<leftarrow> copy_slice ZeroCell mk sel into (ml_items src);
       State_Monad.return (src\<lparr>ml_meta := meta, ml_items := items\<rparr>)
     }"
  shows "deep_copier (list_view Vl mk V) list_into"
  by (rule deep_copier_struct [OF deep_copier_both [OF assms(1) deep_copier_slice [OF assms(2,3)]], where
        part = "\<lambda>s. (ml_meta s, ml_items s)" and part' = "\<lambda>v. (ml_meta v, ml_items v)" and
        put = "\<lambda>s (a, b). s\<lparr>ml_meta := a, ml_items := b\<rparr>" and
        flat = "\<lambda>s v. ml_type_meta v = ml_type_meta s"])
    (simp_all add: list_view_def assms(4) copy_both_def split: prod.splits)

text \<open>\<open>DeepCopy\<close> of every type is a deep copy of the pointer.\<close>

lemmas DeepCopy_defs = CASecretReference_DeepCopy_def [abs_def] ClientCertificateReference_DeepCopy_def [abs_def]
  LocalPolicyReference_DeepCopy_def [abs_def] LocalProviderReference_DeepCopy_def [abs_def]
  NamespacedSecretReference_DeepCopy_def [abs_def] RootCredentialReference_DeepCopy_def [abs_def]
  TargetSecretSpec_DeepCopy_def [abs_def] DatabaseUserPolicy_DeepCopy_def [abs_def]
  NamespaceUserPolicy_DeepCopy_def [abs_def] ProviderTLSConfig_DeepCopy_def [abs_def]
  RotationSpec_DeepCopy_def [abs_def] SurrealDBCredentialSpec_DeepCopy_def [abs_def]
  SurrealDBCredentialStatus_DeepCopy_def [abs_def] SurrealDBProviderSpec_DeepCopy_def [abs_def]
  SurrealDBProviderStatus_DeepCopy_def [abs_def] SurrealDBTenantPolicySpec_DeepCopy_def [abs_def]
  SurrealDBTenantPolicyStatus_DeepCopy_def [abs_def] SurrealDBCredential_DeepCopy_def [abs_def]
  SurrealDBProvider_DeepCopy_def [abs_def] SurrealDBTenantPolicy_DeepCopy_def [abs_def]
  SurrealDBCredentialList_DeepCopy_def [abs_def] SurrealDBProviderList_DeepCopy_def [abs_def]
  SurrealDBTenantPolicyList_DeepCopy_def [abs_def]

lemma flat_copier:
  "deep_copier value_view CASecretReference_DeepCopyInto" "deep_copier value_view ClientCertificateReference_DeepCopyInto"
  "deep_copier value_view LocalPolicyReference_DeepCopyInto" "deep_copier value_view LocalProviderReference_DeepCopyInto"
  "deep_copier value_view NamespacedSecretReference_DeepCopyInto" "deep_copier value_view RootCredentialReference_DeepCopyInto"
  "deep_copier value_view TargetSecretSpec_DeepCopyInto"
  by (rule deep_copier_struct [OF plain.deep_copier_axioms, where part = "\<lambda>s. s" and part' = "\<lambda>v. v"
        and put = "\<lambda>_ y. y" and flat = "\<lambda>_ _. True"];
      simp add: CASecretReference_DeepCopyInto_def ClientCertificateReference_DeepCopyInto_def
        LocalPolicyReference_DeepCopyInto_def LocalProviderReference_DeepCopyInto_def
        NamespacedSecretReference_DeepCopyInto_def RootCredentialReference_DeepCopyInto_def
        TargetSecretSpec_DeepCopyInto_def)+

interpretation ca_reference: deep_copier "pointer_view CACell value_view" CASecretReference_DeepCopy
  unfolding DeepCopy_defs by (rule deep_copier_pointer [OF flat_copier(1)]) simp

interpretation client_certificate_reference:
  deep_copier "pointer_view ClientCertificateCell value_view" ClientCertificateReference_DeepCopy
  unfolding DeepCopy_defs by (rule deep_copier_pointer [OF flat_copier(2)]) simp

interpretation policy_reference: deep_copier "pointer_view PolicyRefCell value_view" LocalPolicyReference_DeepCopy
  unfolding DeepCopy_defs by (rule deep_copier_pointer [OF flat_copier(3)]) simp

interpretation provider_reference: deep_copier "pointer_view ProviderRefCell value_view" LocalProviderReference_DeepCopy
  unfolding DeepCopy_defs by (rule deep_copier_pointer [OF flat_copier(4)]) simp

interpretation secret_reference: deep_copier "pointer_view SecretRefCell value_view" NamespacedSecretReference_DeepCopy
  unfolding DeepCopy_defs by (rule deep_copier_pointer [OF flat_copier(5)]) simp

interpretation root_reference: deep_copier "pointer_view RootRefCell value_view" RootCredentialReference_DeepCopy
  unfolding DeepCopy_defs by (rule deep_copier_pointer [OF flat_copier(6)]) simp

interpretation target_secret: deep_copier "pointer_view TargetSecretCell value_view" TargetSecretSpec_DeepCopy
  unfolding DeepCopy_defs by (rule deep_copier_pointer [OF flat_copier(7)]) simp

interpretation database_users: deep_copier "pointer_view DatabaseUsersCell database_users_view" DatabaseUserPolicy_DeepCopy
  unfolding DeepCopy_defs by (rule deep_copier_pointer [OF database_users_copier]) simp

interpretation namespace_users: deep_copier "pointer_view NamespaceUsersCell namespace_users_view" NamespaceUserPolicy_DeepCopy
  unfolding DeepCopy_defs by (rule deep_copier_pointer [OF namespace_users_copier]) simp

interpretation tls_config: deep_copier "pointer_view TLSCell tls_view" ProviderTLSConfig_DeepCopy
  unfolding DeepCopy_defs by (rule deep_copier_pointer [OF tls_copier]) simp

interpretation rotation_spec: deep_copier "pointer_view RotationCell rotation_view" RotationSpec_DeepCopy
  unfolding DeepCopy_defs by (rule deep_copier_pointer [OF rotation_copier]) simp

interpretation credential_spec: deep_copier "pointer_view CredentialSpecCell credential_spec_view" SurrealDBCredentialSpec_DeepCopy
  unfolding DeepCopy_defs by (rule deep_copier_pointer [OF credential_spec_copier]) simp

interpretation provider_spec: deep_copier "pointer_view ProviderSpecCell provider_spec_view" SurrealDBProviderSpec_DeepCopy
  unfolding DeepCopy_defs by (rule deep_copier_pointer [OF provider_spec_copier]) simp

interpretation policy_spec: deep_copier "pointer_view PolicySpecCell policy_spec_view" SurrealDBTenantPolicySpec_DeepCopy
  unfolding DeepCopy_defs by (rule deep_copier_pointer [OF policy_spec_copier]) simp

lemma status_DeepCopy_copiers:
  assumes "apimachinery_copies x Vm Vl"
  shows "deep_copier (pointer_view CredentialStatusCell credential_status_view) (SurrealDBCredentialStatus_DeepCopy x)"
    and "deep_copier (pointer_view ProviderStatusCell provider_status_view) (SurrealDBProviderStatus_DeepCopy x)"
    and "deep_copier (pointer_view PolicyStatusCell policy_status_view) (SurrealDBTenantPolicyStatus_DeepCopy x)"
  unfolding DeepCopy_defs using assms
  by (intro deep_copier_pointer credential_status_copier provider_status_copier policy_status_copier;
      simp add: apimachinery_copies_def)+

lemma object_DeepCopy_copiers:
  assumes "apimachinery_copies x Vm Vl"
  shows "deep_copier (pointer_view CredentialCell (credential_view Vm)) (SurrealDBCredential_DeepCopy x)"
    and "deep_copier (pointer_view ProviderCell (provider_view Vm)) (SurrealDBProvider_DeepCopy x)"
    and "deep_copier (pointer_view PolicyCell (policy_view Vm)) (SurrealDBTenantPolicy_DeepCopy x)"
    and "deep_copier (pointer_view CredentialListCell (list_view Vl CredentialsCell (credential_view Vm)))
      (SurrealDBCredentialList_DeepCopy x)"
    and "deep_copier (pointer_view ProviderListCell (list_view Vl ProvidersCell (provider_view Vm)))
      (SurrealDBProviderList_DeepCopy x)"
    and "deep_copier (pointer_view PolicyListCell (list_view Vl PoliciesCell (policy_view Vm)))
      (SurrealDBTenantPolicyList_DeepCopy x)"
proof -
  have laws: "deep_copier Vm (meta_DeepCopyInto x)" "deep_copier Vl (list_meta_DeepCopyInto x)"
    "deep_copier value_view (condition_DeepCopyInto x)" "deep_copier time_view (time_DeepCopy x)"
    using assms by (simp_all add: apimachinery_copies_def)
  note credential = credential_copier [OF laws(1,3,4)] and provider = provider_copier [OF laws(1,3)]
    and policy = policy_copier [OF laws(1,3)]
  show "deep_copier (pointer_view CredentialCell (credential_view Vm)) (SurrealDBCredential_DeepCopy x)"
    unfolding DeepCopy_defs by (rule deep_copier_pointer [OF credential]) simp
  show "deep_copier (pointer_view ProviderCell (provider_view Vm)) (SurrealDBProvider_DeepCopy x)"
    unfolding DeepCopy_defs by (rule deep_copier_pointer [OF provider]) simp
  show "deep_copier (pointer_view PolicyCell (policy_view Vm)) (SurrealDBTenantPolicy_DeepCopy x)"
    unfolding DeepCopy_defs by (rule deep_copier_pointer [OF policy]) simp
  have "deep_copier (list_view Vl CredentialsCell (credential_view Vm)) (SurrealDBCredentialList_DeepCopyInto x)"
    by (rule list_copier [OF laws(2) credential]) (simp_all add: SurrealDBCredentialList_DeepCopyInto_def)
  then show "deep_copier (pointer_view CredentialListCell (list_view Vl CredentialsCell (credential_view Vm)))
      (SurrealDBCredentialList_DeepCopy x)"
    unfolding DeepCopy_defs by (rule deep_copier_pointer) simp
  have "deep_copier (list_view Vl ProvidersCell (provider_view Vm)) (SurrealDBProviderList_DeepCopyInto x)"
    by (rule list_copier [OF laws(2) provider]) (simp_all add: SurrealDBProviderList_DeepCopyInto_def)
  then show "deep_copier (pointer_view ProviderListCell (list_view Vl ProvidersCell (provider_view Vm)))
      (SurrealDBProviderList_DeepCopy x)"
    unfolding DeepCopy_defs by (rule deep_copier_pointer) simp
  have "deep_copier (list_view Vl PoliciesCell (policy_view Vm)) (SurrealDBTenantPolicyList_DeepCopyInto x)"
    by (rule list_copier [OF laws(2) policy]) (simp_all add: SurrealDBTenantPolicyList_DeepCopyInto_def)
  then show "deep_copier (pointer_view PolicyListCell (list_view Vl PoliciesCell (policy_view Vm)))
      (SurrealDBTenantPolicyList_DeepCopy x)"
    unfolding DeepCopy_defs by (rule deep_copier_pointer) simp
qed

section \<open>Copies of objects\<close>

datatype ('mv, 'lv) object_value =
  CredentialValue "'mv credential_value option"
| CredentialListValue "('lv, 'mv credential_value list option) ObjectListMem option"
| ProviderValue "'mv provider_value option"
| ProviderListValue "('lv, 'mv provider_value list option) ObjectListMem option"
| PolicyValue "'mv policy_value option"
| PolicyListValue "('lv, 'mv policy_value list option) ObjectListMem option"

fun object_view :: "(('m, 'l, 'x) cell, 'm, 'mv) view \<Rightarrow> (('m, 'l, 'x) cell, 'l, 'lv) view \<Rightarrow>
    (('m, 'l, 'x) cell, runtime_object, ('mv, 'lv) object_value) view" where
  "object_view Vm Vl h (CredentialObject p) F v \<longleftrightarrow>
     (\<exists>w. v = CredentialValue w \<and> pointer_view CredentialCell (credential_view Vm) h p F w)"
| "object_view Vm Vl h (CredentialListObject p) F v \<longleftrightarrow>
     (\<exists>w. v = CredentialListValue w \<and>
       pointer_view CredentialListCell (list_view Vl CredentialsCell (credential_view Vm)) h p F w)"
| "object_view Vm Vl h (ProviderObject p) F v \<longleftrightarrow>
     (\<exists>w. v = ProviderValue w \<and> pointer_view ProviderCell (provider_view Vm) h p F w)"
| "object_view Vm Vl h (ProviderListObject p) F v \<longleftrightarrow>
     (\<exists>w. v = ProviderListValue w \<and>
       pointer_view ProviderListCell (list_view Vl ProvidersCell (provider_view Vm)) h p F w)"
| "object_view Vm Vl h (PolicyObject p) F v \<longleftrightarrow>
     (\<exists>w. v = PolicyValue w \<and> pointer_view PolicyCell (policy_view Vm) h p F w)"
| "object_view Vm Vl h (PolicyListObject p) F v \<longleftrightarrow>
     (\<exists>w. v = PolicyListValue w \<and>
       pointer_view PolicyListCell (list_view Vl PoliciesCell (policy_view Vm)) h p F w)"

fun object_pointer :: "runtime_object \<Rightarrow> ptr" where
  "object_pointer (CredentialObject p) = p"
| "object_pointer (CredentialListObject p) = p"
| "object_pointer (ProviderObject p) = p"
| "object_pointer (ProviderListObject p) = p"
| "object_pointer (PolicyObject p) = p"
| "object_pointer (PolicyListObject p) = p"

text \<open>
  \<open>isolated_copy O h obj F v res h'\<close>: the answer \<open>res\<close> for the object \<open>obj\<close>, which denotes \<open>v\<close> with
  the cells \<open>F\<close>, left the old memory as it was; it is nil for a nil pointer, and otherwise denotes
  \<open>v\<close> with other cells, so that later allocations and assignments to the cells of one of the two
  leave the other as it is.
\<close>

definition isolated_copy :: "('c, runtime_object, 'v) view \<Rightarrow> 'c store \<Rightarrow> runtime_object \<Rightarrow> addr set \<Rightarrow> 'v \<Rightarrow>
    runtime_object option \<Rightarrow> 'c store \<Rightarrow> bool" where
  "isolated_copy V h obj F v res h' \<longleftrightarrow>
     (case res of
        None \<Rightarrow> object_pointer obj = None \<and> h' = h
      | Some copy \<Rightarrow> object_pointer obj \<noteq> None \<and> object_pointer copy \<noteq> None \<and> keeps h h' \<and>
          (\<exists>G. F \<inter> G = {} \<and> V h' copy G v \<and>
            (\<forall>h''. changes_only G h' h'' \<longrightarrow> V h'' obj F v) \<and>
            (\<forall>h''. changes_only F h' h'' \<longrightarrow> V h'' copy G v)))"

lemma isolated_pointer:
  assumes copier: "deep_copier (pointer_view mk V) (copy_pointer zero mk sel into)"
    and view: "\<And>h p F v. W h (C p) F v \<longleftrightarrow> (\<exists>w. v = Cv w \<and> pointer_view mk V h p F w)"
    and ptr: "\<And>p. object_pointer (C p) = p"
    and W: "W h (C p) F v"
    and run: "run_state (do {
        c \<leftarrow> copy_pointer zero mk sel into p;
        State_Monad.return (if c \<noteq> None then Some (C c) else None)
      }) h = (res, h')"
  shows "isolated_copy W h (C p) F v res h'"
proof -
  from W obtain w where v: "v = Cv w" and w: "pointer_view mk V h p F w" by (auto simp: view)
  obtain c h1 where c: "run_state (copy_pointer zero mk sel into p) h = (c, h1)" by force
  with run have res: "res = (if c \<noteq> None then Some (C c) else None)" "h' = h1" by auto
  show ?thesis
  proof (cases p)
    case None
    with c have "c = None" "h1 = h" by (auto simp: copy_pointer_def)
    then show ?thesis by (simp add: isolated_copy_def res ptr None)
  next
    case (Some a)
    have "c \<noteq> None" using c by (auto simp: Some copy_pointer_def split: prod.splits)
    then have "res = Some (C c)" by (simp add: res)
    moreover from deep_copier.isolated [OF copier w c] obtain G where "keeps h h1" and "F \<inter> G = {}"
      and "pointer_view mk V h1 c G w"
      and "\<forall>h''. changes_only G h1 h'' \<longrightarrow> pointer_view mk V h'' p F w"
      and "\<forall>h''. changes_only F h1 h'' \<longrightarrow> pointer_view mk V h'' c G w" by blast
    ultimately have "keeps h h1 \<and> (\<exists>G. F \<inter> G = {} \<and> W h1 (C c) G v \<and>
        (\<forall>h''. changes_only G h1 h'' \<longrightarrow> W h'' (C p) F v) \<and> (\<forall>h''. changes_only F h1 h'' \<longrightarrow> W h'' (C c) G v))"
      unfolding view v by blast
    then show ?thesis using \<open>res = Some (C c)\<close> \<open>c \<noteq> None\<close> Some by (simp add: isolated_copy_def res(2) ptr)
  qed
qed

text \<open>
  C40. A copy of a resource or of a list denotes the same value and shares no memory with the
  original: no assignment through the one, and no later allocation, changes what the other denotes.
  Nothing that was in memory is changed, and a nil pointer is copied to the nil object.
\<close>

theorem copied_object_isolated:
  assumes "apimachinery_copies x Vm Vl" and "object_view Vm Vl h obj F v"
    and "run_state (DeepCopyObject x obj) h = (res, h')"
  shows "isolated_copy (object_view Vm Vl) h obj F v res h'"
proof -
  note copiers = object_DeepCopy_copiers [OF assms(1), unfolded DeepCopy_defs]
  note defs = SurrealDBCredential_DeepCopyObject_def SurrealDBCredentialList_DeepCopyObject_def
    SurrealDBProvider_DeepCopyObject_def SurrealDBProviderList_DeepCopyObject_def
    SurrealDBTenantPolicy_DeepCopyObject_def SurrealDBTenantPolicyList_DeepCopyObject_def
    DeepCopyObject.simps
  show ?thesis
  proof (cases obj)
    case (CredentialObject p)
    from assms(2,3) [unfolded this defs DeepCopy_defs] show ?thesis
      unfolding CredentialObject by (intro isolated_pointer [OF copiers(1)]) auto
  next
    case (CredentialListObject p)
    from assms(2,3) [unfolded this defs DeepCopy_defs] show ?thesis
      unfolding CredentialListObject by (intro isolated_pointer [OF copiers(4)]) auto
  next
    case (ProviderObject p)
    from assms(2,3) [unfolded this defs DeepCopy_defs] show ?thesis
      unfolding ProviderObject by (intro isolated_pointer [OF copiers(2)]) auto
  next
    case (ProviderListObject p)
    from assms(2,3) [unfolded this defs DeepCopy_defs] show ?thesis
      unfolding ProviderListObject by (intro isolated_pointer [OF copiers(5)]) auto
  next
    case (PolicyObject p)
    from assms(2,3) [unfolded this defs DeepCopy_defs] show ?thesis
      unfolding PolicyObject by (intro isolated_pointer [OF copiers(3)]) auto
  next
    case (PolicyListObject p)
    from assms(2,3) [unfolded this defs DeepCopy_defs] show ?thesis
      unfolding PolicyListObject by (intro isolated_pointer [OF copiers(6)]) auto
  qed
qed

text \<open>
  A credential whose roles lie in another cell: its metadata stands for that of apimachinery as a
  plain value.
\<close>

definition plain_apimachinery :: "(ObjectMeta, unit, unit) apimachinery" where
  "plain_apimachinery = \<lparr>meta_DeepCopyInto = State_Monad.return, list_meta_DeepCopyInto = State_Monad.return,
     condition_DeepCopyInto = State_Monad.return,
     time_DeepCopy = copy_pointer ZeroCell TimeCell time_in State_Monad.return\<rparr>"

lemma plain_apimachinery_copies: "apimachinery_copies plain_apimachinery value_view value_view"
  using deep_copier_pointer [OF plain.deep_copier_axioms, where sel = time_in and mk = TimeCell]
  by (simp add: apimachinery_copies_def plain_apimachinery_def plain.deep_copier_axioms)

definition stored_credential :: "'s \<Rightarrow> ObjectMeta \<Rightarrow>
    (ObjectMeta, ('s, 'p option) SurrealDBCredentialSpecMem,
      ('q option, 't option, 'u option) SurrealDBCredentialStatusMem) ObjectMem" where
  "stored_credential roles meta =
    \<lparr>mo_type_meta = \<lparr>tm_kind = ''SurrealDBCredential'', tm_api_version = GroupVersion\<rparr>, mo_meta = meta,
     mo_spec = \<lparr>mcs_policy_ref = \<lparr>lpolr_name = ''rules''\<rparr>, mcs_level = UserLevelNamespace, mcs_database = [],
       mcs_roles = roles, mcs_target_secret = \<lparr>ts_name = ''login''\<rparr>, mcs_rotation = None\<rparr>,
     mo_status = \<lparr>mct_observed_generation = 0, mct_provider_ref = None, mct_surreal_namespace = [],
       mct_database = [], mct_username = [], mct_last_rotation_time = None, mct_next_rotation_time = None,
       mct_last_manual_rotation_trigger = [], mct_conditions = None\<rparr>\<rparr>"

definition no_meta :: ObjectMeta where
  "no_meta = \<lparr>om_name = ''app'', om_namespace = ''demo'', om_uid = [], om_resource_version = [],
     om_generation = 1, om_deletion_timestamp = None, om_finalizers = [], om_labels = None,
     om_annotations = None, om_owner_references = []\<rparr>"

definition small_store :: "(ObjectMeta, unit, unit) cell store" where
  "small_store = [RolesCell [RoleEditor], CredentialCell
     (stored_credential (Some \<lparr>sl_array = 0, sl_offset = 0, sl_len = 1\<rparr>) no_meta)]"

theorem copied_object_isolated_witness:
  "\<exists>h' G. run_state (DeepCopyObject plain_apimachinery (CredentialObject (Some 1))) small_store =
      (Some (CredentialObject (Some 2)), h') \<and>
    object_view value_view value_view (h'[0 := RolesCell [RoleOwner]]) (CredentialObject (Some 2)) G
      (CredentialValue (Some (stored_credential (Some [RoleEditor]) no_meta)))"
proof -
  let ?c = "CredentialObject (Some 1)"
  let ?v = "CredentialValue (Some (stored_credential (Some [RoleEditor]) no_meta)) :: (ObjectMeta, unit) object_value"
  have view: "object_view value_view value_view small_store ?c {1, 0} ?v"
    by (simp add: small_store_def pointer_view_def credential_view_def both_view_def value_view_def
        credential_spec_view_def credential_status_view_def slice_view_def slice_elems_def
        stored_credential_def)
  obtain h' where run: "run_state (DeepCopyObject plain_apimachinery ?c) small_store =
      (Some (CredentialObject (Some 2)), h')"
    by (simp add: SurrealDBCredential_DeepCopyObject_def SurrealDBCredential_DeepCopy_def copy_pointer_def
        small_store_def alloc_def load_def assign_def SurrealDBCredential_DeepCopyInto_def
        plain_apimachinery_def SurrealDBCredentialSpec_DeepCopyInto_def stored_credential_def
        SurrealDBCredentialStatus_DeepCopyInto_def copy_slice_def copy_time_def slice_elems_def)
  from copied_object_isolated [OF plain_apimachinery_copies view run]
  obtain G where "\<forall>h''. changes_only {1, 0} h' h'' \<longrightarrow>
      object_view value_view value_view h'' (CredentialObject (Some 2)) G ?v"
    by (auto simp: isolated_copy_def)
  moreover have "changes_only {1, 0} h' (h'[0 := RolesCell [RoleOwner]])" by (auto simp: changes_only_def)
  ultimately show ?thesis using run by blast
qed

end
