(* ===== verification/Collisions.thy ===== *)
theory Collisions
  imports Username
begin

text \<open>
  What the hash in a user name guarantees, and what not: two names that agree need a collision of its
  first eight characters, and such collisions exist.  Section 1 evaluates SHA-256 on one block in a form
  that the simplifier carries through: the schedule as a window of sixteen words, the sums reduced
  to 32 bits after every round.
\<close>

section \<open>Evaluation of one block\<close>

lemma sha_extend_Cons: "16 \<le> length ws \<Longrightarrow> sha_extend (x # ws) = x # sha_extend ws"
  by (simp add: sha_extend_def nth_Cons' Let_def numeral_2_eq_2)

definition slide :: "w32 list \<Rightarrow> w32 list" where
  "slide ws = tl ws @ [sha_small1 (ws ! 14) + ws ! 9 + sha_small0 (ws ! 1) + ws ! 0]"

lemma sha_extend_slide: "length ws = 16 \<Longrightarrow> sha_extend ws = hd ws # slide ws"
  by (cases ws) (simp_all add: sha_extend_def slide_def)

lemma length_slide [simp]: "length ws = 16 \<Longrightarrow> length (slide ws) = 16"
  by (simp add: slide_def)

lemma length_sha_extend: "length ((sha_extend ^^ n) ws) = length ws + n"
  by (induction n) (simp_all add: sha_extend_def Let_def)

lemma extended_Cons: "16 \<le> length ws \<Longrightarrow> (sha_extend ^^ n) (x # ws) = x # (sha_extend ^^ n) ws"
  by (induction n) (simp_all add: sha_extend_Cons length_sha_extend)

lemma extended_slide:
  "length ws = 16 \<Longrightarrow> (sha_extend ^^ Suc n) ws = hd ws # (sha_extend ^^ n) (slide ws)"
  by (simp add: funpow_Suc_right sha_extend_slide extended_Cons del: funpow.simps)

text \<open>The rounds with the schedule made on the way.\<close>

fun sha_run :: "w32 list \<Rightarrow> w32 list \<Rightarrow> sha_state \<Rightarrow> sha_state" where
  "sha_run [] ws s = s"
| "sha_run (k # ks) ws s = sha_run ks (slide ws) (sha_round s (k, hd ws))"

lemma rounds_run:
  "length ws = 16 \<Longrightarrow> length ks \<le> n \<Longrightarrow>
    foldl sha_round s (zip ks ((sha_extend ^^ n) ws)) = sha_run ks ws s"
proof (induction ks arbitrary: ws s n)
  case (Cons k ks)
  then obtain m where "n = Suc m" by (cases n) auto
  with Cons show ?case by (simp add: extended_slide del: funpow.simps)
qed simp

lemma extend_prefix: "\<exists>ys. (sha_extend ^^ n) ws = ws @ ys"
  by (induction n) (auto simp: sha_extend_def Let_def)

lemma schedule_run:
  assumes "length ws = 16"
  shows "foldl sha_round s (zip sha_k (sha_schedule ws)) = sha_run sha_k ws s"
proof -
  have k: "length sha_k = 64" by (simp add: sha_k_def)
  have "(sha_extend ^^ 64) ws = (sha_extend ^^ 16) (sha_schedule ws)"
    by (simp add: sha_schedule_def flip: funpow_add [THEN fun_cong, unfolded comp_def])
  with extend_prefix obtain ys where "(sha_extend ^^ 64) ws = sha_schedule ws @ ys" by metis
  moreover have "length (sha_schedule ws) = 64"
    by (simp add: sha_schedule_def length_sha_extend assms)
  ultimately show ?thesis
    using rounds_run [OF assms, of sha_k 64 s] by (simp add: k zip_append2)
qed

text \<open>Numerals of words grow under addition; \<open>reduced\<close> brings them back below \<open>2 ^ 32\<close>.\<close>

definition reduced :: "w32 \<Rightarrow> w32" where
  "reduced w = w"

lemma reduced_0 [simp]: "reduced 0 = 0"
  by (simp add: reduced_def)

lemma reduced_numeral [simp]: "reduced (numeral n) = of_nat (take_bit 32 (numeral n))"
proof -
  have "(of_nat m :: w32) = of_nat (take_bit 32 m)" for m
    by (simp add: word_of_nat_eq_iff)
  from this [of "numeral n"] show ?thesis by (simp add: reduced_def)
qed

lemma slide_reduced:
  "slide [w0, w1, w2, w3, w4, w5, w6, w7, w8, w9, w10, w11, w12, w13, w14, w15] =
    [w1, w2, w3, w4, w5, w6, w7, w8, w9, w10, w11, w12, w13, w14, w15,
     reduced (reduced (sha_small1 w14) + w9 + reduced (sha_small0 w1) + w0)]"
  by (simp add: slide_def reduced_def)

lemma sha_round_reduced:
  "sha_round \<lparr>sh_a = a, sh_b = b, sh_c = c, sh_d = d, sh_e = e, sh_f = f, sh_g = g, sh_h = h\<rparr> (k, w) =
   \<lparr>sh_a = reduced (h + reduced (sha_big1 e) + sha_ch e f g + k + w + (reduced (sha_big0 a) + sha_maj a b c)),
    sh_b = a, sh_c = b, sh_d = c,
    sh_e = reduced (d + (h + reduced (sha_big1 e) + sha_ch e f g + k + w)),
    sh_f = e, sh_g = f, sh_h = g\<rparr>"
  by (simp add: sha_round_def Let_def reduced_def)

lemmas sha_eval = sha_init_def sha_k_def sha_round_reduced slide_reduced sha_small0_def
  sha_small1_def sha_big0_def sha_big1_def sha_ch_def sha_maj_def sha_rotr_def

lemma first_word_1: "sh_a sha_init + sh_a (sha_run sha_k
   [0x7400712d, 0x712e712d, 0x712e712e, 0x712e712e, 0x712d712d, 0x712d712e,
    0x712d712e, 0x712e7100, 0x70007300, 0x64004461, 0x74616261, 0x73650080,
    0, 0, 0, 0x00000178] sha_init) = 0x86328516"
  by (simp add: sha_eval)

lemma first_word_2: "sh_a sha_init + sh_a (sha_run sha_k
   [0x7400712e, 0x712d712e, 0x712d712d, 0x712e712e, 0x712e712d, 0x712d712e,
    0x712d712d, 0x712e7100, 0x70007300, 0x64004461, 0x74616261, 0x73650080,
    0, 0, 0, 0x00000178] sha_init) = 0x86328516"
  by (simp add: sha_eval)

lemma first_characters:
  "take 8 (hex_encode (sha256 s)) = hex_encode (bytes_of_word (hd (sha_digest_words (map byte s))))"
proof -
  have "take 8 (hex_encode (bytes_of_word w @ bs)) = hex_encode (bytes_of_word w)" for w bs
    by (simp add: bytes_of_word_def hex_encode_def length_hex del: hex.simps)
  then show ?thesis by (simp add: sha256_def sha_digest_words_def Let_def)
qed

lemma one_block:
  assumes "sha_pad m = block" and "length block = 64"
    and "map word_of_bytes (chunks 16 4 block) = ws" and "length ws = 16"
  shows "hd (sha_digest_words m) = sh_a sha_init + sh_a (sha_run sha_k ws sha_init)"
  using assms schedule_run [OF assms(4), of sha_init]
  by (simp add: sha_digest_words_def sha_compress_def Let_def)

section \<open>Two names of one user\<close>

definition shared_target :: PolicyUserTarget where
  "shared_target = \<lparr>put_provider_name = ''p'', put_surreal_namespace = ''s'', put_database = ''d'',
     put_level = UserLevelDatabase\<rparr>"

definition name_1 :: string where
  "name_1 = ''q-q.q-q.q.q.q.q-q-q-q.q-q.q.q''"

definition name_2 :: string where
  "name_2 = ''q.q-q.q-q-q.q.q.q-q-q.q-q-q.q''"

lemma numeral_loops:
  "chunks (numeral k) n xs = take n xs # chunks (pred_numeral k) n (drop n xs)"
  "big_endian (numeral k) v = big_endian (pred_numeral k) (v div 256) @ [v mod 256]"
  "replicate (numeral k) x = x # replicate (pred_numeral k) x"
  "hex (numeral k) v = hex (pred_numeral k) (v div 16) @ [hex_digit (v mod 16)]"
  by (simp_all add: numeral_eq_Suc [of k])

definition identity_bytes :: "string \<Rightarrow> nat list" where
  "identity_bytes n = map byte (hash_input [''t'', n, ''p'', ''s'', ''d'', UserLevelDatabase])"

lemma hash_of_first_word:
  assumes "length (sha_pad (identity_bytes n)) = 64"
    and "map word_of_bytes (chunks 16 4 (sha_pad (identity_bytes n))) = ws" and "length ws = 16"
    and "sh_a sha_init + sh_a (sha_run sha_k ws sha_init) = 0x86328516"
  shows "username_hash ''t'' n shared_target = ''86328516''"
proof -
  have "hd (sha_digest_words (identity_bytes n)) = 0x86328516"
    using one_block [OF refl assms(1-3)] assms(4) by simp
  then show ?thesis
    by (simp add: username_hash_def stableHash_def usernameHashChars_def first_characters
      shared_target_def flip: identity_bytes_def del: hash_input.simps list.map)
      (simp add: hex_encode_def bytes_of_word_def numeral_loops hex_digit_def char_of_eq_iff)
qed

lemma pad_1: "sha_pad (identity_bytes name_1) =
   [116, 0, 113, 45, 113, 46, 113, 45, 113, 46, 113, 46, 113, 46, 113, 46, 113, 45, 113, 45,
    113, 45, 113, 46, 113, 45, 113, 46, 113, 46, 113, 0, 112, 0, 115, 0, 100, 0, 68, 97, 116,
    97, 98, 97, 115, 101, 0, 128, 0, 0, 0, 0, 0, 0, 0, 0, 0, 0, 0, 0, 0, 0, 1, 120]"
  by (simp add: identity_bytes_def name_1_def level_defs sha_pad_def numeral_loops)

lemma words_1: "map word_of_bytes (chunks 16 4 (sha_pad (identity_bytes name_1))) =
   [0x7400712d, 0x712e712d, 0x712e712e, 0x712e712e, 0x712d712d, 0x712d712e,
    0x712d712e, 0x712e7100, 0x70007300, 0x64004461, 0x74616261, 0x73650080,
    0, 0, 0, 0x00000178]"
  by (simp add: pad_1 word_of_bytes_def numeral_loops)

lemma hash_1: "username_hash ''t'' name_1 shared_target = ''86328516''"
  by (rule hash_of_first_word [OF _ words_1 _ first_word_1]) (simp_all add: pad_1)

lemma pad_2: "sha_pad (identity_bytes name_2) =
   [116, 0, 113, 46, 113, 45, 113, 46, 113, 45, 113, 45, 113, 46, 113, 46, 113, 46, 113, 45,
    113, 45, 113, 46, 113, 45, 113, 45, 113, 46, 113, 0, 112, 0, 115, 0, 100, 0, 68, 97, 116,
    97, 98, 97, 115, 101, 0, 128, 0, 0, 0, 0, 0, 0, 0, 0, 0, 0, 0, 0, 0, 0, 1, 120]"
  by (simp add: identity_bytes_def name_2_def level_defs sha_pad_def numeral_loops)

lemma words_2: "map word_of_bytes (chunks 16 4 (sha_pad (identity_bytes name_2))) =
   [0x7400712e, 0x712d712e, 0x712d712d, 0x712e712e, 0x712e712d, 0x712d712e,
    0x712d712d, 0x712e7100, 0x70007300, 0x64004461, 0x74616261, 0x73650080,
    0, 0, 0, 0x00000178]"
  by (simp add: pad_2 word_of_bytes_def numeral_loops)

lemma hash_2: "username_hash ''t'' name_2 shared_target = ''86328516''"
  by (rule hash_of_first_word [OF _ words_2 _ first_word_2]) (simp_all add: pad_2)

lemma normalized_alike: "normalizePart u name_1 = normalizePart u name_2"
  by (simp add: normalizePart_def name_1_def name_2_def to_lower_ascii byte_lower_def runes_ascii
    isSimpleUsernamePart_def)

lemma shared_name: "Username u ''t'' name_1 shared_target = Username u ''t'' name_2 shared_target"
  by (simp add: Username_eq hash_1 hash_2 username_base_def normalized_alike)

section \<open>The property\<close>

text \<open>
  C29. Two credentials can share a user name only by a collision of the truncated hash: if the names
  are equal, then the eight hash characters are, so either the identities and targets are the same
  or two different inputs of SHA-256 agree on them (vs hold no zero byte, as Kubernetes names,
  enumerated levels and identifiers SurrealDB accepts do not).  Eight characters are 32 bits, so there
  are such collisions: the names of the witness are two credentials of one namespace for one target.
\<close>

theorem equal_names_need_collision:
  assumes "Username u ns n t = Username u' ns' n' t'"
    and "vs = [ns, n, put_provider_name t, put_surreal_namespace t, put_database t, put_level t]"
    and "ws = [ns', n', put_provider_name t', put_surreal_namespace t', put_database t', put_level t']"
    and "\<forall>v \<in> set (vs @ ws). CHR 0x00 \<notin> set v"
  shows "vs = ws \<or>
    (hash_input vs \<noteq> hash_input ws \<and>
     take 8 (hex_encode (sha256 (hash_input vs))) = take 8 (hex_encode (sha256 (hash_input ws))))"
  using Username_suffix [OF assms(1)] hash_input_inj [of vs ws] assms(2-4)
  by (auto simp: username_hash_def stableHash_def usernameHashChars_def)

theorem equal_names_need_collision_witness:
  "let vs = [''t'', name_1, ''p'', ''s'', ''d'', UserLevelDatabase];
       ws = [''t'', name_2, ''p'', ''s'', ''d'', UserLevelDatabase] in
   Username sample_ucd ''t'' name_1 shared_target = Username sample_ucd ''t'' name_2 shared_target \<and>
   vs \<noteq> ws \<and> hash_input vs \<noteq> hash_input ws \<and>
   take 8 (hex_encode (sha256 (hash_input vs))) = take 8 (hex_encode (sha256 (hash_input ws)))"
proof -
  let ?vs = "[''t'', name_1, put_provider_name shared_target, put_surreal_namespace shared_target,
    put_database shared_target, put_level shared_target]"
  let ?ws = "[''t'', name_2, put_provider_name shared_target, put_surreal_namespace shared_target,
    put_database shared_target, put_level shared_target]"
  have names: "name_1 \<noteq> name_2" by (simp add: name_1_def name_2_def)
  have "\<forall>v \<in> set (?vs @ ?ws). CHR 0x00 \<notin> set v"
    by (simp add: shared_target_def level_defs name_1_def name_2_def)
  from equal_names_need_collision [OF shared_name [of sample_ucd] refl refl this] names
  show ?thesis
    using shared_name [of sample_ucd] by (simp add: shared_target_def Let_def del: hash_input.simps)
qed

end
