(* ===== verification/Spec2Isabelle.thy ===== *)
theory Spec2Isabelle
  imports CredentialRounds CredentialProgress ClusterProperties ControllerProperties ClientProperties ManagerProperties CopyProperties Collisions
begin

text \<open>
  Verification of the SurrealDB credential operator (Go, module \<^verbatim>\<open>surrealdb-credential-operator\<close>).

  \<^bold>\<open>The program.\<close>  A Kubernetes operator with three custom resources.  A \<^verbatim>\<open>SurrealDBProvider\<close> (cluster
  scoped) names a SurrealDB endpoint and the Secret with its root login; a \<^verbatim>\<open>SurrealDBTenantPolicy\<close>
  names a provider and says which databases, levels and roles the credentials of its namespace may
  ask for; a \<^verbatim>\<open>SurrealDBCredential\<close> asks for one SurrealDB user and the Secret to publish its login
  in.  Three reconcilers under \<^verbatim>\<open>internal/controller\<close> report on providers and policies and carry
  credentials out: read policy and provider, evaluate the request, derive the user name, decide
  whether to reuse or rotate the password, define the user, write the Secret, report the status, and
  undo all that on deletion under the protection of a finalizer.

  \<^bold>\<open>Theories and what they model\<close>, in the order of their imports:
  \<^item> \<open>Prelude\<close>: errors, results, Go maps, weakest preconditions of the state monad, list lemmas.
  \<^item> \<open>GoStrings\<close>: Go strings as bytes: UTF-8 decoding, \<^verbatim>\<open>ToLower\<close>, \<^verbatim>\<open>Trim\<close>, \<^verbatim>\<open>Join\<close>, \<^verbatim>\<open>ReplaceAll\<close>,
    \<^verbatim>\<open>strconv.Quote\<close>; \<open>Sha256\<close>: the hash, over 32-bit words; \<open>GoTime\<close>: instants and 64-bit durations
    with the saturating \<^verbatim>\<open>Sub\<close>.
  \<^item> \<open>ApiTypes\<close>: \<^verbatim>\<open>api/v1alpha1/*_types.go\<close>, one record per struct, and the admission rules of their
    markers as predicates.
  \<^item> \<open>Policy\<close>, \<open>Username\<close>, \<open>Collisions\<close>: \<^verbatim>\<open>internal/policy\<close>; \<open>Rotation\<close>: \<^verbatim>\<open>internal/rotation\<close>; \<open>Secrets\<close>:
    \<^verbatim>\<open>internal/secrets\<close>; \<open>Conditions\<close>: \<^verbatim>\<open>internal/conditions\<close>.
  \<^item> \<open>Literals\<close>, \<open>Identifiers\<close>, \<open>Queries\<close>, \<open>Endpoint\<close>, \<open>Tls\<close>, \<open>AdminClient\<close>: \<^verbatim>\<open>internal/surreal\<close>.
  \<^item> \<open>ClientEnv\<close>, \<open>Kube\<close>: the environment (API client, driver, certificate parsers, clock, random
    source) as the record \<open>env\<close>, and the logged calls of it.
  \<^item> \<open>ProviderController\<close>, \<open>PolicyController\<close>, \<open>CredentialController\<close>: \<^verbatim>\<open>internal/controller\<close>, one
    definition per method.  The long \<^verbatim>\<open>Reconcile\<close> of credentials is cut where its data changes:
    \<open>Reconcile\<close>, \<open>reconcile_resolved\<close>, \<open>reconcile_decided\<close>, \<open>reconcile_connected\<close>, \<open>reconcile_finish\<close>.
  \<^item> \<open>Flags\<close>, \<open>Manager\<close>: \<^verbatim>\<open>cmd/main.go\<close> with the parsing of its command line, the scheme, the options of
    the manager, the \<^verbatim>\<open>SetupWithManager\<close> methods as records that hold the reconcilers and watches of
    the other theories, and the start.
  \<^item> \<open>Store\<close>, \<open>DeepCopies\<close>: \<^verbatim>\<open>api/v1alpha1/zz_generated.deepcopy.go\<close> over an explicit store of cells, with
    pointers and slices as the code has them; one definition per method.

  \<^item> \<open>Cluster\<close>: the credential reconciler in a cluster.  Runs of the code for different credentials are
    interleaved call by call, with other clients and with crashes; each run under way is the log of a
    \<open>reconciles\<close>, cut into the calls made and those to come, and \<open>effect\<close> states the documented contract
    of the API server and of SurrealDB for a call, leaving open what the contract leaves open.

  \<^bold>\<open>How the code is represented.\<close>  A handler is a program of the state monad over a world of any type
  and a log of its calls with their replies; every function of the environment may change the world,
  so the theorems hold however the cluster, other clients and SurrealDB behave between two calls.
  An object the code mutates through a pointer is returned updated; an update returns the object
  the server stored, which the code goes on with, as the client decodes the reply into it.  A Go
  error is a value that says whether it is a not-found error and what its text is.  A nil pointer is
  \<open>None\<close>, a nil map is told apart from an empty one, a missing map entry reads as the zero value.
  Deferred closes follow the body they are deferred to.  Roles, levels and condition statuses stay
  strings, because the code accepts any string there.

  \<^bold>\<open>What is shown.\<close>
  \<^item> \<open>CredentialRuns\<close> describes every run of the credential reconciler by a grammar of logs, inductive
    predicates with a rule for each path, and proves that every run in every environment is derived
    by it.  \<open>CredentialFacts\<close> derives what a run knows when it defines, writes, connects or deletes.
  \<^item> \<open>CredentialProperties\<close>, \<open>CredentialOutcomes\<close>, \<open>CredentialReports\<close>: the policy gate, no foreign
    Secret touched, published logins are defined ones, readiness only after success, the finalizer,
    forced cleanup, the password, the recorded decision, one connection closed once, the root login,
    only the user of the current scope removed, and what is reported and returned when SurrealDB is away or refuses, a request is denied, or a
    rotation is scheduled.  \<open>CredentialRounds\<close> composes runs: what one published and recorded is what
    the next goes on with, so a sequence of runs keeps one login until a rotation is asked for or due.
  \<^item> \<open>CredentialProgress\<close>: a run whose calls are all served reaches its end, a live credential ready and a
    deleted one without user, Secret and finalizer; every run ends after at most thirteen calls.
  \<^item> \<open>ClusterRuns\<close> cuts a run at a definition, removal, update or write and says what it knows there;
    \<open>ClusterInvariants\<close> proves invariants of every reachable state by induction over its steps;
    \<open>ClusterProperties\<close> concludes that no user is orphaned and that a Secret is overwritten only while
    the credential owns it, with a history in which a deletion hits a Secret of nobody.
  \<^item> \<open>ControllerProperties\<close>: provider and policy readiness, and that the watch on Secrets covers what
    the provider reconciler reads.  \<open>ClientProperties\<close>: redaction, the connection, TLS material.
  \<^item> \<open>ManagerProperties\<close>: the start stops at the first failure, and protection of the servers is the
    default; \<open>Flags\<close> ends with the round trip of the command line.  \<open>CopyProperties\<close>: deep copies denote
    what the original denotes and share no memory with it, which is what lets the rest of the
    development treat objects as values.
  \<^item> The theories of the packages end with their own properties: policy evaluation refines the
    specification \<open>admits\<close>; user names fit; rotation decisions are complete, exclusive and follow a
    changed period; a target Secret round trips.  For names without backslashes queries are exactly two
    statements and names and passwords are read back; \<open>Identifiers\<close> says for every name when its
    identifier is read as one, and when as that name.  \<open>Collisions\<close>: user names clash only by a
    collision of the truncated hash, with two names that collide.

  \<^bold>\<open>Interfaces.\<close>  \<open>literal_encoder\<close> and \<open>exact_encoder\<close> (what a query needs of a literal; provided by
  \<open>quote\<close> and \<open>backtick_ident\<close>), \<open>condition_store\<close> (the merge of conditions; provided by
  \<open>merge_condition\<close>), \<open>finalizer_ops\<close> (the finalizer helpers; provided by the list operations of
  \<open>Kube\<close>) and \<open>deep_copier\<close> (a copy and the view it keeps; provided by the generated \<^verbatim>\<open>DeepCopy\<close>
  methods).  A theorem that needs such a law of the environment names it as a hypothesis, and
  \<open>Demo\<close> gives a concrete environment in which all of them hold, with runs of each kind that the
  witnesses apply the theorems to.

  \<^bold>\<open>Hypotheses on the environment.\<close>  \<open>condition_store\<close>: a merge sets the condition of its type and
  keeps the others.  \<open>finalizer_ops\<close>: adding, removing and testing a finalizer agree.
  \<open>echoes_conditions\<close>: the API server answers a status update with the conditions it was sent.
  \<open>rand_in_range\<close>: a random number is below the bound asked for.  \<open>rand_available\<close>:
  the random source does not fail.  \<open>served\<close> and \<open>usable\<close>: the calls of a run succeed, for a policy that
  admits the request and a provider with a root login and no TLS material.  \<open>can_return\<close> speaks of the times a
  clock may answer; \<open>goes_on\<close> says what a run finds unchanged after another.
  \<open>operators\<close>: the environments of the runs of one operator; \<open>undisturbed\<close>: others do not force a
  cleanup or change the user a credential stands for.  \<open>tenancy\<close> fixes provider, namespace and endpoint.
  \<open>apimachinery_copies\<close>: the copies of metadata, conditions and times are deep copies themselves.

  \<^bold>\<open>Bounds and termination.\<close>  No fuel is used: every loop of the code is a structural recursion over
  the list it scans; the decoding of runes and the replacement of substrings, which take several
  bytes at a time, have a termination proof by the length of the input that is left.  So every
  handler returns for every environment, that for credentials after at most thirteen
  calls.  Durations are 64-bit words read with \<open>sint\<close>; user names have at most 63 bytes and
  passwords 48.

  \<^bold>\<open>What modelling showed.\<close>  \<^verbatim>\<open>EscapeIdent\<close> does not escape backslashes, so an odd number of them
  before a back-tick ends the identifier of a name early; the 32 bits of hash in a user name do not keep
  names that normalize alike apart; a deletion whose policy is gone or denies the credential stalls silently; a
  failed definition or write of the Secret asks for no other run, so a rotation whose Secret cannot
  be written leaves a dead login published; a rotation due exactly now asks for no other run; a
  period of zero or less rotates the password in every reconciliation.  Only the user of the current
  database, level and policy is ever removed, so changing them leaves the earlier user defined.  The target Secret is
  deleted by name after a test of its owner, so one that replaced it in between is deleted instead.

  \<^bold>\<open>Not modelled.\<close>  In \<open>Cluster\<close> a read returns the stored object or an error: the delay of a cache is
  left out, and the work queue is taken to run one credential at a time.  Logging, contexts and their cancellation, the manifests and charts, and the tests.
  The behaviour of Kubernetes, controller-runtime, apimachinery, SurrealDB, the flags that libraries
  register, and the Unicode tables beyond ASCII and Latin-1 are parameters.
\<close>

end
